(* ===== verification/Prelude.thy ===== *)
theory Prelude
  imports Main "HOL-Library.AList" "HOL-Library.Sublist"
begin

text \<open>
  The vocabulary shared by every component: outcomes of Go calls (a value, an
  error or a panic), 64-bit integers, Go maps as association lists with
  distinct keys, and the theorem collections the component proofs use.
\<close>

section \<open>Theorem collections\<close>

named_theorems go_str \<open>equations of the Go string functions\<close>
named_theorems store_simps \<open>equations of the stores, as maps\<close>
named_theorems store_inv \<open>preservation of store invariants\<close>
named_theorems handler_defs \<open>definitions of handlers and their stages\<close>

section \<open>Outcomes of calls\<close>

text \<open>
  A Go call that returns \<open>(v, err)\<close> ends in a value, in an error (its message),
  or in a run-time panic such as an index out of range.
\<close>

datatype 'a out = Ok 'a | Err string | Panic

primrec is_ok :: "'a out \<Rightarrow> bool" where
  "is_ok (Ok _) = True"
| "is_ok (Err _) = False"
| "is_ok Panic = False"

lemma is_ok_iff: "is_ok r \<longleftrightarrow> (\<exists>a. r = Ok a)"
  by (cases r) auto

section \<open>64-bit signed integers\<close>

text \<open>Go's \<open>int64\<close> addition wraps around.\<close>

definition wrap64 :: "int \<Rightarrow> int" where
  "wrap64 x = (x + 2 ^ 63) mod 2 ^ 64 - 2 ^ 63"

definition add64 :: "int \<Rightarrow> int \<Rightarrow> int" where
  "add64 a b = wrap64 (a + b)"

definition in64 :: "int \<Rightarrow> bool" where
  "in64 x \<longleftrightarrow> - (2 ^ 63) \<le> x \<and> x < 2 ^ 63"

lemma wrap64_id [simp]: "in64 x \<Longrightarrow> wrap64 x = x"
  by (simp add: wrap64_def in64_def)

lemma add64_id: "in64 (a + b) \<Longrightarrow> add64 a b = a + b"
  by (simp add: add64_def)

lemma in64_wrap64: "in64 (wrap64 x)"
  by (simp add: wrap64_def in64_def)

lemma in64_small: "0 \<le> x \<Longrightarrow> x < 2 ^ 62 \<Longrightarrow> in64 x"
  by (simp add: in64_def)

section \<open>Instants\<close>

text \<open>
  \<open>time.Time\<close> as nanoseconds since the Unix epoch; \<open>Unix\<close> rounds down to whole seconds.
\<close>

type_synonym instant = int

definition Second :: instant where
  "Second = 1000000000"

definition Unix :: "instant \<Rightarrow> int" where
  "Unix t = t div Second"

lemma Unix_mono: "a \<le> b \<Longrightarrow> Unix a \<le> Unix b"
  by (simp add: Unix_def Second_def zdiv_mono1)

section \<open>Go maps as association lists\<close>

text \<open>
  A Go map is an association list whose keys are distinct; the list order is
  one of the iteration orders the runtime may choose.
\<close>

definition keys_ok :: "('k \<times> 'v) list \<Rightarrow> bool" where
  "keys_ok m \<longleftrightarrow> distinct (map fst m)"

lemma keys_ok_Nil [simp, store_inv]: "keys_ok []"
  by (simp add: keys_ok_def)

lemma keys_ok_update [store_inv]: "keys_ok m \<Longrightarrow> keys_ok (AList.update k v m)"
  by (simp add: keys_ok_def distinct_update)

lemma keys_ok_filter [store_inv]: "keys_ok m \<Longrightarrow> keys_ok (filter P m)"
  by (simp add: keys_ok_def distinct_map_filter)

lemma keys_ok_delete [store_inv]: "keys_ok m \<Longrightarrow> keys_ok (AList.delete k m)"
  by (simp add: keys_ok_def distinct_delete)

lemma map_of_filter:
  assumes "keys_ok m"
  shows "map_of (filter P m) k =
    (case map_of m k of None \<Rightarrow> None | Some v \<Rightarrow> if P (k, v) then Some v else None)"
  using assms
proof (induction m)
  case Nil
  then show ?case by simp
next
  case (Cons p m)
  obtain a b where p: "p = (a, b)" by (cases p)
  from Cons.prems p have fresh: "map_of m a = None" and "keys_ok m"
    by (auto simp: keys_ok_def map_of_eq_None_iff)
  with Cons.IH p show ?case by (auto split: option.splits)
qed

lemma map_of_filter_key:
  "map_of (filter (\<lambda>p. P (fst p)) m) k = (if P k then map_of m k else None)"
  by (induction m) auto

lemma map_of_in_keys: "map_of m k = Some v \<Longrightarrow> (k, v) \<in> set m"
  by (rule map_of_SomeD)

lemma length_update:
  "length (AList.update k v m) = (if map_of m k = None then Suc (length m) else length m)"
  by (induction m) (auto split: if_splits)

lemma len_delete_le: "length (AList.delete k m) \<le> length m"
  by (simp add: AList.delete_eq)

lemma length_delete_absent: "map_of m k = None \<Longrightarrow> AList.delete k m = m"
  by (induction m) (auto split: if_splits)

lemma length_delete_present:
  assumes "keys_ok m" and "map_of m k \<noteq> None"
  shows "Suc (length (AList.delete k m)) = length m"
  using assms
proof (induction m)
  case Nil
  then show ?case by simp
next
  case (Cons p m)
  show ?case
  proof (cases "fst p = k")
    case True
    with Cons.prems have "map_of m k = None"
      by (auto simp: keys_ok_def map_of_eq_None_iff)
    with True show ?thesis by (simp add: length_delete_absent)
  next
    case False
    with Cons show ?thesis by (auto simp: keys_ok_def)
  qed
qed

lemmas alist_simps [store_simps] =
  AList.update_conv' AList.delete_conv' map_of_filter_key

end
