(* ===== verification/Go_Strings.thy ===== *)
theory Go_Strings
  imports Prelude
begin

text \<open>
  The functions of Go's packages \<open>strings\<close>, \<open>net/url\<close>, \<open>strconv\<close> and
  \<open>encoding/base64\<close> that the sources call. A Go string is a sequence of bytes, as
  an Isabelle \<^typ>\<open>string\<close> is; white space beyond ASCII is recognised by its UTF-8
  encoding.
\<close>

section \<open>Package strings\<close>

definition HasPrefix :: "string \<Rightarrow> string \<Rightarrow> bool" where
  "HasPrefix s p = prefix p s"

definition HasSuffix :: "string \<Rightarrow> string \<Rightarrow> bool" where
  "HasSuffix s p = prefix (rev p) (rev s)"

definition TrimSuffix :: "string \<Rightarrow> string \<Rightarrow> string" where
  "TrimSuffix s p = (if HasSuffix s p then take (length s - length p) s else s)"

definition TrimPrefix :: "string \<Rightarrow> string \<Rightarrow> string" where
  "TrimPrefix s p = (if HasPrefix s p then drop (length p) s else s)"

fun Contains :: "string \<Rightarrow> string \<Rightarrow> bool" where
  "Contains [] sub = (sub = [])"
| "Contains (c # cs) sub = (prefix sub (c # cs) \<or> Contains cs sub)"

fun LastIndex :: "string \<Rightarrow> string \<Rightarrow> nat option" where
  "LastIndex [] sub = (if sub = [] then Some 0 else None)"
| "LastIndex (c # cs) sub =
     (case LastIndex cs sub of
        Some i \<Rightarrow> Some (Suc i)
      | None \<Rightarrow> if prefix sub (c # cs) then Some 0 else None)"

text \<open>\<open>strings.Split\<close> with a separator that is not empty.\<close>

function Split :: "string \<Rightarrow> string \<Rightarrow> string list" where
  "Split s sep =
     (if sep \<noteq> [] \<and> prefix sep s then [] # Split (drop (length sep) s) sep
      else (case s of
              [] \<Rightarrow> [[]]
            | c # cs \<Rightarrow> (case Split cs sep of [] \<Rightarrow> [[c]] | p # ps \<Rightarrow> (c # p) # ps)))"
  by pat_completeness auto
termination
proof (relation "measure (\<lambda>(s, sep). length s)", goal_cases)
  case 1
  then show ?case by simp
next
  case (2 s sep)
  then show ?case using prefix_length_le[of sep s] by (cases sep) auto
next
  case 3
  then show ?case by simp
qed

declare Split.simps [simp del]

fun Join :: "string list \<Rightarrow> string \<Rightarrow> string" where
  "Join [] sep = []"
| "Join [x] sep = x"
| "Join (x # y # ys) sep = x @ sep @ Join (y # ys) sep"

text \<open>The UTF-8 encodings of the characters \<open>unicode.IsSpace\<close> accepts.\<close>

definition space_encodings :: "string list" where
  "space_encodings =
     [[CHR 0x09], [CHR 0x0A], [CHR 0x0B], [CHR 0x0C], [CHR 0x0D], [CHR 0x20],
      [CHR 0xC2, CHR 0x85], [CHR 0xC2, CHR 0xA0], [CHR 0xE1, CHR 0x9A, CHR 0x80],
      [CHR 0xE2, CHR 0x80, CHR 0x80], [CHR 0xE2, CHR 0x80, CHR 0x81],
      [CHR 0xE2, CHR 0x80, CHR 0x82], [CHR 0xE2, CHR 0x80, CHR 0x83],
      [CHR 0xE2, CHR 0x80, CHR 0x84], [CHR 0xE2, CHR 0x80, CHR 0x85],
      [CHR 0xE2, CHR 0x80, CHR 0x86], [CHR 0xE2, CHR 0x80, CHR 0x87],
      [CHR 0xE2, CHR 0x80, CHR 0x88], [CHR 0xE2, CHR 0x80, CHR 0x89],
      [CHR 0xE2, CHR 0x80, CHR 0x8A], [CHR 0xE2, CHR 0x80, CHR 0xA8],
      [CHR 0xE2, CHR 0x80, CHR 0xA9], [CHR 0xE2, CHR 0x80, CHR 0xAF],
      [CHR 0xE2, CHR 0x81, CHR 0x9F], [CHR 0xE3, CHR 0x80, CHR 0x80]]"

definition lead_space :: "string list \<Rightarrow> string \<Rightarrow> string option" where
  "lead_space encs s =
     (case filter (\<lambda>e. prefix e s) encs of [] \<Rightarrow> None | e # _ \<Rightarrow> Some (drop (length e) s))"

lemma lead_space_shorter:
  assumes "lead_space encs s = Some t" and "[] \<notin> set encs"
  shows "length t < length s"
proof -
  from assms(1) obtain e es where e: "filter (\<lambda>e. prefix e s) encs = e # es"
    and t: "t = drop (length e) s"
    by (auto simp: lead_space_def split: list.splits)
  from e have "e \<in> set encs" and "prefix e s"
    by (auto simp: filter_eq_Cons_iff)
  with assms(2) have "0 < length e" by auto
  moreover from \<open>prefix e s\<close> have "length e \<le> length s" by (rule prefix_length_le)
  ultimately show ?thesis using t by (simp del: length_greater_0_conv)
qed

function trim_lead :: "string list \<Rightarrow> string \<Rightarrow> string" where
  "trim_lead encs s =
     (if [] \<in> set encs then s
      else (case lead_space encs s of None \<Rightarrow> s | Some t \<Rightarrow> trim_lead encs t))"
  by pat_completeness auto
termination
  by (relation "measure (\<lambda>(encs, s). length s)") (auto dest: lead_space_shorter)

declare trim_lead.simps [simp del]

definition TrimSpace :: "string \<Rightarrow> string" where
  "TrimSpace s =
     rev (trim_lead (map rev space_encodings) (rev (trim_lead space_encodings s)))"

fun span_word :: "string \<Rightarrow> string \<times> string" where
  "span_word [] = ([], [])"
| "span_word (c # cs) =
     (if lead_space space_encodings (c # cs) = None
      then (case span_word cs of (w, r) \<Rightarrow> (c # w, r))
      else ([], c # cs))"

lemma span_word_le: "length (snd (span_word s)) \<le> length s"
  by (induction s) (auto split: prod.splits)

lemma space_encodings_nonempty: "[] \<notin> set space_encodings"
  by (simp add: space_encodings_def)

function Fields :: "string \<Rightarrow> string list" where
  "Fields s =
     (case lead_space space_encodings s of
        Some t \<Rightarrow> Fields t
      | None \<Rightarrow> (case s of [] \<Rightarrow> []
                 | c # cs \<Rightarrow> (case span_word cs of (w, r) \<Rightarrow> (c # w) # Fields r)))"
  by pat_completeness auto
termination
proof (relation "measure length", goal_cases)
  case 1
  then show ?case by simp
next
  case (2 s c cs p w)
  then have "snd (span_word cs) = w" by (metis snd_conv)
  with 2 span_word_le[of cs] show ?case by simp
next
  case (3 s t)
  then show ?case
    using lead_space_shorter space_encodings_nonempty by auto
qed

declare Fields.simps [simp del]

text \<open>
  \<open>strings.ToLower\<close>, for a result that is compared with an ASCII string: the ASCII
  capitals and the two further characters whose lower case is ASCII (the Kelvin sign
  and the dotted capital I); every other byte is kept.
\<close>

definition lower_char :: "char \<Rightarrow> char" where
  "lower_char c =
     (if 65 \<le> (of_char c :: nat) \<and> (of_char c :: nat) \<le> 90 then char_of (of_char c + 32 :: nat) else c)"

fun ToLower :: "string \<Rightarrow> string" where
  "ToLower [] = []"
| "ToLower (a # b # c # cs) =
     (if a = CHR 0xE2 \<and> b = CHR 0x84 \<and> c = CHR 0xAA then CHR ''k'' # ToLower cs
      else if a = CHR 0xC4 \<and> b = CHR 0xB0 then CHR ''i'' # ToLower (c # cs)
      else lower_char a # ToLower (b # c # cs))"
| "ToLower [a, b] =
     (if a = CHR 0xC4 \<and> b = CHR 0xB0 then [CHR ''i''] else [lower_char a, lower_char b])"
| "ToLower [a] = [lower_char a]"

text \<open>\<open>strings.TrimRight(s, "=")\<close>.\<close>

definition trim_right_eq :: "string \<Rightarrow> string" where
  "trim_right_eq s = rev (dropWhile (\<lambda>c. c = CHR ''='') (rev s))"

text \<open>\<open>strings.ContainsAny\<close>, over a set of ASCII characters.\<close>

definition ContainsAny :: "string \<Rightarrow> string \<Rightarrow> bool" where
  "ContainsAny s cs = list_ex (\<lambda>c. c \<in> set cs) s"

section \<open>Package net/url: query escaping\<close>

definition unreserved :: "char \<Rightarrow> bool" where
  "unreserved c \<longleftrightarrow>
     (let n = (of_char c :: nat) in
        97 \<le> n \<and> n \<le> 122 \<or> 65 \<le> n \<and> n \<le> 90 \<or> 48 \<le> n \<and> n \<le> 57) \<or>
     c \<in> {CHR ''-'', CHR ''_'', CHR ''.'', CHR ''~''}"

definition hex_digit :: "nat \<Rightarrow> char" where
  "hex_digit n = ''0123456789ABCDEF'' ! n"

definition unhex :: "char \<Rightarrow> nat option" where
  "unhex c =
     (let n = (of_char c :: nat) in
        if 48 \<le> n \<and> n \<le> 57 then Some (n - 48)
        else if 97 \<le> n \<and> n \<le> 102 then Some (n - 87)
        else if 65 \<le> n \<and> n \<le> 70 then Some (n - 55)
        else None)"

fun QueryEscape :: "string \<Rightarrow> string" where
  "QueryEscape [] = []"
| "QueryEscape (c # cs) =
     (if unreserved c then c # QueryEscape cs
      else if c = CHR '' '' then CHR ''+'' # QueryEscape cs
      else CHR ''%'' # hex_digit (of_char c div 16) # hex_digit (of_char c mod 16)
             # QueryEscape cs)"

text \<open>\<open>url.QueryUnescape\<close>: \<open>None\<close> is the error for a malformed escape.\<close>

fun QueryUnescape :: "string \<Rightarrow> string option" where
  "QueryUnescape [] = Some []"
| "QueryUnescape (c # cs) =
     (if c = CHR ''%'' then
        (case cs of
           h # l # r \<Rightarrow>
             (case (unhex h, unhex l) of
                (Some a, Some b) \<Rightarrow> map_option ((#) (char_of (16 * a + b))) (QueryUnescape r)
              | _ \<Rightarrow> None)
         | _ \<Rightarrow> None)
      else map_option ((#) (if c = CHR ''+'' then CHR '' '' else c)) (QueryUnescape cs))"

text \<open>\<open>v, _ = url.QueryUnescape(s)\<close>: the empty string on an error.\<close>

definition unescape_or_empty :: "string \<Rightarrow> string" where
  "unescape_or_empty s = (case QueryUnescape s of Some t \<Rightarrow> t | None \<Rightarrow> [])"

section \<open>Package strconv\<close>

fun dec_digits :: "nat \<Rightarrow> string" where
  "dec_digits n =
     (if n < 10 then [char_of (48 + n)] else dec_digits (n div 10) @ [char_of (48 + n mod 10)])"

declare dec_digits.simps [simp del]

definition FormatInt :: "int \<Rightarrow> string" where
  "FormatInt i = (if i < 0 then CHR ''-'' # dec_digits (nat (- i)) else dec_digits (nat i))"

definition digit_val :: "char \<Rightarrow> nat option" where
  "digit_val c =
     (let n = (of_char c :: nat) in if 48 \<le> n \<and> n \<le> 57 then Some (n - 48) else None)"

fun parse_digits :: "nat \<Rightarrow> string \<Rightarrow> nat option" where
  "parse_digits acc [] = Some acc"
| "parse_digits acc (c # cs) =
     (case digit_val c of None \<Rightarrow> None | Some d \<Rightarrow> parse_digits (10 * acc + d) cs)"

text \<open>
  \<open>v, err := strconv.ParseInt(s, 10, 64)\<close>: the value with a flag for "no error". A
  syntax error yields 0, a value out of range the nearest bound.
\<close>

definition clamp64 :: "int \<Rightarrow> int \<times> bool" where
  "clamp64 x = (if x < - (2 ^ 63) then (- (2 ^ 63), False)
                else if 2 ^ 63 \<le> x then (2 ^ 63 - 1, False) else (x, True))"

definition parse_unsigned :: "string \<Rightarrow> nat option" where
  "parse_unsigned s = (if s = [] then None else parse_digits 0 s)"

definition ParseInt :: "string \<Rightarrow> int \<times> bool" where
  "ParseInt s =
     (case s of
        [] \<Rightarrow> (0, False)
      | c # cs \<Rightarrow>
          if c = CHR ''-'' then
            (case parse_unsigned cs of None \<Rightarrow> (0, False) | Some n \<Rightarrow> clamp64 (- int n))
          else if c = CHR ''+'' then
            (case parse_unsigned cs of None \<Rightarrow> (0, False) | Some n \<Rightarrow> clamp64 (int n))
          else (case parse_unsigned s of None \<Rightarrow> (0, False) | Some n \<Rightarrow> clamp64 (int n)))"

section \<open>Package encoding/base64: RawURLEncoding\<close>

definition b64_char :: "nat \<Rightarrow> char" where
  "b64_char n = ''ABCDEFGHIJKLMNOPQRSTUVWXYZabcdefghijklmnopqrstuvwxyz0123456789-_'' ! n"

fun b64_rawurl :: "string \<Rightarrow> string" where
  "b64_rawurl [] = []"
| "b64_rawurl [a] =
     (let x = (of_char a :: nat) in [b64_char (x div 4), b64_char ((x mod 4) * 16)])"
| "b64_rawurl [a, b] =
     (let x = (of_char a :: nat); y = of_char b
      in [b64_char (x div 4), b64_char ((x mod 4) * 16 + y div 16), b64_char ((y mod 16) * 4)])"
| "b64_rawurl (a # b # c # cs) =
     (let x = (of_char a :: nat); y = of_char b; z = of_char c
      in b64_char (x div 4) # b64_char ((x mod 4) * 16 + y div 16)
           # b64_char ((y mod 16) * 4 + z div 64) # b64_char (z mod 64) # b64_rawurl cs)"

section \<open>Lemmas on splitting and joining\<close>

lemma Split_plain:
  assumes "d \<notin> set a"
  shows "Split a (d # ds) = [a]"
  using assms by (induction a) (simp_all add: Split.simps)

lemma Split_step:
  assumes "d \<notin> set a"
  shows "Split (a @ (d # ds) @ b) (d # ds) = a # Split b (d # ds)"
  using assms
proof (induction a)
  case Nil
  show ?case by (subst Split.simps) (simp add: prefix_def)
next
  case (Cons c cs)
  then show ?case by (subst Split.simps) simp
qed

lemma Split_Join:
  assumes "xs \<noteq> []" and "\<forall>x\<in>set xs. d \<notin> set x"
  shows "Split (Join xs (d # ds)) (d # ds) = xs"
  using assms
proof (induction xs "d # ds" rule: Join.induct)
  case (3 x y ys)
  then have "Split (x @ (d # ds) @ Join (y # ys) (d # ds)) (d # ds)
      = x # Split (Join (y # ys) (d # ds)) (d # ds)"
    by (intro Split_step) simp
  with 3 show ?case by simp
qed (simp_all add: Split_plain)

lemma Contains_not: "d \<notin> set s \<Longrightarrow> \<not> Contains s (d # ds)"
  by (induction s) auto

lemma Contains_iff: "Contains s sub \<longleftrightarrow> (\<exists>a b. s = a @ sub @ b)"
proof (induction s)
  case Nil
  show ?case by auto
next
  case (Cons c cs)
  have "(\<exists>a b. c # cs = a @ sub @ b) \<longleftrightarrow>
      prefix sub (c # cs) \<or> (\<exists>a b. cs = a @ sub @ b)"
  proof
    assume "\<exists>a b. c # cs = a @ sub @ b"
    then obtain a b where ab: "c # cs = a @ sub @ b" by blast
    then show "prefix sub (c # cs) \<or> (\<exists>a b. cs = a @ sub @ b)"
      by (cases a) (auto simp: prefix_def)
  next
    assume "prefix sub (c # cs) \<or> (\<exists>a b. cs = a @ sub @ b)"
    then show "\<exists>a b. c # cs = a @ sub @ b"
    proof
      assume "prefix sub (c # cs)"
      then obtain b where "c # cs = [] @ sub @ b" by (auto simp: prefix_def)
      then show ?thesis by blast
    next
      assume "\<exists>a b. cs = a @ sub @ b"
      then obtain a b where "c # cs = (c # a) @ sub @ b" by auto
      then show ?thesis by blast
    qed
  qed
  with Cons show ?case by simp
qed

lemma LastIndex_None: "d \<notin> set s \<Longrightarrow> LastIndex s (d # ds) = None"
  by (induction s) auto

lemma LastIndex_append:
  assumes "d \<notin> set b"
  shows "LastIndex (a @ d # b) [d] = Some (length a)"
proof (induction a)
  case Nil
  show ?case using LastIndex_None[OF assms, of "[]"] by simp
next
  case (Cons c a)
  then show ?case by simp
qed

lemma HasSuffix_iff: "HasSuffix s p \<longleftrightarrow> (\<exists>a. s = a @ p)"
proof
  assume "HasSuffix s p"
  then obtain z where "rev s = rev p @ z" by (auto simp: HasSuffix_def prefix_def)
  then have "s = rev z @ p" by (metis rev_append rev_rev_ident)
  then show "\<exists>a. s = a @ p" by blast
qed (auto simp: HasSuffix_def prefix_def)

lemma TrimSuffix_append [simp]: "TrimSuffix (a @ p) p = a"
  by (auto simp: TrimSuffix_def HasSuffix_iff)

section \<open>Lemmas on escaping\<close>

lemma unhex_hex_digit: "n < 16 \<Longrightarrow> unhex (hex_digit n) = Some n"
proof -
  have "list_all (\<lambda>n. unhex (hex_digit n) = Some n) [0..<16]"
    by (simp add: upt_conv_Cons hex_digit_def unhex_def)
  then show "n < 16 \<Longrightarrow> unhex (hex_digit n) = Some n" by (simp add: list_all_iff)
qed

lemma of_char_hi: "(of_char c :: nat) div 16 < 16"
  using nat_of_char_less_256[of c] by (simp add: less_mult_imp_div_less)

lemma char_of_hi_lo:
  "(char_of (16 * ((of_char c :: nat) div 16) + of_char c mod 16) :: char) = c"
  by simp

theorem QueryUnescape_Escape: "QueryUnescape (QueryEscape s) = Some s"
proof (induction s)
  case Nil
  show ?case by simp
next
  case (Cons c cs)
  have plain: "c \<noteq> CHR ''%'' \<and> c \<noteq> CHR ''+''" if "unreserved c"
    using that by (auto simp: unreserved_def Let_def)
  show ?case
  proof (cases "unreserved c")
    case True
    with plain Cons show ?thesis by simp
  next
    case False
    with Cons show ?thesis
      by (simp add: unhex_hex_digit of_char_hi char_of_hi_lo)
  qed
qed

lemma unescape_escape [simp]: "unescape_or_empty (QueryEscape s) = s"
  by (simp add: unescape_or_empty_def QueryUnescape_Escape)

lemma hex_digit_not_at: "n < 16 \<Longrightarrow> hex_digit n \<noteq> CHR ''@''"
proof -
  have "list_all (\<lambda>n. hex_digit n \<noteq> CHR ''@'') [0..<16]"
    by (simp add: upt_conv_Cons hex_digit_def)
  then show "n < 16 \<Longrightarrow> hex_digit n \<noteq> CHR ''@''" by (simp add: list_all_iff)
qed

lemma QueryEscape_no_at: "CHR ''@'' \<notin> set (QueryEscape s)"
proof (induction s)
  case (Cons c cs)
  have "c \<noteq> CHR ''@''" if "unreserved c"
    using that by (auto simp: unreserved_def Let_def)
  with Cons show ?case
    by (auto dest: sym simp: hex_digit_not_at of_char_hi)
qed simp

section \<open>Lemmas on numbers\<close>

lemma digit_val_digit: "d < 10 \<Longrightarrow> digit_val (char_of (48 + d)) = Some d"
  by (simp add: digit_val_def Let_def)

lemma parse_digits_append:
  "parse_digits acc (xs @ ys) =
     (case parse_digits acc xs of None \<Rightarrow> None | Some n \<Rightarrow> parse_digits n ys)"
  by (induction acc xs rule: parse_digits.induct) (auto split: option.splits)

lemma parse_dec_digits: "parse_digits 0 (dec_digits n) = Some n"
proof (induction n rule: dec_digits.induct)
  case (1 n)
  show ?case
  proof (cases "n < 10")
    case True
    then show ?thesis by (subst dec_digits.simps) (simp add: digit_val_digit)
  next
    case False
    with 1 have "parse_digits 0 (dec_digits (n div 10)) = Some (n div 10)" by simp
    with False show ?thesis
      by (subst dec_digits.simps) (simp add: parse_digits_append digit_val_digit)
  qed
qed

lemma dec_digits_head:
  "\<exists>(d::nat) cs. dec_digits n = char_of (48 + d) # cs \<and> d < 10"
proof (induction n rule: dec_digits.induct)
  case (1 n)
  show ?case
  proof (cases "n < 10")
    case True
    then have "dec_digits n = char_of (48 + n) # []" by (subst dec_digits.simps) simp
    with True show ?thesis by blast
  next
    case False
    with 1 obtain d :: nat and cs where "dec_digits (n div 10) = char_of (48 + d) # cs" "d < 10"
      by blast
    with False have "dec_digits n = char_of (48 + d) # (cs @ [char_of (48 + n mod 10)])"
      by (subst dec_digits.simps) simp
    with \<open>d < 10\<close> show ?thesis by blast
  qed
qed

lemma dec_digits_nonempty [simp]: "dec_digits n \<noteq> []"
  using dec_digits_head[of n] by auto

theorem ParseInt_FormatInt:
  assumes "0 \<le> i" and "i < 2 ^ 63"
  shows "ParseInt (FormatInt i) = (i, True)"
proof -
  from assms have fmt: "FormatInt i = dec_digits (nat i)" by (simp add: FormatInt_def)
  obtain d :: nat and cs where head: "dec_digits (nat i) = char_of (48 + d) # cs" and "d < 10"
    using dec_digits_head by blast
  have "(char_of (48 + d) :: char) \<noteq> CHR ''-'' \<and> (char_of (48 + d) :: char) \<noteq> CHR ''+''"
    using \<open>d < 10\<close> by (auto simp: char_of_eq_iff take_bit_eq_mod)
  moreover have "parse_unsigned (dec_digits (nat i)) = Some (nat i)"
    by (simp add: parse_unsigned_def parse_dec_digits)
  moreover have "clamp64 (int (nat i)) = (i, True)"
    using assms by (simp add: clamp64_def)
  ultimately show ?thesis
    unfolding fmt ParseInt_def head using head by simp
qed

lemma FormatInt_nonempty [simp]: "FormatInt i \<noteq> []"
  by (simp add: FormatInt_def)

lemma FormatInt_inj:
  assumes "FormatInt i = FormatInt j" "0 \<le> i" "i < 2 ^ 63" "0 \<le> j" "j < 2 ^ 63"
  shows "i = j"
proof -
  have "(i, True) = (j, True)"
    unfolding ParseInt_FormatInt[OF assms(2,3), symmetric] ParseInt_FormatInt[OF assms(4,5), symmetric]
    by (simp only: assms(1))
  then show ?thesis by simp
qed

section \<open>Lemmas on base64\<close>

lemma b64_char_not_eq: "n < 64 \<Longrightarrow> CHR ''='' \<noteq> b64_char n"
proof -
  let ?abc = "''ABCDEFGHIJKLMNOPQRSTUVWXYZabcdefghijklmnopqrstuvwxyz0123456789-_''"
  assume "n < 64"
  then have "b64_char n \<in> set ?abc"
    unfolding b64_char_def by (intro nth_mem) simp
  moreover have "CHR ''='' \<notin> set ?abc" by simp
  ultimately show "CHR ''='' \<noteq> b64_char n" by metis
qed

lemma of_char_div: "(of_char c :: nat) div 4 < 64" "(of_char c :: nat) div 16 < 16"
  "(of_char c :: nat) div 64 < 4"
  using nat_of_char_less_256[of c] by (simp_all add: less_mult_imp_div_less)

lemma b64_no_padding: "CHR ''='' \<notin> set (b64_rawurl s)"
proof (induction s rule: b64_rawurl.induct)
  case (2 a)
  then show ?case
    using of_char_div[of a] by (auto simp: Let_def b64_char_not_eq)
next
  case (3 a b)
  have "((of_char a :: nat) mod 4) * 16 + of_char b div 16 < 64"
    using of_char_div[of b] mod_less_divisor[of 4 "of_char a :: nat"] by linarith
  with 3 show ?case
    using of_char_div[of a] of_char_div[of b]
    by (auto simp: Let_def b64_char_not_eq)
next
  case (4 a b c cs)
  have "((of_char a :: nat) mod 4) * 16 + of_char b div 16 < 64"
    using of_char_div[of b] mod_less_divisor[of 4 "of_char a :: nat"] by linarith
  moreover have "((of_char b :: nat) mod 16) * 4 + of_char c div 64 < 64"
    using of_char_div[of c] mod_less_divisor[of 16 "of_char b :: nat"] by linarith
  ultimately show ?case
    using 4 of_char_div[of a]
    by (auto simp: Let_def b64_char_not_eq)
qed simp

lemma trim_right_eq_id:
  assumes "CHR ''='' \<notin> set s"
  shows "trim_right_eq (s @ replicate n (CHR ''='')) = s"
proof -
  have "dropWhile (\<lambda>c. c = CHR ''='') (rev s) = rev s"
    using assms hd_in_set[of "rev s"] unfolding dropWhile_eq_self_iff set_rev by auto
  then have "dropWhile (\<lambda>c. c = CHR ''='') (replicate n (CHR ''='') @ rev s) = rev s"
    by (induction n) auto
  then show ?thesis by (simp add: trim_right_eq_def)
qed

section \<open>Evaluation of the string functions\<close>

lemmas trim_eval [go_str] =
  TrimSpace_def trim_lead.simps lead_space_def space_encodings_def

lemmas string_eval [go_str] =
  HasPrefix_def HasSuffix_def Split.simps Fields.simps dec_digits.simps FormatInt_def
  ParseInt_def parse_unsigned_def digit_val_def clamp64_def TrimSuffix_def TrimPrefix_def

end
