(* ===== verification/Cache.thy ===== *)
theory Cache
  imports Go_Strings
begin

text \<open>
  \<open>internal/memory_store/in_memory/cache.go\<close>: the key/value cache with a TTL in seconds. The
  functions here are the operations run without interference; the compare-and-swap retry
  loops under arbitrary interleaving are in theory \<open>Cache_Race\<close>.
\<close>

record cacheEntry =
  ce_Value :: string
  ce_ExpiresAt :: int

type_synonym cacheStore = "(string \<times> cacheEntry) list"

definition cache_entry :: "int \<Rightarrow> string \<Rightarrow> int \<Rightarrow> cacheEntry" where
  "cache_entry now v ttlSeconds = \<lparr>ce_Value = v, ce_ExpiresAt = add64 now ttlSeconds\<rparr>"

text \<open>
  The value an increment reads from an entry: zero when it has expired. \<open>ParseInt\<close> also
  returns a value with its error, which the code ignores.
\<close>

definition increment_current :: "int \<Rightarrow> cacheEntry \<Rightarrow> int" where
  "increment_current now entry =
     (if ce_ExpiresAt entry \<ge> now then fst (ParseInt (ce_Value entry)) else 0)"

definition IncrementCache :: "int \<Rightarrow> string \<Rightarrow> int \<Rightarrow> cacheStore \<Rightarrow> int \<times> cacheStore" where
  "IncrementCache now key ttlSeconds c =
     (case map_of c key of
        None \<Rightarrow> (1, AList.update key (cache_entry now ''1'' ttlSeconds) c)
      | Some entry \<Rightarrow>
          let nxt = add64 (increment_current now entry) 1
          in (nxt, AList.update key (cache_entry now (FormatInt nxt) ttlSeconds) c))"

definition SetCache :: "int \<Rightarrow> string \<Rightarrow> string \<Rightarrow> int \<Rightarrow> cacheStore \<Rightarrow> cacheStore" where
  "SetCache now key v ttlSeconds c = AList.update key (cache_entry now v ttlSeconds) c"

definition SetCacheNX :: "int \<Rightarrow> string \<Rightarrow> string \<Rightarrow> int \<Rightarrow> cacheStore \<Rightarrow> bool \<times> cacheStore" where
  "SetCacheNX now key v ttlSeconds c =
     (case map_of c key of
        None \<Rightarrow> (True, AList.update key (cache_entry now v ttlSeconds) c)
      | Some old \<Rightarrow>
          if ce_ExpiresAt old \<ge> now then (False, c)
          else (True, AList.update key (cache_entry now v ttlSeconds) c))"

definition GetCache :: "int \<Rightarrow> string \<Rightarrow> cacheStore \<Rightarrow> string \<times> cacheStore" where
  "GetCache now key c =
     (case map_of c key of
        None \<Rightarrow> ([], c)
      | Some entry \<Rightarrow>
          if ce_ExpiresAt entry < now then ([], AList.delete key c)
          else (ce_Value entry, c))"

definition DeleteCacheByPrefix :: "string \<Rightarrow> cacheStore \<Rightarrow> cacheStore" where
  "DeleteCacheByPrefix pre c = filter (\<lambda>p. \<not> HasPrefix (fst p) pre) c"

section \<open>Invariant and view\<close>

definition cache_view :: "int \<Rightarrow> cacheStore \<Rightarrow> string \<Rightarrow> string option" where
  "cache_view now c k =
     (case map_of c k of
        Some e \<Rightarrow> if now \<le> ce_ExpiresAt e then Some (ce_Value e) else None
      | None \<Rightarrow> None)"

lemmas cache_defs =
  IncrementCache_def SetCache_def SetCacheNX_def GetCache_def DeleteCacheByPrefix_def

lemma cache_keys_ok_ops:
  assumes "keys_ok c"
  shows "keys_ok (snd (IncrementCache now k ttl c))"
    and "keys_ok (SetCache now k v ttl c)"
    and "keys_ok (snd (SetCacheNX now k v ttl c))"
    and "keys_ok (snd (GetCache now k c))"
    and "keys_ok (DeleteCacheByPrefix k c)"
  using assms by (auto simp: cache_defs Let_def intro: store_inv split: option.splits)

lemma cache_view_put:
  "cache_view t (AList.update k (cache_entry now v ttl) c) q =
     (if q = k then (if t \<le> add64 now ttl then Some v else None) else cache_view t c q)"
  by (simp add: cache_view_def cache_entry_def AList.update_conv')

lemma cache_view_Get [store_simps]:
  "fst (GetCache now k c) = (case cache_view now c k of None \<Rightarrow> [] | Some v \<Rightarrow> v)"
  "cache_view now (snd (GetCache now k c)) q = cache_view now c q"
  by (auto simp: GetCache_def cache_view_def AList.delete_conv' split: option.splits)

lemma cache_view_Set [store_simps]:
  "cache_view t (SetCache now k v ttl c) q =
     (if q = k then (if t \<le> add64 now ttl then Some v else None) else cache_view t c q)"
  by (simp add: SetCache_def cache_view_put)

lemma cache_view_DeletePrefix [store_simps]:
  "cache_view t (DeleteCacheByPrefix pre c) q = (if HasPrefix q pre then None else cache_view t c q)"
  by (simp add: DeleteCacheByPrefix_def cache_view_def
      map_of_filter_key[where P = "\<lambda>x. \<not> HasPrefix x pre"])

lemma cache_view_NX [store_simps]:
  "fst (SetCacheNX now k v ttl c) \<longleftrightarrow> cache_view now c k = None"
  "cache_view t (snd (SetCacheNX now k v ttl c)) q =
     (if q = k \<and> cache_view now c k = None then (if t \<le> add64 now ttl then Some v else None)
      else cache_view t c q)"
  by (cases "map_of c k"; simp add: SetCacheNX_def cache_view_put; simp add: cache_view_def)+

text \<open>The counter a view shows, zero when there is none.\<close>

definition counter :: "int \<Rightarrow> cacheStore \<Rightarrow> string \<Rightarrow> int" where
  "counter now c k = (case cache_view now c k of None \<Rightarrow> 0 | Some v \<Rightarrow> fst (ParseInt v))"

lemma Increment_result [store_simps]:
  "fst (IncrementCache now k ttl c) = add64 (counter now c k) 1"
  by (auto simp: IncrementCache_def counter_def cache_view_def increment_current_def Let_def
      add64_def wrap64_def split: option.splits)

lemma FormatInt_1: "FormatInt 1 = ''1''"
  by code_simp

lemma cache_view_Increment [store_simps]:
  "cache_view t (snd (IncrementCache now k ttl c)) q =
     (if q = k then (if t \<le> add64 now ttl then Some (FormatInt (add64 (counter now c k) 1)) else None)
      else cache_view t c q)"
proof -
  have 1: "add64 0 1 = 1" by (simp add: add64_def wrap64_def)
  show ?thesis
    by (cases "map_of c k")
      (simp_all add: IncrementCache_def Let_def cache_view_put counter_def cache_view_def[of now]
        increment_current_def FormatInt_1 1)
qed

text \<open>Counting: after an increment the counter reads one more, until it expires.\<close>

lemma counter_Increment:
  assumes "t \<le> add64 now ttl" and "0 \<le> counter now c k" and "counter now c k < 2 ^ 63 - 1"
  shows "counter t (snd (IncrementCache now k ttl c)) k = counter now c k + 1"
proof -
  have "add64 (counter now c k) 1 = counter now c k + 1"
    using assms(2,3) by (intro add64_id) (simp add: in64_def)
  with assms show ?thesis
    by (simp add: counter_def[of t] cache_view_Increment ParseInt_FormatInt)
qed

end
