(* ===== verification/Cache_Race.thy ===== *)
theory Cache_Race
  imports Cache
begin

text \<open>
  The retry loops of \<open>in_memory/cache.go\<close> (\<open>SetCacheNX\<close>, \<open>IncrementCache\<close>) under arbitrary
  interleaving. The slot of the one key the threads contend for holds a pointer to an entry;
  \<open>CompareAndSwap\<close> compares pointers, so entries carry the address they were allocated at.
  Each call of \<open>sync.Map\<close> and each reading of the clock is one step of one thread.
\<close>

section \<open>SetCacheNX\<close>

datatype nx_pc =
    NX_Loop                \<comment> \<open>top of the loop\<close>
  | NX_Read int            \<comment> \<open>the clock is read, \<open>Load\<close> is next\<close>
  | NX_Store int           \<comment> \<open>the key was absent, \<open>LoadOrStore\<close> is next\<close>
  | NX_CAS int nat         \<comment> \<open>the entry at this address had expired, \<open>CompareAndSwap\<close> is next\<close>
  | NX_Done bool

record nx_state =
  nx_slot :: "(nat \<times> cacheEntry) option"
  nx_fresh :: nat
  nx_clock :: int
  nx_pcs :: "nx_pc list"

inductive nx_step :: "string \<Rightarrow> int \<Rightarrow> nx_state \<Rightarrow> nx_state \<Rightarrow> bool" for v ttl where
  nx_tick: "nx_step v ttl s (s\<lparr>nx_clock := nx_clock s + 1\<rparr>)"
| nx_now: "i < length (nx_pcs s) \<Longrightarrow> nx_pcs s ! i = NX_Loop \<Longrightarrow>
    nx_step v ttl s (s\<lparr>nx_pcs := (nx_pcs s)[i := NX_Read (nx_clock s)]\<rparr>)"
| nx_absent: "i < length (nx_pcs s) \<Longrightarrow> nx_pcs s ! i = NX_Read now \<Longrightarrow> nx_slot s = None \<Longrightarrow>
    nx_step v ttl s (s\<lparr>nx_pcs := (nx_pcs s)[i := NX_Store now]\<rparr>)"
| nx_held: "i < length (nx_pcs s) \<Longrightarrow> nx_pcs s ! i = NX_Read now \<Longrightarrow> nx_slot s = Some (p, e) \<Longrightarrow>
    ce_ExpiresAt e \<ge> now \<Longrightarrow>
    nx_step v ttl s (s\<lparr>nx_pcs := (nx_pcs s)[i := NX_Done False]\<rparr>)"
| nx_expired: "i < length (nx_pcs s) \<Longrightarrow> nx_pcs s ! i = NX_Read now \<Longrightarrow> nx_slot s = Some (p, e) \<Longrightarrow>
    ce_ExpiresAt e < now \<Longrightarrow>
    nx_step v ttl s (s\<lparr>nx_pcs := (nx_pcs s)[i := NX_CAS now p]\<rparr>)"
| nx_stored: "i < length (nx_pcs s) \<Longrightarrow> nx_pcs s ! i = NX_Store now \<Longrightarrow> nx_slot s = None \<Longrightarrow>
    nx_step v ttl s (s\<lparr>nx_slot := Some (nx_fresh s, cache_entry now v ttl),
                       nx_fresh := Suc (nx_fresh s),
                       nx_pcs := (nx_pcs s)[i := NX_Done True]\<rparr>)"
| nx_store_lost: "i < length (nx_pcs s) \<Longrightarrow> nx_pcs s ! i = NX_Store now \<Longrightarrow> nx_slot s \<noteq> None \<Longrightarrow>
    nx_step v ttl s (s\<lparr>nx_pcs := (nx_pcs s)[i := NX_Loop]\<rparr>)"
| nx_swapped: "i < length (nx_pcs s) \<Longrightarrow> nx_pcs s ! i = NX_CAS now p \<Longrightarrow> nx_slot s = Some (p, e) \<Longrightarrow>
    nx_step v ttl s (s\<lparr>nx_slot := Some (nx_fresh s, cache_entry now v ttl),
                       nx_fresh := Suc (nx_fresh s),
                       nx_pcs := (nx_pcs s)[i := NX_Done True]\<rparr>)"
| nx_swap_lost: "i < length (nx_pcs s) \<Longrightarrow> nx_pcs s ! i = NX_CAS now p \<Longrightarrow>
    (\<forall>e. nx_slot s \<noteq> Some (p, e)) \<Longrightarrow>
    nx_step v ttl s (s\<lparr>nx_pcs := (nx_pcs s)[i := NX_Loop]\<rparr>)"

abbreviation nx_reach :: "string \<Rightarrow> int \<Rightarrow> nx_state \<Rightarrow> nx_state \<Rightarrow> bool" where
  "nx_reach v ttl \<equiv> (nx_step v ttl)\<^sup>*\<^sup>*"

definition nx_init :: "nx_state \<Rightarrow> bool" where
  "nx_init s \<longleftrightarrow> (\<forall>pc \<in> set (nx_pcs s). pc = NX_Loop) \<and>
     (\<forall>p e. nx_slot s = Some (p, e) \<longrightarrow> p < nx_fresh s)"

definition nx_wins :: "nx_state \<Rightarrow> nat \<Rightarrow> bool" where
  "nx_wins s i \<longleftrightarrow> i < length (nx_pcs s) \<and> nx_pcs s ! i = NX_Done True"

fun nx_times :: "nx_pc \<Rightarrow> int option" where
  "nx_times (NX_Read t) = Some t"
| "nx_times (NX_Store t) = Some t"
| "nx_times (NX_CAS t _) = Some t"
| "nx_times _ = None"

text \<open>
  Until somebody has won, the slot is the initial one. Afterwards it holds the winner's
  entry, alive for the whole window, whose address no thread is about to swap out.
\<close>

definition nx_clocks :: "int \<Rightarrow> nx_state \<Rightarrow> bool" where
  "nx_clocks t0 s \<longleftrightarrow> t0 \<le> nx_clock s \<and>
     (\<forall>i < length (nx_pcs s). \<forall>t. nx_times (nx_pcs s ! i) = Some t \<longrightarrow> t0 \<le> t \<and> t \<le> nx_clock s)"

definition nx_ptrs :: "nx_state \<Rightarrow> bool" where
  "nx_ptrs s \<longleftrightarrow> (\<forall>p e. nx_slot s = Some (p, e) \<longrightarrow> p < nx_fresh s) \<and>
     (\<forall>i < length (nx_pcs s). \<forall>t p. nx_pcs s ! i = NX_CAS t p \<longrightarrow> p < nx_fresh s)"

definition nx_owner :: "int \<Rightarrow> (nat \<times> cacheEntry) option \<Rightarrow> nx_state \<Rightarrow> bool" where
  "nx_owner until slot0 s \<longleftrightarrow>
     (nx_slot s = slot0 \<and> (\<forall>i. \<not> nx_wins s i)) \<or>
     (\<exists>j p e. nx_wins s j \<and> (\<forall>i. nx_wins s i \<longrightarrow> i = j) \<and> nx_slot s = Some (p, e) \<and>
        until \<le> ce_ExpiresAt e \<and>
        (\<forall>i < length (nx_pcs s). \<forall>t. nx_pcs s ! i \<noteq> NX_CAS t p))"

definition nx_refused :: "int \<Rightarrow> (nat \<times> cacheEntry) option \<Rightarrow> nx_state \<Rightarrow> bool" where
  "nx_refused t0 slot0 s \<longleftrightarrow>
     ((\<exists>i < length (nx_pcs s). nx_pcs s ! i = NX_Done False) \<longrightarrow>
        (\<exists>i. nx_wins s i) \<or> (\<exists>p e. slot0 = Some (p, e) \<and> t0 \<le> ce_ExpiresAt e))"

lemmas nx_inv_defs = nx_clocks_def nx_ptrs_def nx_refused_def

lemma nx_clocks_step: "nx_step v ttl s s' \<Longrightarrow> nx_clocks t0 s \<Longrightarrow> nx_clocks t0 s'"
  by (induction rule: nx_step.induct) (fastforce simp: nx_clocks_def nth_list_update)+

lemma nx_ptrs_step: "nx_step v ttl s s' \<Longrightarrow> nx_ptrs s \<Longrightarrow> nx_ptrs s'"
  by (induction rule: nx_step.induct) (fastforce simp: nx_ptrs_def nth_list_update less_Suc_eq)+

lemma nx_clock_mono: "nx_reach v ttl s s' \<Longrightarrow> nx_clock s \<le> nx_clock s'"
  by (induction rule: rtranclp_induct) (auto elim!: nx_step.cases)

text \<open>The step that takes the slot: it needs the slot as the thread left it.\<close>

lemma nx_owner_take:
  assumes "nx_ptrs s" "until \<le> ce_ExpiresAt e" "i < length (nx_pcs s)"
    and "nx_slot s = slot0" "\<forall>i. \<not> nx_wins s i"
  shows "nx_owner until slot0 (s\<lparr>nx_slot := Some (nx_fresh s, e), nx_fresh := Suc (nx_fresh s),
                                  nx_pcs := (nx_pcs s)[i := NX_Done True]\<rparr>)"
proof -
  have "\<forall>k < length (nx_pcs s). \<forall>t. (nx_pcs s)[i := NX_Done True] ! k \<noteq> NX_CAS t (nx_fresh s)"
    using assms(1,3) by (auto simp: nx_ptrs_def nth_list_update)
  with assms show ?thesis
    by (auto simp: nx_owner_def nx_wins_def nth_list_update intro!: exI[of _ i])
qed

lemma nx_owner_other:
  assumes "nx_owner until slot0 s" "i < length (nx_pcs s)" "\<not> nx_wins s i" "pc \<noteq> NX_Done True"
    and "\<And>t p e. pc = NX_CAS t p \<Longrightarrow> nx_slot s = Some (p, e) \<Longrightarrow> ce_ExpiresAt e < until"
  shows "nx_owner until slot0 (s\<lparr>nx_pcs := (nx_pcs s)[i := pc]\<rparr>)"
proof -
  have w: "nx_wins (s\<lparr>nx_pcs := (nx_pcs s)[i := pc]\<rparr>) k = nx_wins s k" for k
    using assms(2-4) by (auto simp: nx_wins_def nth_list_update)
  from assms(1) show ?thesis
  proof (unfold nx_owner_def w, elim disjE exE conjE, goal_cases)
    case (2 j p e)
    then have "\<forall>k<length (nx_pcs s). \<forall>t. (nx_pcs s)[i := pc] ! k \<noteq> NX_CAS t p"
      using assms(2) assms(5)[of _ p e] by (auto simp: nth_list_update split: if_splits)
    with 2 show ?case by auto
  qed simp
qed

lemma nx_owner_step:
  assumes "nx_step v ttl s s'" "nx_owner (t0 + ttl) slot0 s" "nx_clocks t0 s" "nx_ptrs s"
    and "nx_clock s \<le> t0 + ttl" and range: "0 \<le> t0" "0 \<le> ttl" "t0 + 2 * ttl < 2 ^ 63"
  shows "nx_owner (t0 + ttl) slot0 s'"
  using assms(1)
proof cases
  case nx_tick
  then show ?thesis using assms(2) by (simp add: nx_owner_def nx_wins_def)
next
  case (nx_expired i now p e)
  then have "now \<le> nx_clock s" using assms(3) by (force simp: nx_clocks_def)
  with nx_expired assms show ?thesis by (auto simp: nx_wins_def intro!: nx_owner_other)
next
  case (nx_stored i now)
  then have "t0 \<le> now" "now \<le> nx_clock s" using assms(3) by (force simp: nx_clocks_def)+
  then have "t0 + ttl \<le> ce_ExpiresAt (cache_entry now v ttl)"
    using range assms(5) by (simp add: cache_entry_def add64_id in64_def)
  moreover have "\<forall>i. \<not> nx_wins s i" "nx_slot s = slot0"
    using assms(2) nx_stored by (auto simp: nx_owner_def)
  ultimately show ?thesis using nx_stored assms(4) by (auto intro: nx_owner_take)
next
  case (nx_swapped i now p e)
  then have "t0 \<le> now" "now \<le> nx_clock s" using assms(3) by (force simp: nx_clocks_def)+
  then have "t0 + ttl \<le> ce_ExpiresAt (cache_entry now v ttl)"
    using range assms(5) by (simp add: cache_entry_def add64_id in64_def)
  moreover have "\<forall>i. \<not> nx_wins s i" "nx_slot s = slot0"
    using assms(2) nx_swapped by (auto simp: nx_owner_def)
  ultimately show ?thesis using nx_swapped assms(4) by (auto intro: nx_owner_take)
qed (use assms(2) in \<open>auto simp: nx_wins_def intro!: nx_owner_other\<close>)

lemma nx_wins_kept: "nx_step v ttl s s' \<Longrightarrow> nx_wins s i \<Longrightarrow> nx_wins s' i"
  by (induction rule: nx_step.induct) (auto simp: nx_wins_def nth_list_update)

lemma nx_refused_step:
  assumes "nx_step v ttl s s'" "nx_refused t0 slot0 s" "nx_owner until slot0 s" "nx_clocks t0 s"
  shows "nx_refused t0 slot0 s'"
proof (cases "\<exists>i. nx_wins s i")
  case True
  then show ?thesis using nx_wins_kept[OF assms(1)] by (auto simp: nx_refused_def)
next
  case False
  then have slot: "nx_slot s = slot0" using assms(3) by (auto simp: nx_owner_def)
  from assms(1) show ?thesis
  proof cases
    case (nx_held i now p e)
    then have "t0 \<le> now" using assms(4) by (force simp: nx_clocks_def)
    with nx_held slot show ?thesis by (auto simp: nx_refused_def)
  qed (use assms(2) False in \<open>auto simp: nx_refused_def nx_wins_def nth_list_update\<close>)
qed

lemma nx_invariant:
  assumes "nx_reach v ttl s0 s" "nx_init s0" "nx_clock s0 = t0" "nx_clock s \<le> t0 + ttl"
    and range: "0 \<le> t0" "0 \<le> ttl" "t0 + 2 * ttl < 2 ^ 63"
  shows "nx_owner (t0 + ttl) (nx_slot s0) s \<and> nx_clocks t0 s \<and> nx_ptrs s \<and>
    nx_refused t0 (nx_slot s0) s \<and> length (nx_pcs s) = length (nx_pcs s0)"
  using assms(1,4)
proof (induction rule: rtranclp_induct)
  case base
  then show ?case using assms(2,3)
    by (auto simp: nx_owner_def nx_inv_defs nx_wins_def nx_init_def dest!: nth_mem)
next
  case (step s s')
  have "nx_clock s \<le> nx_clock s'" using nx_clock_mono[of v ttl s s'] step(2) by blast
  then have ih: "nx_owner (t0 + ttl) (nx_slot s0) s" "nx_clocks t0 s" "nx_ptrs s"
    "nx_refused t0 (nx_slot s0) s" "length (nx_pcs s) = length (nx_pcs s0)"
    and c: "nx_clock s \<le> t0 + ttl"
    using step by auto
  have "length (nx_pcs s') = length (nx_pcs s)" using step(2) by (auto elim: nx_step.cases)
  with ih c step(2) range show ?case
    by (auto intro: nx_owner_step nx_clocks_step nx_ptrs_step nx_refused_step)
qed

text \<open>
  C9. Single claim under concurrency: whatever the interleaving of any number of
  \<open>SetCacheNX\<close> calls on one key, at most one returns true as long as the TTL has not run
  out since the start; and when all have returned and the key was not held by a live
  entry at the start, exactly one returned true.
\<close>

theorem SetCacheNX_single_winner:
  assumes "nx_reach v ttl s0 s" and "nx_init s0" and "nx_clock s \<le> nx_clock s0 + ttl"
    and "0 \<le> nx_clock s0" and "0 \<le> ttl" and "nx_clock s0 + 2 * ttl < 2 ^ 63"
  shows "(\<forall>i j. nx_wins s i \<longrightarrow> nx_wins s j \<longrightarrow> i = j) \<and>
    (nx_pcs s0 \<noteq> [] \<longrightarrow> (\<forall>pc \<in> set (nx_pcs s). \<exists>r. pc = NX_Done r) \<longrightarrow>
     (\<forall>p e. nx_slot s0 = Some (p, e) \<longrightarrow> ce_ExpiresAt e < nx_clock s0) \<longrightarrow>
     (\<exists>!i. nx_wins s i))"
proof -
  note inv = nx_invariant[OF assms(1,2) refl assms(3-6)]
  have uniq: "i = j" if "nx_wins s i" "nx_wins s j" for i j
    using inv that unfolding nx_owner_def by blast
  moreover have "\<exists>i. nx_wins s i" if ne: "nx_pcs s0 \<noteq> []"
    and fin: "\<forall>pc \<in> set (nx_pcs s). \<exists>r. pc = NX_Done r"
    and dead: "\<forall>p e. nx_slot s0 = Some (p, e) \<longrightarrow> ce_ExpiresAt e < nx_clock s0"
  proof (rule ccontr)
    assume none: "\<not> ?thesis"
    from ne inv have len: "0 < length (nx_pcs s)" by simp
    then obtain r where "nx_pcs s ! 0 = NX_Done r" using fin nth_mem by blast
    with none len have "nx_pcs s ! 0 = NX_Done False" by (cases r) (auto simp: nx_wins_def)
    with none len inv dead show False unfolding nx_refused_def by force
  qed
  ultimately show ?thesis by blast
qed

text \<open>A run of two claimants of an absent key: the second reads the slot after the first stored.\<close>

definition nx_run_start :: nx_state where
  "nx_run_start = \<lparr>nx_slot = None, nx_fresh = 0, nx_clock = 100, nx_pcs = [NX_Loop, NX_Loop]\<rparr>"

definition nx_run_end :: nx_state where
  "nx_run_end = \<lparr>nx_slot = Some (0, cache_entry 100 ''jti'' 60), nx_fresh = 1, nx_clock = 100,
                 nx_pcs = [NX_Done True, NX_Done False]\<rparr>"

lemma nx_run: "nx_reach ''jti'' 60 nx_run_start nx_run_end"
proof -
  let ?s = "\<lambda>slot n pcs. \<lparr>nx_slot = slot, nx_fresh = n, nx_clock = 100, nx_pcs = pcs\<rparr>"
  let ?e = "Some (0, cache_entry 100 ''jti'' 60)"
  let ?st = "nx_step ''jti'' 60"
  have 1: "?st (?s None 0 [NX_Loop, NX_Loop]) (?s None 0 [NX_Read 100, NX_Loop])"
    using nx_now[of 0 "?s None 0 [NX_Loop, NX_Loop]"] by simp
  have 2: "?st (?s None 0 [NX_Read 100, NX_Loop]) (?s None 0 [NX_Store 100, NX_Loop])"
    using nx_absent[of 0 "?s None 0 [NX_Read 100, NX_Loop]"] by simp
  have 3: "?st (?s None 0 [NX_Store 100, NX_Loop]) (?s None 0 [NX_Store 100, NX_Read 100])"
    using nx_now[of 1 "?s None 0 [NX_Store 100, NX_Loop]"] by simp
  have 4: "?st (?s None 0 [NX_Store 100, NX_Read 100]) (?s ?e 1 [NX_Done True, NX_Read 100])"
    using nx_stored[of 0 "?s None 0 [NX_Store 100, NX_Read 100]"] by simp
  have 5: "?st (?s ?e 1 [NX_Done True, NX_Read 100]) (?s ?e 1 [NX_Done True, NX_Done False])"
    using nx_held[of 1 "?s ?e 1 [NX_Done True, NX_Read 100]"]
    by (simp add: cache_entry_def add64_def wrap64_def)
  from 1 2 3 4 5 show ?thesis
    unfolding nx_run_start_def nx_run_end_def by (meson converse_rtranclp_into_rtranclp rtranclp.rtrancl_refl)
qed

theorem SetCacheNX_single_winner_witness:
  "nx_reach ''jti'' 60 nx_run_start nx_run_end \<and> (\<exists>!i. nx_wins nx_run_end i)"
  using SetCacheNX_single_winner[OF nx_run] nx_run
  by (simp add: nx_run_start_def nx_run_end_def nx_init_def ex_bool_eq)

section \<open>IncrementCache\<close>

datatype ic_pc =
    IC_Loop
  | IC_Read int                  \<comment> \<open>the clock is read, \<open>Load\<close> is next\<close>
  | IC_Store int                 \<comment> \<open>the key was absent, \<open>LoadOrStore\<close> of 1 is next\<close>
  | IC_CAS int nat cacheEntry    \<comment> \<open>this entry was loaded, \<open>CompareAndSwap\<close> is next\<close>
  | IC_Done int

record ic_state =
  ic_slot :: "(nat \<times> cacheEntry) option"
  ic_fresh :: nat
  ic_clock :: int
  ic_pcs :: "ic_pc list"

inductive ic_step :: "int \<Rightarrow> ic_state \<Rightarrow> ic_state \<Rightarrow> bool" for ttl where
  ic_tick: "ic_step ttl s (s\<lparr>ic_clock := ic_clock s + 1\<rparr>)"
| ic_now: "i < length (ic_pcs s) \<Longrightarrow> ic_pcs s ! i = IC_Loop \<Longrightarrow>
    ic_step ttl s (s\<lparr>ic_pcs := (ic_pcs s)[i := IC_Read (ic_clock s)]\<rparr>)"
| ic_absent: "i < length (ic_pcs s) \<Longrightarrow> ic_pcs s ! i = IC_Read now \<Longrightarrow> ic_slot s = None \<Longrightarrow>
    ic_step ttl s (s\<lparr>ic_pcs := (ic_pcs s)[i := IC_Store now]\<rparr>)"
| ic_loaded: "i < length (ic_pcs s) \<Longrightarrow> ic_pcs s ! i = IC_Read now \<Longrightarrow> ic_slot s = Some (p, e) \<Longrightarrow>
    ic_step ttl s (s\<lparr>ic_pcs := (ic_pcs s)[i := IC_CAS now p e]\<rparr>)"
| ic_stored: "i < length (ic_pcs s) \<Longrightarrow> ic_pcs s ! i = IC_Store now \<Longrightarrow> ic_slot s = None \<Longrightarrow>
    ic_step ttl s (s\<lparr>ic_slot := Some (ic_fresh s, cache_entry now ''1'' ttl),
                     ic_fresh := Suc (ic_fresh s),
                     ic_pcs := (ic_pcs s)[i := IC_Done 1]\<rparr>)"
| ic_store_lost: "i < length (ic_pcs s) \<Longrightarrow> ic_pcs s ! i = IC_Store now \<Longrightarrow> ic_slot s \<noteq> None \<Longrightarrow>
    ic_step ttl s (s\<lparr>ic_pcs := (ic_pcs s)[i := IC_Loop]\<rparr>)"
| ic_swapped: "i < length (ic_pcs s) \<Longrightarrow> ic_pcs s ! i = IC_CAS now p e \<Longrightarrow>
    ic_slot s = Some (p, e') \<Longrightarrow> nxt = add64 (increment_current now e) 1 \<Longrightarrow>
    ic_step ttl s (s\<lparr>ic_slot := Some (ic_fresh s, cache_entry now (FormatInt nxt) ttl),
                     ic_fresh := Suc (ic_fresh s),
                     ic_pcs := (ic_pcs s)[i := IC_Done nxt]\<rparr>)"
| ic_swap_lost: "i < length (ic_pcs s) \<Longrightarrow> ic_pcs s ! i = IC_CAS now p e \<Longrightarrow>
    (\<forall>e'. ic_slot s \<noteq> Some (p, e')) \<Longrightarrow>
    ic_step ttl s (s\<lparr>ic_pcs := (ic_pcs s)[i := IC_Loop]\<rparr>)"

abbreviation ic_reach :: "int \<Rightarrow> ic_state \<Rightarrow> ic_state \<Rightarrow> bool" where
  "ic_reach ttl \<equiv> (ic_step ttl)\<^sup>*\<^sup>*"

definition ic_init :: "ic_state \<Rightarrow> bool" where
  "ic_init s \<longleftrightarrow> (\<forall>pc \<in> set (ic_pcs s). pc = IC_Loop) \<and> ic_slot s = None"

definition ic_returned :: "ic_state \<Rightarrow> nat \<Rightarrow> int \<Rightarrow> bool" where
  "ic_returned s i r \<longleftrightarrow> i < length (ic_pcs s) \<and> ic_pcs s ! i = IC_Done r"

fun ic_times :: "ic_pc \<Rightarrow> int option" where
  "ic_times (IC_Read t) = Some t"
| "ic_times (IC_Store t) = Some t"
| "ic_times (IC_CAS t _ _) = Some t"
| "ic_times _ = None"

definition ic_clocks :: "int \<Rightarrow> ic_state \<Rightarrow> bool" where
  "ic_clocks t0 s \<longleftrightarrow> t0 \<le> ic_clock s \<and>
     (\<forall>i < length (ic_pcs s). \<forall>t. ic_times (ic_pcs s ! i) = Some t \<longrightarrow> t0 \<le> t \<and> t \<le> ic_clock s)"

text \<open>An address stands for one entry: what a thread loaded from it is what the slot holds.\<close>

definition ic_ptrs :: "ic_state \<Rightarrow> bool" where
  "ic_ptrs s \<longleftrightarrow> (\<forall>p e. ic_slot s = Some (p, e) \<longrightarrow> p < ic_fresh s) \<and>
     (\<forall>i < length (ic_pcs s). \<forall>t p e. ic_pcs s ! i = IC_CAS t p e \<longrightarrow>
        p < ic_fresh s \<and> (\<forall>e'. ic_slot s = Some (p, e') \<longrightarrow> e' = e))"

text \<open>The slot counts the calls that have returned, and each result was returned once.\<close>

definition ic_count :: "ic_state \<Rightarrow> nat" where
  "ic_count s = length (filter (\<lambda>pc. case pc of IC_Done _ \<Rightarrow> True | _ \<Rightarrow> False) (ic_pcs s))"

definition ic_slot_ok :: "int \<Rightarrow> ic_state \<Rightarrow> bool" where
  "ic_slot_ok until s \<longleftrightarrow>
     (case ic_slot s of
        None \<Rightarrow> ic_count s = 0
      | Some (p, e) \<Rightarrow> ce_Value e = FormatInt (int (ic_count s)) \<and> until \<le> ce_ExpiresAt e)"

definition ic_results :: "ic_state \<Rightarrow> bool" where
  "ic_results s \<longleftrightarrow> (\<forall>r. (\<exists>i. ic_returned s i r) \<longleftrightarrow> 1 \<le> r \<and> r \<le> int (ic_count s)) \<and>
     (\<forall>i j r. ic_returned s i r \<longrightarrow> ic_returned s j r \<longrightarrow> i = j)"

lemma ic_clocks_step: "ic_step ttl s s' \<Longrightarrow> ic_clocks t0 s \<Longrightarrow> ic_clocks t0 s'"
  by (induction rule: ic_step.induct) (fastforce simp: ic_clocks_def nth_list_update)+

lemma ic_ptrs_pc:
  assumes "ic_ptrs s" "i < length (ic_pcs s)" "\<And>t p e. pc = IC_CAS t p e \<Longrightarrow> ic_slot s = Some (p, e)"
  shows "ic_ptrs (s\<lparr>ic_pcs := (ic_pcs s)[i := pc]\<rparr>)"
  using assms unfolding ic_ptrs_def by (auto simp: nth_list_update)

lemma ic_ptrs_put:
  assumes "ic_ptrs s" "i < length (ic_pcs s)"
  shows "ic_ptrs (s\<lparr>ic_slot := Some (ic_fresh s, e), ic_fresh := Suc (ic_fresh s),
                    ic_pcs := (ic_pcs s)[i := IC_Done r]\<rparr>)"
  using assms unfolding ic_ptrs_def by (force simp: nth_list_update)

lemma ic_ptrs_step: "ic_step ttl s s' \<Longrightarrow> ic_ptrs s \<Longrightarrow> ic_ptrs s'"
proof (induction rule: ic_step.induct)
  case (ic_tick s)
  then show ?case by (simp add: ic_ptrs_def)
qed (auto intro!: ic_ptrs_pc ic_ptrs_put)

lemma ic_clock_mono: "ic_reach ttl s s' \<Longrightarrow> ic_clock s \<le> ic_clock s'"
  by (induction rule: rtranclp_induct) (auto elim!: ic_step.cases)

lemma filter_update_count:
  "i < length xs \<Longrightarrow> \<not> P (xs ! i) \<Longrightarrow>
     length (filter P (xs[i := y])) = length (filter P xs) + (if P y then 1 else 0)"
  by (induction xs arbitrary: i) (auto simp: less_Suc_eq_0_disj)

lemma ic_count_le: "ic_count s \<le> length (ic_pcs s)"
  by (simp add: ic_count_def)

lemma ic_count_update:
  assumes "i < length (ic_pcs s)" "\<forall>r. ic_pcs s ! i \<noteq> IC_Done r" "ic_pcs s' = (ic_pcs s)[i := pc]"
  shows "ic_count s' = ic_count s + (case pc of IC_Done _ \<Rightarrow> 1 | _ \<Rightarrow> 0)"
  using assms by (subst ic_count_def)
    (auto simp: filter_update_count ic_count_def split: ic_pc.splits)

lemma ic_returned_update:
  assumes "i < length (ic_pcs s)" "\<forall>r. ic_pcs s ! i \<noteq> IC_Done r" "ic_pcs s' = (ic_pcs s)[i := pc]"
  shows "ic_returned s' j r \<longleftrightarrow> ic_returned s j r \<or> (j = i \<and> pc = IC_Done r)"
  using assms by (auto simp: ic_returned_def nth_list_update)

lemma ic_results_return:
  assumes "ic_results s" "i < length (ic_pcs s)" "\<forall>r. ic_pcs s ! i \<noteq> IC_Done r"
    and "ic_pcs s' = (ic_pcs s)[i := IC_Done (int (ic_count s) + 1)]"
  shows "ic_results s'"
proof -
  have c: "ic_count s' = ic_count s + 1" using ic_count_update[OF assms(2-4)] by simp
  have r: "ic_returned s' j r \<longleftrightarrow> ic_returned s j r \<or> (j = i \<and> r = int (ic_count s) + 1)" for j r
    using ic_returned_update[OF assms(2-4)] by auto
  have 1: "\<And>r. (\<exists>i. ic_returned s i r) \<longleftrightarrow> 1 \<le> r \<and> r \<le> int (ic_count s)"
    using assms(1) by (simp add: ic_results_def)
  have "\<not> ic_returned s j (int (ic_count s) + 1)" for j using 1[of "int (ic_count s) + 1"] by auto
  moreover have "(\<exists>j. ic_returned s' j q) \<longleftrightarrow> 1 \<le> q \<and> q \<le> int (ic_count s')" for q
    using 1[of q] unfolding r c by auto
  ultimately show ?thesis using assms(1) unfolding ic_results_def r by blast
qed

lemma ic_results_other:
  assumes "ic_results s" "i < length (ic_pcs s)" "\<forall>r. ic_pcs s ! i \<noteq> IC_Done r"
    and "ic_pcs s' = (ic_pcs s)[i := pc]" "\<forall>r. pc \<noteq> IC_Done r"
  shows "ic_results s' \<and> ic_count s' = ic_count s"
proof -
  have "ic_count s' = ic_count s" using ic_count_update[OF assms(2-4)] assms(5)
    by (cases pc) auto
  moreover have "ic_returned s' j r \<longleftrightarrow> ic_returned s j r" for j r
    using ic_returned_update[OF assms(2-4)] assms(5) by auto
  ultimately show ?thesis using assms(1) by (simp add: ic_results_def)
qed

lemma ic_inv_pc:
  assumes "ic_slot_ok until s" "ic_results s" "i < length (ic_pcs s)" "\<forall>r. ic_pcs s ! i \<noteq> IC_Done r"
    and "\<forall>r. pc \<noteq> IC_Done r"
  shows "ic_slot_ok until (s\<lparr>ic_pcs := (ic_pcs s)[i := pc]\<rparr>) \<and>
    ic_results (s\<lparr>ic_pcs := (ic_pcs s)[i := pc]\<rparr>)"
  using ic_results_other[OF assms(2-4) _ assms(5), of "s\<lparr>ic_pcs := (ic_pcs s)[i := pc]\<rparr>"] assms(1)
  by (auto simp: ic_slot_ok_def split: option.splits)

text \<open>What a successful swap or store returns and leaves behind.\<close>

lemma ic_next:
  assumes "ic_slot_ok until s" "ic_slot s = Some (p, e)" "now \<le> until" "int (ic_count s) < 2 ^ 63 - 1"
  shows "add64 (increment_current now e) 1 = int (ic_count s) + 1"
proof -
  from assms have e: "ce_Value e = FormatInt (int (ic_count s))" "now \<le> ce_ExpiresAt e"
    by (auto simp: ic_slot_ok_def)
  then have "increment_current now e = int (ic_count s)"
    using assms(4) by (simp add: increment_current_def ParseInt_FormatInt)
  then show ?thesis using assms(4) by (simp add: add64_id in64_def)
qed

lemma ic_inv_step:
  assumes st: "ic_step ttl s s'" and inv: "ic_slot_ok (t0 + ttl) s" "ic_results s"
    and "ic_clocks t0 s" "ic_ptrs s" "ic_clock s \<le> t0 + ttl"
    and range: "0 \<le> t0" "0 \<le> ttl" "t0 + 2 * ttl < 2 ^ 63" "int (length (ic_pcs s)) < 2 ^ 63 - 1"
  shows "ic_slot_ok (t0 + ttl) s' \<and> ic_results s'"
proof -
  have small: "int (ic_count s) < 2 ^ 63 - 1" using ic_count_le[of s] range(4) by linarith
  have time: "t0 \<le> now \<and> now \<le> t0 + ttl"
    if "i < length (ic_pcs s)" "ic_times (ic_pcs s ! i) = Some now" for i now
    using that assms(4,6) unfolding ic_clocks_def by force
  have fresh: "t0 + ttl \<le> ce_ExpiresAt (cache_entry now x ttl)" if "t0 \<le> now" "now \<le> t0 + ttl" for now x
    using that range by (simp add: cache_entry_def add64_id in64_def)
  from st show ?thesis
  proof cases
    case ic_tick
    then have "ic_count s' = ic_count s" "\<And>i r. ic_returned s' i r = ic_returned s i r"
      "ic_slot s' = ic_slot s"
      by (simp_all add: ic_count_def ic_returned_def)
    then show ?thesis using inv by (auto simp: ic_slot_ok_def ic_results_def split: option.splits)
  next
    case (ic_stored i now)
    have zero: "ic_count s = 0" using inv(1) ic_stored by (simp add: ic_slot_ok_def)
    then have "ic_count s' = 1" using ic_count_update[of i s s' "IC_Done 1"] ic_stored by simp
    with ic_stored time[of i now] fresh[of now] zero ic_results_return[OF inv(2), of i s'] show ?thesis
      by (auto simp: ic_slot_ok_def cache_entry_def FormatInt_1)
  next
    case (ic_swapped i now p e e' nxt)
    have e: "e' = e" using assms(5) ic_swapped by (force simp: ic_ptrs_def)
    have n: "nxt = int (ic_count s) + 1"
      using ic_next[OF inv(1) ic_swapped(4)] time[of i now] small ic_swapped e by simp
    have "ic_count s' = ic_count s + 1" using ic_count_update[of i s s' "IC_Done nxt"] ic_swapped by simp
    with ic_swapped time[of i now] fresh[of now] n ic_results_return[OF inv(2), of i s'] show ?thesis
      by (auto simp: ic_slot_ok_def cache_entry_def add.commute)
  qed (simp_all only: ic_inv_pc[OF inv] ic_pc.distinct simp_thms)
qed

lemma ic_invariant:
  assumes "ic_reach ttl s0 s" "ic_init s0" "ic_clock s0 = t0" "ic_clock s \<le> t0 + ttl"
    and range: "0 \<le> t0" "0 \<le> ttl" "t0 + 2 * ttl < 2 ^ 63" "int (length (ic_pcs s0)) < 2 ^ 63 - 1"
  shows "ic_slot_ok (t0 + ttl) s \<and> ic_results s \<and> ic_clocks t0 s \<and> ic_ptrs s \<and>
    length (ic_pcs s) = length (ic_pcs s0)"
  using assms(1,4)
proof (induction rule: rtranclp_induct)
  case base
  have loop: "\<And>i. i < length (ic_pcs s0) \<Longrightarrow> ic_pcs s0 ! i = IC_Loop"
    and slot: "ic_slot s0 = None"
    using assms(2) by (auto simp: ic_init_def)
  have "ic_count s0 = 0" using assms(2) by (auto simp: ic_init_def ic_count_def filter_empty_conv)
  then show ?case using loop slot assms(3)
    by (auto simp: ic_slot_ok_def ic_results_def ic_clocks_def ic_ptrs_def ic_returned_def)
next
  case (step s s')
  have "ic_clock s \<le> ic_clock s'" using ic_clock_mono[of ttl s s'] step(2) by blast
  then have ih: "ic_slot_ok (t0 + ttl) s" "ic_results s" "ic_clocks t0 s" "ic_ptrs s"
    "length (ic_pcs s) = length (ic_pcs s0)" and c: "ic_clock s \<le> t0 + ttl"
    using step by auto
  have "length (ic_pcs s') = length (ic_pcs s)" using step(2) by (auto elim: ic_step.cases)
  with ih c step(2) range show ?case
    using ic_inv_step[OF step(2) ih(1-4) c range(1-3)] ic_clocks_step ic_ptrs_step by auto
qed


definition ic_run_start :: ic_state where
  "ic_run_start = \<lparr>ic_slot = None, ic_fresh = 0, ic_clock = 100, ic_pcs = [IC_Loop, IC_Loop]\<rparr>"

definition ic_run_end :: ic_state where
  "ic_run_end = \<lparr>ic_slot = Some (0, cache_entry 100 ''1'' 60), ic_fresh = 1, ic_clock = 100,
                 ic_pcs = [IC_Loop, IC_Done 1]\<rparr>"

text \<open>Two increments race to create the counter; the first to read loses and starts over.\<close>

lemma ic_run: "ic_reach 60 ic_run_start ic_run_end"
proof -
  let ?s = "\<lambda>slot n pcs. \<lparr>ic_slot = slot, ic_fresh = n, ic_clock = 100, ic_pcs = pcs\<rparr>"
  let ?e = "Some (0, cache_entry 100 ''1'' 60)"
  let ?st = "ic_step 60"
  have 1: "?st (?s None 0 [IC_Loop, IC_Loop]) (?s None 0 [IC_Read 100, IC_Loop])"
    using ic_now[of 0 "?s None 0 [IC_Loop, IC_Loop]"] by simp
  have 2: "?st (?s None 0 [IC_Read 100, IC_Loop]) (?s None 0 [IC_Store 100, IC_Loop])"
    using ic_absent[of 0 "?s None 0 [IC_Read 100, IC_Loop]"] by simp
  have 3: "?st (?s None 0 [IC_Store 100, IC_Loop]) (?s None 0 [IC_Store 100, IC_Read 100])"
    using ic_now[of 1 "?s None 0 [IC_Store 100, IC_Loop]"] by simp
  have 4: "?st (?s None 0 [IC_Store 100, IC_Read 100]) (?s None 0 [IC_Store 100, IC_Store 100])"
    using ic_absent[of 1 "?s None 0 [IC_Store 100, IC_Read 100]"] by simp
  have 5: "?st (?s None 0 [IC_Store 100, IC_Store 100]) (?s ?e 1 [IC_Store 100, IC_Done 1])"
    using ic_stored[of 1 "?s None 0 [IC_Store 100, IC_Store 100]"] by simp
  have 6: "?st (?s ?e 1 [IC_Store 100, IC_Done 1]) (?s ?e 1 [IC_Loop, IC_Done 1])"
    using ic_store_lost[of 0 "?s ?e 1 [IC_Store 100, IC_Done 1]"] by simp
  from 1 2 3 4 5 6 show ?thesis
    unfolding ic_run_start_def ic_run_end_def
    by (meson converse_rtranclp_into_rtranclp rtranclp.rtrancl_refl)
qed


end
