(* ===== verification/Constants.thy ===== *)
theory Constants
  imports Prelude
begin

text \<open>
  The string constants of \<open>internal/constants\<close> the modelled components use. They are
  definitions, unfolded through \<open>const_defs\<close> only where two of them are compared.
\<close>

named_theorems const_defs \<open>definitions of the string constants\<close>

definition TokenTypeRefreshToken :: string where
  [const_defs]: "TokenTypeRefreshToken = ''refresh_token''"

definition TokenTypeAccessToken :: string where
  [const_defs]: "TokenTypeAccessToken = ''access_token''"

definition TokenTypeIdentityToken :: string where
  [const_defs]: "TokenTypeIdentityToken = ''id_token''"

definition TokenTypeSessionToken :: string where
  [const_defs]: "TokenTypeSessionToken = ''session_token''"

definition GrantTypeAuthorizationCode :: string where
  [const_defs]: "GrantTypeAuthorizationCode = ''authorization_code''"

definition GrantTypeRefreshToken :: string where
  [const_defs]: "GrantTypeRefreshToken = ''refresh_token''"

definition GrantTypeClientCredentials :: string where
  [const_defs]: "GrantTypeClientCredentials = ''client_credentials''"

definition GrantTypeTokenExchange :: string where
  [const_defs]: "GrantTypeTokenExchange = ''urn:ietf:params:oauth:grant-type:token-exchange''"

definition TokenTypeURNAccessToken :: string where
  [const_defs]: "TokenTypeURNAccessToken = ''urn:ietf:params:oauth:token-type:access_token''"

definition TokenTypeURNJWT :: string where
  [const_defs]: "TokenTypeURNJWT = ''urn:ietf:params:oauth:token-type:jwt''"

definition ClientKindInteractive :: string where
  [const_defs]: "ClientKindInteractive = ''interactive''"

definition ClientKindServiceAccount :: string where
  [const_defs]: "ClientKindServiceAccount = ''service_account''"

definition TokenEndpointAuthMethodClientSecretBasic :: string where
  [const_defs]: "TokenEndpointAuthMethodClientSecretBasic = ''client_secret_basic''"

definition TokenEndpointAuthMethodNone :: string where
  [const_defs]: "TokenEndpointAuthMethodNone = ''none''"

definition ClientAssertionTypeJWTBearer :: string where
  [const_defs]: "ClientAssertionTypeJWTBearer = ''urn:ietf:params:oauth:client-assertion-type:jwt-bearer''"

definition ClientAssertionTypeJWTSPIFFE :: string where
  [const_defs]: "ClientAssertionTypeJWTSPIFFE = ''urn:ietf:params:oauth:client-assertion-type:jwt-spiffe''"

definition KeySourceOIDCDiscovery :: string where
  [const_defs]: "KeySourceOIDCDiscovery = ''oidc_discovery''"

definition KeySourceStaticJWKSURL :: string where
  [const_defs]: "KeySourceStaticJWKSURL = ''static_jwks_url''"

definition IssuerTypeSPIFFEJWT :: string where
  [const_defs]: "IssuerTypeSPIFFEJWT = ''spiffe_jwt''"

definition TrustKindClientAssertion :: string where
  [const_defs]: "TrustKindClientAssertion = ''client_assertion_trust''"

definition AuthRecipeMethodServiceAccount :: string where
  [const_defs]: "AuthRecipeMethodServiceAccount = ''service_account''"

lemma token_types_distinct [simp]:
  "TokenTypeRefreshToken \<noteq> TokenTypeAccessToken" "TokenTypeAccessToken \<noteq> TokenTypeRefreshToken"
  "TokenTypeRefreshToken \<noteq> TokenTypeSessionToken" "TokenTypeSessionToken \<noteq> TokenTypeRefreshToken"
  "TokenTypeAccessToken \<noteq> TokenTypeSessionToken" "TokenTypeSessionToken \<noteq> TokenTypeAccessToken"
  by (simp_all add: const_defs)

text \<open>
  The sub-key \<open>type_nonce\<close> of a session entry determines both of its halves: the token types
  end at different lengths and never continue one another past the underscore.
\<close>

lemma token_key_inject [simp]:
  "TokenTypeRefreshToken @ ''_'' @ a = TokenTypeRefreshToken @ ''_'' @ b \<longleftrightarrow> a = b"
  "TokenTypeAccessToken @ ''_'' @ a = TokenTypeAccessToken @ ''_'' @ b \<longleftrightarrow> a = b"
  "TokenTypeSessionToken @ ''_'' @ a = TokenTypeSessionToken @ ''_'' @ b \<longleftrightarrow> a = b"
  by simp_all

lemma token_key_disjoint [simp]:
  "TokenTypeRefreshToken @ ''_'' @ a \<noteq> TokenTypeAccessToken @ ''_'' @ b"
  "TokenTypeAccessToken @ ''_'' @ a \<noteq> TokenTypeRefreshToken @ ''_'' @ b"
  "TokenTypeRefreshToken @ ''_'' @ a \<noteq> TokenTypeSessionToken @ ''_'' @ b"
  "TokenTypeSessionToken @ ''_'' @ a \<noteq> TokenTypeRefreshToken @ ''_'' @ b"
  "TokenTypeAccessToken @ ''_'' @ a \<noteq> TokenTypeSessionToken @ ''_'' @ b"
  "TokenTypeSessionToken @ ''_'' @ a \<noteq> TokenTypeAccessToken @ ''_'' @ b"
  by (simp_all add: const_defs)

end
