(* ===== verification/Platform.thy ===== *)
theory Platform
  imports Go_Strings Constants
begin

text \<open>
  What the token layer is built on: claim values as Go sees them (\<open>map[string]interface{}\<close>), the
  persisted records, and one record of parameters for the packages whose code is not part of
  the repository (JWT library, ciphers and digests, bcrypt, the JavaScript engine, JSON and URL
  codecs). Nothing is assumed about the parameters here; a theorem that relies on documented
  behaviour of one of them names it as a hypothesis.
\<close>

section \<open>Claims\<close>

text \<open>
  A value of type \<open>interface{}\<close>. JSON decoding yields \<open>CFloat\<close> (numbers, which the model keeps
  integral), \<open>CList\<close> and \<open>CMap\<close>; claims built in Go also hold \<open>int64\<close> and \<open>[]string\<close> (where
  \<open>None\<close> is the nil slice).
\<close>

datatype claim =
    CNull
  | CBool bool
  | CFloat int
  | CInt int
  | CStr string
  | CStrs "string list option"
  | CList "claim list"
  | CMap "(string \<times> claim) list"

type_synonym claims = "(string \<times> claim) list"

text \<open>\<open>claims[k]\<close>: a missing key is the nil interface.\<close>

definition claim_of :: "claims \<Rightarrow> string \<Rightarrow> claim" where
  "claim_of m k = (case map_of m k of Some c \<Rightarrow> c | None \<Rightarrow> CNull)"

text \<open>\<open>s, ok := c.(string)\<close>, the \<open>ok\<close> and the value.\<close>

fun as_string :: "claim \<Rightarrow> string option" where
  "as_string (CStr s) = Some s"
| "as_string _ = None"

definition str_of :: "claims \<Rightarrow> string \<Rightarrow> string" where
  "str_of m k = (case as_string (claim_of m k) of Some s \<Rightarrow> s | None \<Rightarrow> [])"

fun as_float :: "claim \<Rightarrow> int option" where
  "as_float (CFloat i) = Some i"
| "as_float _ = None"

fun as_list :: "claim \<Rightarrow> claim list option" where
  "as_list (CList l) = Some l"
| "as_list _ = None"

fun as_map :: "claim \<Rightarrow> claims option" where
  "as_map (CMap m) = Some m"
| "as_map _ = None"

definition set_claim :: "string \<Rightarrow> claim \<Rightarrow> claims \<Rightarrow> claims" where
  "set_claim k v m = AList.update k v m"

lemma claim_of_set [simp]: "claim_of (set_claim k v m) q = (if q = k then v else claim_of m q)"
  by (simp add: claim_of_def set_claim_def AList.update_conv')

lemma as_string_Some [simp]: "as_string c = Some s \<longleftrightarrow> c = CStr s"
  by (cases c) auto

lemma as_list_Some [simp]: "as_list c = Some l \<longleftrightarrow> c = CList l"
  by (cases c) auto

lemma as_map_Some [simp]: "as_map c = Some m \<longleftrightarrow> c = CMap m"
  by (cases c) auto

lemma as_float_Some [simp]: "as_float c = Some i \<longleftrightarrow> c = CFloat i"
  by (cases c) auto

lemma str_of_nonempty: "str_of m k \<noteq> [] \<Longrightarrow> claim_of m k = CStr (str_of m k)"
  by (auto simp: str_of_def split: option.splits)

lemma str_of_CStr: "claim_of m k = CStr s \<Longrightarrow> str_of m k = s"
  by (simp add: str_of_def)

lemma str_of_set [simp]: "str_of (set_claim k (CStr v) m) q = (if q = k then v else str_of m q)"
  by (simp add: str_of_def)

text \<open>What encoding a claim to JSON and decoding it into \<open>interface{}\<close> makes of it.\<close>

fun json_norm :: "claim \<Rightarrow> claim" where
  "json_norm (CInt i) = CFloat i"
| "json_norm (CStrs None) = CNull"
| "json_norm (CStrs (Some l)) = CList (map CStr l)"
| "json_norm (CList l) = CList (map json_norm l)"
| "json_norm (CMap m) = CMap (map (\<lambda>(k, v). (k, json_norm v)) m)"
| "json_norm c = c"

definition norm_claims :: "claims \<Rightarrow> claims" where
  "norm_claims m = map (\<lambda>(k, v). (k, json_norm v)) m"

lemma claim_of_norm: "claim_of (norm_claims m) k = json_norm (claim_of m k)"
  by (induction m) (auto simp: norm_claims_def claim_of_def)

section \<open>Records kept outside the process\<close>

record SessionData =
  sd_Subject :: string
  sd_Roles :: "string list option"
  sd_Scope :: "string list option"
  sd_Nonce :: string
  sd_IssuedAt :: int
  sd_AuthTime :: int
  sd_ExpiresAt :: int
  sd_LoginMethod :: string

definition EffectiveAuthTime :: "SessionData \<Rightarrow> int" where
  "EffectiveAuthTime sd = (if sd_AuthTime sd \<noteq> 0 then sd_AuthTime sd else sd_IssuedAt sd)"

record refreshFamilyRecord =
  rf_LiveNonce :: string
  rf_PrevNonce :: string
  rf_RotatedAt :: int

text \<open>The parts of \<open>net/url.URL\<close> the code reads.\<close>

record URL =
  url_Scheme :: string
  url_Host :: string
  url_User :: "string option"
  url_Path :: string
  url_RawQuery :: string
  url_Fragment :: string

definition IsAbs :: "URL \<Rightarrow> bool" where
  "IsAbs u \<longleftrightarrow> url_Scheme u \<noteq> []"

section \<open>Parameters\<close>

text \<open>
  \<open>lib_parse now alg key token\<close> is \<open>jwt.ParseWithClaims\<close> with a key function that insists on the
  algorithm \<open>alg\<close>: the claims it filled in and the error, if any. \<open>lib_sign alg typ claims key\<close>
  is \<open>SignedString\<close>; a key text that does not parse is an error of it.
\<close>

record libs =
  lib_sign :: "string \<Rightarrow> string \<Rightarrow> claims \<Rightarrow> string \<Rightarrow> string out"
  lib_parse :: "instant \<Rightarrow> string \<Rightarrow> string \<Rightarrow> string \<Rightarrow> claims \<times> string option"
  lib_sha256 :: "string \<Rightarrow> string"
  lib_sha384 :: "string \<Rightarrow> string"
  lib_sha512 :: "string \<Rightarrow> string"
  lib_hkdf :: "string \<Rightarrow> string \<Rightarrow> nat \<Rightarrow> string out"
  lib_seal :: "string \<Rightarrow> string \<Rightarrow> string \<Rightarrow> string"
  lib_open :: "string \<Rightarrow> string \<Rightarrow> string \<Rightarrow> string out"
  lib_bcrypt :: "string \<Rightarrow> string \<Rightarrow> bool"
  lib_script :: "string \<Rightarrow> claims \<Rightarrow> claims \<Rightarrow> claims out"
  lib_url :: "string \<Rightarrow> URL option"
  lib_session_enc :: "SessionData \<Rightarrow> string"
  lib_session_dec :: "string \<Rightarrow> SessionData out"
  lib_family_enc :: "refreshFamilyRecord \<Rightarrow> string out"
  lib_family_dec :: "string \<Rightarrow> refreshFamilyRecord out"
  lib_app_data :: "string \<Rightarrow> claims"

end
