(* ===== verification/Schemas.thy ===== *)
theory Schemas
  imports Platform
begin

text \<open>
  \<open>internal/storage/schemas\<close>: the user and client records with the methods the token layer calls,
  and the read operations of \<open>storage.Provider\<close> as a record of functions. The storage backends
  are drivers over external databases, so a lookup is a parameter.
\<close>

section \<open>Users\<close>

record User =
  u_ID :: string
  u_Email :: "string option"
  u_EmailVerifiedAt :: "int option"
  u_SignupMethods :: string
  u_GivenName :: "string option"
  u_FamilyName :: "string option"
  u_MiddleName :: "string option"
  u_Nickname :: "string option"
  u_Gender :: "string option"
  u_Birthdate :: "string option"
  u_PhoneNumber :: "string option"
  u_PhoneNumberVerifiedAt :: "int option"
  u_Picture :: "string option"
  u_Roles :: string
  u_RevokedTimestamp :: "int option"
  u_IsMultiFactorAuthEnabled :: "bool option"
  u_HasSkippedMFASetupAt :: "int option"
  u_MFALockedAt :: "int option"
  u_UpdatedAt :: int
  u_CreatedAt :: int
  u_AppData :: "string option"
  u_IsActive :: bool

definition StringValue :: "string option \<Rightarrow> string" where
  "StringValue r = (case r of Some s \<Rightarrow> s | None \<Rightarrow> [])"

definition opt_field :: "string \<Rightarrow> ('a \<Rightarrow> claim) \<Rightarrow> 'a option \<Rightarrow> claims" where
  "opt_field k f v = (case v of Some x \<Rightarrow> [(k, f x)] | None \<Rightarrow> [])"

text \<open>
  \<open>AsAPIUser\<close> followed by \<open>json.Marshal\<close> and \<open>json.Unmarshal\<close> into a map, as the token layer
  uses it: the fields with \<open>omitempty\<close> are left out when they are nil or empty.
\<close>

definition AsAPIUser :: "libs \<Rightarrow> User \<Rightarrow> claims" where
  "AsAPIUser L user =
     [(''id'', CStr (u_ID user))]
     @ opt_field ''email'' CStr (u_Email user)
     @ [(''email_verified'', CBool (u_EmailVerifiedAt user \<noteq> None)),
        (''signup_methods'', CStr (u_SignupMethods user))]
     @ opt_field ''given_name'' CStr (u_GivenName user)
     @ opt_field ''family_name'' CStr (u_FamilyName user)
     @ opt_field ''middle_name'' CStr (u_MiddleName user)
     @ opt_field ''nickname'' CStr (u_Nickname user)
     @ opt_field ''preferred_username'' CStr (u_Email user)
     @ opt_field ''gender'' CStr (u_Gender user)
     @ opt_field ''birthdate'' CStr (u_Birthdate user)
     @ opt_field ''phone_number'' CStr (u_PhoneNumber user)
     @ [(''phone_number_verified'', CBool (u_PhoneNumberVerifiedAt user \<noteq> None))]
     @ opt_field ''picture'' CStr (u_Picture user)
     @ [(''roles'', CList (map CStr (Split (u_Roles user) '','')))]
     @ [(''created_at'', CFloat (u_CreatedAt user)), (''updated_at'', CFloat (u_UpdatedAt user))]
     @ opt_field ''revoked_timestamp'' CFloat (u_RevokedTimestamp user)
     @ opt_field ''is_multi_factor_auth_enabled'' CBool (u_IsMultiFactorAuthEnabled user)
     @ opt_field ''has_skipped_mfa_setup_at'' CFloat (u_HasSkippedMFASetupAt user)
     @ opt_field ''mfa_locked_at'' CFloat (u_MFALockedAt user)
     @ [(''enrolled_mfa_methods'', CNull)]
     @ (let m = lib_app_data L (StringValue (u_AppData user))
        in if m = [] then [] else [(''app_data'', CMap m)])"

definition api_user_keys :: "string list" where
  "api_user_keys =
     [''id'', ''email'', ''email_verified'', ''signup_methods'', ''given_name'', ''family_name'',
      ''middle_name'', ''nickname'', ''preferred_username'', ''gender'', ''birthdate'', ''phone_number'',
      ''phone_number_verified'', ''picture'', ''roles'', ''created_at'', ''updated_at'',
      ''revoked_timestamp'', ''is_multi_factor_auth_enabled'', ''has_skipped_mfa_setup_at'',
      ''mfa_locked_at'', ''enrolled_mfa_methods'', ''app_data'']"

lemma fst_opt_field: "k \<in> S \<Longrightarrow> fst ` set (opt_field k f v) \<subseteq> S"
  by (auto simp: opt_field_def split: option.splits)

lemma AsAPIUser_keys: "fst ` set (AsAPIUser L user) \<subseteq> set api_user_keys"
  unfolding AsAPIUser_def Let_def set_append image_Un Un_subset_iff
  by (intro conjI fst_opt_field) (simp_all add: api_user_keys_def)

section \<open>Clients\<close>

record Client =
  cl_ID :: string
  cl_ClientID :: string
  cl_Kind :: string
  cl_Name :: string
  cl_Description :: "string option"
  cl_ClientSecret :: string
  cl_AllowedScopes :: string
  cl_RedirectURIs :: string
  cl_GrantTypes :: string
  cl_TokenEndpointAuthMethod :: string
  cl_IsActive :: bool
  cl_OrgID :: "string option"
  cl_CreatedAt :: int
  cl_UpdatedAt :: int

text \<open>The comma-separated fields, trimmed and without empty segments.\<close>

definition parsed_segments :: "string \<Rightarrow> string list" where
  "parsed_segments s = filter (\<lambda>x. x \<noteq> []) (map TrimSpace (Split s '',''))"

definition ParsedAllowedScopes :: "Client \<Rightarrow> string list" where
  "ParsedAllowedScopes c = parsed_segments (cl_AllowedScopes c)"

definition ParsedRedirectURIs :: "Client \<Rightarrow> string list" where
  "ParsedRedirectURIs c = parsed_segments (cl_RedirectURIs c)"

lemma parsed_segments_nonempty: "x \<in> set (parsed_segments s) \<Longrightarrow> x \<noteq> []"
  by (simp add: parsed_segments_def)

section \<open>Trusted issuers\<close>

text \<open>The fields of \<open>TrustedIssuer\<close> the client assertion resolver reads.\<close>

record TrustedIssuer =
  ti_ID :: string
  ti_Kind :: string
  ti_OrgID :: string
  ti_ClientID :: string
  ti_IssuerURL :: string
  ti_KeySourceType :: string
  ti_JWKSUrl :: "string option"
  ti_ExpectedAud :: string
  ti_SubjectClaim :: string
  ti_AllowedSubjects :: string
  ti_IssuerType :: string
  ti_IsActive :: bool
  ti_EnableTokenReview :: bool
  ti_KubernetesAPIServerURL :: "string option"

definition EffectiveKind :: "TrustedIssuer \<Rightarrow> string" where
  "EffectiveKind t = (if TrimSpace (ti_Kind t) = [] then TrustKindClientAssertion else ti_Kind t)"

definition ParsedAllowedSubjects :: "TrustedIssuer \<Rightarrow> string list" where
  "ParsedAllowedSubjects t = parsed_segments (ti_AllowedSubjects t)"

section \<open>Storage lookups\<close>

text \<open>A Go call \<open>(v, err)\<close>: a row, the nil pointer without an error, an error that
  \<open>storage.IsNotFound\<close> recognises, any other error.\<close>

datatype 'a lookup = Found 'a | NilRow | NotFound | LookupError string

record storage =
  s_GetUserByID :: "string \<Rightarrow> User lookup"
  s_GetClientByID :: "string \<Rightarrow> Client lookup"
  s_GetClientByClientID :: "string \<Rightarrow> Client lookup"
  s_GetTrustedIssuerByIssuerURL :: "string \<Rightarrow> TrustedIssuer lookup"

end
