(* ===== verification/Jwt.thy ===== *)
theory Jwt
  imports Schemas
begin

text \<open>
  \<open>internal/token/jwt.go\<close>: signing with the configured key, verification with the primary and
  then the optional secondary key, and the checks of the registered claims. \<open>C\<close> is the
  configuration, \<open>L\<close> the library parameters, \<open>now\<close> the clock.
\<close>

record config =
  c_ClientID :: string
  c_ClientSecret :: string
  c_JWTType :: string
  c_JWTSecret :: string
  c_JWTPrivateKey :: string
  c_JWTPublicKey :: string
  c_JWTSecondaryType :: string
  c_JWTSecondarySecret :: string
  c_JWTSecondaryPublicKey :: string
  c_JWTRoleClaim :: string
  c_CustomAccessTokenScript :: string
  c_RefreshTokenExpiresIn :: int
  c_OAuth21Strict :: bool
  c_AdminSecret :: string
  c_DisableAdminHeaderAuth :: bool

section \<open>Signing and parsing\<close>

text \<open>
  The families the switch statements distinguish. The library knows further methods, which end
  in the same error as unknown names.
\<close>

datatype sig_family = HS | RS | ES

definition GetSigningMethod :: "string \<Rightarrow> sig_family option" where
  "GetSigningMethod alg =
     (if alg \<in> {''HS256'', ''HS384'', ''HS512''} then Some HS
      else if alg \<in> {''RS256'', ''RS384'', ''RS512''} then Some RS
      else if alg \<in> {''ES256'', ''ES384'', ''ES512''} then Some ES
      else None)"

definition signJWTToken :: "config \<Rightarrow> libs \<Rightarrow> claims \<Rightarrow> string \<Rightarrow> string out" where
  "signJWTToken C L jwtclaims typ =
     (let t = (if typ = [] then ''JWT'' else typ) in
      case GetSigningMethod (c_JWTType C) of
        None \<Rightarrow> Err ''unsupported signing method''
      | Some HS \<Rightarrow> lib_sign L (c_JWTType C) t jwtclaims (c_JWTSecret C)
      | Some RS \<Rightarrow> lib_sign L (c_JWTType C) t jwtclaims (c_JWTPrivateKey C)
      | Some ES \<Rightarrow> lib_sign L (c_JWTType C) t jwtclaims (c_JWTPrivateKey C))"

definition SignJWTToken :: "config \<Rightarrow> libs \<Rightarrow> claims \<Rightarrow> string out" where
  "SignJWTToken C L jwtclaims = signJWTToken C L jwtclaims []"

definition parseJWTWithKey ::
    "libs \<Rightarrow> instant \<Rightarrow> string \<Rightarrow> string \<Rightarrow> string \<Rightarrow> string \<Rightarrow> claims \<times> string option" where
  "parseJWTWithKey L now token algo secret publicKey =
     (case GetSigningMethod algo of
        None \<Rightarrow> ([], Some ''unsupported signing method'')
      | Some HS \<Rightarrow> lib_parse L now algo secret token
      | Some RS \<Rightarrow> lib_parse L now algo publicKey token
      | Some ES \<Rightarrow> lib_parse L now algo publicKey token)"

definition verify_with_keys :: "config \<Rightarrow> libs \<Rightarrow> instant \<Rightarrow> string \<Rightarrow> claims \<times> string option" where
  "verify_with_keys C L now token =
     (case parseJWTWithKey L now token (c_JWTType C) (c_JWTSecret C) (c_JWTPublicKey C) of
        (claims, None) \<Rightarrow> (claims, None)
      | (claims, Some err) \<Rightarrow>
          if c_JWTSecondaryType C \<noteq> [] then
            (case parseJWTWithKey L now token (c_JWTSecondaryType C) (c_JWTSecondarySecret C)
                    (c_JWTSecondaryPublicKey C) of
               (claims', None) \<Rightarrow> (claims', None)
             | (_, Some _) \<Rightarrow> (claims, Some err))
          else (claims, Some err))"

text \<open>The claims and the error, as in Go, since a caller may look at both.\<close>

definition ParseJWTToken :: "config \<Rightarrow> libs \<Rightarrow> instant \<Rightarrow> string \<Rightarrow> claims \<times> string option" where
  "ParseJWTToken C L now token =
     (case verify_with_keys C L now token of
        (claims, Some err) \<Rightarrow> (claims, Some err)
      | (claims, None) \<Rightarrow>
          (case map_of claims ''exp'' of
             None \<Rightarrow> (claims, Some ''missing exp claim'')
           | Some expVal \<Rightarrow>
               (case as_float expVal of
                  None \<Rightarrow> (claims, Some ''invalid exp claim'')
                | Some expFloat \<Rightarrow>
                    (case map_of claims ''iat'' of
                       None \<Rightarrow> (claims, Some ''missing iat claim'')
                     | Some iatVal \<Rightarrow>
                         (case as_float iatVal of
                            None \<Rightarrow> (claims, Some ''invalid iat claim'')
                          | Some iatFloat \<Rightarrow>
                              (set_claim ''iat'' (CInt iatFloat) (set_claim ''exp'' (CInt expFloat) claims),
                               None))))))"

section \<open>Checking claims\<close>

record AuthTokenConfig =
  atc_LoginMethod :: string
  atc_Nonce :: string
  atc_OIDCNonce :: string
  atc_Code :: string
  atc_AtHash :: string
  atc_CodeHash :: string
  atc_User :: "User option"
  atc_HostName :: string
  atc_Roles :: "string list option"
  atc_Scope :: "string list option"
  atc_ServiceAccountID :: string
  atc_AuthTime :: int
  atc_ClientID :: string
  atc_Resource :: string
  atc_RefreshTokenFamilyID :: string

definition no_config :: AuthTokenConfig where
  "no_config = \<lparr>atc_LoginMethod = [], atc_Nonce = [], atc_OIDCNonce = [], atc_Code = [], atc_AtHash = [],
     atc_CodeHash = [], atc_User = None, atc_HostName = [], atc_Roles = None, atc_Scope = None,
     atc_ServiceAccountID = [], atc_AuthTime = 0, atc_ClientID = [], atc_Resource = [],
     atc_RefreshTokenFamilyID = []\<rparr>"

definition audience :: "config \<Rightarrow> AuthTokenConfig \<Rightarrow> string" where
  "audience C cfg = (if atc_ClientID cfg \<noteq> [] then atc_ClientID cfg else c_ClientID C)"

definition accessTokenAudience :: "config \<Rightarrow> AuthTokenConfig \<Rightarrow> string" where
  "accessTokenAudience C cfg = (if atc_Resource cfg \<noteq> [] then atc_Resource cfg else audience C cfg)"

text \<open>
  The error of a check, if any. The callers pass a user record with only its id set, so the
  comparison of the subject with the user's email compares it with the empty string.
\<close>

definition ValidateJWTClaims ::
    "config \<Rightarrow> claims \<Rightarrow> AuthTokenConfig \<Rightarrow> string \<Rightarrow> string option \<Rightarrow> string option" where
  "ValidateJWTClaims C claims cfg userID email =
     (if claim_of claims ''aud'' \<noteq> CStr (audience C cfg) then Some ''invalid audience''
      else if claim_of claims ''nonce'' \<noteq> CStr (atc_Nonce cfg) then Some ''invalid nonce''
      else if claim_of claims ''iss'' \<noteq> CStr (atc_HostName cfg) then Some ''invalid issuer''
      else if claim_of claims ''sub'' \<noteq> CStr userID \<and>
              claim_of claims ''sub'' \<noteq> CStr (StringValue email) then Some ''invalid subject''
      else None)"

definition ValidateJWTTokenWithoutNonce ::
    "config \<Rightarrow> claims \<Rightarrow> AuthTokenConfig \<Rightarrow> string \<Rightarrow> string option" where
  "ValidateJWTTokenWithoutNonce C claims cfg userID =
     (if claim_of claims ''aud'' \<noteq> CStr (audience C cfg) then Some ''invalid audience''
      else if claim_of claims ''iss'' \<noteq> CStr (atc_HostName cfg) then Some ''invalid issuer''
      else if claim_of claims ''sub'' \<noteq> CStr userID then Some ''invalid subject''
      else None)"

section \<open>Lemmas\<close>

text \<open>A successful parse changes the representation of \<open>exp\<close> and \<open>iat\<close> and nothing else.\<close>

lemma ParseJWTToken_ok:
  assumes "ParseJWTToken C L now token = (m, None)"
  obtains claims e i where "verify_with_keys C L now token = (claims, None)"
    "claim_of claims ''exp'' = CFloat e" "claim_of claims ''iat'' = CFloat i"
    "m = set_claim ''iat'' (CInt i) (set_claim ''exp'' (CInt e) claims)"
  using assms by (auto simp: ParseJWTToken_def claim_of_def split: prod.splits option.splits)

lemma ParseJWTToken_claim:
  assumes "ParseJWTToken C L now token = (m, None)" "verify_with_keys C L now token = (claims, None)"
    and "k \<noteq> ''exp''" "k \<noteq> ''iat''"
  shows "claim_of m k = claim_of claims k"
  using assms by (elim ParseJWTToken_ok) simp

lemma ParseJWTToken_verified:
  assumes "verify_with_keys C L now token = (claims, None)"
    and "claim_of claims ''exp'' = CFloat e" "claim_of claims ''iat'' = CFloat i"
  shows "ParseJWTToken C L now token =
    (set_claim ''iat'' (CInt i) (set_claim ''exp'' (CInt e) claims), None)"
  using assms by (auto simp: ParseJWTToken_def claim_of_def split: option.splits)

text \<open>A token is accepted only if one of the two configured keys verifies it.\<close>

lemma verify_with_keys_sound:
  assumes "verify_with_keys C L now token = (claims, None)"
  shows "parseJWTWithKey L now token (c_JWTType C) (c_JWTSecret C) (c_JWTPublicKey C) = (claims, None) \<or>
    c_JWTSecondaryType C \<noteq> [] \<and>
    parseJWTWithKey L now token (c_JWTSecondaryType C) (c_JWTSecondarySecret C)
      (c_JWTSecondaryPublicKey C) = (claims, None)"
  using assms by (auto simp: verify_with_keys_def split: prod.splits option.splits if_splits)

lemma ValidateJWTClaims_None:
  "ValidateJWTClaims C m cfg userID None = None \<longleftrightarrow>
     claim_of m ''aud'' = CStr (audience C cfg) \<and> claim_of m ''nonce'' = CStr (atc_Nonce cfg) \<and>
     claim_of m ''iss'' = CStr (atc_HostName cfg) \<and> (claim_of m ''sub'' = CStr userID \<or> claim_of m ''sub'' = CStr [])"
  by (auto simp: ValidateJWTClaims_def StringValue_def)

lemma ValidateJWTTokenWithoutNonce_None:
  "ValidateJWTTokenWithoutNonce C m cfg userID = None \<longleftrightarrow>
     claim_of m ''aud'' = CStr (audience C cfg) \<and> claim_of m ''iss'' = CStr (atc_HostName cfg) \<and>
     claim_of m ''sub'' = CStr userID"
  by (auto simp: ValidateJWTTokenWithoutNonce_def)

end
