(* ===== verification/Crypto.thy ===== *)
theory Crypto
  imports Platform
begin

text \<open>
  \<open>internal/crypto\<close>: the AES-256-GCM envelope of session cookies (\<open>aes.go\<close>) and the digests
  under which bearer values are stored (\<open>session_value.go\<close>). The cipher, the key derivation and
  the digest are parameters; the encodings around them are computed.
\<close>

section \<open>Hexadecimal and base64 text\<close>

definition hex_char :: "nat \<Rightarrow> char" where
  "hex_char n = ''0123456789abcdef'' ! n"

definition HexEncode :: "string \<Rightarrow> string" where
  "HexEncode s = concat (map (\<lambda>c. let n = (of_char c :: nat) in [hex_char (n div 16), hex_char (n mod 16)]) s)"

definition b64_val :: "char \<Rightarrow> nat option" where
  "b64_val c =
     map_of (zip ''ABCDEFGHIJKLMNOPQRSTUVWXYZabcdefghijklmnopqrstuvwxyz0123456789-_'' [0..<64]) c"

fun b64_vals :: "string \<Rightarrow> nat list option" where
  "b64_vals [] = Some []"
| "b64_vals (c # cs) =
     (case (b64_val c, b64_vals cs) of (Some n, Some ns) \<Rightarrow> Some (n # ns) | _ \<Rightarrow> None)"

fun b64_bytes :: "nat list \<Rightarrow> string option" where
  "b64_bytes [] = Some []"
| "b64_bytes [a] = None"
| "b64_bytes [a, b] = Some [char_of (a * 4 + b div 16)]"
| "b64_bytes [a, b, c] = Some [char_of (a * 4 + b div 16), char_of ((b mod 16) * 16 + c div 4)]"
| "b64_bytes (a # b # c # d # r) =
     map_option (\<lambda>t. char_of (a * 4 + b div 16) # char_of ((b mod 16) * 16 + c div 4)
                      # char_of ((c mod 4) * 64 + d) # t) (b64_bytes r)"

text \<open>\<open>base64.RawURLEncoding.DecodeString\<close>: line breaks are skipped, trailing bits not checked.\<close>

definition b64_decode :: "string \<Rightarrow> string option" where
  "b64_decode s =
     Option.bind (b64_vals (filter (\<lambda>c. c \<noteq> CHR 0x0A \<and> c \<noteq> CHR 0x0D) s)) b64_bytes"

lemma b64_val_char: "n < 64 \<Longrightarrow> b64_val (b64_char n) = Some n"
proof -
  have "\<forall>n \<in> set [0..<64]. b64_val (b64_char n) = Some n" by code_simp
  then show "n < 64 \<Longrightarrow> ?thesis" by simp
qed

lemma b64_char_no_break: "n < 64 \<Longrightarrow> b64_char n \<noteq> CHR 0x0A \<and> b64_char n \<noteq> CHR 0x0D"
proof -
  have "\<forall>n \<in> set [0..<64]. b64_char n \<noteq> CHR 0x0A \<and> b64_char n \<noteq> CHR 0x0D" by code_simp
  then show "n < 64 \<Longrightarrow> ?thesis" by simp
qed

lemma mod4_16: "(x :: nat) mod 4 * 16 + y < 64" if "y < 16"
  using that mod_less_divisor[of 4 x] by linarith

lemma mod16_4: "(x :: nat) mod 16 * 4 + y < 64" if "y < 4"
  using that mod_less_divisor[of 16 x] by linarith

lemma byte_1: "(x :: nat) div 4 * 4 + (x mod 4 * 16 + y) div 16 = x" if "y < 16"
  using that by simp

lemma byte_2: "(x mod 4 * 16 + y div 16) mod 16 * 16 + (y mod 16 * 4 + z) div 4 = (y :: nat)"
  if "y < 256" "z < 4"
  using that by (simp add: less_mult_imp_div_less)

lemma byte_3: "(y mod 16 * 4 + z div 64) mod 4 * 64 + z mod 64 = (z :: nat)" if "z < 256"
  using that by (simp add: less_mult_imp_div_less)

theorem b64_decode_encode: "b64_decode (b64_rawurl s) = Some s"
proof (induction s rule: b64_rawurl.induct)
  case (2 a)
  note of_char_div[of a]
  moreover have "(of_char a :: nat) mod 4 * 16 < 64" using mod4_16[of 0 "of_char a"] by simp
  ultimately show ?case using byte_1[of 0 "of_char a"]
    by (simp add: b64_decode_def Let_def b64_char_no_break b64_val_char)
next
  case (3 a b)
  note of_char_div[of a] of_char_div[of b]
  moreover have "(of_char b :: nat) mod 16 * 4 < 64" using mod16_4[of 0 "of_char b"] by simp
  ultimately show ?case
    using byte_1[of "of_char b div 16" "of_char a"] byte_2[of "of_char b" 0 "of_char a"]
      mod4_16[of "of_char b div 16" "of_char a"] nat_of_char_less_256[of b]
    by (simp add: b64_decode_def Let_def b64_char_no_break b64_val_char)
next
  case (4 a b c cs)
  note of_char_div[of a] of_char_div[of b] of_char_div[of c]
  moreover have "(of_char c :: nat) mod 64 < 64" by simp
  ultimately show ?case
    using byte_1[of "of_char b div 16" "of_char a"] byte_2[of "of_char b" "of_char c div 64" "of_char a"]
      byte_3[of "of_char c" "of_char b"] mod4_16[of "of_char b div 16" "of_char a"]
      mod16_4[of "of_char c div 64" "of_char b"] nat_of_char_less_256[of b] nat_of_char_less_256[of c] 4
    by (simp add: b64_decode_def Let_def b64_char_no_break b64_val_char bind_eq_Some_conv) force
qed (simp add: b64_decode_def)

section \<open>The AES envelope\<close>

definition hkdfInfo :: string where
  "hkdfInfo = ''authorizer-aes-key''"

definition deriveAESKey :: "libs \<Rightarrow> string \<Rightarrow> string out" where
  "deriveAESKey L ikm = lib_hkdf L ikm hkdfInfo 32"

text \<open>
  \<open>gcm.NonceSize()\<close> is 12; \<open>aes.NewCipher\<close> and \<open>cipher.NewGCM\<close> accept every 32-byte key. The
  random nonce is an input.
\<close>

definition gcmNonceSize :: nat where
  "gcmNonceSize = 12"

definition EncryptAES :: "libs \<Rightarrow> string \<Rightarrow> string \<Rightarrow> string \<Rightarrow> string out" where
  "EncryptAES L nonce key text =
     (case deriveAESKey L key of
        Ok k \<Rightarrow> Ok (b64_rawurl (nonce @ lib_seal L k nonce text))
      | Err e \<Rightarrow> Err e
      | Panic \<Rightarrow> Panic)"

definition DecryptAES :: "libs \<Rightarrow> string \<Rightarrow> string \<Rightarrow> string out" where
  "DecryptAES L key encryptedText =
     (case deriveAESKey L key of
        Ok k \<Rightarrow>
          (case b64_decode encryptedText of
             None \<Rightarrow> Err ''illegal base64 data''
           | Some data \<Rightarrow>
               if length data < gcmNonceSize then Err ''ciphertext too short''
               else lib_open L k (take gcmNonceSize data) (drop gcmNonceSize data))
      | Err e \<Rightarrow> Err e
      | Panic \<Rightarrow> Panic)"

lemma DecryptAES_EncryptAES:
  assumes "EncryptAES L nonce key text = Ok c" and "length nonce = gcmNonceSize"
    and open_seal: "\<And>k. lib_open L k nonce (lib_seal L k nonce text) = Ok text"
  shows "DecryptAES L key c = Ok text"
  using assms by (auto simp: EncryptAES_def DecryptAES_def b64_decode_encode split: out.splits)

section \<open>Stored session values\<close>

definition sessionValueDigestPrefix :: string where
  "sessionValueDigestPrefix = ''sha256:''"

definition HashSessionValue :: "libs \<Rightarrow> string \<Rightarrow> string" where
  "HashSessionValue L v = (if v = [] then [] else sessionValueDigestPrefix @ HexEncode (lib_sha256 L v))"

definition VerifySessionValue :: "libs \<Rightarrow> string \<Rightarrow> string \<Rightarrow> bool" where
  "VerifySessionValue L presented stored =
     (if presented = [] \<or> stored = [] then False
      else if HasPrefix stored sessionValueDigestPrefix then HashSessionValue L presented = stored
      else presented = stored)"

lemma HashSessionValue_nonempty [simp]: "HashSessionValue L v = [] \<longleftrightarrow> v = []"
  by (simp add: HashSessionValue_def sessionValueDigestPrefix_def)

lemma HasPrefix_Hash: "v \<noteq> [] \<Longrightarrow> HasPrefix (HashSessionValue L v) sessionValueDigestPrefix"
  by (simp add: HashSessionValue_def HasPrefix_def)

text \<open>The value that was hashed verifies against its digest.\<close>

lemma Verify_Hash [simp]: "v \<noteq> [] \<Longrightarrow> VerifySessionValue L v (HashSessionValue L v)"
  by (simp add: VerifySessionValue_def HasPrefix_Hash)

lemma Verify_Hash_iff:
  assumes "v \<noteq> []" and "p \<noteq> []"
  shows "VerifySessionValue L p (HashSessionValue L v) \<longleftrightarrow> HashSessionValue L p = HashSessionValue L v"
  using assms by (simp add: VerifySessionValue_def HasPrefix_Hash)

end
