(* ===== verification/Byte_Code.thy ===== *)
theory Byte_Code
  imports Crypto
begin

text \<open>
  Code equations of the byte-level functions (base64, hexadecimal digits, escaping, trimming) on binary
  integers, equivalent to their definitions on natural numbers. They only matter for evaluating witnesses.
\<close>

definition b64_char_int :: "int \<Rightarrow> char" where
  "b64_char_int n =
     (if n < 26 then char_of (n + 65) else if n < 52 then char_of (n + 71) else if n < 62 then char_of (n - 4)
      else if n = 62 then CHR ''-'' else CHR ''_'')"

definition b64_val_int :: "char \<Rightarrow> int option" where
  "b64_val_int c =
     (let n = (of_char c :: int) in
      if 65 \<le> n \<and> n \<le> 90 then Some (n - 65) else if 97 \<le> n \<and> n \<le> 122 then Some (n - 71)
      else if 48 \<le> n \<and> n \<le> 57 then Some (n + 4) else if n = 45 then Some 62 else if n = 95 then Some 63 else None)"

fun b64_vals_int :: "string \<Rightarrow> int list option" where
  "b64_vals_int [] = Some []"
| "b64_vals_int (c # cs) =
     (case (b64_val_int c, b64_vals_int cs) of (Some n, Some ns) \<Rightarrow> Some (n # ns) | _ \<Rightarrow> None)"

fun b64_bytes_int :: "int list \<Rightarrow> string option" where
  "b64_bytes_int [] = Some []"
| "b64_bytes_int [a] = None"
| "b64_bytes_int [a, b] = Some [char_of (a * 4 + b div 16)]"
| "b64_bytes_int [a, b, c] = Some [char_of (a * 4 + b div 16), char_of ((b mod 16) * 16 + c div 4)]"
| "b64_bytes_int (a # b # c # d # r) =
     map_option (\<lambda>t. char_of (a * 4 + b div 16) # char_of ((b mod 16) * 16 + c div 4)
                      # char_of ((c mod 4) * 64 + d) # t) (b64_bytes_int r)"

lemma char_of_int: "char_of (int n) = char_of n"
  by (simp add: char_of_def bit_of_nat_iff_bit)

lemma int_of_char: "int (of_char c) = of_char c"
  by (simp add: of_char_def horner_sum_eq_sum)

lemma b64_char_int: "n < 64 \<Longrightarrow> b64_char n = b64_char_int (int n) \<and> b64_val_int (b64_char n) = Some (int n)"
proof -
  have "list_all (\<lambda>n. b64_char n = b64_char_int (int n) \<and> b64_val_int (b64_char n) = Some (int n)) [0..<64]" by code_simp
  then have "\<forall>n\<in>{0..<64}. b64_char n = b64_char_int (int n) \<and> b64_val_int (b64_char n) = Some (int n)"
    unfolding list_all_iff set_upt .
  then show "n < 64 \<Longrightarrow> ?thesis" by (meson atLeastLessThan_iff le0)
qed

lemma b64_val_intD: "b64_val_int c = Some i \<Longrightarrow> 0 \<le> i \<and> i < 64 \<and> c = b64_char_int i"
proof -
  have c: "c = char_of (of_char c :: int)" "(of_char c :: int) = 45 \<Longrightarrow> c = CHR ''-''" "(of_char c :: int) = 95 \<Longrightarrow> c = CHR ''_''"
    by (simp_all add: of_char_eq_iff[symmetric, where ?'a = int])
  show "b64_val_int c = Some i \<Longrightarrow> ?thesis"
    using c by (auto simp: b64_val_int_def b64_char_int_def Let_def split: if_splits)
qed

lemma b64_val_Some: "b64_val c = Some n \<Longrightarrow> n < 64 \<and> c = b64_char n"
  by (auto simp: b64_val_def b64_char_def in_set_zip dest!: map_of_SomeD)

lemma b64_val_int: "b64_val_int c = map_option int (b64_val c)"
proof (cases "b64_val_int c")
  case None
  then have "b64_val c = None" using b64_val_Some b64_char_int by (cases "b64_val c") fastforce+
  then show ?thesis using None by simp
next
  case (Some i)
  from b64_val_intD[OF this] have i: "0 \<le> i" "i < 64" "c = b64_char_int i" by auto
  then have "nat i < 64" by simp
  then have "b64_char (nat i) = c" using b64_char_int[of "nat i"] i by simp
  then show ?thesis using Some b64_val_char[OF \<open>nat i < 64\<close>] i(1) by simp
qed

lemma b64_vals_int: "b64_vals_int s = map_option (map int) (b64_vals s)"
  by (induction s) (auto simp: b64_val_int split: option.splits)

lemma b64_bytes_int: "b64_bytes_int (map int ns) = b64_bytes ns"
  by (induction ns rule: b64_bytes.induct) (simp_all flip: char_of_int add: of_nat_div of_nat_mod)

lemma b64_decode_code [code]:
  "b64_decode s = Option.bind (b64_vals_int (filter (\<lambda>c. c \<noteq> CHR 0x0A \<and> c \<noteq> CHR 0x0D) s)) b64_bytes_int"
  by (cases "b64_vals (filter (\<lambda>c. c \<noteq> CHR 0x0A \<and> c \<noteq> CHR 0x0D) s)")
    (simp_all add: b64_decode_def b64_vals_int b64_bytes_int)

lemma b64_rawurl_code [code]:
  "b64_rawurl [] = []"
  "b64_rawurl [a] = (let x = (of_char a :: int) in [b64_char_int (x div 4), b64_char_int ((x mod 4) * 16)])"
  "b64_rawurl [a, b] =
     (let x = (of_char a :: int); y = of_char b
      in [b64_char_int (x div 4), b64_char_int ((x mod 4) * 16 + y div 16), b64_char_int ((y mod 16) * 4)])"
  "b64_rawurl (a # b # c # cs) =
     (let x = (of_char a :: int); y = of_char b; z = of_char c
      in b64_char_int (x div 4) # b64_char_int ((x mod 4) * 16 + y div 16)
           # b64_char_int ((y mod 16) * 4 + z div 64) # b64_char_int (z mod 64) # b64_rawurl cs)"
proof -
  have d: "(of_char x :: nat) div 4 < 64" "(of_char x :: nat) mod 64 < 64" for x using of_char_div[of x] by simp_all
  have e: "(of_char x :: nat) mod 4 * 16 < 64" "(of_char x :: nat) mod 16 * 4 < 64" for x
    using mod4_16[of 0 "of_char x"] mod16_4[of 0 "of_char x"] by simp_all
  have f: "(of_char x :: nat) mod 4 * 16 + of_char y div 16 < 64" "(of_char x :: nat) mod 16 * 4 + of_char y div 64 < 64" for x y
    using mod4_16[of "of_char y div 16" "of_char x"] mod16_4[of "of_char y div 64" "of_char x"] of_char_div[of y] by simp_all
  note b = conjunct1[OF b64_char_int[OF d(1)]] conjunct1[OF b64_char_int[OF d(2)]] conjunct1[OF b64_char_int[OF e(1)]]
    conjunct1[OF b64_char_int[OF e(2)]] conjunct1[OF b64_char_int[OF f(1)]] conjunct1[OF b64_char_int[OF f(2)]]
  show "b64_rawurl [] = []"
    "b64_rawurl [a] = (let x = (of_char a :: int) in [b64_char_int (x div 4), b64_char_int ((x mod 4) * 16)])"
    "b64_rawurl [a, b] =
     (let x = (of_char a :: int); y = of_char b
      in [b64_char_int (x div 4), b64_char_int ((x mod 4) * 16 + y div 16), b64_char_int ((y mod 16) * 4)])"
    "b64_rawurl (a # b # c # cs) =
     (let x = (of_char a :: int); y = of_char b; z = of_char c
      in b64_char_int (x div 4) # b64_char_int ((x mod 4) * 16 + y div 16)
           # b64_char_int ((y mod 16) * 4 + z div 64) # b64_char_int (z mod 64) # b64_rawurl cs)"
    by (simp_all add: Let_def b of_nat_div of_nat_mod int_of_char)
qed

section \<open>Characters\<close>

lemma of_char_le: "(of_char c :: nat) \<le> n \<longleftrightarrow> (of_char c :: int) \<le> int n" "m \<le> (of_char c :: nat) \<longleftrightarrow> int m \<le> (of_char c :: int)"
  unfolding int_of_char[symmetric] by simp_all

lemma unreserved_code [code]:
  "unreserved c \<longleftrightarrow>
     (let n = (of_char c :: int) in 97 \<le> n \<and> n \<le> 122 \<or> 65 \<le> n \<and> n \<le> 90 \<or> 48 \<le> n \<and> n \<le> 57 \<or> n = 45 \<or> n = 95 \<or> n = 46 \<or> n = 126)"
proof -
  have "(c = CHR ''-'') = ((of_char c :: int) = of_char (CHR ''-''))" "(c = CHR ''_'') = ((of_char c :: int) = of_char (CHR ''_''))"
    "(c = CHR ''.'') = ((of_char c :: int) = of_char (CHR ''.''))" "(c = CHR ''~'') = ((of_char c :: int) = of_char (CHR ''~''))"
    by (simp_all only: of_char_eq_iff)
  then show ?thesis unfolding unreserved_def Let_def of_char_le by simp
qed

lemma lower_char_code [code]:
  "lower_char c = (let n = (of_char c :: int) in if 65 \<le> n \<and> n \<le> 90 then char_of (n + 32) else c)"
proof -
  have "char_of ((of_char c :: nat) + 32) = (char_of (int (of_char c) + 32) :: char)"
    using char_of_int[of "of_char c + 32"] by simp
  then show ?thesis unfolding lower_char_def Let_def of_char_le by (simp add: int_of_char)
qed

definition hex_char_int :: "int \<Rightarrow> char" where
  "hex_char_int n = (if n < 10 then char_of (n + 48) else char_of (n + 87))"

lemma hex_char_int: "n < 16 \<Longrightarrow> hex_char n = hex_char_int (int n)"
proof -
  have "list_all (\<lambda>n. hex_char n = hex_char_int (int n)) [0..<16]" by code_simp
  then have "\<forall>n\<in>{0..<16}. hex_char n = hex_char_int (int n)" unfolding list_all_iff set_upt .
  then show "n < 16 \<Longrightarrow> ?thesis" by (meson atLeastLessThan_iff le0)
qed

lemma HexEncode_code [code]:
  "HexEncode s = concat (map (\<lambda>c. let n = (of_char c :: int) in [hex_char_int (n div 16), hex_char_int (n mod 16)]) s)"
proof -
  have "hex_char ((of_char c :: nat) div 16) = hex_char_int (of_char c div 16)"
    "hex_char ((of_char c :: nat) mod 16) = hex_char_int (of_char c mod 16)" for c
    using hex_char_int[of "of_char c div 16"] hex_char_int[of "of_char c mod 16"] of_char_div(2)[of c]
    by (simp_all add: of_nat_div of_nat_mod int_of_char)
  then show ?thesis by (simp add: HexEncode_def Let_def)
qed

section \<open>Trimming\<close>

text \<open>Most strings start and end with a printable ASCII character and stay as they are.\<close>

definition printable :: "char \<Rightarrow> bool" where
  "printable c \<longleftrightarrow> (let n = (of_char c :: int) in 33 \<le> n \<and> n \<le> 126)"

lemma trim_lead_printable:
  assumes "encs = space_encodings \<or> encs = map rev space_encodings" "s = c # cs" "printable c"
  shows "trim_lead encs s = s"
proof -
  have "list_all (\<lambda>e. e \<noteq> [] \<and> \<not> printable (hd e)) (space_encodings @ map rev space_encodings)" by code_simp
  then have e: "\<forall>e\<in>set encs. e \<noteq> [] \<and> \<not> printable (hd e)" using assms(1) by (auto simp: list_all_iff)
  have "\<not> prefix e s" if "e \<in> set encs" for e
  proof (cases e)
    case (Cons d ds)
    then show ?thesis using e that assms(2,3) by auto
  qed (use e that in auto)
  then have "filter (\<lambda>e. prefix e s) encs = []" by simp
  then have "lead_space encs s = None" by (simp add: lead_space_def)
  then show ?thesis by (subst trim_lead.simps) simp
qed

lemma TrimSpace_code [code]:
  "TrimSpace s =
     (case s of [] \<Rightarrow> []
      | c # _ \<Rightarrow> if printable c \<and> printable (last s) then s
                 else rev (trim_lead (map rev space_encodings) (rev (trim_lead space_encodings s))))"
proof (cases s)
  case Nil
  have "TrimSpace [] = []" unfolding TrimSpace_def by code_simp
  then show ?thesis by (simp add: Nil)
next
  case (Cons c cs)
  have "TrimSpace s = s" if "printable c" "printable (last s)"
  proof -
    have "rev s = last s # rev (butlast s)" using Cons by (metis append_butlast_last_id list.simps(3) rev.simps(2) rev_rev_ident)
    from trim_lead_printable[OF _ this that(2)] trim_lead_printable[OF _ Cons that(1)]
    show ?thesis by (simp add: TrimSpace_def)
  qed
  then show ?thesis by (simp add: Cons TrimSpace_def)
qed

end
