(* ===== verification/Fixtures.thy ===== *)
theory Fixtures
  imports Jwt Byte_Code
begin

text \<open>
  Concrete values for the library parameters, the configuration, a user and a client. The
  witnesses of the theorems are evaluated on them. The stand-ins keep what callers rely on:
  what \<open>lib_seal\<close> seals \<open>lib_open\<close> opens, what a codec encodes it decodes, and a signed token is
  named after the type and the nonce in it.
\<close>

definition fx_session :: "string \<Rightarrow> SessionData" where
  "fx_session n = \<lparr>sd_Subject = ''u1'', sd_Roles = Some [''user''],
     sd_Scope = Some [''openid'', ''offline_access''], sd_Nonce = n, sd_IssuedAt = 1000,
     sd_AuthTime = 900, sd_ExpiresAt = 90000, sd_LoginMethod = ''basic_auth''\<rparr>"

definition fx_libs :: libs where
  "fx_libs = \<lparr>
     lib_sign = (\<lambda>alg typ c key. Ok (str_of c ''token_type'' @ ''.'' @ str_of c ''nonce'')),
     lib_parse = (\<lambda>now alg key t. ([], Some ''token is malformed'')),
     lib_sha256 = id, lib_sha384 = id, lib_sha512 = id,
     lib_hkdf = (\<lambda>ikm info n. Ok ikm),
     lib_seal = (\<lambda>k n t. t), lib_open = (\<lambda>k n t. Ok t),
     lib_bcrypt = (\<lambda>h p. h = p),
     lib_script = (\<lambda>script user payload. Ok [(''sub'', CStr ''root''), (''tenant'', CStr ''t1'')]),
     lib_url = (\<lambda>s. if HasPrefix s ''https://'' then
                     Some \<lparr>url_Scheme = ''https'', url_Host = drop 8 s, url_User = None, url_Path = [], url_RawQuery = [], url_Fragment = []\<rparr>
                   else Some \<lparr>url_Scheme = [], url_Host = [], url_User = None, url_Path = s, url_RawQuery = [], url_Fragment = []\<rparr>),
     lib_session_enc = sd_Nonce, lib_session_dec = (\<lambda>s. Ok (fx_session s)),
     lib_family_enc = (\<lambda>r. Ok (rf_LiveNonce r @ ''/'' @ rf_PrevNonce r)),
     lib_family_dec = (\<lambda>s. Ok \<lparr>rf_LiveNonce = s, rf_PrevNonce = [], rf_RotatedAt = 0\<rparr>),
     lib_app_data = (\<lambda>s. [])\<rparr>"

definition fx_config :: config where
  "fx_config = \<lparr>c_ClientID = ''app'', c_ClientSecret = ''s3cret'', c_JWTType = ''HS256'',
     c_JWTSecret = ''key'', c_JWTPrivateKey = [], c_JWTPublicKey = [], c_JWTSecondaryType = [],
     c_JWTSecondarySecret = [], c_JWTSecondaryPublicKey = [], c_JWTRoleClaim = ''role'',
     c_CustomAccessTokenScript = ''f'', c_RefreshTokenExpiresIn = 0, c_OAuth21Strict = False,
     c_AdminSecret = ''admin'', c_DisableAdminHeaderAuth = False\<rparr>"

definition fx_user :: User where
  "fx_user = \<lparr>u_ID = ''u1'', u_Email = Some ''a@b.c'', u_EmailVerifiedAt = None,
     u_SignupMethods = ''basic_auth'', u_GivenName = None, u_FamilyName = None, u_MiddleName = None,
     u_Nickname = None, u_Gender = None, u_Birthdate = None, u_PhoneNumber = None,
     u_PhoneNumberVerifiedAt = None, u_Picture = None, u_Roles = ''user'', u_RevokedTimestamp = None,
     u_IsMultiFactorAuthEnabled = None, u_HasSkippedMFASetupAt = None, u_MFALockedAt = None,
     u_UpdatedAt = 1, u_CreatedAt = 1, u_AppData = None, u_IsActive = True\<rparr>"

definition fx_client :: Client where
  "fx_client = \<lparr>cl_ID = ''c1'', cl_ClientID = ''app'', cl_Kind = ''interactive'', cl_Name = ''App'',
     cl_Description = None, cl_ClientSecret = ''hash'', cl_AllowedScopes = ''read,write'',
     cl_RedirectURIs = [], cl_GrantTypes = [], cl_TokenEndpointAuthMethod = ''client_secret_basic'',
     cl_IsActive = True, cl_OrgID = None, cl_CreatedAt = 1, cl_UpdatedAt = 1\<rparr>"

definition fx_storage :: storage where
  "fx_storage = \<lparr>s_GetUserByID = (\<lambda>i. if i = ''u1'' then Found fx_user else NotFound),
     s_GetClientByID = (\<lambda>i. if i = ''c1'' then Found fx_client else NotFound),
     s_GetClientByClientID = (\<lambda>i. if i = ''app'' then Found fx_client else NilRow),
     s_GetTrustedIssuerByIssuerURL = (\<lambda>i. NotFound)\<rparr>"

definition fx_atc :: AuthTokenConfig where
  "fx_atc = no_config\<lparr>atc_User := Some fx_user, atc_HostName := ''https://auth'', atc_Nonce := ''n1'',
     atc_Roles := Some [''user''], atc_Scope := Some [''openid''], atc_LoginMethod := ''basic_auth'',
     atc_ClientID := ''app''\<rparr>"

lemmas fx_defs = fx_libs_def fx_config_def fx_user_def fx_client_def fx_storage_def fx_atc_def
  fx_session_def

end
