(* ===== verification/Auth_Token.thy ===== *)
theory Auth_Token
  imports Jwt Crypto Fixtures
begin

text \<open>
  \<open>internal/token/auth_token.go\<close>, issuance: session cookie, access token, ID token, refresh token
  and the custom claims script. \<open>AuthTokenConfig.ExpireTime\<close> is set nowhere in the program, so
  \<open>ParseDurationInSeconds\<close> always fails on it and the thirty minute default applies; the model
  has no such field. Random values (the GCM nonce, new UUIDs) are inputs.
\<close>

section \<open>Helpers\<close>

definition reservedClaims :: "string list" where
  "reservedClaims =
     [''sub'', ''iss'', ''aud'', ''exp'', ''iat'', ''token_type'', ''roles'', ''allowed_roles'', ''scope'',
      ''nonce'', ''login_method'', ''at_hash'', ''c_hash'', ''auth_time'', ''amr'', ''acr'', ''act'',
      ''client_id'', ''family_id'', ''sid'', ''resource'']"

definition loginMethodToAMR :: "string \<Rightarrow> string list" where
  "loginMethodToAMR m =
     (let x = ToLower m in
      if x \<in> {''basic_auth'', ''mobile_basic_auth''} then [''pwd'']
      else if x \<in> {''magic_link_login'', ''mobile_otp''} then [''otp'']
      else if x \<in> {''google'', ''github'', ''facebook'', ''linkedin'', ''apple'', ''discord'', ''twitter'',
                   ''twitch'', ''roblox'', ''microsoft''} then [''fed'']
      else [])"

definition leftMostHalfHash :: "libs \<Rightarrow> string \<Rightarrow> string \<Rightarrow> string" where
  "leftMostHalfHash L v jwtType =
     (let digest = (if HasSuffix jwtType ''384'' then lib_sha384 L v
                    else if HasSuffix jwtType ''512'' then lib_sha512 L v
                    else lib_sha256 L v)
      in b64_rawurl (take (length digest div 2) digest))"

definition access_expiry :: "instant \<Rightarrow> int" where
  "access_expiry now = Unix (now + 30 * 60 * Second)"

definition auth_time_or_now :: "instant \<Rightarrow> AuthTokenConfig \<Rightarrow> int" where
  "auth_time_or_now now cfg = (if atc_AuthTime cfg = 0 then Unix now else atc_AuthTime cfg)"

text \<open>
  The script sees the user and the claims and may add claims, except the reserved ones. An
  engine panic other than the timeout is raised again.
\<close>

definition merge_extra :: "claims \<Rightarrow> claims \<Rightarrow> claims" where
  "merge_extra extra m =
     fold (\<lambda>(k, v) acc. if k \<in> set reservedClaims then acc else set_claim k v acc) extra m"

definition runCustomAccessTokenScript :: "config \<Rightarrow> libs \<Rightarrow> claims \<Rightarrow> claims \<Rightarrow> claims out" where
  "runCustomAccessTokenScript C L user m =
     (case lib_script L (c_CustomAccessTokenScript C) user (norm_claims m) of
        Ok extra \<Rightarrow> Ok (merge_extra extra m)
      | Err _ \<Rightarrow> Ok m
      | Panic \<Rightarrow> Panic)"

definition with_script :: "config \<Rightarrow> libs \<Rightarrow> User \<Rightarrow> claims \<Rightarrow> claims out" where
  "with_script C L user m =
     (if c_CustomAccessTokenScript C \<noteq> [] then runCustomAccessTokenScript C L (AsAPIUser L user) m
      else Ok m)"

definition sign_with_expiry :: "config \<Rightarrow> libs \<Rightarrow> claims out \<Rightarrow> int \<Rightarrow> (string \<times> int) out" where
  "sign_with_expiry C L m expiresAt =
     (case m of
        Ok c \<Rightarrow> (case SignJWTToken C L c of
                   Ok t \<Rightarrow> Ok (t, expiresAt) | Err e \<Rightarrow> Err e | Panic \<Rightarrow> Panic)
      | Err e \<Rightarrow> Err e
      | Panic \<Rightarrow> Panic)"

section \<open>Session cookie\<close>

definition session_of :: "instant \<Rightarrow> AuthTokenConfig \<Rightarrow> User \<Rightarrow> SessionData" where
  "session_of now cfg user = \<lparr>
     sd_Subject = u_ID user, sd_Roles = atc_Roles cfg, sd_Scope = atc_Scope cfg,
     sd_Nonce = atc_Nonce cfg, sd_IssuedAt = Unix now, sd_AuthTime = auth_time_or_now now cfg,
     sd_ExpiresAt = Unix (now + 24 * 60 * 60 * Second), sd_LoginMethod = atc_LoginMethod cfg\<rparr>"

definition CreateSessionToken ::
    "config \<Rightarrow> libs \<Rightarrow> instant \<Rightarrow> string \<Rightarrow> AuthTokenConfig \<Rightarrow> (SessionData \<times> string \<times> int) out" where
  "CreateSessionToken C L now gcmNonce cfg =
     (case atc_User cfg of
        None \<Rightarrow> Panic
      | Some user \<Rightarrow>
          let sd = session_of now cfg user in
          (case EncryptAES L gcmNonce (c_ClientSecret C) (lib_session_enc L sd) of
             Ok h \<Rightarrow> Ok (sd, h, sd_ExpiresAt sd)
           | Err e \<Rightarrow> Err e
           | Panic \<Rightarrow> Panic))"

section \<open>Access tokens\<close>

definition user_access_claims :: "config \<Rightarrow> instant \<Rightarrow> AuthTokenConfig \<Rightarrow> User \<Rightarrow> claims" where
  "user_access_claims C now cfg user =
     [(''iss'', CStr (atc_HostName cfg)), (''aud'', CStr (accessTokenAudience C cfg)),
      (''nonce'', CStr (atc_Nonce cfg)), (''sub'', CStr (u_ID user)),
      (''exp'', CInt (access_expiry now)), (''iat'', CInt (Unix now)),
      (''token_type'', CStr TokenTypeAccessToken), (''scope'', CStrs (atc_Scope cfg)),
      (''roles'', CStrs (atc_Roles cfg)), (''login_method'', CStr (atc_LoginMethod cfg)),
      (''allowed_roles'', CStrs (Some (Split (u_Roles user) '','')))]"

definition machine_access_claims :: "config \<Rightarrow> instant \<Rightarrow> AuthTokenConfig \<Rightarrow> claims" where
  "machine_access_claims C now cfg =
     [(''iss'', CStr (atc_HostName cfg)), (''aud'', CStr (accessTokenAudience C cfg)),
      (''nonce'', CStr (atc_Nonce cfg)), (''sub'', CStr (atc_ServiceAccountID cfg)),
      (''exp'', CInt (access_expiry now)), (''iat'', CInt (Unix now)),
      (''token_type'', CStr TokenTypeAccessToken), (''scope'', CStrs (atc_Scope cfg)),
      (''login_method'', CStr (atc_LoginMethod cfg))]"

definition createMachineAccessToken ::
    "config \<Rightarrow> libs \<Rightarrow> instant \<Rightarrow> AuthTokenConfig \<Rightarrow> (string \<times> int) out" where
  "createMachineAccessToken C L now cfg =
     sign_with_expiry C L (Ok (machine_access_claims C now cfg)) (access_expiry now)"

definition CreateAccessToken ::
    "config \<Rightarrow> libs \<Rightarrow> instant \<Rightarrow> AuthTokenConfig \<Rightarrow> (string \<times> int) out" where
  "CreateAccessToken C L now cfg =
     (case atc_User cfg of
        None \<Rightarrow>
          if atc_ServiceAccountID cfg \<noteq> [] then createMachineAccessToken C L now cfg else Panic
      | Some user \<Rightarrow>
          sign_with_expiry C L (with_script C L user (user_access_claims C now cfg user))
            (access_expiry now))"

record JWTToken =
  jt_Token :: string
  jt_ExpiresAt :: int

definition CreateMachineAuthToken ::
    "config \<Rightarrow> libs \<Rightarrow> instant \<Rightarrow> AuthTokenConfig \<Rightarrow> JWTToken out" where
  "CreateMachineAuthToken C L now cfg =
     (case CreateAccessToken C L now cfg of
        Ok (t, e) \<Rightarrow> Ok \<lparr>jt_Token = t, jt_ExpiresAt = e\<rparr>
      | Err e \<Rightarrow> Err e
      | Panic \<Rightarrow> Panic)"

section \<open>Refresh tokens\<close>

definition refresh_lifetime :: "config \<Rightarrow> int" where
  "refresh_lifetime C =
     (let s = (if c_RefreshTokenExpiresIn C \<le> 0 then 60 * 60 * 24 * 30 else c_RefreshTokenExpiresIn C)
      in wrap64 (s * Second))"

definition refresh_claims :: "config \<Rightarrow> instant \<Rightarrow> string \<Rightarrow> AuthTokenConfig \<Rightarrow> User \<Rightarrow> claims" where
  "refresh_claims C now newUUID cfg user =
     (let familyID = (if atc_RefreshTokenFamilyID cfg = [] then newUUID else atc_RefreshTokenFamilyID cfg);
          m = [(''iss'', CStr (atc_HostName cfg)), (''aud'', CStr (audience C cfg)),
               (''sub'', CStr (u_ID user)), (''exp'', CInt (Unix (now + refresh_lifetime C))),
               (''iat'', CInt (Unix now)), (''auth_time'', CInt (auth_time_or_now now cfg)),
               (''token_type'', CStr TokenTypeRefreshToken), (''roles'', CStrs (atc_Roles cfg)),
               (''scope'', CStrs (atc_Scope cfg)), (''nonce'', CStr (atc_Nonce cfg)),
               (''login_method'', CStr (atc_LoginMethod cfg)),
               (''allowed_roles'', CStrs (Some (Split (u_Roles user) '',''))),
               (''client_id'', CStr (atc_ClientID cfg)), (''family_id'', CStr familyID)]
      in if atc_Resource cfg \<noteq> [] then set_claim ''resource'' (CStr (atc_Resource cfg)) m else m)"

definition CreateRefreshToken ::
    "config \<Rightarrow> libs \<Rightarrow> instant \<Rightarrow> string \<Rightarrow> AuthTokenConfig \<Rightarrow> (string \<times> int) out" where
  "CreateRefreshToken C L now newUUID cfg =
     (case atc_User cfg of
        None \<Rightarrow> Panic
      | Some user \<Rightarrow>
          sign_with_expiry C L (Ok (refresh_claims C now newUUID cfg user))
            (Unix (now + refresh_lifetime C)))"

section \<open>ID tokens\<close>

definition id_claims :: "config \<Rightarrow> libs \<Rightarrow> instant \<Rightarrow> AuthTokenConfig \<Rightarrow> User \<Rightarrow> claims" where
  "id_claims C L now cfg user =
     (let m1 = set_claim (c_JWTRoleClaim C) (CStrs (atc_Roles cfg))
                 [(''iss'', CStr (atc_HostName cfg)), (''aud'', CStr (audience C cfg)),
                  (''sub'', CStr (u_ID user)), (''exp'', CInt (access_expiry now)),
                  (''iat'', CInt (Unix now)), (''token_type'', CStr TokenTypeIdentityToken),
                  (''allowed_roles'', CStrs (Some (Split (u_Roles user) '',''))),
                  (''login_method'', CStr (atc_LoginMethod cfg))];
          m2 = (if atc_AtHash cfg \<noteq> [] then set_claim ''at_hash'' (CStr (atc_AtHash cfg)) m1 else m1);
          m3 = (if atc_CodeHash cfg \<noteq> [] then set_claim ''c_hash'' (CStr (atc_CodeHash cfg)) m2 else m2);
          idTokenNonce = (if atc_OIDCNonce cfg = [] then atc_Nonce cfg else atc_OIDCNonce cfg);
          m4 = (if idTokenNonce \<noteq> [] then set_claim ''nonce'' (CStr idTokenNonce) m3 else m3);
          m5 = set_claim ''auth_time'' (CInt (auth_time_or_now now cfg)) m4;
          amr = loginMethodToAMR (atc_LoginMethod cfg);
          m6 = (if amr \<noteq> [] then set_claim ''amr'' (CStrs (Some amr)) m5 else m5);
          m7 = set_claim ''acr'' (CStr ''0'') m6
      in fold (\<lambda>(k, v) acc. if k \<noteq> ''roles'' then set_claim k v acc else acc) (AsAPIUser L user) m7)"

definition CreateIDToken ::
    "config \<Rightarrow> libs \<Rightarrow> instant \<Rightarrow> AuthTokenConfig \<Rightarrow> (string \<times> int) out" where
  "CreateIDToken C L now cfg =
     (case atc_User cfg of
        None \<Rightarrow> Panic
      | Some user \<Rightarrow>
          sign_with_expiry C L (with_script C L user (id_claims C L now cfg user)) (access_expiry now))"

section \<open>All of them\<close>

record AuthToken =
  at_FingerPrint :: string
  at_FingerPrintHash :: string
  at_SessionTokenExpiresAt :: int
  at_RefreshToken :: "JWTToken option"
  at_AccessToken :: JWTToken
  at_IDToken :: JWTToken

definition StringSliceContains :: "string list option \<Rightarrow> string \<Rightarrow> bool" where
  "StringSliceContains sl x = (case sl of None \<Rightarrow> False | Some l \<Rightarrow> x \<in> set l)"

text \<open>
  \<open>CreateAuthToken\<close>; the hashes it writes into the configuration are returned by nobody, so
  they only reach \<open>CreateIDToken\<close> and \<open>CreateRefreshToken\<close>.
\<close>

definition with_hashes :: "config \<Rightarrow> libs \<Rightarrow> string \<Rightarrow> AuthTokenConfig \<Rightarrow> AuthTokenConfig" where
  "with_hashes C L accessToken cfg =
     cfg\<lparr>atc_AtHash := leftMostHalfHash L accessToken (c_JWTType C),
         atc_CodeHash := (if atc_Code cfg \<noteq> [] then leftMostHalfHash L (atc_Code cfg) (c_JWTType C) else [])\<rparr>"

definition CreateAuthToken ::
    "config \<Rightarrow> libs \<Rightarrow> instant \<Rightarrow> string \<Rightarrow> string \<Rightarrow> AuthTokenConfig \<Rightarrow> AuthToken out" where
  "CreateAuthToken C L now gcmNonce newUUID cfg =
     (case CreateSessionToken C L now gcmNonce cfg of
        Panic \<Rightarrow> Panic | Err e \<Rightarrow> Err e
      | Ok (_, fingerPrintHash, sessionExpiresAt) \<Rightarrow>
     (case CreateAccessToken C L now cfg of
        Panic \<Rightarrow> Panic | Err e \<Rightarrow> Err e
      | Ok (accessToken, accessExpiresAt) \<Rightarrow>
     (let cfg' = with_hashes C L accessToken cfg in
      case CreateIDToken C L now cfg' of
        Panic \<Rightarrow> Panic | Err e \<Rightarrow> Err e
      | Ok (idToken, idExpiresAt) \<Rightarrow>
     (let res = \<lparr>at_FingerPrint = atc_Nonce cfg, at_FingerPrintHash = fingerPrintHash,
                 at_SessionTokenExpiresAt = sessionExpiresAt, at_RefreshToken = None,
                 at_AccessToken = \<lparr>jt_Token = accessToken, jt_ExpiresAt = accessExpiresAt\<rparr>,
                 at_IDToken = \<lparr>jt_Token = idToken, jt_ExpiresAt = idExpiresAt\<rparr>\<rparr> in
      if StringSliceContains (atc_Scope cfg) ''offline_access'' then
        (case CreateRefreshToken C L now newUUID cfg' of
           Panic \<Rightarrow> Panic | Err e \<Rightarrow> Err e
         | Ok (r, re) \<Rightarrow> Ok (res\<lparr>at_RefreshToken := Some \<lparr>jt_Token = r, jt_ExpiresAt = re\<rparr>\<rparr>))
      else Ok res))))"

section \<open>What ends up in a token\<close>

lemma merge_extra_reserved:
  "k \<in> set reservedClaims \<Longrightarrow> claim_of (merge_extra extra m) k = claim_of m k"
  by (induction extra arbitrary: m) (auto simp: merge_extra_def)

lemma with_script_ok:
  assumes "with_script C L user m = Ok m'"
  shows "m' = m \<or> (\<exists>extra. m' = merge_extra extra m)"
  using assms by (auto simp: with_script_def runCustomAccessTokenScript_def split: if_splits out.splits)

lemma with_script_reserved:
  "with_script C L user m = Ok m' \<Longrightarrow> k \<in> set reservedClaims \<Longrightarrow> claim_of m' k = claim_of m k"
  using with_script_ok merge_extra_reserved by blast

lemma sign_with_expiry_ok:
  "sign_with_expiry C L m e = Ok (t, e') \<longleftrightarrow> (\<exists>c. m = Ok c \<and> SignJWTToken C L c = Ok t \<and> e' = e)"
  by (auto simp: sign_with_expiry_def split: out.splits)

lemma CreateAccessToken_user:
  assumes "CreateAccessToken C L now cfg = Ok (t, e)" and "atc_User cfg = Some user"
  obtains m where "SignJWTToken C L m = Ok t" "e = access_expiry now"
    "\<And>k. k \<in> set reservedClaims \<Longrightarrow> claim_of m k = claim_of (user_access_claims C now cfg user) k"
  using assms with_script_reserved by (fastforce simp: CreateAccessToken_def sign_with_expiry_ok)

lemma CreateAccessToken_machine:
  assumes "atc_User cfg = None" and "atc_ServiceAccountID cfg \<noteq> []"
  shows "CreateAccessToken C L now cfg = Ok (t, e) \<longleftrightarrow>
    SignJWTToken C L (machine_access_claims C now cfg) = Ok t \<and> e = access_expiry now"
  using assms by (auto simp: CreateAccessToken_def createMachineAccessToken_def sign_with_expiry_ok)

text \<open>The user's profile fields never land on a reserved claim other than \<open>roles\<close>.\<close>

lemma api_user_reserved: "k \<in> set api_user_keys \<Longrightarrow> k \<noteq> ''roles'' \<Longrightarrow> k \<notin> set reservedClaims"
  by (auto simp: api_user_keys_def reservedClaims_def)

lemma overlay_other:
  assumes "fst ` set l \<subseteq> set api_user_keys" and "q \<in> set reservedClaims"
  shows "claim_of (fold (\<lambda>(k, v) acc. if k \<noteq> ''roles'' then set_claim k v acc else acc) l m) q = claim_of m q"
  using assms
proof (induction l arbitrary: m)
  case (Cons p l)
  moreover obtain k v where "p = (k, v)" by (cases p)
  ultimately show ?case using api_user_reserved by auto
qed simp

text \<open>
  The security relevant claims of an ID token: they are the ones the code computes, whatever the
  user's profile holds, if the configured name of the roles claim is not one of them.
\<close>

definition id_claim_of :: "config \<Rightarrow> instant \<Rightarrow> AuthTokenConfig \<Rightarrow> User \<Rightarrow> (string \<times> claim) list" where
  "id_claim_of C now cfg user =
     [(''iss'', CStr (atc_HostName cfg)), (''aud'', CStr (audience C cfg)), (''sub'', CStr (u_ID user)),
      (''exp'', CInt (access_expiry now)), (''iat'', CInt (Unix now)),
      (''token_type'', CStr TokenTypeIdentityToken), (''login_method'', CStr (atc_LoginMethod cfg)),
      (''auth_time'', CInt (auth_time_or_now now cfg)), (''acr'', CStr ''0''),
      (''nonce'', if atc_OIDCNonce cfg \<noteq> [] then CStr (atc_OIDCNonce cfg)
                else if atc_Nonce cfg \<noteq> [] then CStr (atc_Nonce cfg) else CNull),
      (''at_hash'', if atc_AtHash cfg \<noteq> [] then CStr (atc_AtHash cfg) else CNull),
      (''c_hash'', if atc_CodeHash cfg \<noteq> [] then CStr (atc_CodeHash cfg) else CNull)]"

lemma claim_of_Cons: "claim_of ((k, v) # m) q = (if q = k then v else claim_of m q)"
  by (simp add: claim_of_def)

lemma claim_of_Nil: "claim_of [] q = CNull"
  by (simp add: claim_of_def)

lemma claim_of_if: "claim_of (if b then m else m') q = (if b then claim_of m q else claim_of m' q)"
  by simp

lemmas claim_eval = claim_of_if claim_of_Cons claim_of_Nil claim_of_set

lemma id_claims_fixed:
  assumes "c_JWTRoleClaim C \<notin> set reservedClaims" and "(k, v) \<in> set (id_claim_of C now cfg user)"
  shows "claim_of (id_claims C L now cfg user) k = v"
proof -
  have res: "k \<in> set reservedClaims"
    using assms(2) by (auto simp: id_claim_of_def reservedClaims_def)
  have ne: "c_JWTRoleClaim C \<noteq> k" using assms(1) res by auto
  show ?thesis
    unfolding id_claims_def Let_def overlay_other[OF AsAPIUser_keys res]
    using assms(2) ne unfolding id_claim_of_def list.set insert_iff prod.inject empty_iff
    by (elim disjE conjE FalseE) (simp_all add: claim_eval)
qed

lemma with_hashes_sel [simp]:
  "atc_User (with_hashes C L t cfg) = atc_User cfg" "atc_HostName (with_hashes C L t cfg) = atc_HostName cfg"
  "atc_Nonce (with_hashes C L t cfg) = atc_Nonce cfg" "atc_ClientID (with_hashes C L t cfg) = atc_ClientID cfg"
  "atc_Roles (with_hashes C L t cfg) = atc_Roles cfg" "atc_Scope (with_hashes C L t cfg) = atc_Scope cfg"
  "atc_LoginMethod (with_hashes C L t cfg) = atc_LoginMethod cfg"
  "atc_AuthTime (with_hashes C L t cfg) = atc_AuthTime cfg"
  "atc_Resource (with_hashes C L t cfg) = atc_Resource cfg"
  "atc_RefreshTokenFamilyID (with_hashes C L t cfg) = atc_RefreshTokenFamilyID cfg"
  "atc_OIDCNonce (with_hashes C L t cfg) = atc_OIDCNonce cfg"
  by (simp_all add: with_hashes_def)

lemma refresh_claims_hashes [simp]: "refresh_claims C now i (with_hashes C L t cfg) user = refresh_claims C now i cfg user"
  by (simp add: refresh_claims_def audience_def auth_time_or_now_def Let_def)

text \<open>The parts of a successful \<open>CreateAuthToken\<close>.\<close>

lemma CreateAuthToken_ok:
  assumes "CreateAuthToken C L now g i cfg = Ok a"
  obtains user h where "atc_User cfg = Some user"
    "EncryptAES L g (c_ClientSecret C) (lib_session_enc L (session_of now cfg user)) = Ok h"
    "at_FingerPrint a = atc_Nonce cfg" "at_FingerPrintHash a = h"
    "at_SessionTokenExpiresAt a = sd_ExpiresAt (session_of now cfg user)"
    "CreateAccessToken C L now cfg = Ok (jt_Token (at_AccessToken a), jt_ExpiresAt (at_AccessToken a))"
    "CreateIDToken C L now (with_hashes C L (jt_Token (at_AccessToken a)) cfg) =
       Ok (jt_Token (at_IDToken a), jt_ExpiresAt (at_IDToken a))"
    "case at_RefreshToken a of
       None \<Rightarrow> \<not> StringSliceContains (atc_Scope cfg) ''offline_access''
     | Some r \<Rightarrow> StringSliceContains (atc_Scope cfg) ''offline_access'' \<and>
         SignJWTToken C L (refresh_claims C now i cfg user) = Ok (jt_Token r) \<and>
         jt_ExpiresAt r = Unix (now + refresh_lifetime C)"
  using assms
  by (auto simp: CreateAuthToken_def CreateSessionToken_def CreateRefreshToken_def sign_with_expiry_ok
      Let_def split: out.splits prod.splits option.splits if_splits)

text \<open>
  C39. The custom claims script cannot forge a security relevant claim: in an access token that
  was issued for a user, every reserved claim has the value the server computed.
\<close>

theorem access_token_reserved_claims:
  assumes "CreateAccessToken C L now cfg = Ok (t, e)" and "atc_User cfg = Some user"
  shows "\<exists>m. SignJWTToken C L m = Ok t \<and>
    (\<forall>k \<in> set reservedClaims. claim_of m k = claim_of (user_access_claims C now cfg user) k)"
  using assms CreateAccessToken_user by metis

theorem access_token_reserved_claims_witness:
  "CreateAccessToken fx_config fx_libs 0 fx_atc = Ok (''access_token.n1'', 1800) \<and>
   (\<exists>m. SignJWTToken fx_config fx_libs m = Ok ''access_token.n1'' \<and> claim_of m ''sub'' = CStr ''u1'')"
proof -
  have t: "CreateAccessToken fx_config fx_libs 0 fx_atc = Ok (''access_token.n1'', 1800)" by code_simp
  have u: "atc_User fx_atc = Some fx_user" by code_simp
  have "claim_of (user_access_claims fx_config 0 fx_atc fx_user) ''sub'' = CStr ''u1'' \<and>
    ''sub'' \<in> set reservedClaims" by code_simp
  with access_token_reserved_claims[OF t u] t show ?thesis by metis
qed

text \<open>
  The claims of an ID token that a relying party checks (issuer, audience, subject, times,
  nonce, hashes) are the computed ones, whatever the script returns and whatever the user's
  profile holds, provided the roles claim is not configured to use one of their names.
\<close>

theorem id_token_fixed_claims:
  assumes "CreateIDToken C L now cfg = Ok (t, e)" and "atc_User cfg = Some user"
    and "c_JWTRoleClaim C \<notin> set reservedClaims"
  shows "\<exists>m. SignJWTToken C L m = Ok t \<and>
    (\<forall>(k, v) \<in> set (id_claim_of C now cfg user). claim_of m k = v)"
proof -
  from assms(1,2) obtain m where m: "SignJWTToken C L m = Ok t"
    "with_script C L user (id_claims C L now cfg user) = Ok m"
    by (auto simp: CreateIDToken_def sign_with_expiry_ok)
  have "claim_of m k = v" if "(k, v) \<in> set (id_claim_of C now cfg user)" for k v
  proof -
    have "k \<in> set reservedClaims" using that by (auto simp: id_claim_of_def reservedClaims_def)
    then show ?thesis
      using with_script_reserved[OF m(2)] id_claims_fixed[OF assms(3) that] by simp
  qed
  with m(1) show ?thesis by blast
qed

theorem id_token_fixed_claims_witness:
  "CreateIDToken fx_config fx_libs 0 fx_atc = Ok (''id_token.n1'', 1800) \<and>
   (\<exists>m. SignJWTToken fx_config fx_libs m = Ok ''id_token.n1'' \<and> claim_of m ''aud'' = CStr ''app'')"
proof -
  have t: "CreateIDToken fx_config fx_libs 0 fx_atc = Ok (''id_token.n1'', 1800)" by code_simp
  have u: "atc_User fx_atc = Some fx_user" by code_simp
  have r: "c_JWTRoleClaim fx_config \<notin> set reservedClaims" by code_simp
  have "(''aud'', CStr ''app'') \<in> set (id_claim_of fx_config 0 fx_atc fx_user)" by code_simp
  with id_token_fixed_claims[OF t u r] t show ?thesis by fast
qed

end
