(* ===== verification/Session_Store.thy ===== *)
theory Session_Store
  imports Go_Strings
begin

text \<open>
  \<open>internal/memory_store/in_memory/stores/session_store.go\<close>: the mutex-protected
  session map with its expiry index. Every operation runs under the store's mutex, so
  it is one atomic step; \<open>now\<close> is the value of \<open>time.Now().Unix()\<close> it reads. The
  list order of the map is the iteration order of the runtime.
\<close>

definition maxCacheSize :: nat where
  "maxCacheSize = 1000"

record SessionEntry =
  se_Value :: string
  se_ExpiresAt :: int

record SessionStore =
  ss_store :: "(string \<times> SessionEntry) list"
  ss_keyIndex :: "(int \<times> string) list"

definition NewSessionStore :: SessionStore where
  "NewSessionStore = \<lparr>ss_store = [], ss_keyIndex = []\<rparr>"

definition session_key :: "string \<Rightarrow> string \<Rightarrow> string" where
  "session_key key subKey = key @ '':'' @ subKey"

text \<open>One sweep of the background cleaner.\<close>

definition SessionStore_clean :: "int \<Rightarrow> SessionStore \<Rightarrow> SessionStore" where
  "SessionStore_clean now s =
     (let expired = filter (\<lambda>p. se_ExpiresAt (snd p) < now) (ss_store s) in
      s\<lparr>ss_store := filter (\<lambda>p. \<not> se_ExpiresAt (snd p) < now) (ss_store s),
        ss_keyIndex := filter (\<lambda>q. \<not> list_ex (\<lambda>p. se_ExpiresAt (snd p) = fst q) expired)
                          (ss_keyIndex s)\<rparr>)"

definition SessionStore_Get :: "int \<Rightarrow> string \<Rightarrow> string \<Rightarrow> SessionStore \<Rightarrow> string \<times> SessionStore" where
  "SessionStore_Get now key subKey s =
     (let k = session_key key subKey in
      case map_of (ss_store s) k of
        Some v \<Rightarrow>
          if now < se_ExpiresAt v then (se_Value v, s)
          else ([], s\<lparr>ss_store := AList.delete k (ss_store s)\<rparr>)
      | None \<Rightarrow> ([], s))"

definition SessionStore_GetAll :: "int \<Rightarrow> string \<Rightarrow> SessionStore \<Rightarrow> string list \<times> SessionStore" where
  "SessionStore_GetAll now key s =
     (map (\<lambda>p. se_Value (snd p))
        (filter (\<lambda>p. HasPrefix (fst p) key \<and> now < se_ExpiresAt (snd p)) (ss_store s)),
      s\<lparr>ss_store := filter (\<lambda>p. HasPrefix (fst p) key \<longrightarrow> now < se_ExpiresAt (snd p))
                        (ss_store s)\<rparr>)"

fun find_owner :: "int \<Rightarrow> string \<Rightarrow> (string \<times> SessionEntry) list \<Rightarrow>
    (string \<times> string) option \<times> (string \<times> SessionEntry) list" where
  "find_owner now suf [] = (None, [])"
| "find_owner now suf ((k, v) # r) =
     (if \<not> HasSuffix k suf then
        (case find_owner now suf r of (x, r') \<Rightarrow> (x, (k, v) # r'))
      else if now < se_ExpiresAt v then (Some (TrimSuffix k suf, se_Value v), (k, v) # r)
      else find_owner now suf r)"

definition SessionStore_FindOwnerBySuffix ::
    "int \<Rightarrow> string \<Rightarrow> SessionStore \<Rightarrow> (string \<times> string) option \<times> SessionStore" where
  "SessionStore_FindOwnerBySuffix now subKey s =
     (case find_owner now ('':'' @ subKey) (ss_store s) of
        (r, st) \<Rightarrow> (r, s\<lparr>ss_store := st\<rparr>))"

text \<open>
  Eviction of the entry with the smallest indexed expiry; \<open>None\<close> is the index-out-of-range
  panic of \<open>sortedKeys[0]\<close> on an empty index.
\<close>

definition evict_oldest :: "SessionStore \<Rightarrow> SessionStore option" where
  "evict_oldest s =
     (case sort (map fst (ss_keyIndex s)) of
        [] \<Rightarrow> None
      | itemToRemove # _ \<Rightarrow>
          Some (s\<lparr>ss_store :=
                    (case map_of (ss_keyIndex s) itemToRemove of
                       Some k \<Rightarrow> AList.delete k (ss_store s)
                     | None \<Rightarrow> ss_store s),
                  ss_keyIndex := AList.delete itemToRemove (ss_keyIndex s)\<rparr>))"

definition put_entry :: "string \<Rightarrow> string \<Rightarrow> int \<Rightarrow> SessionStore \<Rightarrow> SessionStore" where
  "put_entry k value expiration s =
     s\<lparr>ss_store := AList.update k \<lparr>se_Value = value, se_ExpiresAt = expiration\<rparr> (ss_store s),
       ss_keyIndex := AList.update expiration k (ss_keyIndex s)\<rparr>"

definition SessionStore_Set ::
    "string \<Rightarrow> string \<Rightarrow> string \<Rightarrow> int \<Rightarrow> SessionStore \<Rightarrow> unit out \<times> SessionStore" where
  "SessionStore_Set key subKey value expiration s =
     (let k = session_key key subKey in
      if map_of (ss_store s) k = None \<and> length (ss_store s) = maxCacheSize
      then (case evict_oldest s of
              None \<Rightarrow> (Panic, s)
            | Some s' \<Rightarrow> (Ok (), put_entry k value expiration s'))
      else (Ok (), put_entry k value expiration s))"

definition SessionStore_RemoveAll :: "string \<Rightarrow> SessionStore \<Rightarrow> SessionStore" where
  "SessionStore_RemoveAll key s =
     s\<lparr>ss_store := filter (\<lambda>p. \<not> Contains (fst p) key) (ss_store s)\<rparr>"

definition SessionStore_Claim :: "string \<Rightarrow> string \<Rightarrow> SessionStore \<Rightarrow> bool \<times> SessionStore" where
  "SessionStore_Claim key subKey s =
     (let k = session_key key subKey in
      if map_of (ss_store s) k = None then (False, s)
      else (True, s\<lparr>ss_store := AList.delete k (ss_store s)\<rparr>))"

definition SessionStore_Remove :: "string \<Rightarrow> string \<Rightarrow> SessionStore \<Rightarrow> SessionStore" where
  "SessionStore_Remove key subKey s =
     s\<lparr>ss_store := AList.delete (session_key key subKey) (ss_store s)\<rparr>"

definition SessionStore_RemoveByNamespace :: "string \<Rightarrow> SessionStore \<Rightarrow> SessionStore" where
  "SessionStore_RemoveByNamespace namespace s =
     s\<lparr>ss_store := filter (\<lambda>p. \<not> Contains (fst p) (namespace @ '':'')) (ss_store s)\<rparr>"

definition SessionStore_GetAllData :: "SessionStore \<Rightarrow> (string \<times> string) list" where
  "SessionStore_GetAllData s = map (\<lambda>p. (fst p, se_Value (snd p))) (ss_store s)"

section \<open>Invariant and abstract view\<close>

definition ss_inv :: "SessionStore \<Rightarrow> bool" where
  "ss_inv s \<longleftrightarrow> keys_ok (ss_store s) \<and> keys_ok (ss_keyIndex s)"

text \<open>What a reader can see at time \<open>now\<close>: the value of each entry that has not expired.\<close>

definition live :: "int \<Rightarrow> SessionEntry option \<Rightarrow> string option" where
  "live now e = (case e of Some v \<Rightarrow> if now < se_ExpiresAt v then Some (se_Value v) else None
                 | None \<Rightarrow> None)"

definition ss_view :: "int \<Rightarrow> SessionStore \<Rightarrow> string \<Rightarrow> string option" where
  "ss_view now s k = live now (map_of (ss_store s) k)"

lemma live_None [simp]: "live now None = None"
  by (simp add: live_def)

lemmas ss_defs =
  SessionStore_clean_def SessionStore_Get_def SessionStore_GetAll_def
  SessionStore_FindOwnerBySuffix_def SessionStore_Set_def SessionStore_RemoveAll_def
  SessionStore_Claim_def SessionStore_Remove_def SessionStore_RemoveByNamespace_def
  put_entry_def

lemma map_of_filter_live:
  assumes "keys_ok m" and "\<And>k v. (k, v) \<in> set m \<Longrightarrow> now < se_ExpiresAt v \<Longrightarrow> P (k, v)"
  shows "live now (map_of (filter P m) k) = live now (map_of m k)"
  using assms(2) by (auto simp: map_of_filter[OF assms(1)] live_def split: option.splits
      dest: map_of_SomeD)

lemma find_owner_subset: "set (snd (find_owner now suf m)) \<subseteq> set m"
  by (induction now suf m rule: find_owner.induct) (auto split: prod.splits)

lemma find_owner_keys_ok: "keys_ok m \<Longrightarrow> keys_ok (snd (find_owner now suf m))"
proof (induction now suf m rule: find_owner.induct)
  case (2 now suf k v r)
  then show ?case
    using find_owner_subset[of now suf r]
    by (auto simp: keys_ok_def split: prod.splits)
qed simp

lemma find_owner_live:
  assumes "keys_ok m"
  shows "live now (map_of (snd (find_owner now suf m)) q) = live now (map_of m q)"
  using assms
proof (induction now suf m rule: find_owner.induct)
  case (2 now suf k v r)
  from "2.prems" have "keys_ok r" and "map_of r k = None"
    by (auto simp: keys_ok_def map_of_eq_None_iff)
  with 2 show ?case
    by (auto simp: live_def split: prod.splits if_splits option.splits)
qed simp

lemma evict_oldest_inv: "ss_inv s \<Longrightarrow> evict_oldest s = Some s' \<Longrightarrow> ss_inv s'"
  by (auto simp: evict_oldest_def ss_inv_def intro: store_inv split: list.splits option.splits)

lemma put_entry_inv: "ss_inv s \<Longrightarrow> ss_inv (put_entry k v e s)"
  by (simp add: put_entry_def ss_inv_def keys_ok_update)

text \<open>The invariant holds at the start and every operation keeps it.\<close>

lemma ss_inv_New: "ss_inv NewSessionStore"
  by (simp add: NewSessionStore_def ss_inv_def)

lemma ss_inv_ops:
  assumes "ss_inv s"
  shows "ss_inv (SessionStore_clean now s)"
    and "ss_inv (snd (SessionStore_Get now key sub s))"
    and "ss_inv (snd (SessionStore_GetAll now key s))"
    and "ss_inv (snd (SessionStore_FindOwnerBySuffix now sub s))"
    and "ss_inv (snd (SessionStore_Set key sub v e s))"
    and "ss_inv (SessionStore_RemoveAll key s)"
    and "ss_inv (snd (SessionStore_Claim key sub s))"
    and "ss_inv (SessionStore_Remove key sub s)"
    and "ss_inv (SessionStore_RemoveByNamespace key s)"
proof -
  have 1: "keys_ok (ss_store s)" and 2: "keys_ok (ss_keyIndex s)"
    using assms by (simp_all add: ss_inv_def)
  show "ss_inv (SessionStore_clean now s)"
    using 1 2 by (simp add: SessionStore_clean_def ss_inv_def Let_def keys_ok_filter)
  show "ss_inv (snd (SessionStore_Get now key sub s))"
    using 1 2 by (auto simp: SessionStore_Get_def ss_inv_def Let_def keys_ok_delete split: option.splits)
  show "ss_inv (snd (SessionStore_GetAll now key s))"
    using 1 2 by (simp add: SessionStore_GetAll_def ss_inv_def keys_ok_filter)
  show "ss_inv (snd (SessionStore_FindOwnerBySuffix now sub s))"
    using 2 find_owner_keys_ok[OF 1]
    by (simp add: SessionStore_FindOwnerBySuffix_def ss_inv_def case_prod_beta)
  show "ss_inv (snd (SessionStore_Set key sub v e s))"
    using assms by (auto simp: SessionStore_Set_def Let_def put_entry_inv evict_oldest_inv
        split: option.splits)
  show "ss_inv (SessionStore_RemoveAll key s)"
    using 1 2 by (simp add: SessionStore_RemoveAll_def ss_inv_def keys_ok_filter)
  show "ss_inv (snd (SessionStore_Claim key sub s))"
    using 1 2 by (simp add: SessionStore_Claim_def ss_inv_def Let_def keys_ok_delete)
  show "ss_inv (SessionStore_Remove key sub s)"
    using 1 2 by (simp add: SessionStore_Remove_def ss_inv_def keys_ok_delete)
  show "ss_inv (SessionStore_RemoveByNamespace key s)"
    using 1 2 by (simp add: SessionStore_RemoveByNamespace_def ss_inv_def keys_ok_filter)
qed

section \<open>The operations over the view\<close>

lemma ss_view_Get [store_simps]:
  "fst (SessionStore_Get now key sub s) = (case ss_view now s (session_key key sub) of None \<Rightarrow> [] | Some v \<Rightarrow> v)"
  "ss_view now (snd (SessionStore_Get now key sub s)) k = ss_view now s k"
  by (auto simp: SessionStore_Get_def ss_view_def live_def Let_def AList.delete_conv'
      split: option.splits)

lemma ss_view_GetAll:
  assumes "ss_inv s"
  shows "ss_view now (snd (SessionStore_GetAll now key s)) k = ss_view now s k"
  using assms by (auto simp: SessionStore_GetAll_def ss_view_def ss_inv_def intro!: map_of_filter_live)

lemma ss_view_FindOwner:
  assumes "ss_inv s"
  shows "ss_view now (snd (SessionStore_FindOwnerBySuffix now sub s)) k = ss_view now s k"
  using assms find_owner_live[of "ss_store s" now "'':'' @ sub" k]
  by (simp add: SessionStore_FindOwnerBySuffix_def ss_view_def ss_inv_def case_prod_beta)

lemma ss_view_clean:
  assumes "ss_inv s" and "t \<le> now"
  shows "ss_view now (SessionStore_clean t s) k = ss_view now s k"
  using assms by (auto simp: SessionStore_clean_def ss_view_def ss_inv_def Let_def intro!: map_of_filter_live)

lemma ss_view_Remove [store_simps]:
  "ss_view now (SessionStore_Remove key sub s) k =
     (if k = session_key key sub then None else ss_view now s k)"
  by (simp add: SessionStore_Remove_def ss_view_def AList.delete_conv')

lemma ss_view_Claim [store_simps]:
  "ss_view now (snd (SessionStore_Claim key sub s)) k =
     (if k = session_key key sub then None else ss_view now s k)"
  by (auto simp: SessionStore_Claim_def ss_view_def Let_def AList.delete_conv')

lemma ss_view_RemoveAll [store_simps]:
  "ss_view now (SessionStore_RemoveAll key s) k = (if Contains k key then None else ss_view now s k)"
  by (simp add: SessionStore_RemoveAll_def ss_view_def
      map_of_filter_key[where P = "\<lambda>x. \<not> Contains x key"])

lemma ss_view_RemoveByNamespace [store_simps]:
  "ss_view now (SessionStore_RemoveByNamespace ns s) k =
     (if Contains k (ns @ '':'') then None else ss_view now s k)"
  by (simp add: SessionStore_RemoveByNamespace_def ss_view_def
      map_of_filter_key[where P = "\<lambda>x. \<not> Contains x (ns @ '':'')"])

text \<open>
  Writing: the written key reads back until it expires; any other key keeps its value, or
  is the one entry evicted because the store was full.
\<close>

lemma evict_oldest_view:
  assumes "evict_oldest s = Some s'"
  shows "\<exists>e. \<forall>k. ss_view now s' k = (if Some k = e then None else ss_view now s k)"
proof -
  from assms obtain i js where i: "sort (map fst (ss_keyIndex s)) = i # js"
    by (auto simp: evict_oldest_def split: list.splits)
  with assms show ?thesis
    by (intro exI[of _ "map_of (ss_keyIndex s) i"])
      (auto simp: evict_oldest_def ss_view_def AList.delete_conv' split: option.splits)
qed

lemma ss_view_put [store_simps]:
  "ss_view now (put_entry k v e s) q =
     (if q = k then (if now < e then Some v else None) else ss_view now s q)"
  by (simp add: put_entry_def ss_view_def live_def AList.update_conv')

lemma ss_view_Set_same:
  assumes "fst (SessionStore_Set key sub v e s) = Ok ()"
  shows "ss_view now (snd (SessionStore_Set key sub v e s)) (session_key key sub) =
    (if now < e then Some v else None)"
  using assms by (auto simp: SessionStore_Set_def Let_def ss_view_put split: option.splits if_splits)

lemma ss_view_Set_other:
  assumes "q \<noteq> session_key key sub"
  shows "ss_view now (snd (SessionStore_Set key sub v e s)) q \<in> {None, ss_view now s q}"
proof (cases "map_of (ss_store s) (session_key key sub) = None \<and> length (ss_store s) = maxCacheSize")
  case True
  show ?thesis
  proof (cases "evict_oldest s")
    case None
    with True show ?thesis by (simp add: SessionStore_Set_def)
  next
    case (Some s')
    from evict_oldest_view[OF Some] obtain d
      where "\<forall>k. ss_view now s' k = (if Some k = d then None else ss_view now s k)" by blast
    with True Some assms show ?thesis by (simp add: SessionStore_Set_def ss_view_put)
  qed
next
  case False
  with assms show ?thesis by (auto simp: SessionStore_Set_def Let_def ss_view_put)
qed

lemma ss_view_Set_other_room:
  assumes "q \<noteq> session_key key sub" and "length (ss_store s) \<noteq> maxCacheSize"
  shows "ss_view now (snd (SessionStore_Set key sub v e s)) q = ss_view now s q"
  using assms by (simp add: SessionStore_Set_def Let_def ss_view_put)

text \<open>A claim succeeds exactly when the entry is there, and the next claim of it fails.\<close>

lemma Claim_once:
  "fst (SessionStore_Claim key sub s) \<Longrightarrow>
     \<not> fst (SessionStore_Claim key sub (snd (SessionStore_Claim key sub s)))"
  by (auto simp: SessionStore_Claim_def Let_def AList.delete_conv' split: if_splits)

lemma Claim_iff:
  "fst (SessionStore_Claim key sub s) \<longleftrightarrow> map_of (ss_store s) (session_key key sub) \<noteq> None"
  by (auto simp: SessionStore_Claim_def Let_def)

end
