(* ===== verification/State_Store.thy ===== *)
theory State_Store
  imports Go_Strings
begin

text \<open>
  \<open>internal/memory_store/in_memory/stores/state_store.go\<close>: the store of authorization codes
  and OAuth states. Entries expire ten minutes after they are written. Each operation holds
  the mutex throughout and so is one atomic step at the instant \<open>now\<close> it reads.
\<close>

definition stateTTL :: instant where
  "stateTTL = 10 * 60 * Second"

record stateEntry =
  st_value :: string
  st_expiresAt :: instant

type_synonym StateStore = "(string \<times> stateEntry) list"

definition NewStateStore :: StateStore where
  "NewStateStore = []"

definition StateStore_Get :: "instant \<Rightarrow> string \<Rightarrow> StateStore \<Rightarrow> string \<times> StateStore" where
  "StateStore_Get now key s =
     (case map_of s key of
        None \<Rightarrow> ([], s)
      | Some entry \<Rightarrow>
          if now > st_expiresAt entry then ([], AList.delete key s)
          else (st_value entry, s))"

definition StateStore_Set :: "instant \<Rightarrow> string \<Rightarrow> string \<Rightarrow> StateStore \<Rightarrow> StateStore" where
  "StateStore_Set now key v s =
     AList.update key \<lparr>st_value = v, st_expiresAt = now + stateTTL\<rparr> s"

definition StateStore_Remove :: "string \<Rightarrow> StateStore \<Rightarrow> StateStore" where
  "StateStore_Remove key s = AList.delete key s"

definition StateStore_GetAndRemove :: "instant \<Rightarrow> string \<Rightarrow> StateStore \<Rightarrow> string \<times> StateStore" where
  "StateStore_GetAndRemove now key s =
     (case map_of s key of
        None \<Rightarrow> ([], s)
      | Some entry \<Rightarrow>
          if now > st_expiresAt entry then ([], AList.delete key s)
          else (st_value entry, AList.delete key s))"

section \<open>Invariant and view\<close>

definition st_view :: "instant \<Rightarrow> StateStore \<Rightarrow> string \<Rightarrow> string option" where
  "st_view now s k =
     (case map_of s k of
        Some e \<Rightarrow> if now \<le> st_expiresAt e then Some (st_value e) else None
      | None \<Rightarrow> None)"

lemma st_keys_ok_ops:
  assumes "keys_ok s"
  shows "keys_ok (snd (StateStore_Get now k s))"
    and "keys_ok (StateStore_Set now k v s)"
    and "keys_ok (StateStore_Remove k s)"
    and "keys_ok (snd (StateStore_GetAndRemove now k s))"
  using assms
  by (auto simp: StateStore_Get_def StateStore_Set_def StateStore_Remove_def
      StateStore_GetAndRemove_def intro: store_inv split: option.splits)

lemma st_view_Get [store_simps]:
  "fst (StateStore_Get now k s) = (case st_view now s k of None \<Rightarrow> [] | Some v \<Rightarrow> v)"
  "st_view now (snd (StateStore_Get now k s)) q = st_view now s q"
  by (auto simp: StateStore_Get_def st_view_def AList.delete_conv' split: option.splits)

lemma st_view_Set [store_simps]:
  "st_view t (StateStore_Set now k v s) q =
     (if q = k then (if t \<le> now + stateTTL then Some v else None) else st_view t s q)"
  by (auto simp: StateStore_Set_def st_view_def AList.update_conv')

lemma st_view_Remove [store_simps]:
  "st_view t (StateStore_Remove k s) q = (if q = k then None else st_view t s q)"
  by (auto simp: StateStore_Remove_def st_view_def AList.delete_conv')

lemma st_view_GetAndRemove [store_simps]:
  "fst (StateStore_GetAndRemove now k s) = (case st_view now s k of None \<Rightarrow> [] | Some v \<Rightarrow> v)"
  "st_view t (snd (StateStore_GetAndRemove now k s)) q = (if q = k then None else st_view t s q)"
  by (auto simp: StateStore_GetAndRemove_def st_view_def AList.delete_conv' split: option.splits)

end
