(* ===== verification/Memory_Store.thy ===== *)
theory Memory_Store
  imports Session_Store State_Store Cache Constants
begin

text \<open>
  \<open>internal/memory_store/provider.go\<close>: the interface every request handler uses for sessions,
  OAuth states and the cache, its contract as locales, and the in-memory provider
  (\<open>in_memory/store.go\<close>, \<open>in_memory/provider.go\<close>) as an instance of the contract.
\<close>

section \<open>The interface\<close>

record 's mem_ops =
  m_SetUserSession :: "instant \<Rightarrow> string \<Rightarrow> string \<Rightarrow> string \<Rightarrow> int \<Rightarrow> 's \<Rightarrow> unit out \<times> 's"
  m_GetUserSession :: "instant \<Rightarrow> string \<Rightarrow> string \<Rightarrow> 's \<Rightarrow> string out \<times> 's"
  m_DeleteUserSession :: "string \<Rightarrow> string \<Rightarrow> 's \<Rightarrow> unit out \<times> 's"
  m_ClaimRefreshToken :: "string \<Rightarrow> string \<Rightarrow> 's \<Rightarrow> bool out \<times> 's"
  m_DeleteAllUserSessions :: "string \<Rightarrow> 's \<Rightarrow> unit out \<times> 's"
  m_DeleteSessionForNamespace :: "string \<Rightarrow> 's \<Rightarrow> unit out \<times> 's"
  m_SetMfaSession :: "instant \<Rightarrow> string \<Rightarrow> string \<Rightarrow> string \<Rightarrow> int \<Rightarrow> 's \<Rightarrow> unit out \<times> 's"
  m_GetMfaSession :: "instant \<Rightarrow> string \<Rightarrow> string \<Rightarrow> 's \<Rightarrow> string out \<times> 's"
  m_GetAllMfaSessions :: "instant \<Rightarrow> string \<Rightarrow> 's \<Rightarrow> string list out \<times> 's"
  m_DeleteMfaSession :: "string \<Rightarrow> string \<Rightarrow> 's \<Rightarrow> unit out \<times> 's"
  m_GetMfaSessionOwner :: "instant \<Rightarrow> string \<Rightarrow> 's \<Rightarrow> (string \<times> string) out \<times> 's"
  m_SetState :: "instant \<Rightarrow> string \<Rightarrow> string \<Rightarrow> 's \<Rightarrow> unit out \<times> 's"
  m_GetState :: "instant \<Rightarrow> string \<Rightarrow> 's \<Rightarrow> string out \<times> 's"
  m_RemoveState :: "string \<Rightarrow> 's \<Rightarrow> unit out \<times> 's"
  m_GetAndRemoveState :: "instant \<Rightarrow> string \<Rightarrow> 's \<Rightarrow> string out \<times> 's"
  m_SetCache :: "instant \<Rightarrow> string \<Rightarrow> string \<Rightarrow> int \<Rightarrow> 's \<Rightarrow> unit out \<times> 's"
  m_SetCacheNX :: "instant \<Rightarrow> string \<Rightarrow> string \<Rightarrow> int \<Rightarrow> 's \<Rightarrow> bool out \<times> 's"
  m_GetCache :: "instant \<Rightarrow> string \<Rightarrow> 's \<Rightarrow> string out \<times> 's"
  m_DeleteCacheByPrefix :: "string \<Rightarrow> 's \<Rightarrow> unit out \<times> 's"
  m_IncrementCache :: "instant \<Rightarrow> string \<Rightarrow> int \<Rightarrow> 's \<Rightarrow> int out \<times> 's"

section \<open>The contract\<close>

text \<open>
  Sessions: \<open>addr\<close> is the address of an entry (providers may build a composite key out of the
  user id and the sub-key), \<open>sess t s a\<close> the value a reader sees at time \<open>t\<close>, \<open>held s a\<close> that
  an entry is physically there. A write may displace other entries (a full store evicts) but
  never alters them.
\<close>

locale session_contract =
  fixes M :: "'s mem_ops"
    and invar :: "'s \<Rightarrow> bool"
    and addr :: "string \<Rightarrow> string \<Rightarrow> 'k"
    and sess :: "instant \<Rightarrow> 's \<Rightarrow> 'k \<Rightarrow> string option"
    and held :: "'s \<Rightarrow> 'k \<Rightarrow> bool"
  assumes addr_inj: "addr u k = addr u k' \<Longrightarrow> k = k'"
    and sess_held: "invar s \<Longrightarrow> sess t s a = Some v \<Longrightarrow> held s a"
    and get_session: "invar s \<Longrightarrow> m_GetUserSession M now u k s = (g, s') \<Longrightarrow>
      invar s' \<and>
      g = (case sess now s (addr u k) of
             Some v \<Rightarrow> if v = [] then Err ''not found'' else Ok v | None \<Rightarrow> Err ''not found'') \<and>
      (\<forall>t a. now \<le> t \<longrightarrow> sess t s' a = sess t s a) \<and> (\<forall>a. held s' a \<longrightarrow> held s a)"
    and set_session: "invar s \<Longrightarrow> m_SetUserSession M now u k v e s = (r, s') \<Longrightarrow>
      invar s' \<and>
      (r = Ok () \<longrightarrow> (\<forall>t. sess t s' (addr u k) = (if Unix t < e then Some v else None))) \<and>
      (\<forall>a. a \<noteq> addr u k \<longrightarrow> (held s' a \<longrightarrow> held s a) \<and>
         (\<forall>t. sess t s' a = None \<or> sess t s' a = sess t s a))"
    and delete_session: "invar s \<Longrightarrow> m_DeleteUserSession M u n s = (r, s') \<Longrightarrow>
      invar s' \<and> r = Ok () \<and>
      (\<forall>a. a \<in> (\<lambda>ty. addr u (ty @ ''_'' @ n)) `
             {TokenTypeSessionToken, TokenTypeAccessToken, TokenTypeRefreshToken}
           \<longrightarrow> \<not> held s' a) \<and>
      (\<forall>a. a \<notin> (\<lambda>ty. addr u (ty @ ''_'' @ n)) `
             {TokenTypeSessionToken, TokenTypeAccessToken, TokenTypeRefreshToken}
           \<longrightarrow> held s' a = held s a \<and> (\<forall>t. sess t s' a = sess t s a))"
    and claim_refresh: "invar s \<Longrightarrow> m_ClaimRefreshToken M u n s = (b, s') \<Longrightarrow>
      invar s' \<and> b = Ok (held s (addr u (TokenTypeRefreshToken @ ''_'' @ n))) \<and>
      \<not> held s' (addr u (TokenTypeRefreshToken @ ''_'' @ n)) \<and>
      (\<forall>a. a \<noteq> addr u (TokenTypeRefreshToken @ ''_'' @ n) \<longrightarrow>
         held s' a = held s a \<and> (\<forall>t. sess t s' a = sess t s a))"
begin

lemma not_held_sess: "invar s \<Longrightarrow> \<not> held s a \<Longrightarrow> sess t s a = None"
  using sess_held by (cases "sess t s a") blast+

text \<open>Two claims of the same refresh token in a row: the second one is refused.\<close>

lemma claim_twice:
  assumes "invar s" and "m_ClaimRefreshToken M u n s = (b, s')"
    and "m_ClaimRefreshToken M u n s' = (r', s'')"
  shows "r' = Ok False"
  using claim_refresh[OF assms(1,2)] claim_refresh[OF _ assms(3)] by simp

text \<open>What was written is read back until it expires.\<close>

lemma set_then_get:
  assumes "invar s" and "m_SetUserSession M now u k v e s = (Ok (), s')" and "v \<noteq> []"
    and "m_GetUserSession M t u k s' = (r, s'')" and "Unix t < e"
  shows "r = Ok v"
proof -
  from set_session[OF assms(1,2)] assms(5) have "invar s'" "sess t s' (addr u k) = Some v" by auto
  with get_session[OF _ assms(4)] assms(3) show ?thesis by simp
qed

text \<open>A value that reads back has not been claimed: reading after a claim fails.\<close>

lemma get_after_claim:
  assumes "invar s" and "m_ClaimRefreshToken M u n s = (b, s')"
    and "m_GetUserSession M t u (TokenTypeRefreshToken @ ''_'' @ n) s' = (r', s'')"
  shows "r' = Err ''not found''"
proof -
  from claim_refresh[OF assms(1,2)]
  have "invar s'" "sess t s' (addr u (TokenTypeRefreshToken @ ''_'' @ n)) = None"
    by (auto intro: not_held_sess)
  with get_session[OF _ assms(3)] show ?thesis by simp
qed

end

text \<open>OAuth states: what is written is read until it expires, and the reading that consumes it
  is the last one.\<close>

locale state_contract =
  fixes M :: "'s mem_ops"
    and invar :: "'s \<Rightarrow> bool"
    and stv :: "instant \<Rightarrow> 's \<Rightarrow> string \<Rightarrow> string option"
  assumes get_and_remove: "invar s \<Longrightarrow> m_GetAndRemoveState M now k s = (g, s') \<Longrightarrow>
      invar s' \<and>
      g = (case stv now s k of
             Some v \<Rightarrow> if v = [] then Err ''not found'' else Ok v | None \<Rightarrow> Err ''not found'') \<and>
      (\<forall>t q. stv t s' q = (if q = k then None else stv t s q))"
    and set_state: "invar s \<Longrightarrow> m_SetState M now k v s = (r, s') \<Longrightarrow>
      invar s' \<and> r = Ok () \<and>
      (\<forall>t q. stv t s' q = (if q = k then (if t \<le> now + stateTTL then Some v else None) else stv t s q))"
    and get_state: "invar s \<Longrightarrow> m_GetState M now k s = (g, s') \<Longrightarrow>
      invar s' \<and> g = Ok (case stv now s k of Some v \<Rightarrow> v | None \<Rightarrow> []) \<and>
      (\<forall>t q. now \<le> t \<longrightarrow> stv t s' q = stv t s q)"
    and remove_state: "invar s \<Longrightarrow> m_RemoveState M k s = (r, s') \<Longrightarrow>
      invar s' \<and> r = Ok () \<and> (\<forall>t q. stv t s' q = (if q = k then None else stv t s q))"
begin

lemma consumed_once:
  assumes "invar s" and "m_GetAndRemoveState M now k s = (g, s')"
    and "m_GetAndRemoveState M now' k s' = (r', s'')"
  shows "r' = Err ''not found''"
  using get_and_remove[OF assms(1,2)] get_and_remove[OF _ assms(3)] by simp

end

text \<open>The whole store: the session operations leave the states alone and the other way round.\<close>

locale memory_store_contract =
  session_contract M invar addr sess held + state_contract M invar stv
  for M :: "'s mem_ops"
    and invar :: "'s \<Rightarrow> bool"
    and addr :: "string \<Rightarrow> string \<Rightarrow> 'k"
    and sess :: "instant \<Rightarrow> 's \<Rightarrow> 'k \<Rightarrow> string option"
    and held :: "'s \<Rightarrow> 'k \<Rightarrow> bool"
    and stv :: "instant \<Rightarrow> 's \<Rightarrow> string \<Rightarrow> string option" +
  assumes stv_get_session: "m_GetUserSession M now u k s = (g, s') \<Longrightarrow> stv t s' q = stv t s q"
    and stv_set_session: "m_SetUserSession M now u k v e s = (r, s') \<Longrightarrow> stv t s' q = stv t s q"
    and stv_delete_session: "m_DeleteUserSession M u n s = (r, s') \<Longrightarrow> stv t s' q = stv t s q"
    and stv_claim: "m_ClaimRefreshToken M u n s = (b, s') \<Longrightarrow> stv t s' q = stv t s q"
    and sess_get_and_remove: "m_GetAndRemoveState M now k s = (g, s') \<Longrightarrow>
      sess t s' a = sess t s a \<and> held s' a = held s a"
    and sess_set_state: "m_SetState M now k v s = (r, s') \<Longrightarrow> sess t s' a = sess t s a \<and> held s' a = held s a"

text \<open>
  The cache: an entry is visible up to and including the second its TTL ends in. A counter that
  is not visible counts as zero.
\<close>

locale cache_contract =
  fixes M :: "'s mem_ops"
    and invar :: "'s \<Rightarrow> bool"
    and cv :: "instant \<Rightarrow> 's \<Rightarrow> string \<Rightarrow> string option"
  assumes get_cache: "invar s \<Longrightarrow> m_GetCache M now k s = (g, s') \<Longrightarrow>
      invar s' \<and> g = Ok (case cv now s k of Some v \<Rightarrow> v | None \<Rightarrow> []) \<and>
      (\<forall>t q. now \<le> t \<longrightarrow> cv t s' q = cv t s q)"
    and set_cache: "invar s \<Longrightarrow> m_SetCache M now k v ttl s = (r, s') \<Longrightarrow>
      invar s' \<and> r = Ok () \<and>
      (\<forall>t q. cv t s' q =
         (if q = k then (if Unix t \<le> add64 (Unix now) ttl then Some v else None) else cv t s q))"
    and set_cache_nx: "invar s \<Longrightarrow> m_SetCacheNX M now k v ttl s = (b, s') \<Longrightarrow>
      invar s' \<and> b = Ok (cv now s k = None) \<and>
      (\<forall>t q. cv t s' q =
         (if q = k \<and> cv now s k = None then (if Unix t \<le> add64 (Unix now) ttl then Some v else None)
          else cv t s q))"
    and increment_cache: "invar s \<Longrightarrow> m_IncrementCache M now k ttl s = (n, s') \<Longrightarrow>
      invar s' \<and> n = Ok (add64 (case cv now s k of None \<Rightarrow> 0 | Some v \<Rightarrow> fst (ParseInt v)) 1) \<and>
      (\<forall>t q. cv t s' q =
         (if q = k then
            (if Unix t \<le> add64 (Unix now) ttl
             then Some (FormatInt (add64 (case cv now s k of None \<Rightarrow> 0 | Some v \<Rightarrow> fst (ParseInt v)) 1))
             else None)
          else cv t s q))"
    and delete_by_prefix: "invar s \<Longrightarrow> m_DeleteCacheByPrefix M pre s = (r, s') \<Longrightarrow>
      invar s' \<and> r = Ok () \<and> (\<forall>t q. cv t s' q = (if HasPrefix q pre then None else cv t s q))"
begin

text \<open>Of two claims of one key within the TTL of the first, the second one fails.\<close>

lemma nx_once:
  assumes "invar s" and "m_SetCacheNX M now k v ttl s = (Ok True, s')"
    and "Unix t \<le> add64 (Unix now) ttl" and "m_SetCacheNX M t k v' ttl' s' = (b, s'')"
  shows "b = Ok False"
  using set_cache_nx[OF assms(1,2)] set_cache_nx[OF _ assms(4)] assms(3) by auto

end

section \<open>The in-memory provider\<close>

record in_memory =
  im_sessionStore :: SessionStore
  im_mfasessionStore :: SessionStore
  im_stateStore :: StateStore
  im_cacheStore :: cacheStore

definition NewInMemoryProvider :: in_memory where
  "NewInMemoryProvider = \<lparr>im_sessionStore = NewSessionStore, im_mfasessionStore = NewSessionStore,
     im_stateStore = NewStateStore, im_cacheStore = []\<rparr>"

definition found_or_error :: "string \<Rightarrow> string out" where
  "found_or_error val = (if val = [] then Err ''not found'' else Ok val)"

definition im_SetUserSession ::
    "instant \<Rightarrow> string \<Rightarrow> string \<Rightarrow> string \<Rightarrow> int \<Rightarrow> in_memory \<Rightarrow> unit out \<times> in_memory" where
  "im_SetUserSession now userId key token expiration s =
     (case SessionStore_Set userId key token expiration (im_sessionStore s) of
        (r, ss) \<Rightarrow> (r, s\<lparr>im_sessionStore := ss\<rparr>))"

definition im_GetUserSession :: "instant \<Rightarrow> string \<Rightarrow> string \<Rightarrow> in_memory \<Rightarrow> string out \<times> in_memory" where
  "im_GetUserSession now userId key s =
     (case SessionStore_Get (Unix now) userId key (im_sessionStore s) of
        (val, ss) \<Rightarrow> (found_or_error val, s\<lparr>im_sessionStore := ss\<rparr>))"

definition im_DeleteAllUserSessions :: "string \<Rightarrow> in_memory \<Rightarrow> unit out \<times> in_memory" where
  "im_DeleteAllUserSessions userId s =
     (Ok (), s\<lparr>im_sessionStore := SessionStore_RemoveAll userId (im_sessionStore s)\<rparr>)"

definition im_ClaimRefreshToken :: "string \<Rightarrow> string \<Rightarrow> in_memory \<Rightarrow> bool out \<times> in_memory" where
  "im_ClaimRefreshToken userId nonce s =
     (case SessionStore_Claim userId (TokenTypeRefreshToken @ ''_'' @ nonce) (im_sessionStore s) of
        (b, ss) \<Rightarrow> (Ok b, s\<lparr>im_sessionStore := ss\<rparr>))"

definition im_DeleteUserSession :: "string \<Rightarrow> string \<Rightarrow> in_memory \<Rightarrow> unit out \<times> in_memory" where
  "im_DeleteUserSession userId key s =
     (let keys = [TokenTypeSessionToken @ ''_'' @ key, TokenTypeAccessToken @ ''_'' @ key,
                  TokenTypeRefreshToken @ ''_'' @ key]
      in (Ok (), s\<lparr>im_sessionStore := fold (SessionStore_Remove userId) keys (im_sessionStore s)\<rparr>))"

definition im_DeleteSessionForNamespace :: "string \<Rightarrow> in_memory \<Rightarrow> unit out \<times> in_memory" where
  "im_DeleteSessionForNamespace namespace s =
     (Ok (), s\<lparr>im_sessionStore := SessionStore_RemoveByNamespace namespace (im_sessionStore s)\<rparr>)"

definition im_SetMfaSession ::
    "instant \<Rightarrow> string \<Rightarrow> string \<Rightarrow> string \<Rightarrow> int \<Rightarrow> in_memory \<Rightarrow> unit out \<times> in_memory" where
  "im_SetMfaSession now userId key purpose expiration s =
     (case SessionStore_Set userId key purpose expiration (im_mfasessionStore s) of
        (r, ss) \<Rightarrow> (r, s\<lparr>im_mfasessionStore := ss\<rparr>))"

definition im_GetMfaSession :: "instant \<Rightarrow> string \<Rightarrow> string \<Rightarrow> in_memory \<Rightarrow> string out \<times> in_memory" where
  "im_GetMfaSession now userId key s =
     (case SessionStore_Get (Unix now) userId key (im_mfasessionStore s) of
        (val, ss) \<Rightarrow> (found_or_error val, s\<lparr>im_mfasessionStore := ss\<rparr>))"

definition im_GetAllMfaSessions :: "instant \<Rightarrow> string \<Rightarrow> in_memory \<Rightarrow> string list out \<times> in_memory" where
  "im_GetAllMfaSessions now userId s =
     (case SessionStore_GetAll (Unix now) userId (im_mfasessionStore s) of
        (vals, ss) \<Rightarrow> (if vals = [] then Err ''not found'' else Ok vals, s\<lparr>im_mfasessionStore := ss\<rparr>))"

definition im_DeleteMfaSession :: "string \<Rightarrow> string \<Rightarrow> in_memory \<Rightarrow> unit out \<times> in_memory" where
  "im_DeleteMfaSession userId key s =
     (Ok (), s\<lparr>im_mfasessionStore := SessionStore_Remove userId key (im_mfasessionStore s)\<rparr>)"

definition im_GetMfaSessionOwner :: "instant \<Rightarrow> string \<Rightarrow> in_memory \<Rightarrow> (string \<times> string) out \<times> in_memory" where
  "im_GetMfaSessionOwner now key s =
     (case SessionStore_FindOwnerBySuffix (Unix now) key (im_mfasessionStore s) of
        (r, ss) \<Rightarrow> (case r of None \<Rightarrow> Err ''not found'' | Some p \<Rightarrow> Ok p, s\<lparr>im_mfasessionStore := ss\<rparr>))"

definition im_SetState :: "instant \<Rightarrow> string \<Rightarrow> string \<Rightarrow> in_memory \<Rightarrow> unit out \<times> in_memory" where
  "im_SetState now key state s =
     (Ok (), s\<lparr>im_stateStore := StateStore_Set now key state (im_stateStore s)\<rparr>)"

definition im_GetState :: "instant \<Rightarrow> string \<Rightarrow> in_memory \<Rightarrow> string out \<times> in_memory" where
  "im_GetState now key s =
     (case StateStore_Get now key (im_stateStore s) of
        (v, st) \<Rightarrow> (Ok v, s\<lparr>im_stateStore := st\<rparr>))"

definition im_RemoveState :: "string \<Rightarrow> in_memory \<Rightarrow> unit out \<times> in_memory" where
  "im_RemoveState key s = (Ok (), s\<lparr>im_stateStore := StateStore_Remove key (im_stateStore s)\<rparr>)"

definition im_GetAndRemoveState :: "instant \<Rightarrow> string \<Rightarrow> in_memory \<Rightarrow> string out \<times> in_memory" where
  "im_GetAndRemoveState now key s =
     (case StateStore_GetAndRemove now key (im_stateStore s) of
        (val, st) \<Rightarrow> (found_or_error val, s\<lparr>im_stateStore := st\<rparr>))"

definition im_GetAllData :: "in_memory \<Rightarrow> (string \<times> string) list" where
  "im_GetAllData s =
     fold (\<lambda>(k, v) m. AList.update k v m)
       (SessionStore_GetAllData (im_sessionStore s) @ SessionStore_GetAllData (im_mfasessionStore s)) []"

text \<open>The cache operations of \<open>in_memory/cache.go\<close> as methods of the provider.\<close>

definition im_SetCache :: "instant \<Rightarrow> string \<Rightarrow> string \<Rightarrow> int \<Rightarrow> in_memory \<Rightarrow> unit out \<times> in_memory" where
  "im_SetCache now key v ttl s = (Ok (), s\<lparr>im_cacheStore := SetCache (Unix now) key v ttl (im_cacheStore s)\<rparr>)"

definition im_SetCacheNX :: "instant \<Rightarrow> string \<Rightarrow> string \<Rightarrow> int \<Rightarrow> in_memory \<Rightarrow> bool out \<times> in_memory" where
  "im_SetCacheNX now key v ttl s =
     (case SetCacheNX (Unix now) key v ttl (im_cacheStore s) of
        (b, c) \<Rightarrow> (Ok b, s\<lparr>im_cacheStore := c\<rparr>))"

definition im_GetCache :: "instant \<Rightarrow> string \<Rightarrow> in_memory \<Rightarrow> string out \<times> in_memory" where
  "im_GetCache now key s =
     (case GetCache (Unix now) key (im_cacheStore s) of (v, c) \<Rightarrow> (Ok v, s\<lparr>im_cacheStore := c\<rparr>))"

definition im_DeleteCacheByPrefix :: "string \<Rightarrow> in_memory \<Rightarrow> unit out \<times> in_memory" where
  "im_DeleteCacheByPrefix pre s = (Ok (), s\<lparr>im_cacheStore := DeleteCacheByPrefix pre (im_cacheStore s)\<rparr>)"

definition im_IncrementCache :: "instant \<Rightarrow> string \<Rightarrow> int \<Rightarrow> in_memory \<Rightarrow> int out \<times> in_memory" where
  "im_IncrementCache now key ttl s =
     (case IncrementCache (Unix now) key ttl (im_cacheStore s) of (n, c) \<Rightarrow> (Ok n, s\<lparr>im_cacheStore := c\<rparr>))"

definition in_memory_ops :: "in_memory mem_ops" where
  "in_memory_ops = \<lparr>
     m_SetUserSession = im_SetUserSession, m_GetUserSession = im_GetUserSession,
     m_DeleteUserSession = im_DeleteUserSession, m_ClaimRefreshToken = im_ClaimRefreshToken,
     m_DeleteAllUserSessions = im_DeleteAllUserSessions,
     m_DeleteSessionForNamespace = im_DeleteSessionForNamespace,
     m_SetMfaSession = im_SetMfaSession, m_GetMfaSession = im_GetMfaSession,
     m_GetAllMfaSessions = im_GetAllMfaSessions, m_DeleteMfaSession = im_DeleteMfaSession,
     m_GetMfaSessionOwner = im_GetMfaSessionOwner,
     m_SetState = im_SetState, m_GetState = im_GetState, m_RemoveState = im_RemoveState,
     m_GetAndRemoveState = im_GetAndRemoveState,
     m_SetCache = im_SetCache, m_SetCacheNX = im_SetCacheNX, m_GetCache = im_GetCache,
     m_DeleteCacheByPrefix = im_DeleteCacheByPrefix, m_IncrementCache = im_IncrementCache\<rparr>"

lemma in_memory_ops_sel [simp]:
  "m_SetUserSession in_memory_ops = im_SetUserSession"
  "m_GetUserSession in_memory_ops = im_GetUserSession"
  "m_DeleteUserSession in_memory_ops = im_DeleteUserSession"
  "m_ClaimRefreshToken in_memory_ops = im_ClaimRefreshToken"
  "m_DeleteAllUserSessions in_memory_ops = im_DeleteAllUserSessions"
  "m_SetState in_memory_ops = im_SetState" "m_GetState in_memory_ops = im_GetState"
  "m_RemoveState in_memory_ops = im_RemoveState"
  "m_GetAndRemoveState in_memory_ops = im_GetAndRemoveState"
  "m_SetCache in_memory_ops = im_SetCache" "m_SetCacheNX in_memory_ops = im_SetCacheNX"
  "m_GetCache in_memory_ops = im_GetCache"
  "m_DeleteCacheByPrefix in_memory_ops = im_DeleteCacheByPrefix"
  "m_IncrementCache in_memory_ops = im_IncrementCache"
  by (simp_all add: in_memory_ops_def)

section \<open>The in-memory provider keeps the contract\<close>

definition im_inv :: "in_memory \<Rightarrow> bool" where
  "im_inv s \<longleftrightarrow> ss_inv (im_sessionStore s) \<and> ss_inv (im_mfasessionStore s) \<and>
     keys_ok (im_stateStore s) \<and> keys_ok (im_cacheStore s)"

definition im_sess :: "instant \<Rightarrow> in_memory \<Rightarrow> string \<Rightarrow> string option" where
  "im_sess t s a = ss_view (Unix t) (im_sessionStore s) a"

definition im_held :: "in_memory \<Rightarrow> string \<Rightarrow> bool" where
  "im_held s a \<longleftrightarrow> map_of (ss_store (im_sessionStore s)) a \<noteq> None"

definition im_state :: "instant \<Rightarrow> in_memory \<Rightarrow> string \<Rightarrow> string option" where
  "im_state t s k = st_view t (im_stateStore s) k"

lemmas im_views = im_inv_def im_sess_def im_held_def im_state_def

lemma im_inv_New: "im_inv NewInMemoryProvider"
  by (simp add: im_inv_def NewInMemoryProvider_def ss_inv_New NewStateStore_def)

lemma found_or_error_view:
  "found_or_error (case x of None \<Rightarrow> [] | Some v \<Rightarrow> v) =
     (case x of Some v \<Rightarrow> if v = [] then Err ''not found'' else Ok v | None \<Rightarrow> Err ''not found'')"
  by (simp add: found_or_error_def split: option.splits)

lemma ss_view_Get_later:
  assumes "now \<le> t"
  shows "ss_view t (snd (SessionStore_Get now key sub s)) k = ss_view t s k"
  using assms
  by (auto simp: SessionStore_Get_def ss_view_def live_def Let_def AList.delete_conv'
      split: option.splits)

lemma im_get_session:
  assumes "im_inv s" "im_GetUserSession now u k s = (g, s')"
  shows "im_inv s' \<and>
    g = (case im_sess now s (session_key u k) of
           Some v \<Rightarrow> if v = [] then Err ''not found'' else Ok v | None \<Rightarrow> Err ''not found'') \<and>
    (\<forall>t a. now \<le> t \<longrightarrow> im_sess t s' a = im_sess t s a) \<and> (\<forall>a. im_held s' a \<longrightarrow> im_held s a)"
proof -
  let ?g = "SessionStore_Get (Unix now) u k (im_sessionStore s)"
  have s': "s' = s\<lparr>im_sessionStore := snd ?g\<rparr>" and g: "g = found_or_error (fst ?g)"
    using assms(2) by (auto simp: im_GetUserSession_def split: prod.splits)
  have "im_held s' a \<longrightarrow> im_held s a" for a
    by (auto simp: s' im_held_def SessionStore_Get_def Let_def AList.delete_conv' split: option.splits if_splits)
  then show ?thesis
    using assms(1) ss_inv_ops(2)[of "im_sessionStore s"]
    by (auto simp: s' g im_inv_def im_sess_def ss_view_Get(1) found_or_error_view ss_view_Get_later Unix_mono)
qed

lemma evict_oldest_held:
  assumes "evict_oldest s = Some s'" "map_of (ss_store s) a = None"
  shows "map_of (ss_store s') a = None"
proof -
  from assms(1) obtain i js where "sort (map fst (ss_keyIndex s)) = i # js"
    by (auto simp: evict_oldest_def split: list.splits)
  with assms show ?thesis
    by (auto simp: evict_oldest_def AList.delete_conv' split: option.splits)
qed

lemma Set_held_other:
  assumes "a \<noteq> session_key u k" "map_of (ss_store s) a = None"
  shows "map_of (ss_store (snd (SessionStore_Set u k v e s))) a = None"
  using assms evict_oldest_held[OF _ assms(2)]
  by (cases "evict_oldest s") (simp_all add: SessionStore_Set_def Let_def put_entry_def AList.update_conv')

lemma im_set_session:
  assumes "im_inv s" "im_SetUserSession now u k v e s = (r, s')"
  shows "im_inv s' \<and>
    (r = Ok () \<longrightarrow> (\<forall>t. im_sess t s' (session_key u k) = (if Unix t < e then Some v else None))) \<and>
    (\<forall>a. a \<noteq> session_key u k \<longrightarrow> (im_held s' a \<longrightarrow> im_held s a) \<and>
       (\<forall>t. im_sess t s' a = None \<or> im_sess t s' a = im_sess t s a))"
proof -
  let ?g = "SessionStore_Set u k v e (im_sessionStore s)"
  have s': "s' = s\<lparr>im_sessionStore := snd ?g\<rparr>" and r: "r = fst ?g"
    using assms(2) by (auto simp: im_SetUserSession_def split: prod.splits)
  have "im_inv s'" using assms(1) ss_inv_ops(5)[of "im_sessionStore s"] by (simp add: s' im_inv_def)
  moreover have "im_sess t s' (session_key u k) = (if Unix t < e then Some v else None)"
    if "r = Ok ()" for t
    using ss_view_Set_same that by (simp add: s' r im_sess_def)
  moreover have "im_sess t s' a = None \<or> im_sess t s' a = im_sess t s a"
    if "a \<noteq> session_key u k" for t a
    using ss_view_Set_other[OF that, of "Unix t" v e "im_sessionStore s"] by (simp add: s' im_sess_def)
  moreover have "im_held s' a \<longrightarrow> im_held s a" if "a \<noteq> session_key u k" for a
    using Set_held_other[OF that, of "im_sessionStore s" v e] by (cases "im_held s a") (simp_all add: s' im_held_def)
  ultimately show ?thesis by blast
qed

lemma im_delete_session:
  assumes "im_inv s" "im_DeleteUserSession u n s = (r, s')"
  shows "im_inv s' \<and> r = Ok () \<and>
    (\<forall>a. a \<in> (\<lambda>ty. session_key u (ty @ ''_'' @ n)) `
             {TokenTypeSessionToken, TokenTypeAccessToken, TokenTypeRefreshToken}
         \<longrightarrow> \<not> im_held s' a) \<and>
    (\<forall>a. a \<notin> (\<lambda>ty. session_key u (ty @ ''_'' @ n)) `
             {TokenTypeSessionToken, TokenTypeAccessToken, TokenTypeRefreshToken}
         \<longrightarrow> im_held s' a = im_held s a \<and> (\<forall>t. im_sess t s' a = im_sess t s a))"
proof -
  have s': "s' = s\<lparr>im_sessionStore := fold (SessionStore_Remove u)
      [TokenTypeSessionToken @ ''_'' @ n, TokenTypeAccessToken @ ''_'' @ n,
       TokenTypeRefreshToken @ ''_'' @ n] (im_sessionStore s)\<rparr>" and "r = Ok ()"
    using assms(2) by (auto simp: im_DeleteUserSession_def Let_def)
  moreover have "im_inv s'" using assms(1) by (simp add: s' im_inv_def ss_inv_ops(8))
  moreover have "im_sess t s' a = (if a \<in> (\<lambda>ty. session_key u (ty @ ''_'' @ n)) `
      {TokenTypeSessionToken, TokenTypeAccessToken, TokenTypeRefreshToken} then None else im_sess t s a)"
    for t a
    by (simp add: s' im_sess_def ss_view_Remove)
  moreover have "im_held s' a \<longleftrightarrow> im_held s a \<and> a \<notin> (\<lambda>ty. session_key u (ty @ ''_'' @ n)) `
      {TokenTypeSessionToken, TokenTypeAccessToken, TokenTypeRefreshToken}" for a
    by (simp add: s' im_held_def SessionStore_Remove_def AList.delete_conv')
  ultimately show ?thesis by simp
qed

lemma im_claim_refresh:
  assumes "im_inv s" "im_ClaimRefreshToken u n s = (b, s')"
  shows "im_inv s' \<and> b = Ok (im_held s (session_key u (TokenTypeRefreshToken @ ''_'' @ n))) \<and>
    \<not> im_held s' (session_key u (TokenTypeRefreshToken @ ''_'' @ n)) \<and>
    (\<forall>a. a \<noteq> session_key u (TokenTypeRefreshToken @ ''_'' @ n) \<longrightarrow>
       im_held s' a = im_held s a \<and> (\<forall>t. im_sess t s' a = im_sess t s a))"
proof -
  let ?g = "SessionStore_Claim u (TokenTypeRefreshToken @ ''_'' @ n) (im_sessionStore s)"
  have s': "s' = s\<lparr>im_sessionStore := snd ?g\<rparr>" and b: "b = Ok (fst ?g)"
    using assms(2) by (auto simp: im_ClaimRefreshToken_def split: prod.splits)
  have "im_inv s'" using assms(1) ss_inv_ops(7)[of "im_sessionStore s"] by (simp add: s' im_inv_def)
  then show ?thesis
    by (auto simp: s' b im_sess_def im_held_def ss_view_Claim Claim_iff)
      (auto simp: SessionStore_Claim_def Let_def AList.delete_conv' split: if_splits)
qed

lemma session_key_inj: "session_key u k = session_key u k' \<Longrightarrow> k = k'"
  by (simp add: session_key_def)

lemma im_get_and_remove:
  assumes "im_inv s" "im_GetAndRemoveState now k s = (g, s')"
  shows "im_inv s' \<and>
    g = (case im_state now s k of
           Some v \<Rightarrow> if v = [] then Err ''not found'' else Ok v | None \<Rightarrow> Err ''not found'') \<and>
    (\<forall>t q. im_state t s' q = (if q = k then None else im_state t s q))"
proof -
  let ?g = "StateStore_GetAndRemove now k (im_stateStore s)"
  have s': "s' = s\<lparr>im_stateStore := snd ?g\<rparr>" and g: "g = found_or_error (fst ?g)"
    using assms(2) by (auto simp: im_GetAndRemoveState_def split: prod.splits)
  then show ?thesis using assms(1)
    by (simp add: im_state_def im_inv_def st_view_GetAndRemove found_or_error_view st_keys_ok_ops)
qed

lemma im_set_state:
  assumes "im_inv s" "im_SetState now k v s = (r, s')"
  shows "im_inv s' \<and> r = Ok () \<and>
    (\<forall>t q. im_state t s' q =
       (if q = k then (if t \<le> now + stateTTL then Some v else None) else im_state t s q))"
  using assms by (auto simp: im_SetState_def im_state_def im_inv_def st_view_Set st_keys_ok_ops)

lemma st_view_Get_later:
  "now \<le> t \<Longrightarrow> st_view t (snd (StateStore_Get now k s)) q = st_view t s q"
  by (auto simp: StateStore_Get_def st_view_def AList.delete_conv' split: option.splits)

lemma im_get_state:
  assumes "im_inv s" "im_GetState now k s = (g, s')"
  shows "im_inv s' \<and> g = Ok (case im_state now s k of Some v \<Rightarrow> v | None \<Rightarrow> []) \<and>
    (\<forall>t q. now \<le> t \<longrightarrow> im_state t s' q = im_state t s q)"
proof -
  let ?g = "StateStore_Get now k (im_stateStore s)"
  have "s' = s\<lparr>im_stateStore := snd ?g\<rparr>" and "g = Ok (fst ?g)"
    using assms(2) by (auto simp: im_GetState_def split: prod.splits)
  then show ?thesis using assms(1)
    by (auto simp: im_state_def im_inv_def st_view_Get st_view_Get_later st_keys_ok_ops split: option.splits)
qed

lemma im_remove_state:
  assumes "im_inv s" "im_RemoveState k s = (r, s')"
  shows "im_inv s' \<and> r = Ok () \<and> (\<forall>t q. im_state t s' q = (if q = k then None else im_state t s q))"
  using assms by (auto simp: im_RemoveState_def im_state_def im_inv_def st_view_Remove st_keys_ok_ops)

lemma im_frames:
  "im_GetUserSession now u k s = (g, s') \<Longrightarrow> im_state t s' q = im_state t s q"
  "im_SetUserSession now u k v e s = (r, s') \<Longrightarrow> im_state t s' q = im_state t s q"
  "im_DeleteUserSession u n s = (r, s') \<Longrightarrow> im_state t s' q = im_state t s q"
  "im_ClaimRefreshToken u n s = (b, s') \<Longrightarrow> im_state t s' q = im_state t s q"
  "im_GetAndRemoveState now k s = (g, s') \<Longrightarrow> im_sess t s' a = im_sess t s a \<and> im_held s' a = im_held s a"
  "im_SetState now k v s = (r, s') \<Longrightarrow> im_sess t s' a = im_sess t s a \<and> im_held s' a = im_held s a"
  by (auto simp: im_state_def im_sess_def im_held_def im_GetUserSession_def im_SetUserSession_def
      im_DeleteUserSession_def im_ClaimRefreshToken_def im_GetAndRemoveState_def im_SetState_def Let_def split: prod.splits)

interpretation im: memory_store_contract in_memory_ops im_inv session_key im_sess im_held im_state
proof unfold_locales
  show "session_key u k = session_key u k' \<Longrightarrow> k = k'" for u k k' by (rule session_key_inj)
  show "im_inv s \<Longrightarrow> im_sess t s a = Some v \<Longrightarrow> im_held s a" for s t a v
    by (auto simp: im_sess_def im_held_def ss_view_def live_def split: option.splits)
qed (unfold in_memory_ops_sel, (rule im_get_session im_set_session im_delete_session im_claim_refresh
    im_get_and_remove im_set_state im_get_state im_remove_state im_frames; assumption)+)

definition im_cache :: "instant \<Rightarrow> in_memory \<Rightarrow> string \<Rightarrow> string option" where
  "im_cache t s k = cache_view (Unix t) (im_cacheStore s) k"

lemma cache_view_Get_later:
  "now \<le> t \<Longrightarrow> cache_view t (snd (GetCache now k c)) q = cache_view t c q"
  by (auto simp: GetCache_def cache_view_def AList.delete_conv' split: option.splits)

lemma im_get_cache:
  assumes "im_inv s" "im_GetCache now k s = (g, s')"
  shows "im_inv s' \<and> g = Ok (case im_cache now s k of Some v \<Rightarrow> v | None \<Rightarrow> []) \<and>
    (\<forall>t q. now \<le> t \<longrightarrow> im_cache t s' q = im_cache t s q)"
proof -
  let ?g = "GetCache (Unix now) k (im_cacheStore s)"
  have "s' = s\<lparr>im_cacheStore := snd ?g\<rparr>" and "g = Ok (fst ?g)"
    using assms(2) by (auto simp: im_GetCache_def split: prod.splits)
  then show ?thesis using assms(1)
    by (auto simp: im_cache_def im_inv_def cache_view_Get(1) cache_view_Get_later cache_keys_ok_ops
        Unix_mono split: option.splits)
qed

lemma im_set_cache_nx:
  assumes "im_inv s" "im_SetCacheNX now k v ttl s = (b, s')"
  shows "im_inv s' \<and> b = Ok (im_cache now s k = None) \<and>
    (\<forall>t q. im_cache t s' q =
       (if q = k \<and> im_cache now s k = None then (if Unix t \<le> add64 (Unix now) ttl then Some v else None)
        else im_cache t s q))"
proof -
  let ?g = "SetCacheNX (Unix now) k v ttl (im_cacheStore s)"
  have "s' = s\<lparr>im_cacheStore := snd ?g\<rparr>" and "b = Ok (fst ?g)"
    using assms(2) by (auto simp: im_SetCacheNX_def split: prod.splits)
  then show ?thesis using assms(1)
    by (simp add: im_cache_def im_inv_def cache_view_NX cache_keys_ok_ops)
qed

lemma im_increment_cache:
  assumes "im_inv s" "im_IncrementCache now k ttl s = (n, s')"
  shows "im_inv s' \<and>
    n = Ok (add64 (case im_cache now s k of None \<Rightarrow> 0 | Some v \<Rightarrow> fst (ParseInt v)) 1) \<and>
    (\<forall>t q. im_cache t s' q =
       (if q = k then
          (if Unix t \<le> add64 (Unix now) ttl
           then Some (FormatInt (add64 (case im_cache now s k of None \<Rightarrow> 0 | Some v \<Rightarrow> fst (ParseInt v)) 1))
           else None)
        else im_cache t s q))"
proof -
  let ?g = "IncrementCache (Unix now) k ttl (im_cacheStore s)"
  have "s' = s\<lparr>im_cacheStore := snd ?g\<rparr>" and "n = Ok (fst ?g)"
    using assms(2) by (auto simp: im_IncrementCache_def split: prod.splits)
  then show ?thesis using assms(1)
    by (simp add: im_cache_def im_inv_def Increment_result cache_view_Increment counter_def cache_keys_ok_ops)
qed

lemma im_cache_writes:
  assumes "im_inv s"
  shows "im_SetCache now k v ttl s = (r, s') \<Longrightarrow> im_inv s' \<and> r = Ok () \<and>
      (\<forall>t q. im_cache t s' q =
         (if q = k then (if Unix t \<le> add64 (Unix now) ttl then Some v else None) else im_cache t s q))"
    and "im_DeleteCacheByPrefix pre s = (r, s') \<Longrightarrow> im_inv s' \<and> r = Ok () \<and>
      (\<forall>t q. im_cache t s' q = (if HasPrefix q pre then None else im_cache t s q))"
  using assms
  by (auto simp: im_SetCache_def im_DeleteCacheByPrefix_def im_cache_def im_inv_def cache_view_Set
      cache_view_DeletePrefix cache_keys_ok_ops)

interpretation imc: cache_contract in_memory_ops im_inv im_cache
  by unfold_locales
    (unfold in_memory_ops_sel, (rule im_get_cache im_set_cache_nx im_increment_cache im_cache_writes; assumption)+)

end
