(* ===== verification/Token_Validate.thy ===== *)
theory Token_Validate
  imports Auth_Token Memory_Store
begin

text \<open>
  \<open>internal/token\<close>, validation: stateful access tokens, refresh tokens and browser sessions
  (\<open>auth_token.go\<close>), delegated tokens (\<open>delegated_access_token.go\<close>), the MCP surface
  (\<open>mcp_access_token.go\<close>). The token provider with its dependencies is the record \<open>ctx\<close>; both
  dependencies that the code compares with nil are always wired. \<open>host\<close> is \<open>parsers.GetHost(gc)\<close>.
\<close>

record 's ctx =
  x_C :: config
  x_L :: libs
  x_M :: "'s mem_ops"
  x_S :: storage

text \<open>The outcome of a validation: claims, claims with an error, or a panic.\<close>

datatype terr = ErrRefreshTokenReuse | TokenError string

datatype vres = VOk claims | VErr claims terr | VPanic

abbreviation unauthorized :: terr where
  "unauthorized \<equiv> TokenError ''unauthorized''"

section \<open>Subject liveness and audience rules\<close>

definition subjectLiveness :: "storage \<Rightarrow> string \<Rightarrow> bool \<times> bool" where
  "subjectLiveness S subject =
     (if subject = [] then (False, True)
      else
        (let userRes = s_GetUserByID S subject; clientRes = s_GetClientByID S subject in
         case userRes of
           Found user \<Rightarrow> (u_RevokedTimestamp user = None, True)
         | _ \<Rightarrow>
             (case clientRes of
                Found client \<Rightarrow> (cl_IsActive client, True)
              | _ \<Rightarrow> if userRes = NotFound \<and> clientRes = NotFound then (False, True) else (False, False))))"

definition subjectIsLive :: "storage \<Rightarrow> string \<Rightarrow> bool" where
  "subjectIsLive S subject = fst (subjectLiveness S subject)"

definition known_dead :: "storage \<Rightarrow> string \<Rightarrow> bool" where
  "known_dead S subject \<longleftrightarrow> snd (subjectLiveness S subject) \<and> \<not> fst (subjectLiveness S subject)"

definition firstPartyAudienceOK :: "config \<Rightarrow> libs \<Rightarrow> string \<Rightarrow> string option" where
  "firstPartyAudienceOK C L aud =
     (if aud \<noteq> [] \<and> aud \<noteq> c_ClientID C \<and> (case lib_url L aud of Some u \<Rightarrow> IsAbs u | None \<Rightarrow> False)
      then Some ''unauthorized: token audience is a resource indicator''
      else None)"

definition sameAudience :: "string \<Rightarrow> string \<Rightarrow> bool" where
  "sameAudience aud hostname =
     (let a = TrimSuffix (TrimSpace aud) ''/''; h = TrimSuffix (TrimSpace hostname) ''/''
      in a \<noteq> [] \<and> h \<noteq> [] \<and> a = h)"

definition mcpAudienceOK :: "string \<Rightarrow> string \<Rightarrow> string option" where
  "mcpAudienceOK resource aud =
     (if sameAudience aud resource then None
      else Some ''unauthorized: token audience is not this mcp server'')"

text \<open>The memory-store coordinates of a token: its session key and its sub-key.\<close>

definition claims_session_key :: "claims \<Rightarrow> string" where
  "claims_session_key m =
     (if str_of m ''login_method'' \<noteq> [] then str_of m ''login_method'' @ '':'' @ str_of m ''sub''
      else str_of m ''sub'')"

definition no_subject :: "claims \<Rightarrow> bool" where
  "no_subject m \<longleftrightarrow> str_of m ''sub'' = []"

section \<open>Stateful access tokens\<close>

definition validateStatefulAccessToken ::
    "'s ctx \<Rightarrow> instant \<Rightarrow> string \<Rightarrow> string \<Rightarrow> (string \<Rightarrow> string option) \<Rightarrow> 's \<Rightarrow> vres \<times> 's" where
  "validateStatefulAccessToken X now host accessToken audienceOK s =
     (if accessToken = [] then (VErr [] unauthorized, s)
      else
       (case ParseJWTToken (x_C X) (x_L X) now accessToken of
          (res, Some err) \<Rightarrow> (VErr res (TokenError err), s)
        | (res, None) \<Rightarrow>
            if no_subject res then (VErr res (TokenError ''unauthorized: missing sub claim''), s)
            else
             (let userID = str_of res ''sub''; nonce = str_of res ''nonce'' in
              case m_GetUserSession (x_M X) now (claims_session_key res)
                     (TokenTypeAccessToken @ ''_'' @ nonce) s of
                (Panic, s') \<Rightarrow> (VPanic, s')
              | (Err _, s') \<Rightarrow> (VErr res unauthorized, s')
              | (Ok token, s') \<Rightarrow>
                  if nonce = [] then (VErr res unauthorized, s')
                  else if \<not> VerifySessionValue (x_L X) accessToken token then (VErr res unauthorized, s')
                  else if known_dead (x_S X) userID
                  then (VErr res (TokenError ''unauthorized: subject is not active''), s')
                  else
                   (let aud = str_of res ''aud'' in
                    case audienceOK aud of
                      Some err \<Rightarrow> (VErr res (TokenError err), s')
                    | None \<Rightarrow>
                        (case ValidateJWTClaims (x_C X) res
                                (no_config\<lparr>atc_HostName := host, atc_Nonce := nonce, atc_ClientID := aud\<rparr>)
                                userID None of
                           Some err \<Rightarrow> (VErr res (TokenError err), s')
                         | None \<Rightarrow>
                             if claim_of res ''token_type'' \<noteq> CStr TokenTypeAccessToken
                             then (VErr res (TokenError ''unauthorized: invalid token type''), s')
                             else (VOk res, s'))))))"

definition ValidateAccessToken :: "'s ctx \<Rightarrow> instant \<Rightarrow> string \<Rightarrow> string \<Rightarrow> 's \<Rightarrow> vres \<times> 's" where
  "ValidateAccessToken X now host accessToken s =
     validateStatefulAccessToken X now host accessToken (firstPartyAudienceOK (x_C X) (x_L X)) s"

section \<open>Refresh tokens\<close>

definition refresh_unbacked :: "claims \<Rightarrow> string \<Rightarrow> terr" where
  "refresh_unbacked res expectedClientID =
     (if str_of res ''nonce'' \<noteq> [] \<and> str_of res ''token_type'' = TokenTypeRefreshToken \<and>
         str_of res ''aud'' = expectedClientID
      then ErrRefreshTokenReuse else unauthorized)"

definition ValidateRefreshToken ::
    "'s ctx \<Rightarrow> instant \<Rightarrow> string \<Rightarrow> string \<Rightarrow> string \<Rightarrow> 's \<Rightarrow> vres \<times> 's" where
  "ValidateRefreshToken X now host refreshToken expectedClientID s =
     (if refreshToken = [] then (VErr [] unauthorized, s)
      else
       (case ParseJWTToken (x_C X) (x_L X) now refreshToken of
          (res, Some err) \<Rightarrow> (VErr res (TokenError err), s)
        | (res, None) \<Rightarrow>
            if no_subject res then (VErr res (TokenError ''unauthorized: missing sub claim''), s)
            else
             (let nonce = str_of res ''nonce'' in
              case m_GetUserSession (x_M X) now (claims_session_key res)
                     (TokenTypeRefreshToken @ ''_'' @ nonce) s of
                (Panic, s') \<Rightarrow> (VPanic, s')
              | (Err _, s') \<Rightarrow> (VErr res (refresh_unbacked res expectedClientID), s')
              | (Ok token, s') \<Rightarrow>
                  if nonce = [] then (VErr res (refresh_unbacked res expectedClientID), s')
                  else if \<not> VerifySessionValue (x_L X) refreshToken token then (VErr res unauthorized, s')
                  else
                   (case ValidateJWTClaims (x_C X) res
                           (no_config\<lparr>atc_HostName := host, atc_Nonce := nonce,
                                      atc_ClientID := expectedClientID\<rparr>) (str_of res ''sub'') None of
                      Some err \<Rightarrow> (VErr res (TokenError err), s')
                    | None \<Rightarrow>
                        if claim_of res ''token_type'' \<noteq> CStr TokenTypeRefreshToken
                        then (VErr res (TokenError ''unauthorized: invalid token type''), s')
                        else (VOk res, s')))))"

section \<open>Browser sessions\<close>

definition session_store_key :: "SessionData \<Rightarrow> string" where
  "session_store_key sd =
     (if sd_LoginMethod sd \<noteq> [] then sd_LoginMethod sd @ '':'' @ sd_Subject sd else sd_Subject sd)"

definition ValidateBrowserSession ::
    "'s ctx \<Rightarrow> instant \<Rightarrow> string \<Rightarrow> 's \<Rightarrow> SessionData out \<times> 's" where
  "ValidateBrowserSession X now encryptedSession s =
     (if encryptedSession = [] then (Err ''unauthorized'', s)
      else
       (case DecryptAES (x_L X) (c_ClientSecret (x_C X)) encryptedSession of
          Panic \<Rightarrow> (Panic, s) | Err e \<Rightarrow> (Err e, s)
        | Ok plain \<Rightarrow>
            (case lib_session_dec (x_L X) plain of
               Panic \<Rightarrow> (Panic, s) | Err e \<Rightarrow> (Err e, s)
             | Ok res \<Rightarrow>
                 (case m_GetUserSession (x_M X) now (session_store_key res)
                         (TokenTypeSessionToken @ ''_'' @ sd_Nonce res) s of
                    (Panic, s') \<Rightarrow> (Panic, s')
                  | (Err _, s') \<Rightarrow> (Err ''unauthorized'', s')
                  | (Ok token, s') \<Rightarrow>
                      if token = [] then (Err ''unauthorized'', s')
                      else if \<not> VerifySessionValue (x_L X) encryptedSession token
                      then (Err ''unauthorized: invalid nonce'', s')
                      else if sd_ExpiresAt res \<le> Unix now then (Err ''unauthorized: token expired'', s')
                      else if known_dead (x_S X) (sd_Subject res)
                      then (Err ''unauthorized: user revoked'', s')
                      else (Ok res, s')))))"

section \<open>Delegated tokens\<close>

definition ImmediateActor :: "claims \<Rightarrow> string" where
  "ImmediateActor m =
     (case as_map (claim_of m ''act'') of
        None \<Rightarrow> []
      | Some act \<Rightarrow> TrimSpace (str_of act ''sub''))"

definition DelegationSessionID :: "string \<Rightarrow> string \<Rightarrow> string \<Rightarrow> string" where
  "DelegationSessionID loginMethod userID nonce =
     (let lm = TrimSpace loginMethod; uid = TrimSpace userID; n = TrimSpace nonce in
      if uid = [] \<or> n = [] then []
      else (if lm \<noteq> [] then lm @ '':'' @ uid else uid) @ ''|'' @ n)"

definition ParseDelegationSessionID :: "string \<Rightarrow> (string \<times> string) option" where
  "ParseDelegationSessionID sid =
     (case LastIndex sid ''|'' of
        None \<Rightarrow> None
      | Some i \<Rightarrow> if i = 0 \<or> i = length sid - 1 then None else Some (take i sid, drop (i + 1) sid))"

text \<open>\<open>None\<close> is a panic of the store.\<close>

definition delegationSessionIsLive :: "'s ctx \<Rightarrow> instant \<Rightarrow> claims \<Rightarrow> 's \<Rightarrow> bool option \<times> 's" where
  "delegationSessionIsLive X now m s =
     (case ParseDelegationSessionID (str_of m ''sid'') of
        None \<Rightarrow> (Some False, s)
      | Some (sessionKey, nonce) \<Rightarrow>
          (case m_GetUserSession (x_M X) now sessionKey (TokenTypeAccessToken @ ''_'' @ nonce) s of
             (Panic, s') \<Rightarrow> (None, s')
           | (Err _, s') \<Rightarrow> (Some False, s')
           | (Ok _, s') \<Rightarrow> (Some True, s')))"

definition validateDelegatedForAudience ::
    "'s ctx \<Rightarrow> instant \<Rightarrow> string \<Rightarrow> string \<Rightarrow> string \<Rightarrow> 's \<Rightarrow> vres \<times> 's" where
  "validateDelegatedForAudience X now host accessToken expectedAud s =
     (if accessToken = [] then (VErr [] unauthorized, s)
      else
       (case ParseJWTToken (x_C X) (x_L X) now accessToken of
          (res, Some err) \<Rightarrow> (VErr res (TokenError err), s)
        | (res, None) \<Rightarrow>
            if ImmediateActor res = [] then (VErr res (TokenError ''unauthorized: not a delegated token''), s)
            else if no_subject res then (VErr res (TokenError ''unauthorized: missing sub claim''), s)
            else if \<not> sameAudience (str_of res ''aud'') expectedAud
            then (VErr res (TokenError ''unauthorized: token audience is not this server''), s)
            else
             (case delegationSessionIsLive X now res s of
                (None, s') \<Rightarrow> (VPanic, s')
              | (Some False, s') \<Rightarrow>
                  (VErr res (TokenError ''unauthorized: originating session is no longer valid''), s')
              | (Some True, s') \<Rightarrow>
                  if \<not> subjectIsLive (x_S X) (str_of res ''sub'')
                  then (VErr res (TokenError ''unauthorized: delegation subject is not active''), s')
                  else
                   (case ValidateJWTTokenWithoutNonce (x_C X) res
                           (no_config\<lparr>atc_HostName := host, atc_ClientID := str_of res ''aud''\<rparr>)
                           (str_of res ''sub'') of
                      Some err \<Rightarrow> (VErr res (TokenError err), s')
                    | None \<Rightarrow>
                        if claim_of res ''token_type'' \<noteq> CStr TokenTypeAccessToken
                        then (VErr res (TokenError ''unauthorized: invalid token type''), s')
                        else (VOk res, s')))))"

definition ValidateDelegatedAccessToken :: "'s ctx \<Rightarrow> instant \<Rightarrow> string \<Rightarrow> string \<Rightarrow> 's \<Rightarrow> vres \<times> 's" where
  "ValidateDelegatedAccessToken X now host accessToken s =
     validateDelegatedForAudience X now host accessToken host s"

definition ValidateDelegatedAccessTokenForResource ::
    "'s ctx \<Rightarrow> instant \<Rightarrow> string \<Rightarrow> string \<Rightarrow> string \<Rightarrow> 's \<Rightarrow> vres \<times> 's" where
  "ValidateDelegatedAccessTokenForResource X now host accessToken resource s =
     (if TrimSpace resource = [] then (VErr [] (TokenError ''unauthorized: no resource configured''), s)
      else validateDelegatedForAudience X now host accessToken resource s)"

definition ValidateMCPAccessToken ::
    "'s ctx \<Rightarrow> instant \<Rightarrow> string \<Rightarrow> string \<Rightarrow> string \<Rightarrow> 's \<Rightarrow> vres \<times> 's" where
  "ValidateMCPAccessToken X now host accessToken resource s =
     (if resource = [] then (VErr [] (TokenError ''unauthorized: no mcp resource configured''), s)
      else
       (case validateStatefulAccessToken X now host accessToken (mcpAudienceOK resource) s of
          (VPanic, s') \<Rightarrow> (VPanic, s')
        | (VOk m, s') \<Rightarrow> (VOk m, s')
        | (VErr m err, s') \<Rightarrow>
            if ImmediateActor m = [] then (VErr m err, s')
            else ValidateDelegatedAccessTokenForResource X now host accessToken resource s'))"

section \<open>The caller of an API request\<close>

fun claimToScopeSlice :: "claim \<Rightarrow> string list" where
  "claimToScopeSlice (CStrs l) = (case l of None \<Rightarrow> [] | Some x \<Rightarrow> x)"
| "claimToScopeSlice (CStr t) = Fields t"
| "claimToScopeSlice (CList l) = List.map_filter as_string l"
| "claimToScopeSlice _ = []"

definition ClaimScopes :: "claims \<Rightarrow> string list" where
  "ClaimScopes m = claimToScopeSlice (claim_of m ''scope'')"

text \<open>\<open>GetAccessToken\<close> and \<open>GetIDToken\<close>: the bearer token of the Authorization header.\<close>

definition GetAccessToken :: "string \<Rightarrow> string out" where
  "GetAccessToken auth =
     (if auth = [] then Err ''unauthorized''
      else
       (case Split auth '' '' of
          [scheme, tok] \<Rightarrow> if ToLower scheme \<noteq> ''bearer'' then Err ''not a bearer token'' else Ok tok
        | _ \<Rightarrow> Err ''unauthorized''))"

record SessionOrAccessTokenData =
  sa_UserID :: string
  sa_LoginMethod :: string
  sa_Nonce :: string
  sa_ActorID :: string
  sa_Scope :: "string list"

definition data_of_claims :: "claims \<Rightarrow> SessionOrAccessTokenData out" where
  "data_of_claims m =
     (if no_subject m then Err ''unauthorized: missing sub claim''
      else Ok \<lparr>sa_UserID = str_of m ''sub'', sa_LoginMethod = str_of m ''login_method'',
               sa_Nonce = str_of m ''nonce'', sa_ActorID = ImmediateActor m,
               sa_Scope = claimToScopeSlice (claim_of m ''scope'')\<rparr>)"

text \<open>\<open>cookie\<close> is the result of \<open>cookie.GetSession\<close>, empty when there is none or it failed.\<close>

definition GetUserIDFromSessionOrAccessToken ::
    "'s ctx \<Rightarrow> instant \<Rightarrow> string \<Rightarrow> string \<Rightarrow> string \<Rightarrow> 's \<Rightarrow> SessionOrAccessTokenData out \<times> 's" where
  "GetUserIDFromSessionOrAccessToken X now host cookie auth s =
     (if cookie \<noteq> [] then
       (case ValidateBrowserSession X now cookie s of
          (Panic, s') \<Rightarrow> (Panic, s')
        | (Err _, s') \<Rightarrow> (Err ''unauthorized'', s')
        | (Ok c, s') \<Rightarrow>
            (Ok \<lparr>sa_UserID = sd_Subject c, sa_LoginMethod = sd_LoginMethod c, sa_Nonce = sd_Nonce c,
                 sa_ActorID = [], sa_Scope = []\<rparr>, s'))
      else
       (case GetAccessToken auth of
          Panic \<Rightarrow> (Panic, s)
        | Err _ \<Rightarrow> (Err ''unauthorized'', s)
        | Ok token \<Rightarrow>
            if token = [] then (Err ''unauthorized'', s)
            else
             (case ValidateAccessToken X now host token s of
                (VPanic, s') \<Rightarrow> (Panic, s')
              | (VOk m, s') \<Rightarrow> (data_of_claims m, s')
              | (VErr _ _, s') \<Rightarrow>
                  (case ValidateDelegatedAccessToken X now host token s' of
                     (VPanic, s'') \<Rightarrow> (Panic, s'')
                   | (VErr _ _, s'') \<Rightarrow> (Err ''unauthorized'', s'')
                   | (VOk m, s'') \<Rightarrow> (data_of_claims m, s'')))))"

section \<open>What a successful validation has established\<close>

lemma validateStateful_VOk:
  assumes "validateStatefulAccessToken X now host t audienceOK s = (VOk m, s')"
  obtains stored where "ParseJWTToken (x_C X) (x_L X) now t = (m, None)" "str_of m ''sub'' \<noteq> []"
    "m_GetUserSession (x_M X) now (claims_session_key m) (TokenTypeAccessToken @ ''_'' @ str_of m ''nonce'') s
       = (Ok stored, s')"
    "str_of m ''nonce'' \<noteq> []" "VerifySessionValue (x_L X) t stored" "\<not> known_dead (x_S X) (str_of m ''sub'')"
    "audienceOK (str_of m ''aud'') = None" "claim_of m ''iss'' = CStr host"
    "claim_of m ''aud'' = CStr (if str_of m ''aud'' = [] then c_ClientID (x_C X) else str_of m ''aud'')"
    "claim_of m ''token_type'' = CStr TokenTypeAccessToken"
  using assms
  by (auto simp: validateStatefulAccessToken_def Let_def ValidateJWTClaims_None no_subject_def audience_def
      no_config_def split: if_splits prod.splits option.splits out.splits)

lemma ValidateRefresh_VOk:
  assumes "ValidateRefreshToken X now host t cid s = (VOk m, s')"
  obtains stored where "ParseJWTToken (x_C X) (x_L X) now t = (m, None)" "str_of m ''sub'' \<noteq> []"
    "m_GetUserSession (x_M X) now (claims_session_key m) (TokenTypeRefreshToken @ ''_'' @ str_of m ''nonce'') s
       = (Ok stored, s')"
    "str_of m ''nonce'' \<noteq> []" "VerifySessionValue (x_L X) t stored" "claim_of m ''iss'' = CStr host"
    "claim_of m ''aud'' = CStr (if cid = [] then c_ClientID (x_C X) else cid)"
    "claim_of m ''token_type'' = CStr TokenTypeRefreshToken"
  using assms
  by (auto simp: ValidateRefreshToken_def Let_def ValidateJWTClaims_None no_subject_def audience_def
      no_config_def split: if_splits prod.splits option.splits out.splits)

lemma ValidateBrowserSession_Ok:
  assumes "ValidateBrowserSession X now c s = (Ok sd, s')"
  obtains plain stored where "DecryptAES (x_L X) (c_ClientSecret (x_C X)) c = Ok plain"
    "lib_session_dec (x_L X) plain = Ok sd"
    "m_GetUserSession (x_M X) now (session_store_key sd) (TokenTypeSessionToken @ ''_'' @ sd_Nonce sd) s
       = (Ok stored, s')"
    "VerifySessionValue (x_L X) c stored" "Unix now < sd_ExpiresAt sd" "\<not> known_dead (x_S X) (sd_Subject sd)"
  using assms
  by (auto simp: ValidateBrowserSession_def split: if_splits prod.splits out.splits)

lemma validateDelegated_VOk:
  assumes "validateDelegatedForAudience X now host t aud s = (VOk m, s')"
  obtains sk n v where "ParseJWTToken (x_C X) (x_L X) now t = (m, None)" "ImmediateActor m \<noteq> []"
    "str_of m ''sub'' \<noteq> []" "sameAudience (str_of m ''aud'') aud"
    "ParseDelegationSessionID (str_of m ''sid'') = Some (sk, n)"
    "m_GetUserSession (x_M X) now sk (TokenTypeAccessToken @ ''_'' @ n) s = (Ok v, s')"
    "subjectIsLive (x_S X) (str_of m ''sub'')" "claim_of m ''iss'' = CStr host"
    "claim_of m ''token_type'' = CStr TokenTypeAccessToken"
  using assms
  by (auto simp: validateDelegatedForAudience_def delegationSessionIsLive_def Let_def no_config_def
      ValidateJWTTokenWithoutNonce_None no_subject_def
      split: if_splits prod.splits option.splits out.splits bool.splits)

text \<open>Two parses of one token agree.\<close>

lemma parse_unique: "ParseJWTToken C L now t = (m, None) \<Longrightarrow> ParseJWTToken C L now t = (m', None) \<Longrightarrow> m = m'"
  by simp

section \<open>Over any store that keeps the contract\<close>

context memory_store_contract
begin

lemma get_session_Ok:
  assumes "invar s" "m_GetUserSession M now u k s = (Ok v, s')"
  shows "sess now s (addr u k) = Some v \<and> v \<noteq> []"
  using get_session[OF assms] by (auto split: option.splits if_splits)

text \<open>Deleting a session ends every credential that is backed by it.\<close>

lemma revoked_access:
  assumes "invar s" "x_M X = M" "m_DeleteUserSession M u n s = (r, s1)"
    and "ParseJWTToken (x_C X) (x_L X) now t = (m, None)"
    and "claims_session_key m = u" "str_of m ''nonce'' = n"
  shows "\<nexists>m' s'. validateStatefulAccessToken X now host t ok s1 = (VOk m', s')"
proof
  assume "\<exists>m' s'. validateStatefulAccessToken X now host t ok s1 = (VOk m', s')"
  then obtain m' s' stored where "m_GetUserSession M now u (TokenTypeAccessToken @ ''_'' @ n) s1 = (Ok stored, s')"
    using assms(2,4-6) by (auto elim!: validateStateful_VOk)
  moreover from delete_session[OF assms(1,3)]
  have "invar s1" "\<not> held s1 (addr u (TokenTypeAccessToken @ ''_'' @ n))" by auto
  ultimately show False using get_session_Ok sess_held by blast
qed

lemma revoked_refresh:
  assumes "invar s" "x_M X = M" "m_DeleteUserSession M u n s = (r, s1)"
    and "ParseJWTToken (x_C X) (x_L X) now t = (m, None)"
    and "claims_session_key m = u" "str_of m ''nonce'' = n"
  shows "\<nexists>m' s'. ValidateRefreshToken X now host t cid s1 = (VOk m', s')"
proof
  assume "\<exists>m' s'. ValidateRefreshToken X now host t cid s1 = (VOk m', s')"
  then obtain m' s' stored where "m_GetUserSession M now u (TokenTypeRefreshToken @ ''_'' @ n) s1 = (Ok stored, s')"
    using assms(2,4-6) by (auto elim!: ValidateRefresh_VOk)
  moreover from delete_session[OF assms(1,3)]
  have "invar s1" "\<not> held s1 (addr u (TokenTypeRefreshToken @ ''_'' @ n))" by auto
  ultimately show False using get_session_Ok sess_held by blast
qed

lemma revoked_delegated:
  assumes "invar s" "x_M X = M" "m_DeleteUserSession M u n s = (r, s1)"
    and "ParseJWTToken (x_C X) (x_L X) now t = (m, None)"
    and "ParseDelegationSessionID (str_of m ''sid'') = Some (u, n)"
  shows "\<nexists>m' s'. validateDelegatedForAudience X now host t aud s1 = (VOk m', s')"
proof
  assume "\<exists>m' s'. validateDelegatedForAudience X now host t aud s1 = (VOk m', s')"
  then obtain m' s' v where "m_GetUserSession M now u (TokenTypeAccessToken @ ''_'' @ n) s1 = (Ok v, s')"
    using assms(2,4,5) by (auto elim!: validateDelegated_VOk)
  moreover from delete_session[OF assms(1,3)]
  have "invar s1" "\<not> held s1 (addr u (TokenTypeAccessToken @ ''_'' @ n))" by auto
  ultimately show False using get_session_Ok sess_held by blast
qed

text \<open>A registered token reads back.\<close>

lemma registered_access_token:
  assumes "invar s" "x_M X = M"
    and set: "m_SetUserSession M now u (TokenTypeAccessToken @ ''_'' @ n) (HashSessionValue (x_L X) t) e s = (Ok (), s1)"
    and parse: "ParseJWTToken (x_C X) (x_L X) now' t = (m, None)"
    and coords: "claims_session_key m = u" "str_of m ''nonce'' = n" "n \<noteq> []" "str_of m ''sub'' \<noteq> []" "t \<noteq> []"
    and live: "Unix now' < e" "\<not> known_dead (x_S X) (str_of m ''sub'')"
    and aud: "audienceOK (str_of m ''aud'') = None" "str_of m ''aud'' \<noteq> []"
    and claims: "claim_of m ''iss'' = CStr host" "claim_of m ''token_type'' = CStr TokenTypeAccessToken"
  shows "fst (validateStatefulAccessToken X now' host t audienceOK s1) = VOk m"
proof -
  obtain g s2 where g: "m_GetUserSession M now' u (TokenTypeAccessToken @ ''_'' @ n) s1 = (g, s2)"
    by (cases "m_GetUserSession M now' u (TokenTypeAccessToken @ ''_'' @ n) s1")
  have "g = Ok (HashSessionValue (x_L X) t)"
    using set_then_get[OF assms(1) set _ g live(1)] coords(5) by simp
  moreover have "claim_of m ''aud'' = CStr (str_of m ''aud'')" "claim_of m ''nonce'' = CStr n"
    "claim_of m ''sub'' = CStr (str_of m ''sub'')"
    using str_of_nonempty coords aud(2) by auto
  ultimately show ?thesis
    using assms g
    by (simp add: validateStatefulAccessToken_def no_subject_def Let_def ValidateJWTClaims_def audience_def
        no_config_def)
qed

end

section \<open>Properties\<close>

text \<open>The token provider on the in-memory store.\<close>

definition im_ctx :: "config \<Rightarrow> libs \<Rightarrow> storage \<Rightarrow> in_memory ctx" where
  "im_ctx C L S = \<lparr>x_C = C, x_L = L, x_M = in_memory_ops, x_S = S\<rparr>"

lemma im_ctx_sel [simp]:
  "x_C (im_ctx C L S) = C" "x_L (im_ctx C L S) = L" "x_M (im_ctx C L S) = in_memory_ops"
  "x_S (im_ctx C L S) = S"
  by (simp_all add: im_ctx_def)

text \<open>A store in which the token \<open>access_token.n1\<close> is registered, and a library that verifies it.\<close>

definition fx_signed :: claims where
  "fx_signed = (case with_script fx_config fx_libs fx_user (user_access_claims fx_config 0 fx_atc fx_user) of
     Ok m \<Rightarrow> m | _ \<Rightarrow> [])"

definition fx_vlibs :: libs where
  "fx_vlibs = fx_libs\<lparr>lib_parse := (\<lambda>now alg key t.
     if t = ''access_token.n1'' then (norm_claims fx_signed, None) else ([], Some ''token is malformed''))\<rparr>"

definition fx_store :: in_memory where
  "fx_store = snd (im_SetUserSession 0 ''basic_auth:u1'' (TokenTypeAccessToken @ ''_'' @ ''n1'')
     (HashSessionValue fx_vlibs ''access_token.n1'') 1800 NewInMemoryProvider)"

definition fx_claims :: claims where
  "fx_claims = fst (ParseJWTToken fx_config fx_vlibs (100 * Second) ''access_token.n1'')"

lemma fx_store_inv: "im_inv fx_store"
  unfolding fx_store_def by (rule conjunct1[OF im_set_session[OF im_inv_New prod.collapse[symmetric]]])

lemma fx_parse: "ParseJWTToken fx_config fx_vlibs (100 * Second) ''access_token.n1'' = (fx_claims, None)"
  by code_simp

lemma fx_valid:
  "ValidateAccessToken (im_ctx fx_config fx_vlibs fx_storage) (100 * Second) ''https://auth'' ''access_token.n1''
     fx_store = (VOk fx_claims, fx_store)"
  by code_simp

text \<open>
  C11. Acceptance of an access token at the first-party endpoints: its signature was verified with
  one of the configured keys, an unexpired session entry at its coordinates holds its digest (or,
  for a legacy row, the token), its subject is not known to be dead, it names this issuer, is an
  access token, and its audience is not a foreign resource.
\<close>

theorem access_token_acceptance:
  assumes "ValidateAccessToken (im_ctx C L S) now host t s = (VOk m, s')" and "im_inv s"
  shows "(\<exists>c. verify_with_keys C L now t = (c, None)) \<and>
    (\<exists>stored. im_sess now s (session_key (claims_session_key m)
        (TokenTypeAccessToken @ ''_'' @ str_of m ''nonce'')) = Some stored \<and> VerifySessionValue L t stored) \<and>
    \<not> known_dead S (str_of m ''sub'') \<and> claim_of m ''iss'' = CStr host \<and>
    claim_of m ''token_type'' = CStr TokenTypeAccessToken \<and>
    (str_of m ''aud'' = c_ClientID C \<or> (\<forall>u. lib_url L (str_of m ''aud'') = Some u \<longrightarrow> \<not> IsAbs u))"
proof -
  from assms(1) obtain stored where p: "ParseJWTToken C L now t = (m, None)"
    and g: "im_GetUserSession now (claims_session_key m) (TokenTypeAccessToken @ ''_'' @ str_of m ''nonce'') s
       = (Ok stored, s')"
    and v: "VerifySessionValue L t stored" "\<not> known_dead S (str_of m ''sub'')" "claim_of m ''iss'' = CStr host"
      "claim_of m ''token_type'' = CStr TokenTypeAccessToken"
    and a: "firstPartyAudienceOK C L (str_of m ''aud'') = None"
      "claim_of m ''aud'' = CStr (if str_of m ''aud'' = [] then c_ClientID C else str_of m ''aud'')"
    unfolding ValidateAccessToken_def by (auto elim!: validateStateful_VOk)
  from p obtain c where "verify_with_keys C L now t = (c, None)" by (elim ParseJWTToken_ok)
  moreover have "im_sess now s (session_key (claims_session_key m)
      (TokenTypeAccessToken @ ''_'' @ str_of m ''nonce'')) = Some stored"
    using im.get_session_Ok[OF assms(2)] g by simp
  moreover have "str_of m ''aud'' = c_ClientID C \<or> (\<forall>u. lib_url L (str_of m ''aud'') = Some u \<longrightarrow> \<not> IsAbs u)"
    using a str_of_CStr[OF a(2)] by (auto simp: firstPartyAudienceOK_def split: if_splits option.splits)
  ultimately show ?thesis using v by blast
qed

theorem access_token_acceptance_witness:
  "ValidateAccessToken (im_ctx fx_config fx_vlibs fx_storage) (100 * Second) ''https://auth'' ''access_token.n1''
     fx_store = (VOk fx_claims, fx_store) \<and> \<not> known_dead fx_storage (str_of fx_claims ''sub'')"
  using access_token_acceptance[OF fx_valid fx_store_inv] fx_valid by simp

text \<open>
  C12. Revocation: once the session of a nonce is deleted, the access token and the refresh token
  of that nonce and every delegated token derived from it are refused, whatever the audience
  policy of the surface.
\<close>

theorem deleted_session_revokes_tokens:
  assumes "im_inv s" and "im_DeleteUserSession u n s = (r, s1)"
    and "ParseJWTToken C L now t = (m, None)"
  shows "(claims_session_key m = u \<and> str_of m ''nonce'' = n \<longrightarrow>
      (\<nexists>m' s'. validateStatefulAccessToken (im_ctx C L S) now host t ok s1 = (VOk m', s')) \<and>
      (\<nexists>m' s'. ValidateRefreshToken (im_ctx C L S) now host t cid s1 = (VOk m', s'))) \<and>
    (ParseDelegationSessionID (str_of m ''sid'') = Some (u, n) \<longrightarrow>
      (\<nexists>m' s'. validateDelegatedForAudience (im_ctx C L S) now host t aud s1 = (VOk m', s')))"
  using im.revoked_access[of s "im_ctx C L S" u n r s1 now t m] im.revoked_refresh[of s "im_ctx C L S" u n r s1 now t m]
    im.revoked_delegated[of s "im_ctx C L S" u n r s1 now t m] assms by simp

theorem deleted_session_revokes_tokens_witness:
  "claims_session_key fx_claims = ''basic_auth:u1'' \<and> str_of fx_claims ''nonce'' = ''n1'' \<and>
   (\<nexists>m' s'. ValidateAccessToken (im_ctx fx_config fx_vlibs fx_storage) (100 * Second) ''https://auth''
      ''access_token.n1'' (snd (im_DeleteUserSession ''basic_auth:u1'' ''n1'' fx_store)) = (VOk m', s'))"
proof -
  have c: "claims_session_key fx_claims = ''basic_auth:u1'' \<and> str_of fx_claims ''nonce'' = ''n1''" by code_simp
  show ?thesis
    using deleted_session_revokes_tokens[OF fx_store_inv prod.collapse[symmetric] fx_parse] c
    unfolding ValidateAccessToken_def by blast
qed



text \<open>
  The two audience rules exclude each other: a token whose audience is an absolute URI
  other than the deployment's client id, as every token bound to the MCP resource has, is refused
  at the first-party endpoints, and one that the MCP rule refuses is refused by it as an ordinary
  token at the MCP surface.
\<close>

theorem audience_surfaces_disjoint:
  assumes "ParseJWTToken C L now t = (m, None)"
  shows "(lib_url L (str_of m ''aud'') = Some u \<and> IsAbs u \<and> str_of m ''aud'' \<notin> {[], c_ClientID C} \<longrightarrow>
      (\<nexists>r s'. ValidateAccessToken (im_ctx C L S) now host t s = (VOk r, s'))) \<and>
    (\<not> sameAudience (str_of m ''aud'') resource \<longrightarrow>
      (\<nexists>r s'. ValidateMCPAccessToken (im_ctx C L S) now host t resource s = (VOk r, s')))"
proof -
  have first: "\<not> ValidateAccessToken (im_ctx C L S) now host t s = (VOk r, s')"
    if "lib_url L (str_of m ''aud'') = Some u" "IsAbs u" "str_of m ''aud'' \<notin> {[], c_ClientID C}" for r s'
    using assms that unfolding ValidateAccessToken_def
    by (auto elim!: validateStateful_VOk simp: firstPartyAudienceOK_def)
  have "\<not> ValidateMCPAccessToken (im_ctx C L S) now host t resource s = (VOk r, s')"
    if "\<not> sameAudience (str_of m ''aud'') resource" for r s'
  proof
    assume a: "ValidateMCPAccessToken (im_ctx C L S) now host t resource s = (VOk r, s')"
    have "\<not> validateStatefulAccessToken (im_ctx C L S) now host t (mcpAudienceOK resource) s = (VOk r, s')"
      using assms that by (auto elim!: validateStateful_VOk simp: mcpAudienceOK_def)
    with a obtain s2 where "validateDelegatedForAudience (im_ctx C L S) now host t resource s2 = (VOk r, s')"
      by (auto simp: ValidateMCPAccessToken_def ValidateDelegatedAccessTokenForResource_def
          split: if_splits prod.splits vres.splits)
    then show False using assms that by (auto elim!: validateDelegated_VOk)
  qed
  with first show ?thesis by blast
qed

theorem audience_surfaces_disjoint_witness:
  "\<not> sameAudience (str_of fx_claims ''aud'') ''https://auth/mcp'' \<and>
   (\<nexists>r s'. ValidateMCPAccessToken (im_ctx fx_config fx_vlibs fx_storage) (100 * Second) ''https://auth''
      ''access_token.n1'' ''https://auth/mcp'' fx_store = (VOk r, s'))"
proof -
  have "\<not> sameAudience (str_of fx_claims ''aud'') ''https://auth/mcp''" by code_simp
  then show ?thesis using audience_surfaces_disjoint[OF fx_parse] by blast
qed

text \<open>
  The session id of a delegated token leads back to the session it was derived from:
  parsing it returns the key and the nonce under which the subject's token is registered, when
  the nonce has no separator in it (it is a UUID) and the parts carry no surrounding space.
\<close>

theorem delegation_session_round_trip:
  assumes "TrimSpace lm = lm" "TrimSpace uid = uid" "TrimSpace n = n"
    and "uid \<noteq> []" "n \<noteq> []" "CHR ''|'' \<notin> set n"
  shows "ParseDelegationSessionID (DelegationSessionID lm uid n) =
    Some (if lm \<noteq> [] then lm @ '':'' @ uid else uid, n)"
proof -
  let ?k = "if lm \<noteq> [] then lm @ '':'' @ uid else uid"
  have "?k \<noteq> []" using assms(4) by simp
  moreover have "LastIndex (?k @ ''|'' @ n) ''|'' = Some (length ?k)"
    using LastIndex_append[OF assms(6), of ?k] by simp
  ultimately show ?thesis
    using assms by (simp add: DelegationSessionID_def ParseDelegationSessionID_def Let_def)
qed

theorem delegation_session_round_trip_witness:
  "ParseDelegationSessionID (DelegationSessionID ''google'' ''u|1'' ''n1'') = Some (''google:u|1'', ''n1'')"
proof -
  have "TrimSpace ''google'' = ''google''" "TrimSpace ''u|1'' = ''u|1''" "TrimSpace ''n1'' = ''n1''" by code_simp+
  then show ?thesis using delegation_session_round_trip[of "''google''" "''u|1''" "''n1''"] by simp
qed

end
