(* ===== verification/Client_Auth.thy ===== *)
theory Client_Auth
  imports Token_Validate
begin

text \<open>
  \<open>internal/service/clientauth\<close>: authentication of the OAuth client at the token endpoint, by a
  shared secret (\<open>clientauth.go\<close>) or by a signed assertion of a trusted issuer
  (\<open>client_assertion.go\<close>), and \<open>internal/clientmetadata\<close> for client ids that are document URLs.
  Network fetches, the JOSE library and the Kubernetes TokenReview call are parameters.
\<close>

section \<open>Parameters and types\<close>

type_synonym keyset = "(string \<times> string) list"

record Document =
  d_ClientID :: string
  d_ClientName :: string
  d_RedirectURIs :: "string list"

text \<open>
  \<open>ae_unverified\<close> reads header and claims of a compact JWT without verifying it, \<open>ae_verify_sig\<close>
  checks its signature with a given algorithm and key. \<open>ae_metadata\<close> is the metadata document
  provider, absent when the deployment does not enable it.
\<close>

record auth_env =
  ae_unverified :: "string \<Rightarrow> (claims \<times> claims) option"
  ae_verify_sig :: "string \<Rightarrow> string \<Rightarrow> string \<Rightarrow> bool"
  ae_fetch :: "string \<Rightarrow> string out"
  ae_jwks_dec :: "string \<Rightarrow> keyset option"
  ae_jwks_enc :: "keyset \<Rightarrow> string option"
  ae_discovery :: "string \<Rightarrow> string option"
  ae_token_review :: "string \<Rightarrow> string \<Rightarrow> string \<Rightarrow> bool"
  ae_metadata :: "(string \<Rightarrow> Document out) option"

datatype cauth_err =
    ErrMultipleAuthMethods
  | ErrMissingClientID
  | ErrInvalidClient
  | ErrUnauthorizedClient
  | ErrUnsupportedAssertionType
  | ErrClientLookupFailed

text \<open>\<open>(client, nil)\<close>, \<open>(client or nil, err)\<close>, or a panic.\<close>

datatype cres = Resolved Client | Refused "Client option" cauth_err | CPanic

record ResolveParams =
  rp_BodyClientID :: string
  rp_BodySecret :: string
  rp_BasicClientID :: string
  rp_BasicSecret :: string
  rp_HasBasicAuth :: bool
  rp_RequireSecret :: bool
  rp_VerifyPresentedSecret :: bool
  rp_RequireServiceAccountKind :: bool
  rp_ClientAssertion :: string
  rp_ClientAssertionType :: string

section \<open>Client assertions\<close>

definition maxAssertionLifetime :: int where
  "maxAssertionLifetime = 3600"

definition jwksCacheTTLSeconds :: int where
  "jwksCacheTTLSeconds = 600"

definition assertionClockSkew :: int where
  "assertionClockSkew = 60"

definition allowedAssertionAlgs :: "string list" where
  "allowedAssertionAlgs =
     [''RS256'', ''RS384'', ''RS512'', ''PS256'', ''PS384'', ''PS512'', ''ES256'', ''ES384'', ''ES512'']"

definition isAllowedAlg :: "string \<Rightarrow> bool" where
  "isAllowedAlg alg \<longleftrightarrow> alg \<in> set allowedAssertionAlgs"

fun audienceContains :: "claim \<Rightarrow> string \<Rightarrow> bool" where
  "audienceContains (CStr v) expected = (v = expected)"
| "audienceContains (CList l) expected = list_ex (\<lambda>a. as_string a = Some expected) l"
| "audienceContains (CStrs l) expected = (case l of None \<Rightarrow> False | Some x \<Rightarrow> expected \<in> set x)"
| "audienceContains _ expected = False"

fun claim_int64 :: "claim \<Rightarrow> int option" where
  "claim_int64 (CFloat i) = Some i"
| "claim_int64 (CInt i) = Some i"
| "claim_int64 _ = None"

definition claimInt64 :: "claims \<Rightarrow> string \<Rightarrow> int option" where
  "claimInt64 m k = claim_int64 (claim_of m k)"

definition assertionReplayKey ::
    "libs \<Rightarrow> string \<Rightarrow> claims \<Rightarrow> string \<Rightarrow> string \<Rightarrow> int \<Rightarrow> int \<Rightarrow> string" where
  "assertionReplayKey L issuerID m iss sub iat exp =
     (if TrimSpace (str_of m ''jti'') \<noteq> []
      then ''assertion_jti:'' @ issuerID @ '':'' @ TrimSpace (str_of m ''jti'')
      else ''assertion_replay:'' @ issuerID @ '':'' @
        HexEncode (lib_sha256 L (iss @ ''|'' @ sub @ ''|'' @ FormatInt iat @ ''|'' @ FormatInt exp)))"

definition fetchJWKSBytes :: "auth_env \<Rightarrow> TrustedIssuer \<Rightarrow> string option" where
  "fetchJWKSBytes E issuer =
     (let get = (\<lambda>u. case ae_fetch E u of Ok b \<Rightarrow> Some b | _ \<Rightarrow> None) in
      if ti_KeySourceType issuer = KeySourceStaticJWKSURL then
        (case ti_JWKSUrl issuer of
           None \<Rightarrow> None
         | Some u \<Rightarrow> if TrimSpace u = [] then None else get u)
      else if ti_KeySourceType issuer = KeySourceOIDCDiscovery then
        (case get (TrimSuffix (ti_IssuerURL issuer) ''/'' @ ''/.well-known/openid-configuration'') of
           None \<Rightarrow> None
         | Some doc \<Rightarrow>
             (case ae_discovery E doc of
                None \<Rightarrow> None
              | Some uri \<Rightarrow> if TrimSpace uri = [] then None else get uri))
      else None)"

text \<open>\<open>v, _ := call()\<close>: an error leaves the zero value; \<open>None\<close> is a panic.\<close>

definition value_or_zero :: "string out \<Rightarrow> string option" where
  "value_or_zero r = (case r of Ok v \<Rightarrow> Some v | Err _ \<Rightarrow> Some [] | Panic \<Rightarrow> None)"

text \<open>The issuer's key set, from the shared cache or fetched and cached. \<open>Inl ()\<close> is a panic of the
  store, \<open>Inr None\<close> an error.\<close>

definition loadJWKS ::
    "'s ctx \<Rightarrow> auth_env \<Rightarrow> instant \<Rightarrow> TrustedIssuer \<Rightarrow> 's \<Rightarrow> (unit + keyset option) \<times> 's" where
  "loadJWKS X E now issuer s =
     (let cacheKey = ''jwks_cache:'' @ ti_ID issuer in
      case m_GetCache (x_M X) now cacheKey s of (g, s1) \<Rightarrow>
       (case value_or_zero g of
          None \<Rightarrow> (Inl (), s1)
        | Some cached \<Rightarrow>
            (case (if cached \<noteq> [] then ae_jwks_dec E cached else None) of
               Some (k # ks) \<Rightarrow> (Inr (Some (k # ks)), s1)
             | _ \<Rightarrow>
                 (case Option.bind (fetchJWKSBytes E issuer) (ae_jwks_dec E) of
                    Some (k # ks) \<Rightarrow>
                      (case ae_jwks_enc E (k # ks) of
                         None \<Rightarrow> (Inr (Some (k # ks)), s1)
                       | Some normalized \<Rightarrow>
                           (case m_SetCache (x_M X) now cacheKey normalized jwksCacheTTLSeconds s1 of
                              (Panic, s2) \<Rightarrow> (Inl (), s2)
                            | (_, s2) \<Rightarrow> (Inr (Some (k # ks)), s2)))
                  | _ \<Rightarrow> (Inr None, s1)))))"

text \<open>The key function: by key id, or the only key of the set.\<close>

definition assertionKeyfunc :: "keyset \<Rightarrow> claims \<Rightarrow> string option" where
  "assertionKeyfunc jwks header =
     (let kid = str_of header ''kid'' in
      if \<not> isAllowedAlg (str_of header ''alg'') then None
      else if kid \<noteq> [] then
        (case filter (\<lambda>k. fst k = kid) jwks of [] \<Rightarrow> None | k # _ \<Rightarrow> Some (snd k))
      else (case jwks of [k] \<Rightarrow> Some (snd k) | _ \<Rightarrow> None))"

text \<open>The verified parse with the algorithm allow-list and without the library's time checks.\<close>

definition parse_verified :: "auth_env \<Rightarrow> keyset \<Rightarrow> string \<Rightarrow> claims option" where
  "parse_verified E jwks token =
     (case ae_unverified E token of
        None \<Rightarrow> None
      | Some (header, m) \<Rightarrow>
          if \<not> isAllowedAlg (str_of header ''alg'') then None
          else
           (case assertionKeyfunc jwks header of
              None \<Rightarrow> None
            | Some key \<Rightarrow> if ae_verify_sig E (str_of header ''alg'') key token then Some m else None))"

text \<open>Times: \<open>exp\<close> and \<open>iat\<close> present, not expired, not from the future, \<open>nbf\<close> honoured, short-lived.\<close>

definition assertion_times :: "instant \<Rightarrow> claims \<Rightarrow> (int \<times> int) option" where
  "assertion_times now m =
     (case (claimInt64 m ''exp'', claimInt64 m ''iat'') of
        (Some exp, Some iat) \<Rightarrow>
          if Unix now > add64 exp assertionClockSkew then None
          else if iat > add64 (Unix now) assertionClockSkew then None
          else if (case claimInt64 m ''nbf'' of
                     Some nbf \<Rightarrow> Unix now < wrap64 (nbf - assertionClockSkew) | None \<Rightarrow> False) then None
          else if wrap64 (exp - iat) > maxAssertionLifetime then None
          else Some (exp, iat)
      | _ \<Rightarrow> None)"

definition assertion_subject :: "TrustedIssuer \<Rightarrow> bool \<Rightarrow> claims \<Rightarrow> string option" where
  "assertion_subject issuer spiffe m =
     (let sc = (if ti_SubjectClaim issuer = [] then ''sub'' else ti_SubjectClaim issuer);
          subject = TrimSpace (str_of m sc)
      in if spiffe \<and> \<not> HasPrefix subject ''spiffe://'' then None
         else if subject = [] \<or> subject \<notin> set (ParsedAllowedSubjects issuer) then None
         else Some subject)"

definition assertion_issuer :: "'s ctx \<Rightarrow> auth_env \<Rightarrow> bool \<Rightarrow> string \<Rightarrow> (string \<times> TrustedIssuer) option" where
  "assertion_issuer X E spiffe token =
     (case ae_unverified E token of
        None \<Rightarrow> None
      | Some (header, m) \<Rightarrow>
          let iss = TrimSpace (str_of m ''iss'') in
          if \<not> isAllowedAlg (str_of header ''alg'') then None
          else if iss = [] then None
          else
           (case s_GetTrustedIssuerByIssuerURL (x_S X) iss of
              Found issuer \<Rightarrow>
                if EffectiveKind issuer \<noteq> TrustKindClientAssertion \<or> TrimSpace (ti_OrgID issuer) \<noteq> [] then None
                else if \<not> ti_IsActive issuer then None
                else if spiffe \<noteq> (ti_IssuerType issuer = IssuerTypeSPIFFEJWT) then None
                else Some (iss, issuer)
            | _ \<Rightarrow> None))"

definition token_review_ok :: "auth_env \<Rightarrow> TrustedIssuer \<Rightarrow> string \<Rightarrow> bool" where
  "token_review_ok E issuer token =
     (if ti_EnableTokenReview issuer then
        (let url = (case ti_KubernetesAPIServerURL issuer of None \<Rightarrow> [] | Some u \<Rightarrow> TrimSpace u)
         in url \<noteq> [] \<and> ae_token_review E url token (ti_ExpectedAud issuer))
      else True)"

text \<open>The client behind the trust row.\<close>

definition assertion_client :: "'s ctx \<Rightarrow> ResolveParams \<Rightarrow> TrustedIssuer \<Rightarrow> cres" where
  "assertion_client X params issuer =
     (case s_GetClientByID (x_S X) (ti_ClientID issuer) of
        Found client \<Rightarrow>
          if rp_RequireServiceAccountKind params \<and> cl_Kind client \<noteq> ClientKindServiceAccount
          then Refused (Some client) ErrUnauthorizedClient
          else if \<not> cl_IsActive client then Refused (Some client) ErrInvalidClient
          else Resolved client
      | _ \<Rightarrow> Refused None ErrInvalidClient)"

text \<open>Replay check, online review, the atomic single-use claim, and the client.\<close>

definition claim_assertion ::
    "'s ctx \<Rightarrow> auth_env \<Rightarrow> instant \<Rightarrow> ResolveParams \<Rightarrow> TrustedIssuer \<Rightarrow> string \<Rightarrow> int \<Rightarrow> 's \<Rightarrow> cres \<times> 's" where
  "claim_assertion X E now params issuer replayKey exp s =
     (case m_GetCache (x_M X) now replayKey s of (g, s1) \<Rightarrow>
       (case value_or_zero g of
          None \<Rightarrow> (CPanic, s1)
        | Some seen \<Rightarrow>
            if seen \<noteq> [] then (Refused None ErrInvalidClient, s1)
            else if \<not> token_review_ok E issuer (rp_ClientAssertion params)
            then (Refused None ErrInvalidClient, s1)
            else
             (let ttl = wrap64 (exp - Unix now); replayTTL = (if ttl < 1 then 1 else ttl) in
              case m_SetCacheNX (x_M X) now replayKey ''1'' replayTTL s1 of
                (Panic, s2) \<Rightarrow> (CPanic, s2)
              | (Err _, s2) \<Rightarrow> (Refused None ErrInvalidClient, s2)
              | (Ok False, s2) \<Rightarrow> (Refused None ErrInvalidClient, s2)
              | (Ok True, s2) \<Rightarrow> (assertion_client X params issuer, s2))))"

text \<open>The checks on the claims of a verified assertion, and the replay key they lead to.\<close>

definition verified_assertion ::
    "'s ctx \<Rightarrow> instant \<Rightarrow> bool \<Rightarrow> string \<Rightarrow> TrustedIssuer \<Rightarrow> claims \<Rightarrow> (string \<times> int) option" where
  "verified_assertion X now spiffe iss issuer m =
     (case assertion_times now m of
        None \<Rightarrow> None
      | Some (exp, iat) \<Rightarrow>
          if TrimSpace (ti_ExpectedAud issuer) = [] \<or>
             \<not> audienceContains (claim_of m ''aud'') (ti_ExpectedAud issuer) then None
          else
           (case assertion_subject issuer spiffe m of
              None \<Rightarrow> None
            | Some subject \<Rightarrow> Some (assertionReplayKey (x_L X) (ti_ID issuer) m iss subject iat exp, exp)))"

definition resolveViaClientAssertion ::
    "'s ctx \<Rightarrow> auth_env \<Rightarrow> instant \<Rightarrow> ResolveParams \<Rightarrow> 's \<Rightarrow> cres \<times> 's" where
  "resolveViaClientAssertion X E now params s =
     (if rp_ClientAssertionType params \<notin> {ClientAssertionTypeJWTBearer, ClientAssertionTypeJWTSPIFFE}
      then (Refused None ErrUnsupportedAssertionType, s)
      else
       (let spiffe = (rp_ClientAssertionType params = ClientAssertionTypeJWTSPIFFE);
            token = rp_ClientAssertion params in
        case assertion_issuer X E spiffe token of
          None \<Rightarrow> (Refused None ErrInvalidClient, s)
        | Some (iss, issuer) \<Rightarrow>
            (case loadJWKS X E now issuer s of
               (Inl _, s1) \<Rightarrow> (CPanic, s1)
             | (Inr None, s1) \<Rightarrow> (Refused None ErrInvalidClient, s1)
             | (Inr (Some jwks), s1) \<Rightarrow>
                 (case parse_verified E jwks token of
                    None \<Rightarrow> (Refused None ErrInvalidClient, s1)
                  | Some m \<Rightarrow>
                      (case verified_assertion X now spiffe iss issuer m of
                         None \<Rightarrow> (Refused None ErrInvalidClient, s1)
                       | Some (replayKey, exp) \<Rightarrow>
                           claim_assertion X E now params issuer replayKey exp s1)))))"

section \<open>Metadata document clients\<close>

definition IsMetadataClientID :: "libs \<Rightarrow> string \<Rightarrow> bool" where
  "IsMetadataClientID L clientID =
     (if \<not> HasPrefix clientID ''https://'' then False
      else
       (case lib_url L clientID of
          None \<Rightarrow> False
        | Some u \<Rightarrow> url_Scheme u = ''https'' \<and> url_Host u \<noteq> [] \<and> url_Path u \<noteq> [] \<and> url_Path u \<noteq> ''/''))"

definition IsMetadataClientIDFor :: "libs \<Rightarrow> string \<Rightarrow> string \<Rightarrow> bool" where
  "IsMetadataClientIDFor L clientID reservedClientID =
     (if clientID \<noteq> [] \<and> clientID = TrimSpace reservedClientID then False
      else IsMetadataClientID L clientID)"

definition metadata_client :: "Document \<Rightarrow> Client" where
  "metadata_client doc = \<lparr>cl_ID = d_ClientID doc, cl_ClientID = d_ClientID doc,
     cl_Kind = ClientKindInteractive, cl_Name = d_ClientName doc, cl_Description = None,
     cl_ClientSecret = [], cl_AllowedScopes = [], cl_RedirectURIs = Join (d_RedirectURIs doc) '','',
     cl_GrantTypes = [], cl_TokenEndpointAuthMethod = TokenEndpointAuthMethodNone,
     cl_IsActive = True, cl_OrgID = None, cl_CreatedAt = 0, cl_UpdatedAt = 0\<rparr>"

definition resolve_metadata :: "(string \<Rightarrow> Document out) \<Rightarrow> ResolveParams \<Rightarrow> string \<Rightarrow> string \<Rightarrow> cres" where
  "resolve_metadata resolve params clientID secret =
     (if rp_RequireSecret params \<or> rp_RequireServiceAccountKind params then Refused None ErrUnauthorizedClient
      else if secret \<noteq> [] then Refused None ErrInvalidClient
      else
       (case resolve clientID of
          Ok doc \<Rightarrow> Resolved (metadata_client doc)
        | Err _ \<Rightarrow> Refused None ErrInvalidClient
        | Panic \<Rightarrow> CPanic))"

section \<open>Registered clients\<close>

definition resolveViaConfig :: "config \<Rightarrow> string \<Rightarrow> string \<Rightarrow> bool \<Rightarrow> cres" where
  "resolveViaConfig C clientID secret doVerify =
     (let client = \<lparr>cl_ID = [], cl_ClientID = clientID, cl_Kind = ClientKindInteractive, cl_Name = [],
            cl_Description = None, cl_ClientSecret = [], cl_AllowedScopes = [], cl_RedirectURIs = [],
            cl_GrantTypes = [], cl_TokenEndpointAuthMethod = TokenEndpointAuthMethodClientSecretBasic,
            cl_IsActive = True, cl_OrgID = None, cl_CreatedAt = 0, cl_UpdatedAt = 0\<rparr>
      in if doVerify \<and> secret \<noteq> c_ClientSecret C then Refused (Some client) ErrInvalidClient
         else Resolved client)"

definition resolve_registered :: "'s ctx \<Rightarrow> ResolveParams \<Rightarrow> string \<Rightarrow> string \<Rightarrow> cres" where
  "resolve_registered X params clientID secret =
     (let secretPresented = (secret \<noteq> []);
          doVerify = (rp_RequireSecret params \<or> (rp_VerifyPresentedSecret params \<and> secretPresented)) in
      case s_GetClientByClientID (x_S X) clientID of
        NotFound \<Rightarrow> Refused None ErrClientLookupFailed
      | LookupError _ \<Rightarrow> Refused None ErrClientLookupFailed
      | NilRow \<Rightarrow>
          if clientID = TrimSpace (c_ClientID (x_C X)) then
            (if rp_RequireServiceAccountKind params then Refused None ErrUnauthorizedClient
             else resolveViaConfig (x_C X) clientID secret doVerify)
          else Refused None ErrInvalidClient
      | Found client \<Rightarrow>
          if rp_RequireServiceAccountKind params \<and> cl_Kind client \<noteq> ClientKindServiceAccount
          then Refused (Some client) ErrUnauthorizedClient
          else if secretPresented \<and> cl_TokenEndpointAuthMethod client = TokenEndpointAuthMethodNone
          then Refused (Some client) ErrInvalidClient
          else if doVerify \<and> \<not> lib_bcrypt (x_L X) (cl_ClientSecret client) secret
          then Refused (Some client) ErrInvalidClient
          else if \<not> cl_IsActive client then Refused (Some client) ErrInvalidClient
          else Resolved client)"

definition auth_methods_presented :: "ResolveParams \<Rightarrow> nat" where
  "auth_methods_presented params =
     (if rp_HasBasicAuth params then 1 else 0) + (if rp_BodySecret params \<noteq> [] then 1 else 0)
     + (if rp_ClientAssertion params \<noteq> [] then 1 else 0)"

definition ResolveClient :: "'s ctx \<Rightarrow> auth_env \<Rightarrow> instant \<Rightarrow> ResolveParams \<Rightarrow> 's \<Rightarrow> cres \<times> 's" where
  "ResolveClient X E now params s =
     (if auth_methods_presented params > 1 then (Refused None ErrMultipleAuthMethods, s)
      else if rp_ClientAssertion params \<noteq> [] then resolveViaClientAssertion X E now params s
      else
       (let clientID = TrimSpace (if rp_HasBasicAuth params then rp_BasicClientID params
                                  else rp_BodyClientID params);
            secret = (if rp_HasBasicAuth params then rp_BasicSecret params else rp_BodySecret params) in
        if clientID = [] then (Refused None ErrMissingClientID, s)
        else
         (case ae_metadata E of
            Some resolve \<Rightarrow>
              if IsMetadataClientIDFor (x_L X) clientID (c_ClientID (x_C X))
              then (resolve_metadata resolve params clientID secret, s)
              else (resolve_registered X params clientID secret, s)
          | None \<Rightarrow> (resolve_registered X params clientID secret, s))))"

section \<open>Lemmas\<close>

definition presented_secret :: "ResolveParams \<Rightarrow> string" where
  "presented_secret params = (if rp_HasBasicAuth params then rp_BasicSecret params else rp_BodySecret params)"

lemma resolve_registered_Resolved:
  assumes "resolve_registered X params cid sec = Resolved c"
  shows "cl_IsActive c \<and> (rp_RequireServiceAccountKind params \<longrightarrow> cl_Kind c = ClientKindServiceAccount) \<and>
    (rp_RequireSecret params \<or> (rp_VerifyPresentedSecret params \<and> sec \<noteq> []) \<longrightarrow>
       lib_bcrypt (x_L X) (cl_ClientSecret c) sec \<or>
       sec = c_ClientSecret (x_C X) \<and> cl_ID c = [] \<and> cid = TrimSpace (c_ClientID (x_C X)))"
  using assms
  by (auto simp: resolve_registered_def resolveViaConfig_def Let_def split: lookup.splits if_splits)

lemma resolve_metadata_Resolved:
  assumes "resolve_metadata r params cid sec = Resolved c"
  shows "cl_IsActive c \<and> \<not> rp_RequireServiceAccountKind params \<and> \<not> rp_RequireSecret params \<and> sec = []"
  using assms by (auto simp: resolve_metadata_def metadata_client_def split: if_splits out.splits)

lemma assertion_client_Resolved:
  assumes "assertion_client X params issuer = Resolved c"
  shows "cl_IsActive c \<and> (rp_RequireServiceAccountKind params \<longrightarrow> cl_Kind c = ClientKindServiceAccount)"
  using assms by (auto simp: assertion_client_def split: lookup.splits if_splits)

lemma claim_assertion_Resolved:
  assumes "claim_assertion X E now params issuer K e s = (Resolved c, s')"
  obtains g s1 where "m_GetCache (x_M X) now K s = (g, s1)" "value_or_zero g = Some []"
    "m_SetCacheNX (x_M X) now K ''1''
       (if wrap64 (e - Unix now) < 1 then 1 else wrap64 (e - Unix now)) s1 = (Ok True, s')"
    "assertion_client X params issuer = Resolved c" "token_review_ok E issuer (rp_ClientAssertion params)"
  using assms by (auto simp: claim_assertion_def Let_def split: prod.splits option.splits if_splits out.splits bool.splits)

text \<open>What a client authenticated by assertion has shown.\<close>

lemma resolveViaClientAssertion_Resolved:
  assumes "resolveViaClientAssertion X E now params s = (Resolved c, s')"
  obtains spiffe iss issuer jwks s1 m K e where
    "spiffe = (rp_ClientAssertionType params = ClientAssertionTypeJWTSPIFFE)"
    "assertion_issuer X E spiffe (rp_ClientAssertion params) = Some (iss, issuer)"
    "loadJWKS X E now issuer s = (Inr (Some jwks), s1)"
    "parse_verified E jwks (rp_ClientAssertion params) = Some m"
    "verified_assertion X now spiffe iss issuer m = Some (K, e)"
    "claim_assertion X E now params issuer K e s1 = (Resolved c, s')"
  using assms
  by (auto simp: resolveViaClientAssertion_def Let_def split: if_splits prod.splits option.splits sum.splits)

lemma parse_verified_claims:
  "parse_verified E jwks t = Some m \<Longrightarrow> \<exists>h. ae_unverified E t = Some (h, m)"
  by (auto simp: parse_verified_def split: option.splits prod.splits if_splits)

text \<open>The replay key and the expiry depend on the assertion only, not on the time of use.\<close>

lemma verified_assertion_stable:
  assumes "verified_assertion X now sp iss issuer m = Some (K, e)"
    and "verified_assertion X t sp iss issuer m = Some (K', e')"
  shows "K' = K \<and> e' = e \<and> claimInt64 m ''exp'' = Some e"
  using assms
  by (auto simp: verified_assertion_def assertion_times_def split: option.splits if_splits)

lemma replay_key_not_jwks: "assertionReplayKey L i m iss sub iat e \<noteq> ''jwks_cache:'' @ j"
  by (simp add: assertionReplayKey_def)

lemma verified_assertion_key:
  "verified_assertion X now sp iss issuer m = Some (K, e) \<Longrightarrow> K \<noteq> ''jwks_cache:'' @ j"
  using replay_key_not_jwks
  by (auto simp: verified_assertion_def split: option.splits if_splits)

context cache_contract
begin

lemma loadJWKS_cv:
  assumes "invar s" "x_M X = M" "loadJWKS X E now issuer s = (r, s')"
  shows "invar s' \<and> (\<forall>t q. now \<le> t \<longrightarrow> q \<noteq> ''jwks_cache:'' @ ti_ID issuer \<longrightarrow> cv t s' q = cv t s q)"
proof -
  let ?k = "''jwks_cache:'' @ ti_ID issuer"
  obtain g s1 where g: "m_GetCache M now ?k s = (g, s1)" by (cases "m_GetCache M now ?k s")
  have 1: "invar s1" "\<And>t q. now \<le> t \<Longrightarrow> cv t s1 q = cv t s q"
    using get_cache[OF assms(1) g] by auto
  have 2: "invar s2 \<and> (\<forall>t q. q \<noteq> ?k \<longrightarrow> cv t s2 q = cv t s1 q)"
    if "m_SetCache M now ?k v ttl s1 = (x, s2)" for v ttl x s2
    using set_cache[OF 1(1) that] by auto
  have "s' = s1 \<or> (\<exists>v ttl x. m_SetCache M now ?k v ttl s1 = (x, s'))"
    using assms(2,3) g
    by (auto simp: loadJWKS_def Let_def split: option.splits if_splits list.splits prod.splits out.splits)
  then show ?thesis using 1 2 by metis
qed

lemma claim_assertion_marks:
  assumes "invar s" "x_M X = M" "claim_assertion X E now params issuer K e s = (Resolved c, s')"
    and "0 \<le> Unix now" "0 \<le> e" "e < 2 ^ 62" "Unix now < 2 ^ 62" "Unix t \<le> e"
  shows "invar s' \<and> cv t s' K = Some ''1''"
proof -
  let ?d = "if wrap64 (e - Unix now) < 1 then 1 else wrap64 (e - Unix now)"
  obtain g s1 where g: "m_GetCache M now K s = (g, s1)"
    and nx: "m_SetCacheNX M now K ''1'' ?d s1 = (Ok True, s')"
    using assms(2,3) by (auto elim!: claim_assertion_Resolved)
  have w: "wrap64 (e - Unix now) = e - Unix now" using assms(4-7) by (intro wrap64_id) (simp add: in64_def)
  have "add64 (Unix now) ?d = Unix now + ?d" using assms(4-7) by (intro add64_id) (auto simp: in64_def w)
  then have "Unix t \<le> add64 (Unix now) ?d" using assms(8) by (auto simp: w)
  with set_cache_nx[OF conjunct1[OF get_cache[OF assms(1) g]] nx] show ?thesis by auto
qed

lemma marked_refused:
  assumes "invar s" "x_M X = M" "cv t s K = Some v" "v \<noteq> []"
  shows "fst (claim_assertion X E t params issuer K e s) = Refused None ErrInvalidClient"
proof -
  obtain g s1 where g: "m_GetCache M t K s = (g, s1)" by (cases "m_GetCache M t K s")
  with get_cache[OF assms(1) g] assms show ?thesis
    by (simp add: claim_assertion_def value_or_zero_def)
qed

lemma assertion_single_use:
  assumes "invar s" "x_M X = M" "resolveViaClientAssertion X E now params s = (Resolved c, s1)"
    and un: "ae_unverified E (rp_ClientAssertion params) = Some (h, m)" "claimInt64 m ''exp'' = Some e"
    and range: "0 \<le> Unix now" "Unix now < 2 ^ 62" "0 \<le> e" "e < 2 ^ 62" "Unix t \<le> e"
    and later: "invar s2" "\<And>k. cv t s1 k \<noteq> None \<Longrightarrow> cv t s2 k = cv t s1 k"
  shows "resolveViaClientAssertion X E t params s2 \<noteq> (Resolved c', s3)"
proof
  assume again: "resolveViaClientAssertion X E t params s2 = (Resolved c', s3)"
  from assms(3) obtain sp iss issuer jwks sa m1 K e1 where a:
    "sp = (rp_ClientAssertionType params = ClientAssertionTypeJWTSPIFFE)"
    "assertion_issuer X E sp (rp_ClientAssertion params) = Some (iss, issuer)"
    "loadJWKS X E now issuer s = (Inr (Some jwks), sa)"
    "parse_verified E jwks (rp_ClientAssertion params) = Some m1"
    "verified_assertion X now sp iss issuer m1 = Some (K, e1)"
    "claim_assertion X E now params issuer K e1 sa = (Resolved c, s1)"
    by (elim resolveViaClientAssertion_Resolved)
  from again obtain iss' issuer' jwks' sb m2 K2 e2 where b:
    "assertion_issuer X E sp (rp_ClientAssertion params) = Some (iss', issuer')"
    "loadJWKS X E t issuer' s2 = (Inr (Some jwks'), sb)"
    "parse_verified E jwks' (rp_ClientAssertion params) = Some m2"
    "verified_assertion X t sp iss' issuer' m2 = Some (K2, e2)"
    "claim_assertion X E t params issuer' K2 e2 sb = (Resolved c', s3)"
    unfolding a(1) by (elim resolveViaClientAssertion_Resolved) blast
  have same: "iss' = iss" "issuer' = issuer" "m1 = m" "m2 = m"
    using a(2) b(1) parse_verified_claims[OF a(4)] parse_verified_claims[OF b(3)] un(1) by auto
  have key: "K2 = K" "e1 = e"
    using verified_assertion_stable[OF a(5)] b(4) un(2) unfolding same by auto
  have "cv t s1 K = Some ''1''"
    using claim_assertion_marks[OF _ assms(2) a(6)] loadJWKS_cv[OF assms(1,2) a(3)] range key(2) by simp
  with later(2) have "cv t s2 K = Some ''1''" by force
  with loadJWKS_cv[OF later(1) assms(2) b(2)] verified_assertion_key[OF a(5)]
  have "invar sb" "cv t sb K = Some ''1''" by auto
  then have "fst (claim_assertion X E t params issuer' K2 e2 sb) = Refused None ErrInvalidClient"
    using marked_refused[OF _ assms(2)] key(1) by simp
  with b(5) show False by simp
qed

end

section \<open>Properties\<close>

text \<open>An environment in which one assertion verifies, and requests that use it.\<close>

definition fx_aheader :: claims where
  "fx_aheader = [(''alg'', CStr ''RS256''), (''kid'', CStr ''k1'')]"

definition fx_aclaims :: claims where
  "fx_aclaims = [(''iss'', CStr ''https://k8s''), (''aud'', CStr ''https://auth/oauth/token''),
     (''sub'', CStr ''sa1''), (''exp'', CFloat 1000), (''iat'', CFloat 900), (''jti'', CStr ''j1'')]"

definition fx_env :: auth_env where
  "fx_env = \<lparr>ae_unverified = (\<lambda>t. if t = ''jwt'' then Some (fx_aheader, fx_aclaims) else None),
     ae_verify_sig = (\<lambda>alg key t. key = ''pub''), ae_fetch = (\<lambda>u. Ok ''jwks''),
     ae_jwks_dec = (\<lambda>t. Some [(''k1'', ''pub'')]), ae_jwks_enc = (\<lambda>ks. Some ''jwks''),
     ae_discovery = (\<lambda>d. None), ae_token_review = (\<lambda>u t a. False), ae_metadata = None\<rparr>"

definition fx_issuer :: TrustedIssuer where
  "fx_issuer = \<lparr>ti_ID = ''t1'', ti_Kind = [], ti_OrgID = [], ti_ClientID = ''c1'', ti_IssuerURL = ''https://k8s'',
     ti_KeySourceType = ''static_jwks_url'', ti_JWKSUrl = Some ''https://k8s/jwks'',
     ti_ExpectedAud = ''https://auth/oauth/token'', ti_SubjectClaim = [], ti_AllowedSubjects = ''sa1'',
     ti_IssuerType = ''kubernetes_sa'', ti_IsActive = True, ti_EnableTokenReview = False,
     ti_KubernetesAPIServerURL = None\<rparr>"

definition fx_astorage :: storage where
  "fx_astorage = fx_storage\<lparr>s_GetTrustedIssuerByIssuerURL := (\<lambda>i. if i = ''https://k8s'' then Found fx_issuer else NotFound)\<rparr>"

definition fx_params :: ResolveParams where
  "fx_params = \<lparr>rp_BodyClientID = [], rp_BodySecret = [], rp_BasicClientID = [], rp_BasicSecret = [],
     rp_HasBasicAuth = False, rp_RequireSecret = False, rp_VerifyPresentedSecret = False,
     rp_RequireServiceAccountKind = False, rp_ClientAssertion = [], rp_ClientAssertionType = []\<rparr>"

definition fx_machine_params :: ResolveParams where
  "fx_machine_params = fx_params\<lparr>rp_BasicClientID := ''app'', rp_BasicSecret := ''guess'', rp_HasBasicAuth := True,
     rp_RequireSecret := True, rp_RequireServiceAccountKind := True\<rparr>"

definition fx_assertion :: ResolveParams where
  "fx_assertion = fx_params\<lparr>rp_ClientAssertion := ''jwt'', rp_ClientAssertionType := ClientAssertionTypeJWTBearer\<rparr>"





text \<open>
  C20. Client assertions are single use: after an assertion has authenticated a client, it is
  refused at every later time up to its expiry, whatever else the store has gone through, as
  long as no unexpired cache entry was lost or changed.
\<close>

theorem client_assertion_single_use:
  assumes "im_inv s" and "resolveViaClientAssertion (im_ctx C L S) E now params s = (Resolved c, s1)"
    and "ae_unverified E (rp_ClientAssertion params) = Some (h, m)" "claimInt64 m ''exp'' = Some e"
    and "0 \<le> Unix now" "Unix now < 2 ^ 62" "0 \<le> e" "e < 2 ^ 62" "Unix t \<le> e"
    and "im_inv s2" "\<And>k. im_cache t s1 k \<noteq> None \<Longrightarrow> im_cache t s2 k = im_cache t s1 k"
  shows "resolveViaClientAssertion (im_ctx C L S) E t params s2 \<noteq> (Resolved c', s3)"
  using imc.assertion_single_use[OF assms(1) im_ctx_sel(3) assms(2-)] .

definition fx_seen :: in_memory where
  "fx_seen = snd (resolveViaClientAssertion (im_ctx fx_config fx_libs fx_astorage) fx_env (950 * Second)
     fx_assertion NewInMemoryProvider)"

lemma fx_assertion_ok:
  "resolveViaClientAssertion (im_ctx fx_config fx_libs fx_astorage) fx_env (950 * Second)
     fx_assertion NewInMemoryProvider = (Resolved fx_client, fx_seen)"
  by code_simp

lemma fx_seen_inv: "im_inv fx_seen"
  by (auto simp: im_inv_def ss_inv_def keys_ok_def; code_simp)

theorem client_assertion_single_use_witness:
  "resolveViaClientAssertion (im_ctx fx_config fx_libs fx_astorage) fx_env (1000 * Second) fx_assertion fx_seen
     \<noteq> (Resolved fx_client, fx_seen)"
proof -
  have u: "ae_unverified fx_env (rp_ClientAssertion fx_assertion) = Some (fx_aheader, fx_aclaims)"
    "claimInt64 fx_aclaims ''exp'' = Some 1000" by code_simp+
  have "0 \<le> Unix (950 * Second)" "Unix (950 * Second) < 2 ^ 62" "Unix (1000 * Second) \<le> 1000" by code_simp+
  then show ?thesis
    by (intro client_assertion_single_use[OF im_inv_New fx_assertion_ok u _ _ _ _ _ fx_seen_inv]) simp_all
qed

text \<open>
  The marker of a used assertion lives until the expiry of the assertion, while the
  assertion itself is accepted for another minute of clock skew: there is an assertion that
  authenticates its client a second time, after its expiry.
\<close>

theorem client_assertion_replay_in_skew:
  "fst (resolveViaClientAssertion (im_ctx fx_config fx_libs fx_astorage) fx_env (950 * Second)
     fx_assertion NewInMemoryProvider) = Resolved fx_client \<and>
   fst (resolveViaClientAssertion (im_ctx fx_config fx_libs fx_astorage) fx_env (1030 * Second)
     fx_assertion fx_seen) = Resolved fx_client"
  by (intro conjI; code_simp)

end
