(* ===== verification/Codestate.thy ===== *)
theory Codestate
  imports Go_Strings
begin

text \<open>
  \<open>internal/codestate/codestate.go\<close>: the two positional blobs, delimited by \<open>@@\<close>,
  that the authorization-code flow keeps in the memory store. The lemmas give the
  round trips of both formats and what a delimiter inside the unescaped nonce does.
\<close>

definition delimiter :: string where
  "delimiter = ''@@''"

record Code =
  cs_Challenge :: string
  cs_Session :: string
  cs_Nonce :: string
  cs_RedirectURI :: string
  cs_Resource :: string
  cs_ClientID :: string

definition EncodeCode :: "Code \<Rightarrow> string" where
  "EncodeCode c =
     Join [cs_Challenge c, cs_Session c, cs_Nonce c, QueryEscape (cs_RedirectURI c),
           QueryEscape (cs_Resource c), QueryEscape (cs_ClientID c)] delimiter"

text \<open>A field past the end of the split blob is the empty string.\<close>

definition part :: "string list \<Rightarrow> nat \<Rightarrow> string" where
  "part ps i = (if i < length ps then ps ! i else [])"

definition DecodeCode :: "string \<Rightarrow> Code" where
  "DecodeCode raw =
     (let parts = Split raw delimiter in
      \<lparr>cs_Challenge = part parts 0, cs_Session = part parts 1, cs_Nonce = part parts 2,
       cs_RedirectURI = (if 3 < length parts then unescape_or_empty (parts ! 3) else []),
       cs_Resource = (if 4 < length parts then unescape_or_empty (parts ! 4) else []),
       cs_ClientID = (if 5 < length parts then unescape_or_empty (parts ! 5) else [])\<rparr>)"

record Authorize =
  az_Code :: string
  az_Challenge :: string
  az_Nonce :: string
  az_RedirectURI :: string
  az_Resource :: string
  az_ClientID :: string

definition EncodeAuthorize :: "Authorize \<Rightarrow> string" where
  "EncodeAuthorize a =
     Join [az_Code a, az_Challenge a, az_Nonce a, QueryEscape (az_RedirectURI a),
           QueryEscape (az_Resource a), QueryEscape (az_ClientID a)] delimiter"

definition DecodeAuthorize :: "string \<Rightarrow> Authorize" where
  "DecodeAuthorize raw =
     (let parts = Split raw delimiter in
      if length parts < 2
      then \<lparr>az_Code = [], az_Challenge = [], az_Nonce = raw, az_RedirectURI = [],
            az_Resource = [], az_ClientID = []\<rparr>
      else
      \<lparr>az_Code = parts ! 0, az_Challenge = parts ! 1, az_Nonce = part parts 2,
       az_RedirectURI = (if 3 < length parts then unescape_or_empty (parts ! 3) else []),
       az_Resource = (if 4 < length parts then unescape_or_empty (parts ! 4) else []),
       az_ClientID = (if 5 < length parts then unescape_or_empty (parts ! 5) else [])\<rparr>)"

definition HasCode :: "string \<Rightarrow> bool" where
  "HasCode raw = Contains raw delimiter"

section \<open>Round trips\<close>

definition at_free :: "string \<Rightarrow> bool" where
  "at_free s \<longleftrightarrow> CHR ''@'' \<notin> set s"

lemma at_free_escape [simp]: "at_free (QueryEscape s)"
  by (simp add: at_free_def QueryEscape_no_at)

lemma Split_six:
  assumes "at_free a" "at_free b" "at_free c" "at_free d" "at_free e" "at_free f"
  shows "Split (Join [a, b, c, d, e, f] delimiter) delimiter = [a, b, c, d, e, f]"
  unfolding delimiter_def using assms by (intro Split_Join) (auto simp: at_free_def)

lemma part_simps [simp]:
  "part (x # xs) 0 = x" "part (x # xs) (Suc i) = part xs i" "part [] i = []"
  by (simp_all add: part_def)

lemma part_numeral [simp]:
  "part (x # xs) 1 = part xs 0" "part (x # xs) 2 = part xs 1"
  by (simp_all add: part_def numeral_eq_Suc)

lemma DecodeCode_six:
  assumes "Split raw delimiter = [a, b, c, d, e, f]"
  shows "DecodeCode raw = \<lparr>cs_Challenge = a, cs_Session = b, cs_Nonce = c,
    cs_RedirectURI = unescape_or_empty d, cs_Resource = unescape_or_empty e,
    cs_ClientID = unescape_or_empty f\<rparr>"
  by (simp add: DecodeCode_def assms Let_def)

text \<open>
  A code state whose challenge, session and nonce hold no at-sign is read back by
  DecodeCode exactly as EncodeCode wrote it, whatever bytes (delimiters included) the
  redirect URI, the resource and the client id contain.
\<close>

theorem DecodeCode_EncodeCode:
  assumes "at_free (cs_Challenge c)" and "at_free (cs_Session c)" and "at_free (cs_Nonce c)"
  shows "DecodeCode (EncodeCode c) = c"
proof -
  have "Split (EncodeCode c) delimiter =
    [cs_Challenge c, cs_Session c, cs_Nonce c, QueryEscape (cs_RedirectURI c),
     QueryEscape (cs_Resource c), QueryEscape (cs_ClientID c)]"
    unfolding EncodeCode_def using assms by (intro Split_six) simp_all
  then show ?thesis by (simp add: DecodeCode_six)
qed

theorem DecodeCode_EncodeCode_witness:
  "DecodeCode (EncodeCode \<lparr>cs_Challenge = ''abc::S256'', cs_Session = ''sess'', cs_Nonce = ''n'',
      cs_RedirectURI = ''https://app/cb?x=@@'', cs_Resource = ''https://api'', cs_ClientID = ''a@@b''\<rparr>)
   = \<lparr>cs_Challenge = ''abc::S256'', cs_Session = ''sess'', cs_Nonce = ''n'',
      cs_RedirectURI = ''https://app/cb?x=@@'', cs_Resource = ''https://api'', cs_ClientID = ''a@@b''\<rparr>"
  by (rule DecodeCode_EncodeCode) (simp_all add: at_free_def)

lemma DecodeAuthorize_EncodeAuthorize:
  assumes "at_free (az_Code a)" and "at_free (az_Challenge a)" and "at_free (az_Nonce a)"
  shows "DecodeAuthorize (EncodeAuthorize a) = a"
proof -
  have "Split (EncodeAuthorize a) delimiter =
    [az_Code a, az_Challenge a, az_Nonce a, QueryEscape (az_RedirectURI a),
     QueryEscape (az_Resource a), QueryEscape (az_ClientID a)]"
    unfolding EncodeAuthorize_def using assms by (intro Split_six) simp_all
  then show ?thesis by (simp add: DecodeAuthorize_def Let_def)
qed

lemma Split_not_Nil: "Split s sep \<noteq> []"
  by (subst Split.simps) (auto split: list.splits)

lemma Split_single_iff:
  assumes "sep \<noteq> []"
  shows "length (Split s sep) = 1 \<longleftrightarrow> \<not> Contains s sep"
proof (induction s)
  case Nil
  with assms show ?case by (subst Split.simps) (auto simp: prefix_def)
next
  case (Cons c cs)
  show ?case
  proof (cases "prefix sep (c # cs)")
    case True
    with assms have "Split (c # cs) sep = [] # Split (drop (length sep) (c # cs)) sep"
      by (subst Split.simps) simp
    moreover have "Split (drop (length sep) (c # cs)) sep \<noteq> []"
      by (rule Split_not_Nil)
    ultimately show ?thesis using True by simp
  next
    case False
    obtain p ps where ps: "Split cs sep = p # ps"
      using Split_not_Nil[of cs sep] by (cases "Split cs sep") auto
    with False have "Split (c # cs) sep = (c # p) # ps" by (subst Split.simps) simp
    with False Cons ps show ?thesis by simp
  qed
qed

text \<open>
  A blob without delimiter is the bare-nonce form: DecodeAuthorize puts it into the nonce,
  and this is the case HasCode reports as having no code flow.
\<close>

lemma DecodeAuthorize_bare:
  assumes "\<not> HasCode raw"
  shows "az_Nonce (DecodeAuthorize raw) = raw \<and> az_Code (DecodeAuthorize raw) = []"
proof -
  from assms have "length (Split raw delimiter) = 1"
    using Split_single_iff[of delimiter raw] by (simp add: HasCode_def delimiter_def)
  then show ?thesis by (simp add: DecodeAuthorize_def)
qed

section \<open>A delimiter in the nonce\<close>

text \<open>
  The nonce, which comes from the authorization request, is not escaped: a nonce
  ending in three delimiters makes the decoded redirect URI, resource and client id
  empty, although the encoded state carries them.
\<close>

theorem DecodeCode_nonce_shift:
  assumes "at_free (cs_Challenge c)" and "at_free (cs_Session c)" and "at_free n"
    and "cs_Nonce c = n @ ''@@@@@@''"
  shows "DecodeCode (EncodeCode c) =
    \<lparr>cs_Challenge = cs_Challenge c, cs_Session = cs_Session c, cs_Nonce = n,
     cs_RedirectURI = [], cs_Resource = [], cs_ClientID = []\<rparr>"
proof -
  let ?esc = "[QueryEscape (cs_RedirectURI c), QueryEscape (cs_Resource c), QueryEscape (cs_ClientID c)]"
  have join: "EncodeCode c = Join ([cs_Challenge c, cs_Session c, n, [], [], []] @ ?esc) delimiter"
    using assms(4) by (simp add: EncodeCode_def delimiter_def)
  have "Split (EncodeCode c) delimiter = [cs_Challenge c, cs_Session c, n, [], [], []] @ ?esc"
    unfolding join delimiter_def using assms(1-3)
    by (intro Split_Join) (auto simp: at_free_def QueryEscape_no_at)
  then show ?thesis
    by (simp add: DecodeCode_def Let_def unescape_or_empty_def)
qed

theorem DecodeCode_nonce_shift_witness:
  "DecodeCode (EncodeCode \<lparr>cs_Challenge = [], cs_Session = ''sess'', cs_Nonce = ''n@@@@@@'',
      cs_RedirectURI = ''https://app/cb'', cs_Resource = ''https://api'', cs_ClientID = ''client''\<rparr>)
   = \<lparr>cs_Challenge = [], cs_Session = ''sess'', cs_Nonce = ''n'',
      cs_RedirectURI = [], cs_Resource = [], cs_ClientID = []\<rparr>"
  using DecodeCode_nonce_shift[of "\<lparr>cs_Challenge = [], cs_Session = ''sess'',
      cs_Nonce = ''n@@@@@@'', cs_RedirectURI = ''https://app/cb'', cs_Resource = ''https://api'',
      cs_ClientID = ''client''\<rparr>" "''n''"]
  by (simp add: at_free_def)

end
