(* ===== verification/Oauth_Http.thy ===== *)
theory Oauth_Http
  imports Client_Auth Codestate
begin

text \<open>
  What the OAuth HTTP handlers of \<open>internal/http_handlers\<close> share: requests, responses, the state
  a handler changes (memory store and audit log), and the outcome of a stage of a handler. Logs
  and Prometheus counters are not modelled. A handler reads the clock once in the model; the
  random values it draws are the record \<open>randoms\<close>.
\<close>

section \<open>Requests\<close>

record RequestBody =
  rb_CodeVerifier :: string
  rb_Code :: string
  rb_ClientID :: string
  rb_ClientSecret :: string
  rb_GrantType :: string
  rb_RefreshToken :: string
  rb_RedirectURI :: string
  rb_Scope :: string
  rb_ClientAssertion :: string
  rb_ClientAssertionType :: string
  rb_SubjectToken :: string
  rb_SubjectTokenType :: string
  rb_ActorToken :: string
  rb_ActorTokenType :: string

text \<open>
  A request: the bound body (\<open>None\<close> when binding fails), the Basic credentials, the repeated
  \<open>resource\<close> form values, \<open>parsers.GetHost\<close>, the client address and user agent.
\<close>

record request =
  rq_body :: "RequestBody option"
  rq_basic :: "(string \<times> string) option"
  rq_resources :: "string list"
  rq_host :: string
  rq_ip :: string
  rq_agent :: string

record randoms =
  rnd_nonce :: string
  rnd_gcm :: string
  rnd_family :: string
  rnd_uuid :: string

section \<open>Responses and effects\<close>

record response =
  rs_status :: int
  rs_www_authenticate :: bool
  rs_session_cookie :: "string option"
  rs_body :: claims

definition json_response :: "int \<Rightarrow> claims \<Rightarrow> response" where
  "json_response status body =
     \<lparr>rs_status = status, rs_www_authenticate = False, rs_session_cookie = None, rs_body = body\<rparr>"

definition oauth_error :: "int \<Rightarrow> string \<Rightarrow> string \<Rightarrow> response" where
  "oauth_error status err desc =
     json_response status [(''error'', CStr err), (''error_description'', CStr desc)]"

lemma oauth_error_status [simp]: "rs_status (oauth_error st e d) = st"
  by (simp add: oauth_error_def json_response_def)

datatype metadata = MText string | MJson "(string \<times> string) list"

record audit_event =
  ev_Action :: string
  ev_ActorID :: string
  ev_ActorType :: string
  ev_ActorEmail :: string
  ev_ResourceType :: string
  ev_ResourceID :: string
  ev_Metadata :: metadata
  ev_IPAddress :: string
  ev_UserAgent :: string

record 's world =
  w_mem :: 's
  w_audit :: "audit_event list"

definition log_event :: "audit_event \<Rightarrow> 's world \<Rightarrow> 's world" where
  "log_event e w = w\<lparr>w_audit := w_audit w @ [e]\<rparr>"

lemma log_event_mem [simp]: "w_mem (log_event e w) = w_mem w"
  by (simp add: log_event_def)

text \<open>A stage hands a value on, answers the request, or panics.\<close>

datatype 'a stage = Continue 'a | Stop response | Crash

text \<open>The provider of the handlers.\<close>

record 's http =
  h_X :: "'s ctx"
  h_E :: auth_env

section \<open>Helpers of the handlers\<close>

definition formURLDecodeOrKeep :: "string \<Rightarrow> string" where
  "formURLDecodeOrKeep s = (case QueryUnescape s of Some d \<Rightarrow> d | None \<Rightarrow> s)"

definition isValidResourceIndicator :: "libs \<Rightarrow> string \<Rightarrow> bool" where
  "isValidResourceIndicator L resource =
     (if Contains resource ''#'' then False
      else
       (case lib_url L resource of
          None \<Rightarrow> False
        | Some u \<Rightarrow> IsAbs u \<and> \<not> (url_Host u = [] \<and> \<not> HasPrefix (url_Path u) ''/'')))"

lemma TrimSpace_Nil [simp]: "TrimSpace [] = []"
  by code_simp

text \<open>Running a store operation inside a handler.\<close>

definition on_mem :: "('s \<Rightarrow> 'a \<times> 's) \<Rightarrow> 's world \<Rightarrow> 'a \<times> 's world" where
  "on_mem f w = (case f (w_mem w) of (a, m) \<Rightarrow> (a, w\<lparr>w_mem := m\<rparr>))"

lemma on_mem_eq: "on_mem f w = (a, w') \<longleftrightarrow> (\<exists>m. f (w_mem w) = (a, m) \<and> w' = w\<lparr>w_mem := m\<rparr>)"
  by (auto simp: on_mem_def split: prod.splits)

definition bind_stage :: "'a stage \<times> 'w \<Rightarrow> ('a \<Rightarrow> 'w \<Rightarrow> 'b stage \<times> 'w) \<Rightarrow> 'b stage \<times> 'w" where
  "bind_stage m f = (case m of (Continue a, w) \<Rightarrow> f a w | (Stop r, w) \<Rightarrow> (Stop r, w) | (Crash, w) \<Rightarrow> (Crash, w))"

lemma bind_stage_Continue:
  "bind_stage m f = (Continue b, w') \<longleftrightarrow> (\<exists>a w. m = (Continue a, w) \<and> f a w = (Continue b, w'))"
  by (auto simp: bind_stage_def split: prod.splits stage.splits)

lemma bind_stage_simps [simp]:
  "bind_stage (Continue a, w) f = f a w" "bind_stage (Stop r, w) f = (Stop r, w)"
  "bind_stage (Crash, w) f = (Crash, w)"
  by (simp_all add: bind_stage_def)

definition expires_in :: "instant \<Rightarrow> int \<Rightarrow> int" where
  "expires_in now expiresAt = (let d = wrap64 (expiresAt - Unix now) in if d \<le> 0 then 1 else d)"

lemma expires_in_pos: "0 < expires_in now e"
  by (simp add: expires_in_def Let_def)

text \<open>The handlers on the in-memory store.\<close>

definition im_http :: "config \<Rightarrow> libs \<Rightarrow> storage \<Rightarrow> auth_env \<Rightarrow> in_memory http" where
  "im_http C L S E = \<lparr>h_X = im_ctx C L S, h_E = E\<rparr>"

lemma im_http_sel [simp]: "h_X (im_http C L S E) = im_ctx C L S" "h_E (im_http C L S E) = E"
  by (simp_all add: im_http_def)

end
