(* ===== verification/Token_Grants.thy ===== *)
theory Token_Grants
  imports Oauth_Http
begin

text \<open>
  \<open>internal/http_handlers/token.go\<close>: the authorization_code, refresh_token and client_credentials
  grants of \<open>/oauth/token\<close>, each split into the stages its early returns delimit.
\<close>

section \<open>Authorization code\<close>

text \<open>The grant data both user grants hand to token issuance.\<close>

record grant =
  g_userID :: string
  g_roles :: "string list option"
  g_scope :: "string list option"
  g_loginMethod :: string
  g_sessionKey :: string
  g_resource :: string
  g_oidcNonce :: string
  g_authTime :: int
  g_familyID :: string
  g_oldNonce :: string

definition check_code_client :: "Client \<Rightarrow> Code \<Rightarrow> response option" where
  "check_code_client client stored =
     (if cs_ClientID stored \<noteq> [] \<and> cl_ClientID client \<noteq> cs_ClientID stored
      then Some (oauth_error 400 ''invalid_grant'' ''The authorization code was not issued to this client'')
      else None)"

definition check_code_redirect :: "string \<Rightarrow> Code \<Rightarrow> response option" where
  "check_code_redirect requestRedirectURI stored =
     (if cs_RedirectURI stored \<noteq> [] then
        (if requestRedirectURI = []
         then Some (oauth_error 400 ''invalid_request''
                ''redirect_uri is required when it was included in the authorization request'')
         else if requestRedirectURI \<noteq> cs_RedirectURI stored
         then Some (oauth_error 400 ''invalid_grant''
                ''redirect_uri does not match the one used in the authorization request'')
         else None)
      else None)"

definition bound_resource :: "string list \<Rightarrow> string" where
  "bound_resource parts = (if length parts > 4 then unescape_or_empty (parts ! 4) else [])"

text \<open>Exactly one \<open>resource\<close> value, and it is the bound one.\<close>

definition names_resource :: "string list \<Rightarrow> string \<Rightarrow> bool" where
  "names_resource requestResources resource =
     (case requestResources of [r] \<Rightarrow> TrimSpace r = resource | _ \<Rightarrow> False)"

definition check_code_resource :: "string list \<Rightarrow> string \<Rightarrow> response option" where
  "check_code_resource requestResources resource =
     (if resource \<noteq> [] \<and> \<not> names_resource requestResources resource
      then Some (oauth_error 400 ''invalid_grant''
             ''The resource parameter does not match the authorization request'')
      else None)"

text \<open>The stored challenge is \<open>challenge::method\<close>, or a bare challenge with method plain.\<close>

definition split_challenge :: "string \<Rightarrow> string \<times> string" where
  "split_challenge c =
     (case LastIndex c ''::'' of
        Some i \<Rightarrow> (take i c, drop (i + 2) c)
      | None \<Rightarrow> (c, ''plain''))"

definition check_pkce :: "config \<Rightarrow> libs \<Rightarrow> string \<Rightarrow> string \<Rightarrow> string \<Rightarrow> response option" where
  "check_pkce C L storedChallenge storedMethod codeVerifier =
     (if c_OAuth21Strict C \<and> storedChallenge \<noteq> [] \<and> storedMethod = ''plain''
      then Some (oauth_error 400 ''invalid_request'' ''code_challenge_method=plain is not allowed; use S256'')
      else if storedChallenge \<noteq> [] \<and> codeVerifier \<noteq> [] then
        (if storedMethod = ''S256'' then
           (if b64_rawurl (lib_sha256 L codeVerifier) \<noteq> trim_right_eq storedChallenge
            then Some (oauth_error 400 ''invalid_grant'' ''The code_verifier does not match the code_challenge'')
            else None)
         else if storedMethod = ''plain'' then
           (if codeVerifier \<noteq> storedChallenge
            then Some (oauth_error 400 ''invalid_grant'' ''The code_verifier does not match the code_challenge'')
            else None)
         else Some (oauth_error 400 ''invalid_request'' ''Unsupported code_challenge_method''))
      else if storedChallenge \<noteq> [] \<and> codeVerifier = []
      then Some (oauth_error 400 ''invalid_request'' ''code_verifier is required when code_challenge was used'')
      else if storedChallenge = [] \<and> codeVerifier \<noteq> []
      then Some (oauth_error 400 ''invalid_request''
             ''code_verifier was provided but no code_challenge was registered'')
      else None)"

definition check_secret_presented :: "string \<Rightarrow> string \<Rightarrow> bool \<Rightarrow> response option" where
  "check_secret_presented storedChallenge codeVerifier secretPresented =
     (if storedChallenge = [] \<and> codeVerifier = [] \<and> \<not> secretPresented
      then Some (oauth_error 400 ''invalid_request'' ''Either code_verifier or client_secret is required'')
      else None)"

fun first_error :: "response option list \<Rightarrow> response option" where
  "first_error [] = None"
| "first_error (Some r # _) = Some r"
| "first_error (None # rs) = first_error rs"

text \<open>All checks between fetching the code and validating the session, in order.\<close>

definition code_checks ::
    "config \<Rightarrow> libs \<Rightarrow> Client \<Rightarrow> RequestBody \<Rightarrow> string list \<Rightarrow> bool \<Rightarrow> string \<Rightarrow> response option" where
  "code_checks C L client body resources secretPresented sessionData =
     (let stored = DecodeCode sessionData; parts = Split sessionData ''@@'';
          codeVerifier = TrimSpace (rb_CodeVerifier body)
      in case split_challenge (hd parts) of (storedChallenge, storedMethod) \<Rightarrow>
         first_error
           [check_code_client client stored,
            check_code_redirect (TrimSpace (rb_RedirectURI body)) stored,
            check_code_resource resources (bound_resource parts),
            check_pkce C L storedChallenge storedMethod codeVerifier,
            check_secret_presented storedChallenge codeVerifier secretPresented])"

definition code_grant :: "string list \<Rightarrow> SessionData \<Rightarrow> grant" where
  "code_grant parts sd = \<lparr>
     g_userID = sd_Subject sd, g_roles = sd_Roles sd, g_scope = sd_Scope sd,
     g_loginMethod = sd_LoginMethod sd, g_sessionKey = session_store_key sd,
     g_resource = bound_resource parts,
     g_oidcNonce = (if length parts > 2 then parts ! 2 else []),
     g_authTime = EffectiveAuthTime sd, g_familyID = [], g_oldNonce = []\<rparr>"

text \<open>
  The branch of \<open>TokenHandler\<close> for authorization codes. \<open>parts[1]\<close> is an index expression, so
  state data without a separator panics there.
\<close>

definition handle_code ::
    "'s http \<Rightarrow> instant \<Rightarrow> Client \<Rightarrow> RequestBody \<Rightarrow> string list \<Rightarrow> bool \<Rightarrow> 's world \<Rightarrow> grant stage \<times> 's world" where
  "handle_code H now client body resources secretPresented w =
     (let code = TrimSpace (rb_Code body) in
      if code = []
      then (Stop (oauth_error 400 ''invalid_request''
              ''The code parameter is required for authorization_code grant type''), w)
      else
       (case on_mem (m_GetAndRemoveState (x_M (h_X H)) now code) w of
          (Panic, w1) \<Rightarrow> (Crash, w1)
        | (Err _, w1) \<Rightarrow>
            (Stop (oauth_error 400 ''invalid_grant'' ''The authorization code is invalid or has expired''), w1)
        | (Ok sessionData, w1) \<Rightarrow>
            if sessionData = []
            then (Stop (oauth_error 400 ''invalid_grant'' ''The authorization code is invalid or has expired''), w1)
            else
             (case code_checks (x_C (h_X H)) (x_L (h_X H)) client body resources secretPresented sessionData of
                Some r \<Rightarrow> (Stop r, w1)
              | None \<Rightarrow>
                  (let parts = Split sessionData ''@@'' in
                   if length parts < 2 then (Crash, w1)
                   else
                    (case on_mem (ValidateBrowserSession (h_X H) now (parts ! 1)) w1 of
                       (Panic, w2) \<Rightarrow> (Crash, w2)
                     | (Err _, w2) \<Rightarrow> (Stop (oauth_error 401 ''unauthorized'' ''Invalid session data''), w2)
                     | (Ok sd, w2) \<Rightarrow> (Continue (code_grant parts sd), w2))))))"

section \<open>Refresh token\<close>

definition refreshFamilyKeyPrefix :: string where
  "refreshFamilyKeyPrefix = ''refresh_family_''"

definition refreshReuseGraceWindow :: int where
  "refreshReuseGraceWindow = 10"

definition setRefreshFamilyRecord ::
    "'s http \<Rightarrow> instant \<Rightarrow> string \<Rightarrow> string \<Rightarrow> refreshFamilyRecord \<Rightarrow> int \<Rightarrow> 's world \<Rightarrow> unit stage \<times> 's world" where
  "setRefreshFamilyRecord H now sessionKey familyID rec expiresAt w =
     (case lib_family_enc (x_L (h_X H)) rec of
        Ok b \<Rightarrow>
          (case on_mem (m_SetUserSession (x_M (h_X H)) now sessionKey
                  (refreshFamilyKeyPrefix @ familyID) b expiresAt) w of
             (Panic, w') \<Rightarrow> (Crash, w')
           | (_, w') \<Rightarrow> (Continue (), w'))
      | Err _ \<Rightarrow> (Continue (), w)
      | Panic \<Rightarrow> (Crash, w))"

text \<open>What a replayed refresh token with this family record calls for.\<close>

definition reuse_is_breach :: "instant \<Rightarrow> string \<Rightarrow> refreshFamilyRecord \<Rightarrow> bool" where
  "reuse_is_breach now replayedNonce rec \<longleftrightarrow>
     replayedNonce \<noteq> rf_LiveNonce rec \<and>
     \<not> (replayedNonce = rf_PrevNonce rec \<and> wrap64 (Unix now - rf_RotatedAt rec) \<le> refreshReuseGraceWindow)"

definition handleRefreshTokenReuse ::
    "'s http \<Rightarrow> instant \<Rightarrow> claims \<Rightarrow> 's world \<Rightarrow> unit stage \<times> 's world" where
  "handleRefreshTokenReuse H now m w =
     (let sessionKey = claims_session_key m; familyID = str_of m ''family_id'' in
      if str_of m ''sub'' = [] then (Continue (), w)
      else if familyID = [] then (Continue (), w)
      else
       (case on_mem (m_GetUserSession (x_M (h_X H)) now sessionKey (refreshFamilyKeyPrefix @ familyID)) w of
          (Panic, w1) \<Rightarrow> (Crash, w1)
        | (Err _, w1) \<Rightarrow> (Continue (), w1)
        | (Ok recRaw, w1) \<Rightarrow>
            if recRaw = [] then (Continue (), w1)
            else
             (case lib_family_dec (x_L (h_X H)) recRaw of
                Panic \<Rightarrow> (Crash, w1)
              | Err _ \<Rightarrow> (Continue (), w1)
              | Ok rec \<Rightarrow>
                  if reuse_is_breach now (str_of m ''nonce'') rec then
                    (case on_mem (m_DeleteUserSession (x_M (h_X H)) sessionKey (rf_LiveNonce rec)) w1 of
                       (Panic, w2) \<Rightarrow> (Crash, w2)
                     | (_, w2) \<Rightarrow> (Continue (), w2))
                  else (Continue (), w1))))"

text \<open>A claim that must be a list of non-empty strings; appending to a nil slice keeps an empty
  list nil.\<close>

fun nonempty_strings :: "claim list \<Rightarrow> string list option" where
  "nonempty_strings [] = Some []"
| "nonempty_strings (c # cs) =
     (case as_string c of
        None \<Rightarrow> None
      | Some s \<Rightarrow> if s = [] then None else map_option ((#) s) (nonempty_strings cs))"

definition string_list_claim :: "claims \<Rightarrow> string \<Rightarrow> string list option option" where
  "string_list_claim m k =
     (case as_list (claim_of m k) of
        None \<Rightarrow> None
      | Some l \<Rightarrow>
          (case nonempty_strings l of
             None \<Rightarrow> None
           | Some [] \<Rightarrow> Some None
           | Some (x # xs) \<Rightarrow> Some (Some (x # xs))))"

definition invalid_refresh_token :: response where
  "invalid_refresh_token = oauth_error 401 ''unauthorized'' ''Invalid refresh token''"

definition refresh_rejected :: response where
  "refresh_rejected = oauth_error 400 ''invalid_grant'' ''The refresh token is invalid or has expired''"

text \<open>The checks on the claims of a validated refresh token, up to the claim of the token.\<close>

definition refresh_grant :: "claims \<Rightarrow> string list \<Rightarrow> string \<Rightarrow> grant stage" where
  "refresh_grant m resources newFamily =
     (if str_of m ''sub'' = [] then Stop invalid_refresh_token
      else
       (case string_list_claim m ''roles'' of
          None \<Rightarrow> Stop invalid_refresh_token
        | Some roles \<Rightarrow>
            (case string_list_claim m ''scope'' of
               None \<Rightarrow> Stop invalid_refresh_token
             | Some scope \<Rightarrow>
                 (let boundResource = str_of m ''resource'' in
                  if resources \<noteq> [] \<and> boundResource \<noteq> [] \<and> \<not> names_resource resources boundResource
                  then Stop (oauth_error 400 ''invalid_target''
                         ''The resource parameter does not match the resource bound to this grant'')
                  else if str_of m ''nonce'' = [] then Stop invalid_refresh_token
                  else
                    Continue \<lparr>g_userID = str_of m ''sub'', g_roles = roles, g_scope = scope,
                      g_loginMethod = str_of m ''login_method'', g_sessionKey = claims_session_key m,
                      g_resource = boundResource, g_oidcNonce = [],
                      g_authTime = (case as_float (claim_of m ''auth_time'') of Some t \<Rightarrow> t | None \<Rightarrow> 0),
                      g_familyID = (if str_of m ''family_id'' = [] then newFamily else str_of m ''family_id''),
                      g_oldNonce = str_of m ''nonce''\<rparr>))))"

definition claim_refresh_token ::
    "'s http \<Rightarrow> grant \<Rightarrow> 's world \<Rightarrow> grant stage \<times> 's world" where
  "claim_refresh_token H g w =
     (case on_mem (m_ClaimRefreshToken (x_M (h_X H)) (g_sessionKey g) (g_oldNonce g)) w of
        (Panic, w1) \<Rightarrow> (Crash, w1)
      | (Err _, w1) \<Rightarrow>
          (Stop (oauth_error 503 ''temporarily_unavailable'' ''Could not complete token issuance''), w1)
      | (Ok False, w1) \<Rightarrow> (Stop refresh_rejected, w1)
      | (Ok True, w1) \<Rightarrow>
          (case on_mem (m_DeleteUserSession (x_M (h_X H)) (g_sessionKey g) (g_oldNonce g)) w1 of
             (Panic, w2) \<Rightarrow> (Crash, w2)
           | (_, w2) \<Rightarrow> (Continue g, w2)))"

definition handle_refresh ::
    "'s http \<Rightarrow> instant \<Rightarrow> randoms \<Rightarrow> Client \<Rightarrow> RequestBody \<Rightarrow> string list \<Rightarrow> string \<Rightarrow> 's world \<Rightarrow>
       grant stage \<times> 's world" where
  "handle_refresh H now rnd client body resources host w =
     (let refreshToken = TrimSpace (rb_RefreshToken body) in
      if refreshToken = []
      then (Stop (oauth_error 400 ''invalid_request''
              ''The refresh_token parameter is required for refresh_token grant type''), w)
      else
       (case on_mem (ValidateRefreshToken (h_X H) now host refreshToken (cl_ClientID client)) w of
          (VPanic, w1) \<Rightarrow> (Crash, w1)
        | (VErr m err, w1) \<Rightarrow>
            if err = ErrRefreshTokenReuse
            then bind_stage (handleRefreshTokenReuse H now m w1) (\<lambda>_ w2. (Stop refresh_rejected, w2))
            else (Stop refresh_rejected, w1)
        | (VOk m, w1) \<Rightarrow>
            (case refresh_grant m resources (rnd_family rnd) of
               Stop r \<Rightarrow> (Stop r, w1)
             | Crash \<Rightarrow> (Crash, w1)
             | Continue g \<Rightarrow> claim_refresh_token H g w1)))"

section \<open>Issuing the tokens of a user grant\<close>

definition unavailable :: response where
  "unavailable = oauth_error 503 ''temporarily_unavailable'' ''Could not complete token issuance''"

text \<open>\<open>cookie\<close> is the session cookie that is already on the response.\<close>

definition store_session ::
    "'s http \<Rightarrow> instant \<Rightarrow> string option \<Rightarrow> string \<Rightarrow> string \<Rightarrow> string \<Rightarrow> int \<Rightarrow> 's world \<Rightarrow>
       unit stage \<times> 's world" where
  "store_session H now cookie sessionKey subKey v expiresAt w =
     (case on_mem (m_SetUserSession (x_M (h_X H)) now sessionKey subKey v expiresAt) w of
        (Ok _, w1) \<Rightarrow> (Continue (), w1)
      | (Err _, w1) \<Rightarrow> (Stop (unavailable\<lparr>rs_session_cookie := cookie\<rparr>), w1)
      | (Panic, w1) \<Rightarrow> (Crash, w1))"

definition grant_user :: "'s http \<Rightarrow> grant \<Rightarrow> User stage" where
  "grant_user H g =
     (if g_sessionKey g = [] then Stop (oauth_error 401 ''unauthorized'' ''User not found'')
      else
       (case s_GetUserByID (x_S (h_X H)) (g_userID g) of
          NotFound \<Rightarrow> Stop (oauth_error 401 ''unauthorized'' ''User not found'')
        | LookupError _ \<Rightarrow> Stop (oauth_error 401 ''unauthorized'' ''User not found'')
        | NilRow \<Rightarrow> Crash
        | Found user \<Rightarrow>
            if u_RevokedTimestamp user \<noteq> None
            then Stop (oauth_error 401 ''unauthorized'' ''User is not active'')
            else Continue user))"

definition grant_config :: "grant \<Rightarrow> User \<Rightarrow> Client \<Rightarrow> string \<Rightarrow> string \<Rightarrow> AuthTokenConfig" where
  "grant_config g user client host nonce =
     no_config\<lparr>atc_User := Some user, atc_Roles := g_roles g, atc_Scope := g_scope g,
       atc_LoginMethod := g_loginMethod g, atc_Nonce := nonce, atc_OIDCNonce := g_oidcNonce g,
       atc_HostName := host, atc_AuthTime := g_authTime g, atc_ClientID := cl_ClientID client,
       atc_Resource := g_resource g, atc_RefreshTokenFamilyID := g_familyID g\<rparr>"

definition token_response :: "instant \<Rightarrow> bool \<Rightarrow> grant \<Rightarrow> AuthToken \<Rightarrow> response" where
  "token_response now isRefresh g a =
     \<lparr>rs_status = 200, rs_www_authenticate = False,
      rs_session_cookie = (if isRefresh then Some (at_FingerPrintHash a) else None),
      rs_body =
        [(''access_token'', CStr (jt_Token (at_AccessToken a))), (''token_type'', CStr ''Bearer''),
         (''id_token'', CStr (jt_Token (at_IDToken a))),
         (''scope'', CStr (case g_scope g of None \<Rightarrow> [] | Some l \<Rightarrow> Join l '' '')),
         (''roles'', CStrs (g_roles g)),
         (''expires_in'', CInt (expires_in now (jt_ExpiresAt (at_AccessToken a))))] @
        (case at_RefreshToken a of None \<Rightarrow> [] | Some r \<Rightarrow> [(''refresh_token'', CStr (jt_Token r))])\<rparr>"

text \<open>Registration of the new tokens, in the order of the code.\<close>

definition register_tokens ::
    "'s http \<Rightarrow> instant \<Rightarrow> bool \<Rightarrow> grant \<Rightarrow> AuthToken \<Rightarrow> 's world \<Rightarrow> unit stage \<times> 's world" where
  "register_tokens H now isRefresh g a w =
     (let L = x_L (h_X H); sk = g_sessionKey g; fp = at_FingerPrint a;
          cookie = (if isRefresh then Some (at_FingerPrintHash a) else None) in
      bind_stage
        (if isRefresh
         then store_session H now None sk (TokenTypeSessionToken @ ''_'' @ fp)
                (HashSessionValue L (at_FingerPrintHash a)) (at_SessionTokenExpiresAt a) w
         else (Continue (), w))
        (\<lambda>_ w1. bind_stage
          (store_session H now cookie sk (TokenTypeAccessToken @ ''_'' @ fp)
             (HashSessionValue L (jt_Token (at_AccessToken a))) (jt_ExpiresAt (at_AccessToken a)) w1)
          (\<lambda>_ w2.
            case at_RefreshToken a of
              None \<Rightarrow> (Continue (), w2)
            | Some r \<Rightarrow> bind_stage
                (store_session H now cookie sk (TokenTypeRefreshToken @ ''_'' @ fp)
                   (HashSessionValue L (jt_Token r)) (jt_ExpiresAt r) w2)
                (\<lambda>_ w3.
                  if isRefresh \<and> g_familyID g \<noteq> []
                  then setRefreshFamilyRecord H now sk (g_familyID g)
                         \<lparr>rf_LiveNonce = fp, rf_PrevNonce = g_oldNonce g, rf_RotatedAt = Unix now\<rparr>
                         (jt_ExpiresAt r) w3
                  else (Continue (), w3)))))"

definition issued_event :: "request \<Rightarrow> bool \<Rightarrow> User \<Rightarrow> string \<Rightarrow> audit_event" where
  "issued_event rq isRefresh user grantType =
     \<lparr>ev_Action = (if isRefresh then ''token.refreshed'' else ''token.issued''), ev_ActorID = u_ID user,
      ev_ActorType = ''user'', ev_ActorEmail = StringValue (u_Email user), ev_ResourceType = ''token'',
      ev_ResourceID = u_ID user, ev_Metadata = MText grantType, ev_IPAddress = rq_ip rq,
      ev_UserAgent = rq_agent rq\<rparr>"

definition issue_tokens ::
    "'s http \<Rightarrow> instant \<Rightarrow> randoms \<Rightarrow> request \<Rightarrow> Client \<Rightarrow> bool \<Rightarrow> grant \<Rightarrow> 's world \<Rightarrow>
       response stage \<times> 's world" where
  "issue_tokens H now rnd rq client isRefresh g w =
     (case grant_user H g of
        Stop r \<Rightarrow> (Stop r, w)
      | Crash \<Rightarrow> (Crash, w)
      | Continue user \<Rightarrow>
          (case CreateAuthToken (x_C (h_X H)) (x_L (h_X H)) now (rnd_gcm rnd) (rnd_uuid rnd)
                  (grant_config g user client (rq_host rq) (rnd_nonce rnd)) of
             Panic \<Rightarrow> (Crash, w)
           | Err _ \<Rightarrow> (Stop (oauth_error 401 ''unauthorized'' ''User not found''), w)
           | Ok a \<Rightarrow>
               bind_stage (register_tokens H now isRefresh g a w)
                 (\<lambda>_ w1. (Continue (token_response now isRefresh g a),
                    log_event (issued_event rq isRefresh user
                      (if isRefresh then GrantTypeRefreshToken else GrantTypeAuthorizationCode)) w1))))"

section \<open>Client credentials\<close>

definition granted_scopes :: "Client \<Rightarrow> string \<Rightarrow> string list stage" where
  "granted_scopes sa scope =
     (let allowed = ParsedAllowedScopes sa; requested = Fields scope in
      if allowed = []
      then Stop (oauth_error 400 ''invalid_scope'' ''The service account has no authorized scopes'')
      else if requested = [] then Continue allowed
      else if list_ex (\<lambda>rs. rs \<notin> set allowed) requested
      then Stop (oauth_error 400 ''invalid_scope''
             ''The requested scope exceeds the scopes authorized for this service account'')
      else Continue requested)"

definition machine_event :: "request \<Rightarrow> string \<Rightarrow> string \<Rightarrow> audit_event" where
  "machine_event rq action saID =
     \<lparr>ev_Action = action, ev_ActorID = saID, ev_ActorType = ''service_account'', ev_ActorEmail = [],
      ev_ResourceType = ''token'', ev_ResourceID = saID, ev_Metadata = MText GrantTypeClientCredentials,
      ev_IPAddress = rq_ip rq, ev_UserAgent = rq_agent rq\<rparr>"

definition machine_config :: "Client \<Rightarrow> string list \<Rightarrow> string \<Rightarrow> string \<Rightarrow> string \<Rightarrow> AuthTokenConfig" where
  "machine_config sa scopes host nonce resource =
     no_config\<lparr>atc_ServiceAccountID := cl_ID sa, atc_Scope := Some scopes, atc_Nonce := nonce,
       atc_LoginMethod := AuthRecipeMethodServiceAccount, atc_HostName := host, atc_Resource := resource\<rparr>"

text \<open>The access token is stored in the clear here, unlike those of the user grants.\<close>

definition handleClientCredentialsGrant ::
    "'s http \<Rightarrow> instant \<Rightarrow> randoms \<Rightarrow> request \<Rightarrow> Client \<Rightarrow> string \<Rightarrow> string \<Rightarrow> 's world \<Rightarrow>
       response stage \<times> 's world" where
  "handleClientCredentialsGrant H now rnd rq sa scope resource w =
     (case granted_scopes sa scope of
        Stop r \<Rightarrow> (Stop r, w)
      | Crash \<Rightarrow> (Crash, w)
      | Continue scopes \<Rightarrow>
          (let sessionKey = AuthRecipeMethodServiceAccount @ '':'' @ cl_ID sa; nonce = rnd_nonce rnd in
           case CreateMachineAuthToken (x_C (h_X H)) (x_L (h_X H)) now
                  (machine_config sa scopes (rq_host rq) nonce resource) of
             Panic \<Rightarrow> (Crash, w)
           | Err _ \<Rightarrow> (Stop (oauth_error 500 ''server_error'' ''Could not complete token issuance''), w)
           | Ok t \<Rightarrow>
               bind_stage
                 (store_session H now None sessionKey (TokenTypeAccessToken @ ''_'' @ nonce) (jt_Token t)
                    (jt_ExpiresAt t) w)
                 (\<lambda>_ w1.
                   (Continue (json_response 200
                      [(''access_token'', CStr (jt_Token t)), (''token_type'', CStr ''Bearer''),
                       (''expires_in'', CInt (expires_in now (jt_ExpiresAt t))),
                       (''scope'', CStr (Join scopes '' ''))]),
                    log_event (machine_event rq ''token.client_credentials'' (cl_ID sa)) w1))))"

section \<open>Lemmas on the stages\<close>

lemma first_error_None: "first_error rs = None \<longleftrightarrow> (\<forall>r \<in> set rs. r = None)"
  by (induction rs rule: first_error.induct) auto

text \<open>A step that adds sessions in \<open>A\<close> at most and leaves the states as they are.\<close>

definition quiet ::
    "('s \<Rightarrow> bool) \<Rightarrow> (instant \<Rightarrow> 's \<Rightarrow> string \<Rightarrow> string option) \<Rightarrow> ('s \<Rightarrow> 'k \<Rightarrow> bool) \<Rightarrow> 'k set \<Rightarrow> 's \<Rightarrow> 's \<Rightarrow> bool" where
  "quiet invar stv held A s s' \<longleftrightarrow>
     invar s' \<and> (\<forall>t q. stv t s' q = stv t s q) \<and> (\<forall>a. a \<notin> A \<longrightarrow> held s' a \<longrightarrow> held s a)"

lemma quiet_refl: "invar s \<Longrightarrow> quiet invar stv held A s s"
  by (simp add: quiet_def)

lemma quiet_trans: "quiet invar stv held A s s1 \<Longrightarrow> quiet invar stv held A s1 s2 \<Longrightarrow> quiet invar stv held A s s2"
  by (simp add: quiet_def)

lemma quiet_mono: "quiet invar stv held A s s1 \<Longrightarrow> A \<subseteq> B \<Longrightarrow> quiet invar stv held B s s1"
  by (auto simp: quiet_def)

lemma quiet_invar: "quiet invar stv held A s s' \<Longrightarrow> invar s'"
  by (simp add: quiet_def)

lemma bind_stage_keeps:
  assumes "P (w_mem (snd m))" "\<And>a w1. m = (Continue a, w1) \<Longrightarrow> P (w_mem (snd (f a w1)))"
  shows "P (w_mem (snd (bind_stage m f)))"
  using assms by (cases m; cases "fst m") auto

lemma bind_stage_same:
  assumes "\<And>a w1. w_mem (snd (f a w1)) = w_mem w1"
  shows "w_mem (snd (bind_stage m f)) = w_mem (snd m)"
  using assms by (cases m; cases "fst m") auto

text \<open>The keys under which one issuance registers tokens.\<close>

definition issue_keys :: "grant \<Rightarrow> string \<Rightarrow> string set" where
  "issue_keys g fp = {TokenTypeSessionToken @ ''_'' @ fp, TokenTypeAccessToken @ ''_'' @ fp,
     TokenTypeRefreshToken @ ''_'' @ fp, refreshFamilyKeyPrefix @ g_familyID g}"

lemma issue_keys_other:
  "n \<noteq> fp \<Longrightarrow> TokenTypeRefreshToken @ ''_'' @ n \<notin> issue_keys g fp"
  "n \<noteq> fp \<Longrightarrow> TokenTypeAccessToken @ ''_'' @ n \<notin> issue_keys g fp"
  "n \<noteq> fp \<Longrightarrow> TokenTypeSessionToken @ ''_'' @ n \<notin> issue_keys g fp"
  by (auto simp: issue_keys_def const_defs refreshFamilyKeyPrefix_def)

context memory_store_contract
begin

lemma quiet_get_session:
  "invar s \<Longrightarrow> m_GetUserSession M now u k s = (g, s') \<Longrightarrow> quiet invar stv held A s s'"
  using get_session stv_get_session by (simp add: quiet_def)

lemma quiet_delete_session:
  assumes "invar s" "m_DeleteUserSession M u n s = (g, s')"
  shows "quiet invar stv held A s s'"
  using delete_session[OF assms] stv_delete_session[OF assms(2)] unfolding quiet_def by blast

lemma quiet_claim:
  assumes "invar s" "m_ClaimRefreshToken M u n s = (g, s')"
  shows "quiet invar stv held A s s'"
proof -
  have "held s' a \<longrightarrow> held s a" for a
    using claim_refresh[OF assms] by (cases "a = addr u (TokenTypeRefreshToken @ ''_'' @ n)") simp_all
  then show ?thesis using claim_refresh[OF assms] stv_claim[OF assms(2)] by (simp add: quiet_def)
qed

lemma quiet_set_session:
  assumes "invar s" "m_SetUserSession M now u k v e s = (g, s')" "addr u k \<in> A"
  shows "quiet invar stv held A s s'"
proof -
  have "held s' a \<longrightarrow> held s a" if "a \<notin> A" for a
    using set_session[OF assms(1,2)] assms(3) that by (cases "a = addr u k") auto
  then show ?thesis using set_session[OF assms(1,2)] stv_set_session[OF assms(2)] by (simp add: quiet_def)
qed

lemma quiet_ValidateBrowserSession:
  assumes "invar s" "x_M X = M" "ValidateBrowserSession X now c s = (r, s')"
  shows "quiet invar stv held A s s'"
  using assms(2,3) quiet_refl[of invar, OF assms(1), of stv held] quiet_get_session[OF assms(1)]
  by (auto simp: ValidateBrowserSession_def split: if_splits out.splits prod.splits)

lemma quiet_ValidateRefreshToken:
  assumes "invar s" "x_M X = M" "ValidateRefreshToken X now host tok cid s = (r, s')"
  shows "quiet invar stv held A s s'"
  using assms(2,3) quiet_refl[of invar, OF assms(1), of stv held] quiet_get_session[OF assms(1)]
  by (auto simp: ValidateRefreshToken_def Let_def split: if_splits out.splits prod.splits option.splits)

lemma quiet_store_session:
  assumes "invar (w_mem w)" "x_M (h_X H) = M" "addr u k \<in> A"
  shows "quiet invar stv held A (w_mem w) (w_mem (snd (store_session H now cookie u k v e w)))"
proof -
  obtain r s' where s': "m_SetUserSession M now u k v e (w_mem w) = (r, s')" by fastforce
  then have "w_mem (snd (store_session H now cookie u k v e w)) = s'"
    using assms(2) by (auto simp: store_session_def on_mem_def split: out.splits)
  then show ?thesis using quiet_set_session[OF assms(1) s' assms(3)] by simp
qed

lemma quiet_setRefreshFamilyRecord:
  assumes "invar (w_mem w)" "x_M (h_X H) = M" "addr u (refreshFamilyKeyPrefix @ f) \<in> A"
  shows "quiet invar stv held A (w_mem w) (w_mem (snd (setRefreshFamilyRecord H now u f rec e w)))"
proof (cases "lib_family_enc (x_L (h_X H)) rec")
  case (Ok b)
  obtain r s' where s': "m_SetUserSession M now u (refreshFamilyKeyPrefix @ f) b e (w_mem w) = (r, s')" by fastforce
  then have "w_mem (snd (setRefreshFamilyRecord H now u f rec e w)) = s'"
    using assms(2) Ok by (auto simp: setRefreshFamilyRecord_def on_mem_def split: out.splits)
  then show ?thesis using quiet_set_session[OF assms(1) s' assms(3)] by simp
qed (simp_all add: setRefreshFamilyRecord_def quiet_refl[of invar, OF assms(1)])

lemma quiet_register:
  assumes "invar (w_mem w)" "x_M (h_X H) = M"
  shows "quiet invar stv held (addr (g_sessionKey g) ` issue_keys g (at_FingerPrint a))
    (w_mem w) (w_mem (snd (register_tokens H now isRefresh g a w)))"
proof -
  let ?A = "addr (g_sessionKey g) ` issue_keys g (at_FingerPrint a)"
  let ?Q = "\<lambda>s. quiet invar stv held ?A (w_mem w) s"
  have keys: "addr (g_sessionKey g) (TokenTypeSessionToken @ ''_'' @ at_FingerPrint a) \<in> ?A"
    "addr (g_sessionKey g) (TokenTypeAccessToken @ ''_'' @ at_FingerPrint a) \<in> ?A"
    "addr (g_sessionKey g) (TokenTypeRefreshToken @ ''_'' @ at_FingerPrint a) \<in> ?A"
    "addr (g_sessionKey g) (refreshFamilyKeyPrefix @ g_familyID g) \<in> ?A"
    by (auto simp: issue_keys_def)
  have st: "?Q (w_mem (snd (store_session H now c (g_sessionKey g) k v e w1)))"
    if "?Q (w_mem w1)" "addr (g_sessionKey g) k \<in> ?A" for c k v e w1
    using quiet_trans[OF that(1) quiet_store_session[OF quiet_invar[OF that(1)] assms(2) that(2)]] .
  have fm: "?Q (w_mem (snd (setRefreshFamilyRecord H now (g_sessionKey g) (g_familyID g) rc e w1)))"
    if "?Q (w_mem w1)" for rc e w1
    using quiet_trans[OF that quiet_setRefreshFamilyRecord[OF quiet_invar[OF that] assms(2) keys(4)]] .
  have r: "?Q (w_mem w)" using quiet_refl[of invar, OF assms(1)] .
  show ?thesis
    unfolding register_tokens_def Let_def
  proof (intro bind_stage_keeps[where P = ?Q], goal_cases)
    case 1
    show ?case using st[OF r keys(1)] r by simp
  next
    case (2 x w1)
    then have w1: "?Q (w_mem w1)"
      using st[OF r keys(1)] r by (metis prod.inject snd_conv)
    show ?case by (rule st[OF w1 keys(2)])
  next
    case (3 x w1 y w2)
    then have w1: "?Q (w_mem w1)" using st[OF r keys(1)] r by (metis prod.inject snd_conv)
    have w2: "?Q (w_mem w2)" using st[OF w1 keys(2)] 3(2) by (metis snd_conv)
    show ?case
      using w2 st[OF w2 keys(3)] fm
      by (cases "at_RefreshToken a")
        (auto intro!: bind_stage_keeps[where P = ?Q] dest!: arg_cong[of _ _ snd] split: if_splits)
  qed
qed

lemma quiet_issue_tokens:
  assumes "invar (w_mem w)" "x_M (h_X H) = M"
  shows "quiet invar stv held (addr (g_sessionKey g) ` issue_keys g (rnd_nonce rnd))
    (w_mem w) (w_mem (snd (issue_tokens H now rnd rq client isRefresh g w)))"
proof -
  let ?Q = "\<lambda>s. quiet invar stv held (addr (g_sessionKey g) ` issue_keys g (rnd_nonce rnd)) (w_mem w) s"
  have r: "?Q (w_mem w)" using quiet_refl[of invar, OF assms(1)] .
  have "?Q (w_mem (snd (register_tokens H now isRefresh g a w)))"
    if c: "CreateAuthToken (x_C (h_X H)) (x_L (h_X H)) now (rnd_gcm rnd) (rnd_uuid rnd)
      (grant_config g user client (rq_host rq) (rnd_nonce rnd)) = Ok a" for a user
  proof -
    have "at_FingerPrint a = rnd_nonce rnd" using c by (rule CreateAuthToken_ok) (simp add: grant_config_def)
    then show ?thesis using quiet_register[OF assms, of g a] by simp
  qed
  then show ?thesis
    unfolding issue_tokens_def
    using r by (auto simp: bind_stage_same split: stage.split out.split)
qed

text \<open>A code that was presented is gone, whatever the outcome.\<close>

lemma handle_code_consumes:
  assumes "invar (w_mem w)" "x_M (h_X H) = M" "TrimSpace (rb_Code body) \<noteq> []"
    and "handle_code H now client body resources sp w = (x, w')"
  shows "invar (w_mem w') \<and>
    stv t (w_mem w') q = (if q = TrimSpace (rb_Code body) then None else stv t (w_mem w) q)"
proof -
  obtain g s1 where g: "m_GetAndRemoveState M now (TrimSpace (rb_Code body)) (w_mem w) = (g, s1)" by fastforce
  from get_and_remove[OF assms(1) g]
  have s1: "invar s1" "stv t s1 q = (if q = TrimSpace (rb_Code body) then None else stv t (w_mem w) q)" by auto
  have "w_mem w' = s1 \<or> (\<exists>c r. ValidateBrowserSession (h_X H) now c s1 = (r, w_mem w'))"
    using assms(2-4) g
    by (auto simp: handle_code_def on_mem_def Let_def
        split: out.splits option.splits if_splits prod.splits)
  then show ?thesis
    using s1 quiet_ValidateBrowserSession[OF s1(1) assms(2), where A = "{}"] by (auto simp: quiet_def)
qed

lemma handle_code_Continue:
  assumes "invar (w_mem w)" "x_M (h_X H) = M"
    and "handle_code H now client body resources sp w = (Continue g, w')"
  obtains sessionData sd s1 where "stv now (w_mem w) (TrimSpace (rb_Code body)) = Some sessionData"
    "code_checks (x_C (h_X H)) (x_L (h_X H)) client body resources sp sessionData = None"
    "2 \<le> length (Split sessionData ''@@'')"
    "ValidateBrowserSession (h_X H) now (Split sessionData ''@@'' ! 1) s1 = (Ok sd, w_mem w')"
    "g = code_grant (Split sessionData ''@@'') sd" "TrimSpace (rb_Code body) \<noteq> []"
proof -
  obtain x s1 where x: "m_GetAndRemoveState M now (TrimSpace (rb_Code body)) (w_mem w) = (x, s1)" by fastforce
  have "x = (case stv now (w_mem w) (TrimSpace (rb_Code body)) of
             Some v \<Rightarrow> if v = [] then Err ''not found'' else Ok v | None \<Rightarrow> Err ''not found'')"
    using get_and_remove[OF assms(1) x] by simp
  then show ?thesis
    using assms(2,3) x that
    by (auto simp: handle_code_def on_mem_def Let_def
        split: out.splits option.splits if_splits prod.splits)
qed

text \<open>Refreshing: no outcome adds a session, and going on means the token was held and is gone.\<close>

lemma quiet_handleRefreshTokenReuse:
  assumes "invar (w_mem w)" "x_M (h_X H) = M"
  shows "quiet invar stv held A (w_mem w) (w_mem (snd (handleRefreshTokenReuse H now m w)))"
proof -
  let ?k = "refreshFamilyKeyPrefix @ str_of m ''family_id''"
  obtain g s1 where g: "m_GetUserSession M now (claims_session_key m) ?k (w_mem w) = (g, s1)" by fastforce
  have q: "quiet invar stv held A (w_mem w) s1" using quiet_get_session[OF assms(1) g] .
  have "quiet invar stv held A (w_mem w) s2" if "m_DeleteUserSession M u n s1 = (b, s2)" for u n b s2
    using quiet_trans[OF q quiet_delete_session[OF quiet_invar[OF q] that]] .
  then show ?thesis
    using quiet_refl[of invar, OF assms(1), of stv held A] q assms(2) g
    by (auto simp: handleRefreshTokenReuse_def Let_def on_mem_def split: out.splits prod.splits)
qed

lemma claim_refresh_token_spec:
  assumes "invar (w_mem w)" "x_M (h_X H) = M" "claim_refresh_token H g w = (x, w')"
  shows "quiet invar stv held A (w_mem w) (w_mem w')"
    "x = Continue g' \<Longrightarrow> g' = g \<and> held (w_mem w) (addr (g_sessionKey g) (TokenTypeRefreshToken @ ''_'' @ g_oldNonce g)) \<and>
      (\<forall>ty \<in> {TokenTypeSessionToken, TokenTypeAccessToken, TokenTypeRefreshToken}.
         \<not> held (w_mem w') (addr (g_sessionKey g) (ty @ ''_'' @ g_oldNonce g)))"
proof -
  obtain b s1 where b: "m_ClaimRefreshToken M (g_sessionKey g) (g_oldNonce g) (w_mem w) = (b, s1)" by fastforce
  obtain r s2 where r: "m_DeleteUserSession M (g_sessionKey g) (g_oldNonce g) s1 = (r, s2)" by fastforce
  have q: "quiet invar stv held A (w_mem w) s1" for A using quiet_claim[OF assms(1) b] .
  have i: "invar s1" using quiet_invar[OF q] .
  have "w_mem w' = s1 \<or> w_mem w' = s2"
    using assms(2,3) b r by (auto simp: claim_refresh_token_def on_mem_def split: out.splits bool.splits)
  then show "quiet invar stv held A (w_mem w) (w_mem w')"
    using q quiet_trans[OF q quiet_delete_session[OF i r]] by auto
  show "g' = g \<and> held (w_mem w) (addr (g_sessionKey g) (TokenTypeRefreshToken @ ''_'' @ g_oldNonce g)) \<and>
      (\<forall>ty \<in> {TokenTypeSessionToken, TokenTypeAccessToken, TokenTypeRefreshToken}.
         \<not> held (w_mem w') (addr (g_sessionKey g) (ty @ ''_'' @ g_oldNonce g)))" if "x = Continue g'"
  proof -
    have "b = Ok True" "w_mem w' = s2" "g' = g"
      using assms(2,3) b r that by (auto simp: claim_refresh_token_def on_mem_def split: out.splits bool.splits)
    then show ?thesis using claim_refresh[OF assms(1) b] delete_session[OF i r] by auto
  qed
qed

lemma quiet_handle_refresh:
  assumes "invar (w_mem w)" "x_M (h_X H) = M"
  shows "quiet invar stv held A (w_mem w) (w_mem (snd (handle_refresh H now rnd client body resources host w)))"
proof -
  let ?v = "ValidateRefreshToken (h_X H) now host (TrimSpace (rb_RefreshToken body)) (cl_ClientID client)"
  obtain v s1 where v: "?v (w_mem w) = (v, s1)" by fastforce
  let ?w1 = "w\<lparr>w_mem := s1\<rparr>"
  have q: "quiet invar stv held A (w_mem w) (w_mem ?w1)"
    using quiet_ValidateRefreshToken[OF assms v] by simp
  have i: "invar (w_mem ?w1)" using quiet_invar[OF q] .
  have c: "quiet invar stv held A (w_mem w) (w_mem (snd (claim_refresh_token H g ?w1)))" for g
    using quiet_trans[OF q claim_refresh_token_spec(1)[OF i assms(2) prod.collapse[symmetric]]] .
  have "quiet invar stv held A (w_mem w) (w_mem (snd (handleRefreshTokenReuse H now m ?w1)))" for m
    using quiet_trans[OF q quiet_handleRefreshTokenReuse[OF i assms(2)]] .
  then have u: "quiet invar stv held A (w_mem w)
      (w_mem (snd (bind_stage (handleRefreshTokenReuse H now m ?w1) (\<lambda>_ w2. (Stop r, w2)))))" for m r
    by (simp add: bind_stage_same)
  show ?thesis
    using quiet_refl[of invar, OF assms(1), of stv held A] q c u
    by (auto simp: handle_refresh_def Let_def on_mem_def v split: vres.split stage.split)
qed

lemma handle_refresh_Continue:
  assumes "invar (w_mem w)" "x_M (h_X H) = M"
    and "handle_refresh H now rnd client body resources host w = (Continue g, w')"
  obtains m where
    "ParseJWTToken (x_C (h_X H)) (x_L (h_X H)) now (TrimSpace (rb_RefreshToken body)) = (m, None)"
    "refresh_grant m resources (rnd_family rnd) = Continue g"
    "claim_of m ''iss'' = CStr host" "claim_of m ''token_type'' = CStr TokenTypeRefreshToken"
    "claim_of m ''aud'' = CStr (if cl_ClientID client = [] then c_ClientID (x_C (h_X H)) else cl_ClientID client)"
    "held (w_mem w) (addr (claims_session_key m) (TokenTypeRefreshToken @ ''_'' @ str_of m ''nonce''))"
    "\<forall>ty \<in> {TokenTypeSessionToken, TokenTypeAccessToken, TokenTypeRefreshToken}.
       \<not> held (w_mem w') (addr (claims_session_key m) (ty @ ''_'' @ str_of m ''nonce''))"
    "g_sessionKey g = claims_session_key m" "g_oldNonce g = str_of m ''nonce''"
    "g_userID g = str_of m ''sub''"
proof -
  let ?v = "ValidateRefreshToken (h_X H) now host (TrimSpace (rb_RefreshToken body)) (cl_ClientID client)"
  obtain m s1 g0 where v: "?v (w_mem w) = (VOk m, s1)" and g0: "refresh_grant m resources (rnd_family rnd) = Continue g0"
    and c: "claim_refresh_token H g0 (w\<lparr>w_mem := s1\<rparr>) = (Continue g, w')"
    using assms(3)
    by (auto simp: handle_refresh_def Let_def on_mem_def bind_stage_def
        split: if_splits vres.splits stage.splits prod.splits)
  have q: "quiet invar stv held {} (w_mem w) s1" using quiet_ValidateRefreshToken[OF assms(1,2) v] .
  have i: "invar (w_mem (w\<lparr>w_mem := s1\<rparr>))" using quiet_invar[OF q] by simp
  note cs = claim_refresh_token_spec(2)[OF i assms(2) c refl]
  have "g_sessionKey g0 = claims_session_key m" "g_oldNonce g0 = str_of m ''nonce''" "g_userID g0 = str_of m ''sub''"
    using g0 by (auto simp: refresh_grant_def Let_def split: if_splits option.splits)
  then show ?thesis
    using v cs g0 q that by (elim ValidateRefresh_VOk) (auto simp: quiet_def)
qed

end

end
