(* ===== verification/Token_Exchange.thy ===== *)
theory Token_Exchange
  imports Oauth_Http
begin

text \<open>
  \<open>internal/http_handlers/token_exchange.go\<close> and \<open>internal/token/delegation_token.go\<close>: the RFC 8693
  token exchange in its delegation-only profile. An authenticated agent trades a subject token
  and its own actor token for a short-lived, attenuated, resource-bound token with the actor
  chain nested in it.
\<close>

section \<open>Minting\<close>

definition DelegatedAccessTokenTTL :: instant where
  "DelegatedAccessTokenTTL = 5 * 60 * Second"

record DelegationTokenConfig =
  dc_Subject :: string
  dc_Actor :: claims
  dc_Audience :: string
  dc_Scope :: "string list"
  dc_ClientID :: string
  dc_HostName :: string
  dc_SessionID :: string
  dc_ServiceAccountSubject :: bool

definition delegated_claims :: "instant \<Rightarrow> string \<Rightarrow> DelegationTokenConfig \<Rightarrow> claims" where
  "delegated_claims now jti cfg =
     (let m1 = [(''iss'', CStr (dc_HostName cfg)), (''aud'', CStr (dc_Audience cfg)),
                (''sub'', CStr (dc_Subject cfg)), (''exp'', CInt (Unix (now + DelegatedAccessTokenTTL))),
                (''iat'', CInt (Unix now)), (''jti'', CStr jti), (''token_type'', CStr TokenTypeAccessToken),
                (''scope'', CStrs (Some (dc_Scope cfg))), (''client_id'', CStr (dc_ClientID cfg)),
                (''act'', CMap (dc_Actor cfg))];
          m2 = (if dc_SessionID cfg \<noteq> [] then set_claim ''sid'' (CStr (dc_SessionID cfg)) m1 else m1)
      in if dc_ServiceAccountSubject cfg
         then set_claim ''login_method'' (CStr AuthRecipeMethodServiceAccount) m2 else m2)"

definition CreateDelegatedAccessToken ::
    "config \<Rightarrow> libs \<Rightarrow> instant \<Rightarrow> string \<Rightarrow> DelegationTokenConfig \<Rightarrow> JWTToken out" where
  "CreateDelegatedAccessToken C L now jti cfg =
     (case signJWTToken C L (delegated_claims now jti cfg) ''at+jwt'' of
        Ok t \<Rightarrow> Ok \<lparr>jt_Token = t, jt_ExpiresAt = Unix (now + DelegatedAccessTokenTTL)\<rparr>
      | Err e \<Rightarrow> Err e
      | Panic \<Rightarrow> Panic)"

section \<open>Helpers\<close>

definition maxActChainDepth :: nat where
  "maxActChainDepth = 4"

definition isSupportedExchangeTokenType :: "string \<Rightarrow> bool" where
  "isSupportedExchangeTokenType t \<longleftrightarrow> t = TokenTypeURNAccessToken \<or> t = TokenTypeURNJWT"

fun claimToStringSlice :: "claim \<Rightarrow> string list" where
  "claimToStringSlice (CList l) = filter (\<lambda>s. s \<noteq> []) (List.map_filter as_string l)"
| "claimToStringSlice (CStrs l) = (case l of None \<Rightarrow> [] | Some x \<Rightarrow> x)"
| "claimToStringSlice _ = []"

text \<open>The loop of \<open>intersectScopes\<close>: \<open>seen\<close> is the set of scopes already appended.\<close>

fun intersect_loop :: "string list \<Rightarrow> string list \<Rightarrow> string list \<Rightarrow> string list" where
  "intersect_loop allowed seen [] = []"
| "intersect_loop allowed seen (s # a) =
     (if s \<notin> set allowed \<or> s \<in> set seen then intersect_loop allowed seen a
      else s # intersect_loop allowed (s # seen) a)"

definition intersectScopes :: "string list \<Rightarrow> string list \<Rightarrow> string list" where
  "intersectScopes a b = intersect_loop b [] a"

text \<open>
  The walks along an actor chain. A claim value is finite, and each step goes into a proper
  component of it, so the size of the value bounds the walk.
\<close>

lemma act_smaller:
  assumes "map_of act ''act'' = Some (CMap nxt)"
  shows "size (CMap nxt) < size (CMap act)"
proof -
  have "(''act'', CMap nxt) \<in> set act" using assms by (rule map_of_SomeD)
  then show ?thesis
  proof (induction act)
    case (Cons p act)
    then show ?case by (cases p) auto
  qed simp
qed

function actChainDepth :: "claims \<Rightarrow> nat" where
  "actChainDepth act =
     (case map_of act ''act'' of
        Some (CMap next) \<Rightarrow> Suc (actChainDepth next)
      | _ \<Rightarrow> 1)"
  by pat_completeness auto

termination
  by (relation "measure (\<lambda>m. size (CMap m))") (simp_all add: act_smaller del: claim.size)

declare actChainDepth.simps [simp del]

function act_actors :: "claims \<Rightarrow> string list" where
  "act_actors act =
     (let rest = (case map_of act ''act'' of Some (CMap next) \<Rightarrow> act_actors next | _ \<Rightarrow> [])
      in if str_of act ''sub'' \<noteq> [] then str_of act ''sub'' # rest else rest)"
  by pat_completeness auto

termination
  by (relation "measure (\<lambda>m. size (CMap m))") (simp_all add: act_smaller del: claim.size)

declare act_actors.simps [simp del]

definition delegationChainString :: "claims \<Rightarrow> string \<Rightarrow> string" where
  "delegationChainString act subject = Join (rev (act_actors act) @ [subject]) ''>''"

definition validateExchangeToken ::
    "'s http \<Rightarrow> instant \<Rightarrow> string \<Rightarrow> string \<Rightarrow> claims option" where
  "validateExchangeToken H now tokenStr hostname =
     (case ParseJWTToken (x_C (h_X H)) (x_L (h_X H)) now tokenStr of
        (m, Some _) \<Rightarrow> None
      | (m, None) \<Rightarrow>
          if str_of m ''iss'' = [] \<or> str_of m ''iss'' \<noteq> hostname then None
          else if str_of m ''token_type'' \<noteq> TokenTypeAccessToken then None
          else Some m)"

section \<open>The grant\<close>

text \<open>A refusal: status, audit reason, error code, description.\<close>

datatype refusal = Refusal int string string string

definition bad_request :: "string \<Rightarrow> string \<Rightarrow> refusal" where
  "bad_request reason desc = Refusal 400 reason ''invalid_request'' desc"

definition bind_sum :: "'e + 'a \<Rightarrow> ('a \<Rightarrow> 'e + 'b) \<Rightarrow> 'e + 'b" where
  "bind_sum m f = (case m of Inl e \<Rightarrow> Inl e | Inr a \<Rightarrow> f a)"

lemma bind_sum_Inr: "bind_sum m f = Inr b \<longleftrightarrow> (\<exists>a. m = Inr a \<and> f a = Inr b)"
  by (auto simp: bind_sum_def split: sum.splits)

text \<open>Parameters of the request: the result is the one resource.\<close>

definition exchange_request :: "libs \<Rightarrow> RequestBody \<Rightarrow> string list \<Rightarrow> refusal + string" where
  "exchange_request L body resources =
     (let subjectToken = TrimSpace (rb_SubjectToken body);
          subjectTokenType = TrimSpace (rb_SubjectTokenType body);
          actorToken = TrimSpace (rb_ActorToken body);
          actorTokenType = TrimSpace (rb_ActorTokenType body) in
      if subjectToken = [] \<or> subjectTokenType = []
      then Inl (bad_request ''missing_subject_token'' ''subject_token and subject_token_type are required'')
      else if \<not> isSupportedExchangeTokenType subjectTokenType
      then Inl (bad_request ''unsupported_subject_token_type'' ''unsupported subject_token_type'')
      else if actorToken = []
      then Inl (bad_request ''missing_actor_token''
             ''actor_token is required: only the delegation profile is supported here (impersonation is not permitted)'')
      else if actorTokenType = [] \<or> \<not> isSupportedExchangeTokenType actorTokenType
      then Inl (bad_request ''unsupported_actor_token_type'' ''unsupported or missing actor_token_type'')
      else
       (case resources of
          [r] \<Rightarrow>
            (let resource = TrimSpace r in
             if resource = []
             then Inl (bad_request ''resource_not_exactly_one'' ''exactly one resource parameter is required'')
             else if \<not> isValidResourceIndicator L resource
             then Inl (Refusal 400 ''invalid_resource_indicator'' ''invalid_target''
                    ''resource must be an absolute URI without a fragment'')
             else Inr resource)
        | _ \<Rightarrow> Inl (bad_request ''resource_not_exactly_one'' ''exactly one resource parameter is required'')))"

text \<open>Both tokens are ours and valid, and the actor token is the caller's own.\<close>

definition exchange_tokens ::
    "'s http \<Rightarrow> instant \<Rightarrow> string \<Rightarrow> Client \<Rightarrow> RequestBody \<Rightarrow> refusal + claims" where
  "exchange_tokens H now host agent body =
     (case validateExchangeToken H now (TrimSpace (rb_SubjectToken body)) host of
        None \<Rightarrow> Inl (Refusal 400 ''subject_token_invalid'' ''invalid_grant''
                  ''The subject_token is invalid or has expired'')
      | Some subjectClaims \<Rightarrow>
          (case validateExchangeToken H now (TrimSpace (rb_ActorToken body)) host of
             None \<Rightarrow> Inl (Refusal 400 ''actor_token_invalid'' ''invalid_grant''
                       ''The actor_token is invalid or has expired'')
           | Some actorClaims \<Rightarrow>
               if str_of actorClaims ''sub'' \<noteq> cl_ID agent
               then Inl (Refusal 400 ''actor_token_not_the_caller'' ''invalid_grant''
                      ''The actor_token must belong to the authenticated client'')
               else if str_of subjectClaims ''sub'' = []
               then Inl (Refusal 400 ''subject_token_has_no_subject'' ''invalid_grant''
                      ''The subject_token has no subject'')
               else Inr subjectClaims))"

definition machine_subject :: "claims \<Rightarrow> bool" where
  "machine_subject m \<longleftrightarrow> str_of m ''login_method'' = AuthRecipeMethodServiceAccount"

text \<open>The authority source can be loaded and is active.\<close>

definition exchange_subject :: "storage \<Rightarrow> claims \<Rightarrow> refusal + unit" where
  "exchange_subject S m =
     (let unverifiable = Refusal 400 ''subject_unverifiable'' ''invalid_grant'' ''The subject could not be verified'';
          inactive = Refusal 400 ''subject_inactive'' ''invalid_grant'' ''The subject is no longer active'';
          subject = str_of m ''sub'' in
      if machine_subject m then
        (case s_GetClientByID S subject of
           Found c \<Rightarrow> if cl_IsActive c then Inr () else Inl inactive
         | _ \<Rightarrow> Inl unverifiable)
      else
        (case s_GetUserByID S subject of
           Found u \<Rightarrow> if u_RevokedTimestamp u = None then Inr () else Inl inactive
         | _ \<Rightarrow> Inl unverifiable))"

definition attenuate :: "Client \<Rightarrow> claims \<Rightarrow> string \<Rightarrow> refusal + string list" where
  "attenuate agent m scopeParam =
     (let ceiling = ParsedAllowedScopes agent; requested = Fields scopeParam;
          base = intersectScopes (claimToStringSlice (claim_of m ''scope'')) ceiling;
          effective = (if requested \<noteq> [] then intersectScopes base requested else base) in
      if ceiling = []
      then Inl (Refusal 400 ''agent_has_no_scopes'' ''invalid_scope'' ''The agent has no authorized scopes'')
      else if effective = []
      then Inl (Refusal 400 ''scope_empty_after_attenuation'' ''invalid_scope''
             ''The requested scope is empty after attenuation against the subject and the agent ceiling'')
      else Inr effective)"

definition build_act :: "Client \<Rightarrow> claims \<Rightarrow> claims" where
  "build_act agent m =
     (case claim_of m ''act'' of
        CMap (p # ps) \<Rightarrow> [(''sub'', CStr (cl_ClientID agent)), (''act'', CMap (p # ps))]
      | _ \<Rightarrow> [(''sub'', CStr (cl_ClientID agent))])"

definition exchange_chain :: "Client \<Rightarrow> claims \<Rightarrow> refusal + claims" where
  "exchange_chain agent m =
     (let act = build_act agent m in
      if actChainDepth act > maxActChainDepth
      then Inl (bad_request ''delegation_chain_too_deep''
             ''The delegation chain exceeds the maximum allowed depth'')
      else Inr act)"

definition exchange_sid :: "claims \<Rightarrow> string" where
  "exchange_sid m =
     (if str_of m ''sid'' = []
      then DelegationSessionID (str_of m ''login_method'') (str_of m ''sub'') (str_of m ''nonce'')
      else str_of m ''sid'')"

record exchange =
  ex_claims :: claims
  ex_resource :: string
  ex_scope :: "string list"
  ex_act :: claims

text \<open>Everything that does not need the session store, in the order of the code.\<close>

definition exchange_decision ::
    "'s http \<Rightarrow> instant \<Rightarrow> request \<Rightarrow> Client \<Rightarrow> RequestBody \<Rightarrow> string \<Rightarrow> refusal + exchange" where
  "exchange_decision H now rq agent body scopeParam =
     bind_sum (exchange_request (x_L (h_X H)) body (rq_resources rq)) (\<lambda>resource.
     bind_sum (exchange_tokens H now (rq_host rq) agent body) (\<lambda>m.
     bind_sum (exchange_subject (x_S (h_X H)) m) (\<lambda>_.
     bind_sum (attenuate agent m scopeParam) (\<lambda>effective.
     bind_sum (exchange_chain agent m) (\<lambda>act.
       Inr \<lparr>ex_claims = m, ex_resource = resource, ex_scope = effective, ex_act = act\<rparr>)))))"

definition rejectExchange ::
    "request \<Rightarrow> Client \<Rightarrow> refusal \<Rightarrow> 's world \<Rightarrow> response stage \<times> 's world" where
  "rejectExchange rq agent r w =
     (case r of Refusal status reason errCode desc \<Rightarrow>
        (Stop (oauth_error status errCode desc),
         log_event \<lparr>ev_Action = ''token.exchange_failed'', ev_ActorID = cl_ID agent,
           ev_ActorType = ''service_account'', ev_ActorEmail = [], ev_ResourceType = ''token'',
           ev_ResourceID = [], ev_Metadata = MText reason, ev_IPAddress = rq_ip rq,
           ev_UserAgent = rq_agent rq\<rparr> w))"

text \<open>The subject's session, where there is one to check, is still live. \<open>None\<close> is a panic.\<close>

definition exchange_session_live ::
    "'s http \<Rightarrow> instant \<Rightarrow> claims \<Rightarrow> 's world \<Rightarrow> bool option \<times> 's world" where
  "exchange_session_live H now m w =
     (if machine_subject m \<or> exchange_sid m = [] then (Some True, w)
      else
       (case ParseDelegationSessionID (exchange_sid m) of
          None \<Rightarrow> (Some True, w)
        | Some (sessionKey, nonce) \<Rightarrow>
            (case on_mem (m_GetUserSession (x_M (h_X H)) now sessionKey (TokenTypeAccessToken @ ''_'' @ nonce)) w of
               (Ok _, w1) \<Rightarrow> (Some True, w1)
             | (Err _, w1) \<Rightarrow> (Some False, w1)
             | (Panic, w1) \<Rightarrow> (None, w1))))"

definition exchange_config :: "request \<Rightarrow> Client \<Rightarrow> exchange \<Rightarrow> DelegationTokenConfig" where
  "exchange_config rq agent ex = \<lparr>
     dc_Subject = str_of (ex_claims ex) ''sub'', dc_Actor = ex_act ex, dc_Audience = ex_resource ex,
     dc_Scope = ex_scope ex, dc_ClientID = cl_ClientID agent, dc_HostName = rq_host rq,
     dc_SessionID = exchange_sid (ex_claims ex),
     dc_ServiceAccountSubject = machine_subject (ex_claims ex)\<rparr>"

definition exchange_event :: "request \<Rightarrow> Client \<Rightarrow> exchange \<Rightarrow> audit_event" where
  "exchange_event rq agent ex =
     (let subject = str_of (ex_claims ex) ''sub'' in
      \<lparr>ev_Action = ''token.issued'', ev_ActorID = cl_ID agent, ev_ActorType = ''service_account'',
       ev_ActorEmail = [], ev_ResourceType = ''token'', ev_ResourceID = subject,
       ev_Metadata = MJson [(''grant_type'', GrantTypeTokenExchange), (''on_behalf_of'', subject),
         (''on_behalf_of_type'', if machine_subject (ex_claims ex) then ''agent'' else ''user''),
         (''delegation_chain'', delegationChainString (ex_act ex) subject), (''resource'', ex_resource ex)],
       ev_IPAddress = rq_ip rq, ev_UserAgent = rq_agent rq\<rparr>)"

definition handleTokenExchangeGrant ::
    "'s http \<Rightarrow> instant \<Rightarrow> randoms \<Rightarrow> request \<Rightarrow> Client \<Rightarrow> RequestBody \<Rightarrow> string \<Rightarrow> 's world \<Rightarrow>
       response stage \<times> 's world" where
  "handleTokenExchangeGrant H now rnd rq agent body scopeParam w =
     (case exchange_decision H now rq agent body scopeParam of
        Inl r \<Rightarrow> rejectExchange rq agent r w
      | Inr ex \<Rightarrow>
          (case exchange_session_live H now (ex_claims ex) w of
             (None, w1) \<Rightarrow> (Crash, w1)
           | (Some False, w1) \<Rightarrow>
               rejectExchange rq agent (Refusal 400 ''subject_session_not_live'' ''invalid_grant''
                 ''The subject_token is invalid or has expired'') w1
           | (Some True, w1) \<Rightarrow>
               (case CreateDelegatedAccessToken (x_C (h_X H)) (x_L (h_X H)) now (rnd_uuid rnd)
                       (exchange_config rq agent ex) of
                  Panic \<Rightarrow> (Crash, w1)
                | Err _ \<Rightarrow>
                    rejectExchange rq agent (Refusal 500 ''token_issuance_failed'' ''server_error''
                      ''Could not complete token issuance'') w1
                | Ok t \<Rightarrow>
                    (Continue (json_response 200
                       [(''access_token'', CStr (jt_Token t)),
                        (''issued_token_type'', CStr TokenTypeURNAccessToken), (''token_type'', CStr ''Bearer''),
                        (''expires_in'', CInt (expires_in now (jt_ExpiresAt t))),
                        (''scope'', CStr (Join (ex_scope ex) '' ''))]),
                     log_event (exchange_event rq agent ex) w1))))"

section \<open>Lemmas\<close>

lemma set_intersect_loop: "set (intersect_loop b seen a) = (set a \<inter> set b) - set seen"
  by (induction a arbitrary: seen) auto

lemma distinct_intersect_loop: "distinct (intersect_loop b seen a)"
  by (induction a arbitrary: seen) (auto simp: set_intersect_loop)

lemma set_intersectScopes [simp]: "set (intersectScopes a b) = set a \<inter> set b"
  by (simp add: intersectScopes_def set_intersect_loop)

lemma distinct_intersectScopes: "distinct (intersectScopes a b)"
  by (simp add: intersectScopes_def distinct_intersect_loop)

lemma exchange_decision_Inr:
  assumes "exchange_decision H now rq agent body sc = Inr ex"
  shows "exchange_request (x_L (h_X H)) body (rq_resources rq) = Inr (ex_resource ex)"
    "exchange_tokens H now (rq_host rq) agent body = Inr (ex_claims ex)"
    "exchange_subject (x_S (h_X H)) (ex_claims ex) = Inr ()"
    "attenuate agent (ex_claims ex) sc = Inr (ex_scope ex)"
    "exchange_chain agent (ex_claims ex) = Inr (ex_act ex)"
  using assms by (auto simp: exchange_decision_def bind_sum_Inr)

lemma exchange_request_Inr:
  assumes "exchange_request L body resources = Inr resource"
  shows "\<exists>res. resources = [res] \<and> resource = TrimSpace res \<and> isValidResourceIndicator L resource"
  using assms by (auto simp: exchange_request_def Let_def split: if_splits list.splits)

lemma attenuate_Inr:
  assumes "attenuate agent m sc = Inr eff"
  shows "eff \<noteq> [] \<and> distinct eff \<and> set eff \<subseteq> set (claimToStringSlice (claim_of m ''scope'')) \<and>
    set eff \<subseteq> set (ParsedAllowedScopes agent) \<and> (Fields sc \<noteq> [] \<longrightarrow> set eff \<subseteq> set (Fields sc))"
  using assms distinct_intersectScopes
  by (auto simp: attenuate_def Let_def split: if_splits)

lemma exchange_tokens_Inr:
  assumes "exchange_tokens H now host agent body = Inr m"
  shows "str_of m ''sub'' \<noteq> [] \<and> str_of m ''iss'' = host \<and>
    ParseJWTToken (x_C (h_X H)) (x_L (h_X H)) now (TrimSpace (rb_SubjectToken body)) = (m, None) \<and>
    (\<exists>a. ParseJWTToken (x_C (h_X H)) (x_L (h_X H)) now (TrimSpace (rb_ActorToken body)) = (a, None) \<and>
      str_of a ''sub'' = cl_ID agent)"
  using assms
  by (auto simp: exchange_tokens_def validateExchangeToken_def split: option.splits prod.splits if_splits)

lemma exchange_subject_Inr:
  assumes "exchange_subject S m = Inr ()"
  shows "if machine_subject m then \<exists>c. s_GetClientByID S (str_of m ''sub'') = Found c \<and> cl_IsActive c
    else \<exists>u. s_GetUserByID S (str_of m ''sub'') = Found u \<and> u_RevokedTimestamp u = None"
  using assms by (auto simp: exchange_subject_def Let_def split: lookup.splits if_splits)

lemma exchange_chain_Inr:
  assumes "exchange_chain agent m = Inr act"
  shows "actChainDepth act \<le> maxActChainDepth \<and> str_of act ''sub'' = cl_ClientID agent \<and>
    (claim_of act ''act'' = CNull \<or> claim_of act ''act'' = claim_of m ''act'')"
  using assms
  by (auto simp: exchange_chain_def build_act_def Let_def str_of_def claim_of_def
      split: if_splits claim.splits list.splits)

text \<open>A delegated token answers a request that all of the checks accepted.\<close>

lemma exchange_issued:
  assumes "handleTokenExchangeGrant H now rnd rq agent body sc w = (Continue r, w')"
  obtains ex w1 t where "exchange_decision H now rq agent body sc = Inr ex"
    "exchange_session_live H now (ex_claims ex) w = (Some True, w1)"
    "signJWTToken (x_C (h_X H)) (x_L (h_X H))
       (delegated_claims now (rnd_uuid rnd) (exchange_config rq agent ex)) ''at+jwt'' = Ok t"
    "rs_body r = [(''access_token'', CStr t), (''issued_token_type'', CStr TokenTypeURNAccessToken),
       (''token_type'', CStr ''Bearer''),
       (''expires_in'', CInt (expires_in now (Unix (now + DelegatedAccessTokenTTL)))),
       (''scope'', CStr (Join (ex_scope ex) '' ''))]"
    "w' = log_event (exchange_event rq agent ex) w1"
  using assms
  by (auto simp: handleTokenExchangeGrant_def rejectExchange_def CreateDelegatedAccessToken_def json_response_def
      split: sum.splits prod.splits option.splits bool.splits out.splits refusal.splits)

text \<open>The claims a delegated token is signed with.\<close>

lemma delegated_claims_of:
  fixes now jti and cfg :: DelegationTokenConfig
  defines "m \<equiv> delegated_claims now jti cfg"
  shows "claim_of m ''sub'' = CStr (dc_Subject cfg)" "claim_of m ''aud'' = CStr (dc_Audience cfg)"
    "claim_of m ''scope'' = CStrs (Some (dc_Scope cfg))" "claim_of m ''act'' = CMap (dc_Actor cfg)"
    "claim_of m ''client_id'' = CStr (dc_ClientID cfg)"
    "claim_of m ''exp'' = CInt (Unix (now + DelegatedAccessTokenTTL))"
    "claim_of m ''sid'' = (if dc_SessionID cfg = [] then CNull else CStr (dc_SessionID cfg))"
    "claim_of m ''login_method'' =
       (if dc_ServiceAccountSubject cfg then CStr AuthRecipeMethodServiceAccount else CNull)"
  by (simp_all add: m_def delegated_claims_def Let_def claim_eval)

text \<open>Depth of the actor chain a token carries.\<close>

definition act_depth :: "claims \<Rightarrow> nat" where
  "act_depth m = (case claim_of m ''act'' of CMap (p # ps) \<Rightarrow> actChainDepth (p # ps) | _ \<Rightarrow> 0)"

lemma map_of_norm: "map_of (norm_claims m) k = map_option json_norm (map_of m k)"
  by (induction m) (auto simp: norm_claims_def)

lemma json_norm_CMap: "json_norm c = CMap m' \<longleftrightarrow> (\<exists>m. c = CMap m \<and> m' = norm_claims m)"
  by (cases c rule: json_norm.cases) (auto simp: norm_claims_def)

lemma actChainDepth_norm: "actChainDepth (norm_claims act) = actChainDepth act"
proof (induction act rule: actChainDepth.induct)
  case (1 act)
  show ?case
  proof (cases "\<exists>nxt. map_of act ''act'' = Some (CMap nxt)")
    case True
    then obtain nxt where n: "map_of act ''act'' = Some (CMap nxt)" by blast
    have "map_of (norm_claims act) ''act'' = Some (CMap (norm_claims nxt))"
      by (simp only: map_of_norm n) (simp add: norm_claims_def)
    then show ?thesis
      using 1[OF n] by (simp add: n actChainDepth.simps[of act] actChainDepth.simps[of "norm_claims act"])
  next
    case False
    then have "\<nexists>nxt. map_of (norm_claims act) ''act'' = Some (CMap nxt)"
      by (auto simp: map_of_norm json_norm_CMap)
    with False show ?thesis
      by (auto simp: actChainDepth.simps[of act] actChainDepth.simps[of "norm_claims act"]
          split: option.splits claim.splits)
  qed
qed

lemma actChainDepth_build: "actChainDepth (build_act agent m) = Suc (act_depth m)"
  by (simp add: build_act_def act_depth_def actChainDepth.simps[of "(''sub'', CStr (cl_ClientID agent)) # _"]
      split: claim.splits list.splits)

text \<open>
  What a resource server or a later exchange reads out of a signed token: the JSON value of
  every claim but the two that \<open>ParseJWTToken\<close> rewrites.
\<close>

definition reads_back :: "claims \<Rightarrow> claims \<Rightarrow> bool" where
  "reads_back m d \<longleftrightarrow> (\<forall>k. k \<noteq> ''exp'' \<and> k \<noteq> ''iat'' \<longrightarrow> claim_of m k = json_norm (claim_of d k))"

lemma parse_reads_back:
  assumes "verify_with_keys C L now t = (norm_claims d, None)" "ParseJWTToken C L now t = (m, None)"
  shows "reads_back m d"
  using assms
  by (auto simp: ParseJWTToken_def reads_back_def claim_of_norm[symmetric] claim_eval split: option.splits)

text \<open>A chain of exchanges, each on the token the previous one minted.\<close>

inductive delegation_chain :: "claims \<Rightarrow> Client list \<Rightarrow> claims \<Rightarrow> bool" for m0 where
  start: "delegation_chain m0 [] m0"
| hop: "delegation_chain m0 agents m \<Longrightarrow>
    exchange_decision (H :: in_memory http) now rq agent body sc = Inr ex \<Longrightarrow> ex_claims ex = m \<Longrightarrow>
    reads_back m' (delegated_claims now jti (exchange_config rq agent ex)) \<Longrightarrow>
    delegation_chain m0 (agents @ [agent]) m'"

lemma hop_reads:
  assumes "exchange_decision H now rq agent body sc = Inr ex"
    and "reads_back m' (delegated_claims now jti (exchange_config rq agent ex))"
  shows "str_of m' ''sub'' = str_of (ex_claims ex) ''sub''"
    "claimToStringSlice (claim_of m' ''scope'') = filter (\<lambda>s. s \<noteq> []) (ex_scope ex)"
    "claim_of m' ''act'' = CMap (norm_claims (build_act agent (ex_claims ex)))"
    "str_of m' ''sid'' = exchange_sid (ex_claims ex)"
    "str_of m' ''nonce'' = []"
    "machine_subject m' = machine_subject (ex_claims ex)"
proof -
  have c: "claim_of m' k = json_norm (claim_of (delegated_claims now jti (exchange_config rq agent ex)) k)"
    if "k \<noteq> ''exp''" "k \<noteq> ''iat''" for k using assms(2) that by (simp add: reads_back_def)
  have act: "ex_act ex = build_act agent (ex_claims ex)"
    using exchange_decision_Inr(5)[OF assms(1)] by (auto simp: exchange_chain_def Let_def split: if_splits)
  have flt: "List.map_filter as_string (map CStr l) = l" for l
    by (induction l) (auto simp: List.map_filter_def)
  have "claim_of (delegated_claims now jti (exchange_config rq agent ex)) ''nonce'' = CNull"
    by (simp add: delegated_claims_def Let_def claim_eval)
  then show "str_of m' ''nonce'' = []" using c[of "''nonce''"] by (simp add: str_of_def)
  show "str_of m' ''sub'' = str_of (ex_claims ex) ''sub''"
    using c[of "''sub''"] by (simp add: str_of_def delegated_claims_of exchange_config_def)
  show "claimToStringSlice (claim_of m' ''scope'') = filter (\<lambda>s. s \<noteq> []) (ex_scope ex)"
    using c[of "''scope''"] by (simp add: delegated_claims_of exchange_config_def flt)
  show "claim_of m' ''act'' = CMap (norm_claims (build_act agent (ex_claims ex)))"
    using c[of "''act''"] by (simp add: delegated_claims_of exchange_config_def act norm_claims_def)
  show "str_of m' ''sid'' = exchange_sid (ex_claims ex)"
    using c[of "''sid''"] by (simp add: str_of_def delegated_claims_of exchange_config_def)
  show "machine_subject m' = machine_subject (ex_claims ex)"
    using c[of "''login_method''"]
    by (simp add: machine_subject_def str_of_def delegated_claims_of exchange_config_def const_defs)
qed

lemma hop_sid:
  assumes "exchange_decision H now rq agent body sc = Inr ex"
    and "reads_back m' (delegated_claims now jti (exchange_config rq agent ex))"
  shows "exchange_sid m' = exchange_sid (ex_claims ex)"
  using hop_reads(4,5)[OF assms] by (simp add: exchange_sid_def[of m'] DelegationSessionID_def Let_def)

lemma hop_depth:
  assumes "exchange_decision H now rq agent body sc = Inr ex"
    and "reads_back m' (delegated_claims now jti (exchange_config rq agent ex))"
  shows "act_depth m' = Suc (act_depth (ex_claims ex)) \<and> act_depth m' \<le> maxActChainDepth"
proof -
  let ?a = "build_act agent (ex_claims ex)"
  have "norm_claims ?a \<noteq> []" by (auto simp: build_act_def norm_claims_def split: claim.splits list.splits)
  then have "act_depth m' = actChainDepth (norm_claims ?a)"
    using hop_reads(3)[OF assms] by (auto simp: act_depth_def split: list.splits)
  then have "act_depth m' = actChainDepth ?a" by (simp add: actChainDepth_norm)
  moreover have "actChainDepth ?a \<le> maxActChainDepth"
    using exchange_decision_Inr(5)[OF assms(1)] by (auto simp: exchange_chain_def Let_def split: if_splits)
  ultimately show ?thesis by (simp add: actChainDepth_build)
qed

text \<open>Every refusal has a reason and an error status.\<close>

definition recorded :: "refusal \<Rightarrow> bool" where
  "recorded r = (case r of Refusal status reason _ _ \<Rightarrow> 400 \<le> status \<and> reason \<noteq> [])"

lemma recorded_Refusal [simp]: "recorded (Refusal status reason e d) \<longleftrightarrow> 400 \<le> status \<and> reason \<noteq> []"
  by (simp add: recorded_def)

lemma bind_sum_Inl:
  "bind_sum m f = Inl e \<longleftrightarrow> m = Inl e \<or> (\<exists>a. m = Inr a \<and> f a = Inl e)"
  by (auto simp: bind_sum_def split: sum.splits)

lemma refusals_recorded:
  "exchange_request L body res = Inl r \<Longrightarrow> recorded r"
  "exchange_tokens H now host agent body = Inl r \<Longrightarrow> recorded r"
  "exchange_subject S m = Inl r \<Longrightarrow> recorded r"
  "attenuate agent m sc = Inl r \<Longrightarrow> recorded r"
  "exchange_chain agent m = Inl r \<Longrightarrow> recorded r"
  by (auto simp: bad_request_def exchange_request_def exchange_tokens_def exchange_subject_def
      attenuate_def exchange_chain_def Let_def split: if_splits list.splits option.splits lookup.splits)

lemma decision_recorded: "exchange_decision H now rq agent body sc = Inl r \<Longrightarrow> recorded r"
  by (auto simp: exchange_decision_def bind_sum_Inl dest: refusals_recorded)

lemma rejectExchange_Stop:
  assumes "rejectExchange rq agent x w = (Stop r, w')" "recorded x"
  shows "\<exists>e reason. w_audit w' = w_audit w @ [e] \<and> ev_Action e = ''token.exchange_failed'' \<and>
    ev_ActorID e = cl_ID agent \<and> ev_Metadata e = MText reason \<and> reason \<noteq> [] \<and> ev_ResourceID e = [] \<and>
    400 \<le> rs_status r \<and> w_mem w' = w_mem w"
  using assms by (cases x) (auto simp: rejectExchange_def recorded_def log_event_def)

lemma exchange_session_audit:
  "exchange_session_live H now m w = (b, w1) \<Longrightarrow> w_audit w1 = w_audit w"
  by (auto simp: exchange_session_live_def on_mem_eq split: if_splits option.splits prod.splits out.splits)

lemma exchange_session_frame:
  assumes "im_inv (w_mem w)" "exchange_session_live (im_http C L S E) now m w = (b, w1)" "now \<le> t"
  shows "im_sess t (w_mem w1) a = im_sess t (w_mem w) a"
  using assms
  by (auto simp: exchange_session_live_def on_mem_eq dest: im.get_session
      split: if_splits option.splits prod.splits out.splits)

lemma exchange_refused:
  assumes "handleTokenExchangeGrant H now rnd rq agent body sc w = (Stop r, w')"
  obtains x where "recorded x" "rejectExchange rq agent x w = (Stop r, w')"
  | x m b w1 where "recorded x" "exchange_session_live H now m w = (b, w1)"
    "rejectExchange rq agent x w1 = (Stop r, w')"
proof (cases "exchange_decision H now rq agent body sc")
  case (Inl x)
  then show ?thesis using that(1)[OF decision_recorded[OF Inl]] assms by (simp add: handleTokenExchangeGrant_def)
next
  case (Inr ex)
  obtain b w1 where l: "exchange_session_live H now (ex_claims ex) w = (b, w1)" by fastforce
  have "\<exists>x. rejectExchange rq agent x w1 = (Stop r, w') \<and> recorded x"
    using assms Inr l
    by (auto simp: handleTokenExchangeGrant_def split: option.splits bool.splits out.splits intro!: exI)
  then show ?thesis using that(2)[OF _ l] by blast
qed

section \<open>Fixtures of the exchange\<close>

definition fx_agent :: Client where
  "fx_agent = fx_client\<lparr>cl_ID := ''a1'', cl_ClientID := ''agent'', cl_Kind := ''service_account'',
     cl_AllowedScopes := ''openid,read''\<rparr>"

definition fx_subject :: claims where
  "fx_subject = [(''iss'', CStr ''https://auth''), (''sub'', CStr ''u1''), (''exp'', CFloat 1800),
     (''iat'', CFloat 0), (''token_type'', CStr TokenTypeAccessToken),
     (''scope'', CList [CStr ''read'', CStr ''openid'', CStr ''email'']), (''nonce'', CStr ''n1''),
     (''login_method'', CStr ''basic_auth'')]"

definition fx_actor :: claims where
  "fx_actor = [(''iss'', CStr ''https://auth''), (''sub'', CStr ''a1''), (''exp'', CFloat 1800),
     (''iat'', CFloat 0), (''token_type'', CStr TokenTypeAccessToken)]"

definition fx_xlibs :: libs where
  "fx_xlibs = fx_libs\<lparr>lib_parse := (\<lambda>now alg key t.
     if t = ''subject'' then (fx_subject, None) else if t = ''actor'' then (fx_actor, None)
     else ([], Some ''token is malformed''))\<rparr>"

definition fx_http :: "in_memory http" where
  "fx_http = im_http fx_config fx_xlibs fx_storage fx_env"

definition fx_body :: RequestBody where
  "fx_body = \<lparr>rb_CodeVerifier = [], rb_Code = [], rb_ClientID = [], rb_ClientSecret = [], rb_GrantType = [],
     rb_RefreshToken = [], rb_RedirectURI = [], rb_Scope = [], rb_ClientAssertion = [],
     rb_ClientAssertionType = [], rb_SubjectToken = ''subject'', rb_SubjectTokenType = TokenTypeURNAccessToken,
     rb_ActorToken = ''actor'', rb_ActorTokenType = TokenTypeURNJWT\<rparr>"

definition fx_request :: request where
  "fx_request = \<lparr>rq_body = Some fx_body, rq_basic = None, rq_resources = [''https://api''],
     rq_host = ''https://auth'', rq_ip = ''10.0.0.1'', rq_agent = ''curl''\<rparr>"

definition fx_randoms :: randoms where
  "fx_randoms = \<lparr>rnd_nonce = ''n2'', rnd_gcm = ''g'', rnd_family = ''f'', rnd_uuid = ''j''\<rparr>"

definition fx_world :: "in_memory world" where
  "fx_world = \<lparr>w_mem = fx_store, w_audit = []\<rparr>"

definition fx_exchange :: exchange where
  "fx_exchange = (case exchange_decision fx_http (100 * Second) fx_request fx_agent fx_body ''read'' of
     Inr ex \<Rightarrow> ex | Inl _ \<Rightarrow> \<lparr>ex_claims = [], ex_resource = [], ex_scope = [], ex_act = []\<rparr>)"

definition fx_exchanged :: "response stage \<times> in_memory world" where
  "fx_exchanged = handleTokenExchangeGrant fx_http (100 * Second) fx_randoms fx_request fx_agent fx_body ''read'' fx_world"

definition fx_delegated :: claims where
  "fx_delegated = norm_claims (delegated_claims (100 * Second) ''j'' (exchange_config fx_request fx_agent fx_exchange))"

lemma fx_decision: "exchange_decision fx_http (100 * Second) fx_request fx_agent fx_body ''read'' = Inr fx_exchange"
  by code_simp

section \<open>Properties\<close>

text \<open>
  C7. Delegated authority is bounded by everyone who takes part. When the exchange answers with
  a token, the caller's own valid token was the actor token and the subject token was valid; the
  claims that were signed have the subject's \<open>sub\<close>, the one requested resource as audience, the
  authenticated agent as outermost actor over the subject's own chain, a chain of at most four
  actors and five minutes of life. Their scopes are non-empty, without duplicates, and within the subject token's
  scopes, the agent's ceiling and, if any were asked for, the requested ones.
\<close>

theorem exchange_bounded_authority:
  assumes "handleTokenExchangeGrant H now rnd rq agent body sc w = (Continue r, w')"
  shows "\<exists>m a d t eff act res.
    ParseJWTToken (x_C (h_X H)) (x_L (h_X H)) now (TrimSpace (rb_SubjectToken body)) = (m, None) \<and>
    ParseJWTToken (x_C (h_X H)) (x_L (h_X H)) now (TrimSpace (rb_ActorToken body)) = (a, None) \<and>
    str_of a ''sub'' = cl_ID agent \<and>
    signJWTToken (x_C (h_X H)) (x_L (h_X H)) d ''at+jwt'' = Ok t \<and>
    claim_of (rs_body r) ''access_token'' = CStr t \<and>
    claim_of d ''sub'' = CStr (str_of m ''sub'') \<and> str_of m ''sub'' \<noteq> [] \<and>
    rq_resources rq = [res] \<and> claim_of d ''aud'' = CStr (TrimSpace res) \<and>
    claim_of d ''exp'' = CInt (Unix (now + DelegatedAccessTokenTTL)) \<and>
    claim_of d ''act'' = CMap act \<and> str_of act ''sub'' = cl_ClientID agent \<and>
    (claim_of act ''act'' = CNull \<or> claim_of act ''act'' = claim_of m ''act'') \<and>
    actChainDepth act \<le> maxActChainDepth \<and>
    claim_of d ''scope'' = CStrs (Some eff) \<and> eff \<noteq> [] \<and> distinct eff \<and>
    set eff \<subseteq> set (claimToStringSlice (claim_of m ''scope'')) \<inter> set (ParsedAllowedScopes agent) \<and>
    (Fields sc \<noteq> [] \<longrightarrow> set eff \<subseteq> set (Fields sc))"
proof -
  obtain ex w1 t where e: "exchange_decision H now rq agent body sc = Inr ex"
    and s: "signJWTToken (x_C (h_X H)) (x_L (h_X H))
       (delegated_claims now (rnd_uuid rnd) (exchange_config rq agent ex)) ''at+jwt'' = Ok t"
    and b: "claim_of (rs_body r) ''access_token'' = CStr t"
    using assms by (rule exchange_issued) (simp add: claim_eval)
  let ?d = "delegated_claims now (rnd_uuid rnd) (exchange_config rq agent ex)"
  note d = exchange_decision_Inr[OF e]
  obtain a res where
    "ParseJWTToken (x_C (h_X H)) (x_L (h_X H)) now (TrimSpace (rb_ActorToken body)) = (a, None)"
    "str_of a ''sub'' = cl_ID agent" "rq_resources rq = [res]" "ex_resource ex = TrimSpace res"
    using exchange_tokens_Inr[OF d(2)] exchange_request_Inr[OF d(1)] by blast
  moreover have "claim_of ?d ''sub'' = CStr (str_of (ex_claims ex) ''sub'')"
    "claim_of ?d ''aud'' = CStr (ex_resource ex)" "claim_of ?d ''act'' = CMap (ex_act ex)"
    "claim_of ?d ''exp'' = CInt (Unix (now + DelegatedAccessTokenTTL))"
    "claim_of ?d ''scope'' = CStrs (Some (ex_scope ex))"
    by (simp_all add: delegated_claims_of exchange_config_def)
  ultimately show ?thesis
    using s b exchange_tokens_Inr[OF d(2)] exchange_chain_Inr[OF d(5)] attenuate_Inr[OF d(4)]
    by (intro exI[of _ "ex_claims ex"] exI[of _ a] exI[of _ ?d] exI[of _ t] exI[of _ "ex_scope ex"]
        exI[of _ "ex_act ex"] exI[of _ res]) simp
qed

theorem exchange_bounded_authority_witness:
  "\<exists>r w'. fx_exchanged = (Continue r, w') \<and> claim_of (rs_body r) ''access_token'' \<noteq> CNull \<and>
    ex_scope fx_exchange = [''read'']"
proof -
  obtain r where r: "fx_exchanged = (Continue r, snd fx_exchanged)"
  proof
    show "fx_exchanged = (Continue (case fst fx_exchanged of Continue r \<Rightarrow> r | Stop r \<Rightarrow> r), snd fx_exchanged)"
      by code_simp
  qed
  have "ex_scope fx_exchange = [''read'']" by code_simp
  then show ?thesis using r exchange_bounded_authority[OF r[unfolded fx_exchanged_def]] by auto
qed



text \<open>
  C30. No outcome of the exchange is silent. Every refusal appends exactly one event to the audit
  log, attributed to the agent, with a reason and without the subject, answers with a status of
  400 or more, and leaves every session of the store as it was.
\<close>

theorem exchange_refusal_recorded:
  assumes "im_inv (w_mem w)"
    and "handleTokenExchangeGrant (im_http C L S E) now rnd rq agent body sc w = (Stop r, w')"
  shows "\<exists>e reason. w_audit w' = w_audit w @ [e] \<and> ev_Action e = ''token.exchange_failed'' \<and>
    ev_ActorID e = cl_ID agent \<and> ev_Metadata e = MText reason \<and> reason \<noteq> [] \<and> ev_ResourceID e = [] \<and>
    400 \<le> rs_status r \<and> (\<forall>t a. now \<le> t \<longrightarrow> im_sess t (w_mem w') a = im_sess t (w_mem w) a)"
  using assms(2)
proof (cases rule: exchange_refused)
  case (1 x)
  then show ?thesis using rejectExchange_Stop[of rq agent x w r w'] by auto
next
  case (2 x m b w1)
  obtain e reason where "w_audit w' = w_audit w1 @ [e]" "ev_Action e = ''token.exchange_failed''"
    "ev_ActorID e = cl_ID agent" "ev_Metadata e = MText reason" "reason \<noteq> []" "ev_ResourceID e = []"
    "400 \<le> rs_status r" "w_mem w' = w_mem w1"
    using rejectExchange_Stop[OF 2(3,1)] by blast
  then show ?thesis
    using exchange_session_audit[OF 2(2)] exchange_session_frame[OF assms(1) 2(2)]
    by (intro exI[of _ e] exI[of _ reason]) simp
qed

theorem exchange_refusal_recorded_witness:
  "length (w_audit (snd (handleTokenExchangeGrant (im_http fx_config fx_xlibs fx_storage fx_env) (100 * Second)
     fx_randoms fx_request fx_agent fx_body ''admin'' fx_world))) = 1"
proof -
  let ?x = "handleTokenExchangeGrant (im_http fx_config fx_xlibs fx_storage fx_env) (100 * Second)
     fx_randoms fx_request fx_agent fx_body ''admin'' fx_world"
  have "\<exists>r. ?x = (Stop r, snd ?x)"
    by (rule exI[of _ "case fst ?x of Stop r \<Rightarrow> r | Continue r \<Rightarrow> r"]) code_simp
  then obtain r where r: "?x = (Stop r, snd ?x)" by blast
  have "im_inv (w_mem fx_world)" using fx_store_inv by (simp add: fx_world_def)
  from exchange_refusal_recorded[OF this r] show ?thesis by (auto simp: fx_world_def)
qed

text \<open>
  C8. Re-exchanging only narrows. Along a chain of exchanges, each on the token that the previous
  one minted, subject, kind of subject and session identifier stay those of the first token, every
  agent adds one actor to the chain up to four, and the scopes shrink: they stay within those of
  the first token and within the ceiling of every agent of the chain.
\<close>

theorem delegation_chain_narrows:
  assumes "delegation_chain m0 agents m"
  shows "str_of m ''sub'' = str_of m0 ''sub'' \<and> machine_subject m = machine_subject m0 \<and>
    exchange_sid m = exchange_sid m0 \<and>
    act_depth m = act_depth m0 + length agents \<and> (agents \<noteq> [] \<longrightarrow> act_depth m \<le> maxActChainDepth) \<and>
    set (claimToStringSlice (claim_of m ''scope'')) \<subseteq> set (claimToStringSlice (claim_of m0 ''scope'')) \<and>
    (\<forall>agent \<in> set agents. set (claimToStringSlice (claim_of m ''scope'')) \<subseteq> set (ParsedAllowedScopes agent))"
  using assms
proof (induction rule: delegation_chain.induct)
  case (hop agents m H now rq agent body sc ex m' jti)
  have "set (claimToStringSlice (claim_of m' ''scope'')) \<subseteq> set (claimToStringSlice (claim_of m ''scope''))"
    "set (claimToStringSlice (claim_of m' ''scope'')) \<subseteq> set (ParsedAllowedScopes agent)"
    using attenuate_Inr[OF exchange_decision_Inr(4)[OF hop(2)]] hop(3) hop_reads(2)[OF hop(2,4)] by auto
  moreover have "str_of m' ''sub'' = str_of m ''sub''" "machine_subject m' = machine_subject m"
    "exchange_sid m' = exchange_sid m" "act_depth m' = Suc (act_depth m)" "act_depth m' \<le> maxActChainDepth"
    using hop(3) hop_reads(1,6)[OF hop(2,4)] hop_sid[OF hop(2,4)] hop_depth[OF hop(2,4)] by simp_all
  ultimately show ?case using hop(5) by (simp add: ball_Un) (meson order_trans)
qed simp

theorem delegation_chain_narrows_witness:
  "delegation_chain (ex_claims fx_exchange) [fx_agent] fx_delegated \<and> act_depth fx_delegated = 1"
proof -
  have "reads_back fx_delegated (delegated_claims (100 * Second) ''j'' (exchange_config fx_request fx_agent fx_exchange))"
    by (simp add: reads_back_def fx_delegated_def claim_of_norm)
  from delegation_chain.hop[OF delegation_chain.start fx_decision refl this]
  have c: "delegation_chain (ex_claims fx_exchange) [fx_agent] fx_delegated" by simp
  have "act_depth (ex_claims fx_exchange) = 0" by code_simp
  then show ?thesis using c delegation_chain_narrows[OF c] by simp
qed

end
