(* ===== verification/Token_Endpoint.thy ===== *)
theory Token_Endpoint
  imports Token_Grants Token_Exchange
begin

text \<open>
  \<open>internal/http_handlers/token.go\<close>: the whole of \<open>/oauth/token\<close>. \<open>TokenHandler\<close> reads the
  request, authenticates the client, dispatches on the grant type and answers. The properties
  are about this handler on the in-memory store.
\<close>

section \<open>The handler\<close>

definition failed_cc_event :: "request \<Rightarrow> Client \<Rightarrow> audit_event" where
  "failed_cc_event rq c = machine_event rq ''token.client_credentials_failed'' (cl_ID c)"

definition respondClientAuthError ::
    "request \<Rightarrow> cauth_err \<Rightarrow> Client option \<Rightarrow> bool \<Rightarrow> 's world \<Rightarrow> response \<times> 's world" where
  "respondClientAuthError rq err resolved isClientCredentials w =
     (case err of
        ErrMultipleAuthMethods \<Rightarrow>
          (oauth_error 400 ''invalid_request'' ''Only one client authentication method may be used per request'', w)
      | ErrMissingClientID \<Rightarrow> (oauth_error 400 ''invalid_request'' ''The client_id parameter is required'', w)
      | ErrUnsupportedAssertionType \<Rightarrow>
          (oauth_error 400 ''invalid_request'' ''Unsupported client_assertion_type'', w)
      | ErrUnauthorizedClient \<Rightarrow>
          (oauth_error 400 ''unauthorized_client'' ''This client is not authorized to use this grant type'', w)
      | ErrClientLookupFailed \<Rightarrow>
          (oauth_error 503 ''temporarily_unavailable''
             ''The authorization server is temporarily unable to handle the request'', w)
      | ErrInvalidClient \<Rightarrow>
          (let w1 = (case resolved of
                       Some c \<Rightarrow> if isClientCredentials \<and> cl_ID c \<noteq> [] then log_event (failed_cc_event rq c) w else w
                     | None \<Rightarrow> w);
               hasBasicAuth = (rq_basic rq \<noteq> None);
               status = (if hasBasicAuth then 401
                         else if \<not> isClientCredentials \<and> resolved \<noteq> None then 401 else 400)
           in ((oauth_error status ''invalid_client'' ''Client authentication failed'')
                 \<lparr>rs_www_authenticate := hasBasicAuth\<rparr>, w1)))"

definition effective_grant :: "RequestBody \<Rightarrow> string" where
  "effective_grant body =
     (let g = TrimSpace (rb_GrantType body) in if g = [] then ''authorization_code'' else g)"

definition supported_grants :: "string list" where
  "supported_grants =
     [''refresh_token'', ''authorization_code'', GrantTypeClientCredentials, GrantTypeTokenExchange]"

definition basic_credentials :: "request \<Rightarrow> string \<times> string" where
  "basic_credentials rq =
     (case rq_basic rq of
        None \<Rightarrow> ([], [])
      | Some (i, s) \<Rightarrow> (formURLDecodeOrKeep i, formURLDecodeOrKeep s))"

definition secret_presented :: "request \<Rightarrow> RequestBody \<Rightarrow> bool" where
  "secret_presented rq body \<longleftrightarrow>
     TrimSpace (rb_ClientSecret body) \<noteq> [] \<or> (rq_basic rq \<noteq> None \<and> snd (basic_credentials rq) \<noteq> [])"

definition token_resolve_params :: "request \<Rightarrow> RequestBody \<Rightarrow> ResolveParams" where
  "token_resolve_params rq body =
     (let grantType = effective_grant body;
          machine = (grantType = GrantTypeClientCredentials \<or> grantType = GrantTypeTokenExchange) in
      \<lparr>rp_BodyClientID = TrimSpace (rb_ClientID body), rp_BodySecret = TrimSpace (rb_ClientSecret body),
       rp_BasicClientID = fst (basic_credentials rq), rp_BasicSecret = snd (basic_credentials rq),
       rp_HasBasicAuth = (rq_basic rq \<noteq> None), rp_RequireSecret = machine,
       rp_VerifyPresentedSecret = (grantType = ''authorization_code'' \<or> grantType = ''refresh_token''),
       rp_RequireServiceAccountKind = machine,
       rp_ClientAssertion = TrimSpace (rb_ClientAssertion body),
       rp_ClientAssertionType = TrimSpace (rb_ClientAssertionType body)\<rparr>)"

definition client_credentials ::
    "'s http \<Rightarrow> instant \<Rightarrow> randoms \<Rightarrow> request \<Rightarrow> Client \<Rightarrow> string \<Rightarrow> 's world \<Rightarrow> response stage \<times> 's world" where
  "client_credentials H now rnd rq client scopeParam w =
     (if length (rq_resources rq) > 1
      then (Stop (oauth_error 400 ''invalid_target'' ''only one resource parameter is supported''), w)
      else
       (let ccResource = (case rq_resources rq of [r] \<Rightarrow> TrimSpace r | _ \<Rightarrow> []) in
        if ccResource \<noteq> [] \<and> \<not> isValidResourceIndicator (x_L (h_X H)) ccResource
        then (Stop (oauth_error 400 ''invalid_target'' ''resource must be an absolute URI without a fragment''), w)
        else handleClientCredentialsGrant H now rnd rq client scopeParam ccResource w))"

text \<open>What follows client authentication.\<close>

definition dispatch ::
    "'s http \<Rightarrow> instant \<Rightarrow> randoms \<Rightarrow> request \<Rightarrow> RequestBody \<Rightarrow> Client \<Rightarrow> 's world \<Rightarrow> response stage \<times> 's world" where
  "dispatch H now rnd rq body client w =
     (let grantType = effective_grant body; scopeParam = TrimSpace (rb_Scope body) in
      if grantType = GrantTypeClientCredentials then client_credentials H now rnd rq client scopeParam w
      else if grantType = GrantTypeTokenExchange
      then handleTokenExchangeGrant H now rnd rq client body scopeParam w
      else if grantType = ''authorization_code''
      then bind_stage (handle_code H now client body (rq_resources rq) (secret_presented rq body) w)
             (issue_tokens H now rnd rq client False)
      else bind_stage (handle_refresh H now rnd client body (rq_resources rq) (rq_host rq) w)
             (issue_tokens H now rnd rq client True))"

text \<open>The answer, or \<open>None\<close> for a panic.\<close>

definition answer :: "response stage \<times> 's world \<Rightarrow> response option \<times> 's world" where
  "answer x = (case x of (Continue r, w) \<Rightarrow> (Some r, w) | (Stop r, w) \<Rightarrow> (Some r, w) | (Crash, w) \<Rightarrow> (None, w))"

definition TokenHandler ::
    "'s http \<Rightarrow> instant \<Rightarrow> randoms \<Rightarrow> request \<Rightarrow> 's world \<Rightarrow> response option \<times> 's world" where
  "TokenHandler H now rnd rq w =
     (case rq_body rq of
        None \<Rightarrow> (Some (oauth_error 400 ''invalid_request'' ''Failed to parse request body''), w)
      | Some body \<Rightarrow>
          if effective_grant body \<notin> set supported_grants
          then (Some (oauth_error 400 ''unsupported_grant_type'' ''grant_type is not supported''), w)
          else
           (case on_mem (ResolveClient (h_X H) (h_E H) now (token_resolve_params rq body)) w of
              (CPanic, w1) \<Rightarrow> (None, w1)
            | (Refused c err, w1) \<Rightarrow>
                (case respondClientAuthError rq err c (effective_grant body = GrantTypeClientCredentials) w1 of
                   (r, w2) \<Rightarrow> (Some r, w2))
            | (Resolved client, w1) \<Rightarrow> answer (dispatch H now rnd rq body client w1)))"

section \<open>Lemmas\<close>

text \<open>Client authentication touches the cache of the store only.\<close>

definition cache_only :: "in_memory \<Rightarrow> in_memory \<Rightarrow> bool" where
  "cache_only s s' \<longleftrightarrow> im_sessionStore s' = im_sessionStore s \<and> im_stateStore s' = im_stateStore s \<and>
     im_mfasessionStore s' = im_mfasessionStore s \<and> (im_inv s \<longrightarrow> im_inv s')"

lemma cache_only_trans: "cache_only s s1 \<Longrightarrow> cache_only s1 s2 \<Longrightarrow> cache_only s s2"
  by (simp add: cache_only_def)

lemma im_cache_ops_inv:
  "im_GetCache now k s = (g, s') \<Longrightarrow> im_inv s \<Longrightarrow> im_inv s'"
  "im_SetCache now k v ttl s = (r, s') \<Longrightarrow> im_inv s \<Longrightarrow> im_inv s'"
  "im_SetCacheNX now k v ttl s = (b, s') \<Longrightarrow> im_inv s \<Longrightarrow> im_inv s'"
  using imc.get_cache[THEN conjunct1] imc.set_cache[THEN conjunct1] imc.set_cache_nx[THEN conjunct1]
  unfolding in_memory_ops_sel by blast+

lemma cache_only_ops:
  "im_GetCache now k s = (g, s') \<Longrightarrow> cache_only s s'"
  "im_SetCache now k v ttl s = (r, s') \<Longrightarrow> cache_only s s'"
  "im_SetCacheNX now k v ttl s = (b, s') \<Longrightarrow> cache_only s s'"
  subgoal using im_cache_ops_inv(1)[of now k s g s'] unfolding cache_only_def
    by (auto simp: im_GetCache_def split: prod.splits)
  subgoal using im_cache_ops_inv(2)[of now k v ttl s r s'] unfolding cache_only_def
    by (auto simp: im_SetCache_def split: prod.splits)
  subgoal using im_cache_ops_inv(3)[of now k v ttl s b s'] unfolding cache_only_def
    by (auto simp: im_SetCacheNX_def split: prod.splits)
  done

lemma cache_only_loadJWKS:
  assumes "loadJWKS (im_ctx C L S) E now issuer s = (r, s')"
  shows "cache_only s s'"
proof -
  obtain g s1 where g: "im_GetCache now (''jwks_cache:'' @ ti_ID issuer) s = (g, s1)" by fastforce
  have "s' = s1 \<or> (\<exists>v r. im_SetCache now (''jwks_cache:'' @ ti_ID issuer) v jwksCacheTTLSeconds s1 = (r, s'))"
    using assms g by (auto simp: loadJWKS_def Let_def split: option.splits list.splits out.splits prod.splits if_splits)
  then show ?thesis using cache_only_ops(1)[OF g] cache_only_ops(2) cache_only_trans by blast
qed

lemma cache_only_claim_assertion:
  assumes "claim_assertion (im_ctx C L S) E now params issuer key exp s = (r, s')"
  shows "cache_only s s'"
proof -
  obtain g s1 where g: "im_GetCache now key s = (g, s1)" by fastforce
  have "s' = s1 \<or> (\<exists>v ttl b. im_SetCacheNX now key v ttl s1 = (b, s'))"
    using assms g
    by (auto simp: claim_assertion_def Let_def split: option.splits out.splits bool.splits prod.splits if_splits)
  then show ?thesis using cache_only_ops(1)[OF g] cache_only_ops(3) cache_only_trans by blast
qed

lemma cache_only_ResolveClient:
  assumes "ResolveClient (im_ctx C L S) E now params s = (r, s')"
  shows "cache_only s s'"
proof -
  have "cache_only s s" by (simp add: cache_only_def)
  then have "cache_only s s'" if "resolveViaClientAssertion (im_ctx C L S) E now params s = (r, s')"
    using that cache_only_trans[OF cache_only_loadJWKS cache_only_claim_assertion] cache_only_loadJWKS
    by (auto simp: resolveViaClientAssertion_def Let_def split: if_splits option.splits sum.splits prod.splits)
  then show ?thesis
    using assms \<open>cache_only s s\<close>
    by (auto simp: ResolveClient_def Let_def split: if_splits option.splits prod.splits)
qed

lemma cache_only_views:
  assumes "cache_only s s'"
  shows "im_inv s \<Longrightarrow> im_inv s'" "im_sess t s' a = im_sess t s a" "im_held s' a = im_held s a"
    "im_state t s' k = im_state t s k"
  using assms by (simp_all add: cache_only_def im_sess_def im_held_def im_state_def)

text \<open>Errors never have status 200.\<close>

lemma first_error_Some: "first_error rs = Some r \<Longrightarrow> Some r \<in> set rs"
  by (induction rs rule: first_error.induct) auto

lemma check_status:
  "check_code_client client stored = Some r \<Longrightarrow> rs_status r = 400"
  "check_code_redirect u stored = Some r \<Longrightarrow> rs_status r = 400"
  "check_code_resource res b = Some r \<Longrightarrow> rs_status r = 400"
  "check_pkce C L ch m v = Some r \<Longrightarrow> rs_status r = 400"
  "check_secret_presented ch v sp = Some r \<Longrightarrow> rs_status r = 400"
  by (auto simp: check_code_client_def check_code_redirect_def check_code_resource_def check_pkce_def
      check_secret_presented_def split: if_splits)

lemma code_checks_status:
  assumes "code_checks C L client body res sp d = Some r"
  shows "rs_status r = 400"
proof -
  have "Some r \<in> set
     [check_code_client client (DecodeCode d), check_code_redirect (TrimSpace (rb_RedirectURI body)) (DecodeCode d),
      check_code_resource res (bound_resource (Split d ''@@'')),
      check_pkce C L (fst (split_challenge (hd (Split d ''@@'')))) (snd (split_challenge (hd (Split d ''@@''))))
        (TrimSpace (rb_CodeVerifier body)),
      check_secret_presented (fst (split_challenge (hd (Split d ''@@'')))) (TrimSpace (rb_CodeVerifier body)) sp]"
    using assms by (intro first_error_Some) (simp only: code_checks_def Let_def case_prod_beta)
  then show ?thesis
    unfolding list.set insert_iff empty_iff by (elim disjE FalseE) (drule sym, erule check_status)+
qed

lemma handle_code_Stop: "handle_code H now client body res sp w = (Stop r, w') \<Longrightarrow> rs_status r \<noteq> 200"
  by (auto simp: handle_code_def Let_def dest!: code_checks_status
      split: if_splits out.splits option.splits prod.splits)

lemma refresh_grant_Stop: "refresh_grant m res f = Stop r \<Longrightarrow> rs_status r \<noteq> 200"
  by (auto simp: refresh_grant_def invalid_refresh_token_def Let_def split: if_splits option.splits)

lemma claim_refresh_token_Stop: "claim_refresh_token H g w = (Stop r, w') \<Longrightarrow> rs_status r \<noteq> 200"
  by (auto simp: claim_refresh_token_def refresh_rejected_def split: out.splits bool.splits prod.splits)

lemma handle_refresh_Stop:
  "handle_refresh H now rnd client body res host w = (Stop r, w') \<Longrightarrow> rs_status r \<noteq> 200"
  by (auto simp: handle_refresh_def Let_def refresh_rejected_def handleRefreshTokenReuse_def bind_stage_def
      dest: refresh_grant_Stop claim_refresh_token_Stop
      split: if_splits vres.splits stage.splits prod.splits out.splits)

lemma store_session_Stop: "store_session H now c u k v e w = (Stop r, w') \<Longrightarrow> rs_status r \<noteq> 200"
  by (auto simp: store_session_def unavailable_def split: out.splits prod.splits)

lemma setRefreshFamilyRecord_Stop: "setRefreshFamilyRecord H now u f rec e w \<noteq> (Stop r, w')"
  by (auto simp: setRefreshFamilyRecord_def split: out.splits prod.splits)

lemma register_tokens_Stop: "register_tokens H now isR g a w = (Stop r, w') \<Longrightarrow> rs_status r \<noteq> 200"
  by (auto simp: register_tokens_def Let_def bind_stage_def setRefreshFamilyRecord_Stop dest: store_session_Stop
      split: if_splits stage.splits prod.splits option.splits)

lemma issue_tokens_Stop: "issue_tokens H now rnd rq client isR g w = (Stop r, w') \<Longrightarrow> rs_status r \<noteq> 200"
  by (auto simp: issue_tokens_def grant_user_def bind_stage_def dest: register_tokens_Stop
      split: if_splits stage.splits prod.splits out.splits lookup.splits)

lemma client_credentials_Stop: "client_credentials H now rnd rq client sc w = (Stop r, w') \<Longrightarrow> rs_status r \<noteq> 200"
  by (auto simp: client_credentials_def handleClientCredentialsGrant_def granted_scopes_def bind_stage_def Let_def
      dest: store_session_Stop split: if_splits stage.splits prod.splits out.splits)

lemma exchange_Stop: "handleTokenExchangeGrant H now rnd rq agent body sc w = (Stop r, w') \<Longrightarrow> rs_status r \<noteq> 200"
  by (elim exchange_refused) (force dest: rejectExchange_Stop)+

lemma dispatch_Stop: "dispatch H now rnd rq body client w = (Stop r, w') \<Longrightarrow> rs_status r \<noteq> 200"
  by (auto simp: dispatch_def Let_def bind_stage_def
      dest: client_credentials_Stop exchange_Stop handle_code_Stop handle_refresh_Stop issue_tokens_Stop
      split: if_splits stage.splits prod.splits)

lemma respondClientAuthError_status:
  "respondClientAuthError rq e c cc w = (r, w') \<Longrightarrow> rs_status r \<noteq> 200 \<and> w_mem w' = w_mem w"
  by (auto simp: respondClientAuthError_def Let_def split: cauth_err.splits option.splits if_splits)

text \<open>A 200 answer comes out of the grant of an authenticated client.\<close>

lemma TokenHandler_200:
  assumes "TokenHandler H now rnd rq w = (Some r, w')" "rs_status r = 200"
  obtains body client w1 where "rq_body rq = Some body" "effective_grant body \<in> set supported_grants"
    "on_mem (ResolveClient (h_X H) (h_E H) now (token_resolve_params rq body)) w = (Resolved client, w1)"
    "dispatch H now rnd rq body client w1 = (Continue r, w')"
  using assms
  by (auto simp: TokenHandler_def answer_def dest: dispatch_Stop respondClientAuthError_status
      split: option.splits if_splits cres.splits prod.splits stage.splits)

lemma resolve_cache_only:
  assumes "on_mem (ResolveClient (im_ctx C L S) E now params) w = (x, w1)"
  shows "cache_only (w_mem w) (w_mem w1)" "w_audit w1 = w_audit w"
  using assms cache_only_ResolveClient by (auto simp: on_mem_eq)

text \<open>The two user grants behind a 200 answer.\<close>

lemma TokenHandler_code:
  assumes "TokenHandler H now rnd rq w = (Some r, w')" "rs_status r = 200"
    and "rq_body rq = Some body" "effective_grant body = ''authorization_code''"
  obtains client w1 g w2 where
    "on_mem (ResolveClient (h_X H) (h_E H) now (token_resolve_params rq body)) w = (Resolved client, w1)"
    "handle_code H now client body (rq_resources rq) (secret_presented rq body) w1 = (Continue g, w2)"
    "issue_tokens H now rnd rq client False g w2 = (Continue r, w')"
  using assms(1,2)
proof (rule TokenHandler_200)
  fix b client w1
  assume "rq_body rq = Some b"
    and r: "on_mem (ResolveClient (h_X H) (h_E H) now (token_resolve_params rq b)) w = (Resolved client, w1)"
    and d: "dispatch H now rnd rq b client w1 = (Continue r, w')"
  then have b: "b = body" using assms(3) by simp
  then have "bind_stage (handle_code H now client body (rq_resources rq) (secret_presented rq body) w1)
             (issue_tokens H now rnd rq client False) = (Continue r, w')"
    using d assms(4) by (simp add: dispatch_def const_defs)
  then show thesis using that[OF r[unfolded b]] by (auto simp: bind_stage_Continue)
qed

lemma TokenHandler_refresh:
  assumes "TokenHandler H now rnd rq w = (Some r, w')" "rs_status r = 200"
    and "rq_body rq = Some body" "effective_grant body = ''refresh_token''"
  obtains client w1 g w2 where
    "on_mem (ResolveClient (h_X H) (h_E H) now (token_resolve_params rq body)) w = (Resolved client, w1)"
    "handle_refresh H now rnd client body (rq_resources rq) (rq_host rq) w1 = (Continue g, w2)"
    "issue_tokens H now rnd rq client True g w2 = (Continue r, w')"
  using assms(1,2)
proof (rule TokenHandler_200)
  fix b client w1
  assume "rq_body rq = Some b"
    and r: "on_mem (ResolveClient (h_X H) (h_E H) now (token_resolve_params rq b)) w = (Resolved client, w1)"
    and d: "dispatch H now rnd rq b client w1 = (Continue r, w')"
  then have b: "b = body" using assms(3) by simp
  then have "bind_stage (handle_refresh H now rnd client body (rq_resources rq) (rq_host rq) w1)
             (issue_tokens H now rnd rq client True) = (Continue r, w')"
    using d assms(4) by (simp add: dispatch_def const_defs)
  then show thesis using that[OF r[unfolded b]] by (auto simp: bind_stage_Continue)
qed

lemma issue_tokens_user:
  assumes "issue_tokens H now rnd rq client isR g w = (Continue r, w')"
  obtains user where "s_GetUserByID (x_S (h_X H)) (g_userID g) = Found user" "u_RevokedTimestamp user = None"
  using assms
  by (auto simp: issue_tokens_def grant_user_def split: if_splits stage.splits lookup.splits)

text \<open>What passing all checks of a code amounts to.\<close>

definition pkce_satisfied :: "config \<Rightarrow> libs \<Rightarrow> string \<Rightarrow> string \<Rightarrow> string \<Rightarrow> bool \<Rightarrow> bool" where
  "pkce_satisfied C L challenge m verifier secretPresented \<longleftrightarrow>
     (if challenge = [] then verifier = [] \<and> secretPresented
      else verifier \<noteq> [] \<and>
        (m = ''S256'' \<and> b64_rawurl (lib_sha256 L verifier) = trim_right_eq challenge \<or>
         m = ''plain'' \<and> verifier = challenge \<and> \<not> c_OAuth21Strict C))"

lemma pkce_checks:
  assumes "check_pkce C L ch m v = None" "check_secret_presented ch v sp = None"
  shows "pkce_satisfied C L ch m v sp"
  using assms by (auto simp: check_pkce_def check_secret_presented_def pkce_satisfied_def split: if_splits)

lemma code_checks_passed:
  assumes "code_checks C L client body res sp d = None"
  shows "cs_ClientID (DecodeCode d) \<in> {[], cl_ClientID client}"
    "cs_RedirectURI (DecodeCode d) \<in> {[], TrimSpace (rb_RedirectURI body)}"
    "bound_resource (Split d ''@@'') = [] \<or> names_resource res (bound_resource (Split d ''@@''))"
    "pkce_satisfied C L (fst (split_challenge (hd (Split d ''@@'')))) (snd (split_challenge (hd (Split d ''@@''))))
       (TrimSpace (rb_CodeVerifier body)) sp"
proof -
  note n = assms[unfolded code_checks_def Let_def case_prod_beta first_error_None list.set ball_simps]
  show "cs_ClientID (DecodeCode d) \<in> {[], cl_ClientID client}"
    using n by (auto simp: check_code_client_def split: if_splits)
  show "cs_RedirectURI (DecodeCode d) \<in> {[], TrimSpace (rb_RedirectURI body)}"
    using n by (auto simp: check_code_redirect_def split: if_splits)
  show "bound_resource (Split d ''@@'') = [] \<or> names_resource res (bound_resource (Split d ''@@''))"
    using n by (auto simp: check_code_resource_def split: if_splits)
  show "pkce_satisfied C L (fst (split_challenge (hd (Split d ''@@'')))) (snd (split_challenge (hd (Split d ''@@''))))
       (TrimSpace (rb_CodeVerifier body)) sp"
    using n pkce_checks by blast
qed

text \<open>
  The store after a request: it stays well-formed, and no state is lost but that of a presented code.
\<close>

definition presented_code :: "RequestBody \<Rightarrow> string" where
  "presented_code body = (if effective_grant body = ''authorization_code'' then TrimSpace (rb_Code body) else [])"

definition keeps_states :: "string \<Rightarrow> in_memory \<Rightarrow> in_memory \<Rightarrow> bool" where
  "keeps_states c s s' \<longleftrightarrow> im_inv s' \<and>
     (\<forall>t q. im_state t s' q = im_state t s q \<or> q = c \<and> c \<noteq> [] \<and> im_state t s' q = None)"

lemma keeps_states_quiet: "quiet im_inv im_state im_held A s s' \<Longrightarrow> keeps_states c s s'"
  by (simp add: quiet_def keeps_states_def)

lemma keeps_states_trans: "keeps_states c s s1 \<Longrightarrow> keeps_states c s1 s2 \<Longrightarrow> keeps_states c s s2"
  by (auto simp: keeps_states_def) metis+

lemma keeps_states_inv: "keeps_states c s s' \<Longrightarrow> im_inv s'"
  by (simp add: keeps_states_def)

lemma code_keeps_states:
  assumes "im_inv (w_mem w)"
  shows "keeps_states (TrimSpace (rb_Code body)) (w_mem w)
    (w_mem (snd (handle_code (im_http C L S E) now client body res sp w)))"
proof (cases "TrimSpace (rb_Code body) = []")
  case True
  then show ?thesis using assms by (simp add: handle_code_def keeps_states_def)
next
  case False
  have M: "x_M (h_X (im_http C L S E)) = in_memory_ops" by simp
  show ?thesis
    using im.handle_code_consumes[OF assms M False prod.collapse[symmetric]] False
    by (simp add: keeps_states_def)
qed

lemma machine_keeps_states:
  assumes "im_inv (w_mem w)"
  shows "keeps_states c (w_mem w) (w_mem (snd (client_credentials (im_http C L S E) now rnd rq client sc w)))"
proof -
  have M: "x_M (h_X (im_http C L S E)) = in_memory_ops" by simp
  have "keeps_states c (w_mem w) (w_mem (snd (store_session (im_http C L S E) now ck u k v e w)))" for ck u k v e
    using keeps_states_quiet[OF im.quiet_store_session[OF assms M UNIV_I]] .
  moreover have "keeps_states c (w_mem w) (w_mem w)" using assms by (simp add: keeps_states_def)
  ultimately show ?thesis
    by (auto simp: client_credentials_def handleClientCredentialsGrant_def Let_def bind_stage_same
        split: stage.split out.split)
qed

lemma exchange_keeps_states:
  assumes "im_inv (w_mem w)"
  shows "keeps_states c (w_mem w)
    (w_mem (snd (handleTokenExchangeGrant (im_http C L S E) now rnd rq agent body sc w)))"
proof -
  have r: "w_mem (snd (rejectExchange rq agent x w1)) = w_mem w1" for x and w1 :: "in_memory world"
    by (cases x) (simp add: rejectExchange_def)
  have k: "keeps_states c (w_mem w) (w_mem w)" using assms by (simp add: keeps_states_def)
  have "quiet im_inv im_state im_held {} (w_mem w) s1" if "im_GetUserSession now u q (w_mem w) = (g, s1)" for u q g s1
    using im.quiet_get_session[OF assms] that by simp
  then have "keeps_states c (w_mem w) (w_mem w1)" if "exchange_session_live (im_http C L S E) now m w = (b, w1)" for m b w1
    using that k keeps_states_quiet
    by (fastforce simp: exchange_session_live_def on_mem_eq split: if_splits option.splits prod.splits out.splits)
  then show ?thesis
    using k by (auto simp: handleTokenExchangeGrant_def r split: sum.split prod.split option.split bool.split out.split)
qed

lemma dispatch_keeps_states:
  assumes "im_inv (w_mem w)"
  shows "keeps_states (presented_code body) (w_mem w)
    (w_mem (snd (dispatch (im_http C L S E) now rnd rq body client w)))"
proof -
  have M: "x_M (h_X (im_http C L S E)) = in_memory_ops" by simp
  have issue: "keeps_states c (w_mem w) (w_mem (snd (bind_stage m (issue_tokens (im_http C L S E) now rnd rq client b))))"
    if "keeps_states c (w_mem w) (w_mem (snd m))" for c m b
  proof (rule bind_stage_keeps[where P = "keeps_states c (w_mem w)", OF that])
    fix a w1
    assume "m = (Continue a, w1)"
    then have k: "keeps_states c (w_mem w) (w_mem w1)" using that by simp
    show "keeps_states c (w_mem w) (w_mem (snd (issue_tokens (im_http C L S E) now rnd rq client b a w1)))"
      using keeps_states_trans[OF k keeps_states_quiet[OF im.quiet_issue_tokens[OF keeps_states_inv[OF k] M]]] .
  qed
  show ?thesis
    using machine_keeps_states[OF assms] exchange_keeps_states[OF assms] issue[OF code_keeps_states[OF assms]]
      issue[OF keeps_states_quiet[OF im.quiet_handle_refresh[OF assms M]]]
    by (simp add: dispatch_def Let_def presented_code_def const_defs)
qed

lemma TokenHandler_keeps_states:
  assumes "im_inv (w_mem w)" "rq_body rq = Some body"
  shows "keeps_states (presented_code body) (w_mem w) (w_mem (snd (TokenHandler (im_http C L S E) now rnd rq w)))"
proof -
  obtain x w1 where res: "on_mem (ResolveClient (im_ctx C L S) E now (token_resolve_params rq body)) w = (x, w1)"
    by fastforce
  have k: "keeps_states (presented_code body) (w_mem w) (w_mem w1)"
    using cache_only_views[OF resolve_cache_only(1)[OF res]] assms(1) by (simp add: keeps_states_def)
  have d: "keeps_states (presented_code body) (w_mem w) (w_mem (snd (dispatch (im_http C L S E) now rnd rq body cl w1)))" for cl
    using keeps_states_trans[OF k dispatch_keeps_states[OF keeps_states_inv[OF k]]] .
  have a: "snd (answer y) = snd y" for y :: "response stage \<times> in_memory world"
    by (cases y; cases "fst y") (auto simp: answer_def)
  have e: "w_mem (snd (respondClientAuthError rq err c cc w1)) = w_mem w1" for err c cc
    using respondClientAuthError_status[OF prod.collapse[symmetric]] by blast
  have "keeps_states (presented_code body) (w_mem w) (w_mem w)" using assms by (simp add: keeps_states_def)
  then show ?thesis
    using assms(2) res k d by (simp add: TokenHandler_def a e case_prod_beta split: cres.split)
qed

section \<open>Fixtures of the endpoint\<close>

definition fx_cookie :: string where
  "fx_cookie = (case EncryptAES fx_libs ''123456789012'' (c_ClientSecret fx_config) ''n1'' of Ok h \<Rightarrow> h | _ \<Rightarrow> [])"

definition fx_refresh :: claims where
  "fx_refresh = [(''iss'', CStr ''https://auth''), (''aud'', CStr ''app''), (''sub'', CStr ''u1''),
     (''exp'', CFloat 90000), (''iat'', CFloat 0), (''token_type'', CStr TokenTypeRefreshToken),
     (''roles'', CList [CStr ''user'']), (''scope'', CList [CStr ''openid'', CStr ''offline_access'']),
     (''nonce'', CStr ''n1''), (''login_method'', CStr ''basic_auth''), (''family_id'', CStr ''f1'')]"

definition fx_tlibs :: libs where
  "fx_tlibs = fx_libs\<lparr>lib_parse := (\<lambda>now alg key t.
     if t = ''refresh'' then (fx_refresh, None) else ([], Some ''token is malformed''))\<rparr>"

definition fx_machine :: Client where
  "fx_machine = fx_agent\<lparr>cl_ClientID := ''bot''\<rparr>"

definition fx_tstorage :: storage where
  "fx_tstorage = fx_storage\<lparr>s_GetClientByClientID :=
     (\<lambda>i. if i = ''app'' then Found fx_client else if i = ''bot'' then Found fx_machine else NilRow)\<rparr>"

definition fx_thttp :: "in_memory http" where
  "fx_thttp = im_http fx_config fx_tlibs fx_tstorage fx_env"

definition fx_code :: string where
  "fx_code = EncodeCode \<lparr>cs_Challenge = [], cs_Session = fx_cookie, cs_Nonce = ''o'', cs_RedirectURI = ''https://app/cb'',
     cs_Resource = [], cs_ClientID = ''app''\<rparr>"

definition fx_tstore :: in_memory where
  "fx_tstore =
     snd (im_SetUserSession 0 ''basic_auth:u1'' (TokenTypeRefreshToken @ ''_'' @ ''n1'')
            (HashSessionValue fx_tlibs ''refresh'') 90000
     (snd (im_SetUserSession 0 ''basic_auth:u1'' (TokenTypeSessionToken @ ''_'' @ ''n1'')
            (HashSessionValue fx_tlibs fx_cookie) 90000
     (snd (im_SetState 0 ''code1'' fx_code NewInMemoryProvider)))))"

definition fx_tworld :: "in_memory world" where
  "fx_tworld = \<lparr>w_mem = fx_tstore, w_audit = []\<rparr>"

definition fx_app_body :: RequestBody where
  "fx_app_body = fx_body\<lparr>rb_ClientID := ''app'', rb_ClientSecret := ''hash'', rb_SubjectToken := [], rb_ActorToken := []\<rparr>"

definition fx_code_body :: RequestBody where
  "fx_code_body = fx_app_body\<lparr>rb_Code := ''code1'', rb_RedirectURI := ''https://app/cb''\<rparr>"

definition fx_refresh_body :: RequestBody where
  "fx_refresh_body = fx_app_body\<lparr>rb_GrantType := ''refresh_token'', rb_RefreshToken := ''refresh''\<rparr>"

definition fx_cc_body :: RequestBody where
  "fx_cc_body = fx_app_body\<lparr>rb_ClientID := ''bot'', rb_GrantType := ''client_credentials'', rb_Scope := ''read''\<rparr>"

definition fx_ask :: "RequestBody \<Rightarrow> request" where
  "fx_ask b = fx_request\<lparr>rq_body := Some b, rq_resources := []\<rparr>"

definition fx_answer :: "response option \<times> in_memory world \<Rightarrow> response" where
  "fx_answer x = (case fst x of Some r \<Rightarrow> r | None \<Rightarrow> json_response 500 [])"

lemma fx_tstore_inv: "im_inv fx_tstore"
proof -
  have "im_inv (snd (im_SetState 0 ''code1'' fx_code NewInMemoryProvider))"
    by (rule conjunct1[OF im_set_state[OF im_inv_New prod.collapse[symmetric]]])
  then show ?thesis
    unfolding fx_tstore_def
    by (intro conjunct1[OF im_set_session[OF _ prod.collapse[symmetric]]])
qed

lemma fx_tworld_inv: "im_inv (w_mem fx_tworld)"
  by (simp add: fx_tworld_def fx_tstore_inv)

definition fx_redeemed :: "response option \<times> in_memory world" where
  "fx_redeemed = TokenHandler fx_thttp (100 * Second) fx_randoms (fx_ask fx_code_body) fx_tworld"

definition fx_refreshed :: "response option \<times> in_memory world" where
  "fx_refreshed = TokenHandler fx_thttp (100 * Second) fx_randoms (fx_ask fx_refresh_body) fx_tworld"

definition fx_machine_issued :: "response option \<times> in_memory world" where
  "fx_machine_issued = TokenHandler fx_thttp (100 * Second) fx_randoms (fx_ask fx_cc_body) fx_tworld"

definition fx_ok :: "response option \<times> in_memory world \<Rightarrow> bool" where
  "fx_ok x = (case fst x of Some r \<Rightarrow> rs_status r = 200 | None \<Rightarrow> False)"

lemma fx_ok_answer: "fx_ok x \<Longrightarrow> x = (Some (fx_answer x), snd x) \<and> rs_status (fx_answer x) = 200"
  by (cases x) (auto simp: fx_ok_def fx_answer_def split: option.splits)

lemma fx_all_ok: "fx_ok fx_redeemed" "fx_ok fx_refreshed" "fx_ok fx_machine_issued"
  by code_simp+

lemma fx_redeemed_200:
  "TokenHandler fx_thttp (100 * Second) fx_randoms (fx_ask fx_code_body) fx_tworld =
     (Some (fx_answer fx_redeemed), snd fx_redeemed)" "rs_status (fx_answer fx_redeemed) = 200"
  using fx_ok_answer[OF fx_all_ok(1)] by (simp_all add: fx_redeemed_def)

lemma fx_refreshed_200:
  "TokenHandler fx_thttp (100 * Second) fx_randoms (fx_ask fx_refresh_body) fx_tworld =
     (Some (fx_answer fx_refreshed), snd fx_refreshed)" "rs_status (fx_answer fx_refreshed) = 200"
  using fx_ok_answer[OF fx_all_ok(2)] by (simp_all add: fx_refreshed_def)

lemma fx_machine_200:
  "TokenHandler fx_thttp (100 * Second) fx_randoms (fx_ask fx_cc_body) fx_tworld =
     (Some (fx_answer fx_machine_issued), snd fx_machine_issued)" "rs_status (fx_answer fx_machine_issued) = 200"
  using fx_ok_answer[OF fx_all_ok(3)] by (simp_all add: fx_machine_issued_def)

lemma fx_ask_bodies:
  "rq_body (fx_ask b) = Some b" "effective_grant fx_code_body = ''authorization_code''"
  "effective_grant fx_refresh_body = ''refresh_token''" "effective_grant fx_cc_body = GrantTypeClientCredentials"
  by (simp add: fx_ask_def) code_simp+

end
