(* ===== verification/Token_Properties.thy ===== *)
theory Token_Properties
  imports Token_Endpoint
begin

text \<open>
  What \<open>/oauth/token\<close> guarantees, on the in-memory store: authorization codes and refresh tokens are
  single-use and bound, a replayed refresh token ends its own lineage only, machine tokens stay
  within the account's scopes, and an unauthenticated request changes nothing.
\<close>

lemmas im_TokenHandler =
  TokenHandler_code[where H = "im_http C L S E" for C L S E, unfolded im_http_sel]
  TokenHandler_refresh[where H = "im_http C L S E" for C L S E, unfolded im_http_sel]
  TokenHandler_200[where H = "im_http C L S E" for C L S E, unfolded im_http_sel]

lemmas im_code_Continue =
  im.handle_code_Continue[where H = "im_http C L S E" for C L S E, unfolded im_http_sel im_ctx_sel, OF _ refl]

lemmas im_refresh_Continue =
  im.handle_refresh_Continue[where H = "im_http C L S E" for C L S E, unfolded im_http_sel im_ctx_sel, OF _ refl]

text \<open>Issuing tokens under a new nonce adds nothing under an old one.\<close>

lemma issued_elsewhere:
  assumes "im_inv (w_mem w1)"
    and "handle_refresh (im_http C L S E) now rnd client body res host w1 = (Continue g, w2)"
    and "issue_tokens (im_http C L S E) now rnd rq client isR g w2 = (x, w3)"
    and "n \<noteq> rnd_nonce rnd" "ty \<in> {TokenTypeSessionToken, TokenTypeAccessToken, TokenTypeRefreshToken}"
    and "\<not> im_held (w_mem w2) (session_key (g_sessionKey g) (ty @ ''_'' @ n))"
  shows "im_inv (w_mem w3) \<and> \<not> im_held (w_mem w3) (session_key (g_sessionKey g) (ty @ ''_'' @ n))"
proof -
  have M: "x_M (h_X (im_http C L S E)) = in_memory_ops" by simp
  have "im_inv (w_mem w2)"
    using quiet_invar[OF im.quiet_handle_refresh[OF assms(1) M, of "{}" now rnd client body res host]] assms(2) by simp
  from im.quiet_issue_tokens[OF this M, of g rnd now rq client isR]
  have q: "quiet im_inv im_state im_held (session_key (g_sessionKey g) ` issue_keys g (rnd_nonce rnd)) (w_mem w2) (w_mem w3)"
    using assms(3) by simp
  have "ty @ ''_'' @ n \<notin> issue_keys g (rnd_nonce rnd)" using assms(4,5) issue_keys_other by auto
  then have "session_key (g_sessionKey g) (ty @ ''_'' @ n) \<notin> session_key (g_sessionKey g) ` issue_keys g (rnd_nonce rnd)"
    using session_key_inj by blast
  then show ?thesis using q assms(6) unfolding quiet_def by blast
qed

lemma fx_redeemed_inv: "im_inv (w_mem (snd fx_redeemed))"
  using keeps_states_inv[OF TokenHandler_keeps_states[OF fx_tworld_inv fx_ask_bodies(1)]]
  unfolding fx_redeemed_def fx_thttp_def .

definition fx_refresh_parsed :: claims where
  "fx_refresh_parsed = fst (ParseJWTToken fx_config fx_tlibs (100 * Second) (TrimSpace (rb_RefreshToken fx_refresh_body)))"

lemma fx_refresh_parse:
  "ParseJWTToken fx_config fx_tlibs (100 * Second) (TrimSpace (rb_RefreshToken fx_refresh_body)) = (fx_refresh_parsed, None)"
  by code_simp

lemma fx_refresh_nonce: "rnd_nonce fx_randoms \<noteq> str_of fx_refresh_parsed ''nonce''" "str_of fx_refresh_parsed ''nonce'' = ''n1''"
  by code_simp+

lemma fx_refreshed_inv: "im_inv (w_mem (snd fx_refreshed))"
  using keeps_states_inv[OF TokenHandler_keeps_states[OF fx_tworld_inv fx_ask_bodies(1)]]
  unfolding fx_refreshed_def fx_thttp_def .

text \<open>The live nonce of a lineage that a replayed refresh token compromises.\<close>

definition compromised :: "libs \<Rightarrow> instant \<Rightarrow> claims \<Rightarrow> in_memory \<Rightarrow> string option" where
  "compromised L now m s =
     (if str_of m ''sub'' = [] \<or> str_of m ''family_id'' = [] then None
      else
       (case im_sess now s (session_key (claims_session_key m) (refreshFamilyKeyPrefix @ str_of m ''family_id'')) of
          None \<Rightarrow> None
        | Some raw \<Rightarrow>
            if raw = [] then None
            else
             (case lib_family_dec L raw of
                Ok rec \<Rightarrow> if reuse_is_breach now (str_of m ''nonce'') rec then Some (rf_LiveNonce rec) else None
              | _ \<Rightarrow> None)))"

definition fx_family_store :: in_memory where
  "fx_family_store =
     snd (im_SetUserSession 0 ''basic_auth:u1'' (refreshFamilyKeyPrefix @ ''f1'') ''n9'' 90000
     (snd (im_SetUserSession 0 ''basic_auth:u1'' (TokenTypeAccessToken @ ''_'' @ ''n5'') ''x'' 90000
     (snd (im_SetUserSession 0 ''basic_auth:u1'' (TokenTypeAccessToken @ ''_'' @ ''n9'') ''y'' 90000 fx_tstore)))))"

lemma fx_family_inv: "im_inv fx_family_store"
  unfolding fx_family_store_def
  by (intro conjunct1[OF im_set_session[OF _ prod.collapse[symmetric]]] fx_tstore_inv)

definition fx_replayed :: "unit stage \<times> in_memory world" where
  "fx_replayed = handleRefreshTokenReuse (im_http fx_config fx_tlibs fx_tstorage fx_env) (200 * Second) fx_refresh_parsed
     (fx_tworld\<lparr>w_mem := fx_family_store\<rparr>)"

text \<open>Machine tokens.\<close>

lemma granted_scopes_allowed:
  assumes "granted_scopes sa scope = Continue sc"
  shows "sc \<noteq> [] \<and> set sc \<subseteq> set (ParsedAllowedScopes sa) \<and> (Fields scope = [] \<or> sc = Fields scope)"
  using assms by (auto simp: granted_scopes_def Let_def list_ex_iff split: if_splits)

lemma machine_token:
  assumes "CreateMachineAuthToken C L now (machine_config sa sc host n res) = Ok t"
  shows "jt_ExpiresAt t = access_expiry now \<and>
    (cl_ID sa \<noteq> [] \<longrightarrow> SignJWTToken C L (machine_access_claims C now (machine_config sa sc host n res)) = Ok (jt_Token t))"
  using assms
  by (auto simp: CreateMachineAuthToken_def CreateAccessToken_def createMachineAccessToken_def sign_with_expiry_ok
      machine_config_def no_config_def split: out.splits prod.splits if_splits)

lemma machine_Continue:
  assumes "dispatch (im_http C L S E) now rnd rq body client w = (Continue r, w')"
    and "effective_grant body = GrantTypeClientCredentials"
  shows "\<exists>sc rs t w2. granted_scopes client (TrimSpace (rb_Scope body)) = Continue sc \<and>
    CreateMachineAuthToken C L now (machine_config client sc (rq_host rq) (rnd_nonce rnd) rs) = Ok t \<and>
    store_session (im_http C L S E) now None (AuthRecipeMethodServiceAccount @ '':'' @ cl_ID client)
        (TokenTypeAccessToken @ ''_'' @ rnd_nonce rnd) (jt_Token t) (jt_ExpiresAt t) w = (Continue (), w2) \<and>
    w_mem w' = w_mem w2 \<and>
    rs_body r = [(''access_token'', CStr (jt_Token t)), (''token_type'', CStr ''Bearer''),
                 (''expires_in'', CInt (expires_in now (jt_ExpiresAt t))), (''scope'', CStr (Join sc '' ''))]"
  using assms
  by (fastforce simp: dispatch_def client_credentials_def handleClientCredentialsGrant_def Let_def bind_stage_Continue
      json_response_def split: if_splits stage.splits out.splits)

lemma im_store_session:
  assumes "im_inv (w_mem w)" "store_session (im_http C L S E) now ck u k v e w = (Continue (), w2)" "Unix t < e"
  shows "im_sess t (w_mem w2) (session_key u k) = Some v"
proof -
  obtain x s2 where x: "im_SetUserSession now u k v e (w_mem w) = (x, s2)" by fastforce
  have "x = Ok ()" "w_mem w2 = s2"
    using assms(2) x by (auto simp: store_session_def on_mem_def split: out.splits)
  then show ?thesis using im.set_session[of "w_mem w" now u k v e x s2] assms(1,3) x by auto
qed

lemma respondClientAuthError_spec:
  assumes "respondClientAuthError rq err c cc w = (r, w')"
  shows "rs_status r \<in> {400, 401, 503} \<and> length (w_audit w') \<le> length (w_audit w) + 1 \<and>
    (w_audit w' \<noteq> w_audit w \<longrightarrow> cc \<and> err = ErrInvalidClient \<and> (\<exists>cl. c = Some cl \<and> cl_ID cl \<noteq> []))"
  using assms
  by (auto simp: respondClientAuthError_def log_event_def Let_def split: cauth_err.splits option.splits if_splits)

definition fx_guess_body :: RequestBody where
  "fx_guess_body = fx_cc_body\<lparr>rb_ClientSecret := ''guess''\<rparr>"

text \<open>
  Redeeming an authorization code. Tokens are issued only if the store held the code, to an
  authenticated client that the code was issued to, for the redirect URI and the resource it was
  issued with, with a matching PKCE verifier (never the plain method in strict mode) or, without
  PKCE, a client secret, for a live browser session whose user exists and is not revoked.
\<close>

theorem code_redemption_checked:
  assumes "im_inv (w_mem w)"
    and "TokenHandler (im_http C L S E) now rnd rq w = (Some r, w')" "rs_status r = 200"
    and "rq_body rq = Some body" "effective_grant body = ''authorization_code''"
  shows "\<exists>client s1 d s2 s3 sd user.
    ResolveClient (im_ctx C L S) E now (token_resolve_params rq body) (w_mem w) = (Resolved client, s1) \<and>
    im_state now (w_mem w) (TrimSpace (rb_Code body)) = Some d \<and>
    cs_ClientID (DecodeCode d) \<in> {[], cl_ClientID client} \<and>
    cs_RedirectURI (DecodeCode d) \<in> {[], TrimSpace (rb_RedirectURI body)} \<and>
    (bound_resource (Split d ''@@'') = [] \<or> names_resource (rq_resources rq) (bound_resource (Split d ''@@''))) \<and>
    pkce_satisfied C L (fst (split_challenge (hd (Split d ''@@'')))) (snd (split_challenge (hd (Split d ''@@''))))
      (TrimSpace (rb_CodeVerifier body)) (secret_presented rq body) \<and>
    ValidateBrowserSession (im_ctx C L S) now (Split d ''@@'' ! 1) s2 = (Ok sd, s3) \<and>
    s_GetUserByID S (sd_Subject sd) = Found user \<and> u_RevokedTimestamp user = None"
proof -
  let ?H = "im_http C L S E"
  obtain client w1 g w2 where
    res: "on_mem (ResolveClient (im_ctx C L S) E now (token_resolve_params rq body)) w = (Resolved client, w1)"
    and code: "handle_code ?H now client body (rq_resources rq) (secret_presented rq body) w1 = (Continue g, w2)"
    and iss: "issue_tokens ?H now rnd rq client False g w2 = (Continue r, w')"
    using assms(2-5) by (rule im_TokenHandler(1))
  note co = cache_only_views[OF resolve_cache_only(1)[OF res]]
  obtain d sd s1 where d: "im_state now (w_mem w1) (TrimSpace (rb_Code body)) = Some d"
    and ch: "code_checks C L client body (rq_resources rq) (secret_presented rq body) d = None"
    and v: "ValidateBrowserSession (im_ctx C L S) now (Split d ''@@'' ! 1) s1 = (Ok sd, w_mem w2)"
    and g: "g = code_grant (Split d ''@@'') sd"
    using co(1)[OF assms(1)] code by (rule im_code_Continue)
  obtain user where "s_GetUserByID S (sd_Subject sd) = Found user" "u_RevokedTimestamp user = None"
    using issue_tokens_user[OF iss] g by (auto simp: code_grant_def)
  moreover have "ResolveClient (im_ctx C L S) E now (token_resolve_params rq body) (w_mem w) = (Resolved client, w_mem w1)"
    using res by (auto simp: on_mem_eq)
  ultimately show ?thesis using d v co(4) code_checks_passed[OF ch] by (intro exI conjI) auto
qed

theorem code_redemption_checked_witness:
  "\<exists>d (sd :: SessionData) user. im_state (100 * Second) (w_mem fx_tworld) (TrimSpace (rb_Code fx_code_body)) = Some d \<and>
     s_GetUserByID fx_tstorage (sd_Subject sd) = Found user \<and> u_RevokedTimestamp user = None"
  using code_redemption_checked[OF fx_tworld_inv fx_redeemed_200[unfolded fx_thttp_def] fx_ask_bodies(1,2)]
  by blast

text \<open>
  C3. An authorization code is redeemed at most once. After tokens were issued for a code, no
  request that presents it again, by whatever client and at whatever time, gets tokens, unless
  the code was stored anew.
\<close>

theorem code_single_use:
  assumes "im_inv (w_mem w)"
    and "TokenHandler (im_http C L S E) now rnd rq w = (Some r, w')" "rs_status r = 200"
    and "rq_body rq = Some body" "effective_grant body = ''authorization_code''"
    and "rq_body rq2 = Some body2" "effective_grant body2 = ''authorization_code''"
    and "TrimSpace (rb_Code body2) = TrimSpace (rb_Code body)"
    and "im_inv (w_mem w2)"
    and "im_state t (w_mem w2) (TrimSpace (rb_Code body)) = im_state t (w_mem w') (TrimSpace (rb_Code body))"
    and "TokenHandler (im_http C2 L2 S2 E2) t rnd2 rq2 w2 = (Some r2, w3)"
  shows "rs_status r2 \<noteq> 200"
proof
  assume r2: "rs_status r2 = 200"
  let ?H = "im_http C L S E" and ?H2 = "im_http C2 L2 S2 E2" and ?c = "TrimSpace (rb_Code body)"
  have M: "x_M (h_X (im_http C L S E)) = in_memory_ops" for C L S E by simp
  obtain client w1 g wa where
    res: "on_mem (ResolveClient (im_ctx C L S) E now (token_resolve_params rq body)) w = (Resolved client, w1)"
    and code: "handle_code ?H now client body (rq_resources rq) (secret_presented rq body) w1 = (Continue g, wa)"
    and iss: "issue_tokens ?H now rnd rq client False g wa = (Continue r, w')"
    using assms(2-5) by (rule im_TokenHandler(1))
  have i1: "im_inv (w_mem w1)" using cache_only_views(1)[OF resolve_cache_only(1)[OF res] assms(1)] .
  have c: "?c \<noteq> []" using i1 code by (rule im_code_Continue)
  have "im_inv (w_mem wa)" "im_state t (w_mem wa) ?c = None"
    using im.handle_code_consumes[OF i1 M c code] by auto
  then have none: "im_state t (w_mem w') ?c = None"
    using im.quiet_issue_tokens[OF _ M, where w = wa and g = g and rnd = rnd and C1 = C and L1 = L and S1 = S and E1 = E
        and now = now and rq = rq and client = client and isRefresh = False]
    unfolding iss quiet_def snd_conv by simp
  obtain client2 w4 g2 wb where
    res2: "on_mem (ResolveClient (im_ctx C2 L2 S2) E2 t (token_resolve_params rq2 body2)) w2 = (Resolved client2, w4)"
    and code2: "handle_code ?H2 t client2 body2 (rq_resources rq2) (secret_presented rq2 body2) w4 = (Continue g2, wb)"
    using assms(11) r2 assms(6,7) by (rule im_TokenHandler(1))
  note co2 = cache_only_views[OF resolve_cache_only(1)[OF res2]]
  obtain d where "im_state t (w_mem w4) (TrimSpace (rb_Code body2)) = Some d"
    using co2(1)[OF assms(9)] code2 by (rule im_code_Continue)
  then show False using none assms(8,10) co2(4) by simp
qed

theorem code_single_use_witness:
  "\<nexists>r2 w3. TokenHandler fx_thttp (101 * Second) fx_randoms (fx_ask fx_code_body) (snd fx_redeemed) = (Some r2, w3) \<and>
     rs_status r2 = 200"
proof
  have inv: "im_inv (w_mem (snd fx_redeemed))" by (rule fx_redeemed_inv)
  assume "\<exists>r2 w3. TokenHandler fx_thttp (101 * Second) fx_randoms (fx_ask fx_code_body) (snd fx_redeemed) =
      (Some r2, w3) \<and> rs_status r2 = 200"
  then obtain r2 w3 where "TokenHandler fx_thttp (101 * Second) fx_randoms (fx_ask fx_code_body) (snd fx_redeemed) =
      (Some r2, w3)" "rs_status r2 = 200" by blast
  then show False
    using code_single_use[OF fx_tworld_inv fx_redeemed_200[unfolded fx_thttp_def] fx_ask_bodies(1,2)
        fx_ask_bodies(1,2) refl inv refl] unfolding fx_thttp_def by blast
qed

text \<open>
  C17. Rotation. Refreshing issues tokens only for a refresh token that is ours, unexpired, bound to the
  authenticated client and still registered, for a user that exists and is not revoked. Afterwards the
  session, access and refresh entries under its nonce are all gone from the store.
\<close>

theorem refresh_rotation:
  assumes "im_inv (w_mem w)"
    and "TokenHandler (im_http C L S E) now rnd rq w = (Some r, w')" "rs_status r = 200"
    and "rq_body rq = Some body" "effective_grant body = ''refresh_token''"
    and "ParseJWTToken C L now (TrimSpace (rb_RefreshToken body)) = (m, e)" "rnd_nonce rnd \<noteq> str_of m ''nonce''"
  shows "e = None \<and> claim_of m ''iss'' = CStr (rq_host rq) \<and> claim_of m ''token_type'' = CStr TokenTypeRefreshToken \<and>
    (\<exists>client s1. ResolveClient (im_ctx C L S) E now (token_resolve_params rq body) (w_mem w) = (Resolved client, s1) \<and>
       claim_of m ''aud'' = CStr (if cl_ClientID client = [] then c_ClientID C else cl_ClientID client)) \<and>
    (\<exists>user. s_GetUserByID S (str_of m ''sub'') = Found user \<and> u_RevokedTimestamp user = None) \<and>
    im_held (w_mem w) (session_key (claims_session_key m) (TokenTypeRefreshToken @ ''_'' @ str_of m ''nonce'')) \<and>
    (\<forall>ty \<in> {TokenTypeSessionToken, TokenTypeAccessToken, TokenTypeRefreshToken}.
       \<not> im_held (w_mem w') (session_key (claims_session_key m) (ty @ ''_'' @ str_of m ''nonce'')))"
proof -
  obtain client w1 g w2 where
    res: "on_mem (ResolveClient (im_ctx C L S) E now (token_resolve_params rq body)) w = (Resolved client, w1)"
    and ref: "handle_refresh (im_http C L S E) now rnd client body (rq_resources rq) (rq_host rq) w1 = (Continue g, w2)"
    and iss: "issue_tokens (im_http C L S E) now rnd rq client True g w2 = (Continue r, w')"
    using assms(2-5) by (rule im_TokenHandler(2))
  note co = cache_only_views[OF resolve_cache_only(1)[OF res]]
  have i1: "im_inv (w_mem w1)" using co(1)[OF assms(1)] .
  obtain m0 where m0: "ParseJWTToken C L now (TrimSpace (rb_RefreshToken body)) = (m0, None)"
    "claim_of m0 ''iss'' = CStr (rq_host rq)" "claim_of m0 ''token_type'' = CStr TokenTypeRefreshToken"
    "claim_of m0 ''aud'' = CStr (if cl_ClientID client = [] then c_ClientID C else cl_ClientID client)"
    "im_held (w_mem w1) (session_key (claims_session_key m0) (TokenTypeRefreshToken @ ''_'' @ str_of m0 ''nonce''))"
    and gone: "\<forall>ty \<in> {TokenTypeSessionToken, TokenTypeAccessToken, TokenTypeRefreshToken}.
       \<not> im_held (w_mem w2) (session_key (claims_session_key m0) (ty @ ''_'' @ str_of m0 ''nonce''))"
    and g: "g_sessionKey g = claims_session_key m0" "g_userID g = str_of m0 ''sub''"
    using i1 ref by (rule im_refresh_Continue)
  have m: "m0 = m" "e = None" using m0(1) assms(6) by auto
  obtain user where "s_GetUserByID S (str_of m ''sub'') = Found user" "u_RevokedTimestamp user = None"
    using iss by (rule issue_tokens_user) (simp add: g m)
  moreover have "ResolveClient (im_ctx C L S) E now (token_resolve_params rq body) (w_mem w) = (Resolved client, w_mem w1)"
    using res by (auto simp: on_mem_eq)
  moreover have "\<not> im_held (w_mem w') (session_key (claims_session_key m) (ty @ ''_'' @ str_of m ''nonce''))"
    if "ty \<in> {TokenTypeSessionToken, TokenTypeAccessToken, TokenTypeRefreshToken}" for ty
    using issued_elsewhere[OF i1 ref iss _ that] gone[unfolded m] that g assms(7) m by auto
  ultimately show ?thesis using m0 m co(3) by auto
qed

theorem refresh_rotation_witness:
  "im_held (w_mem fx_tworld) (session_key (claims_session_key fx_refresh_parsed) (TokenTypeRefreshToken @ ''_'' @ ''n1'')) \<and>
   \<not> im_held (w_mem (snd fx_refreshed)) (session_key (claims_session_key fx_refresh_parsed) (TokenTypeRefreshToken @ ''_'' @ ''n1''))"
  using refresh_rotation[OF fx_tworld_inv fx_refreshed_200[unfolded fx_thttp_def] fx_ask_bodies(1,3)
      fx_refresh_parse fx_refresh_nonce(1)] unfolding fx_refresh_nonce(2) by blast

text \<open>
  C4. A refresh token is redeemed at most once. After a refresh, no request that presents the same token
  gets tokens, whoever sends it and whenever, as long as the token decodes to the same claims and
  nothing was registered under its key in the meantime.
\<close>

theorem refresh_single_use:
  assumes "im_inv (w_mem w)"
    and "TokenHandler (im_http C L S E) now rnd rq w = (Some r, w')" "rs_status r = 200"
    and "rq_body rq = Some body" "effective_grant body = ''refresh_token''"
    and "ParseJWTToken C L now (TrimSpace (rb_RefreshToken body)) = (m, e)" "rnd_nonce rnd \<noteq> str_of m ''nonce''"
    and "rq_body rq2 = Some body2" "effective_grant body2 = ''refresh_token''"
    and "TrimSpace (rb_RefreshToken body2) = TrimSpace (rb_RefreshToken body)"
    and "fst (ParseJWTToken C L t (TrimSpace (rb_RefreshToken body))) = m"
    and "im_inv (w_mem w2)"
    and "\<And>a. a = session_key (claims_session_key m) (TokenTypeRefreshToken @ ''_'' @ str_of m ''nonce'') \<Longrightarrow>
      im_held (w_mem w2) a = im_held (w_mem w') a"
    and "TokenHandler (im_http C L S2 E2) t rnd2 rq2 w2 = (Some r2, w3)"
  shows "rs_status r2 \<noteq> 200"
proof
  assume r2: "rs_status r2 = 200"
  obtain client w1 g wa where
    res: "on_mem (ResolveClient (im_ctx C L S) E now (token_resolve_params rq body)) w = (Resolved client, w1)"
    and ref: "handle_refresh (im_http C L S E) now rnd client body (rq_resources rq) (rq_host rq) w1 = (Continue g, wa)"
    and iss: "issue_tokens (im_http C L S E) now rnd rq client True g wa = (Continue r, w')"
    using assms(2-5) by (rule im_TokenHandler(2))
  have i1: "im_inv (w_mem w1)" using cache_only_views(1)[OF resolve_cache_only(1)[OF res] assms(1)] .
  obtain m0 where m0: "ParseJWTToken C L now (TrimSpace (rb_RefreshToken body)) = (m0, None)"
    and gone: "\<forall>ty \<in> {TokenTypeSessionToken, TokenTypeAccessToken, TokenTypeRefreshToken}.
       \<not> im_held (w_mem wa) (session_key (claims_session_key m0) (ty @ ''_'' @ str_of m0 ''nonce''))"
    and g: "g_sessionKey g = claims_session_key m0"
    using i1 ref by (rule im_refresh_Continue)
  have m: "m0 = m" using m0 assms(6) by simp
  have "\<not> im_held (w_mem w') (session_key (claims_session_key m) (TokenTypeRefreshToken @ ''_'' @ str_of m ''nonce''))"
    using issued_elsewhere[OF i1 ref iss, of "str_of m ''nonce''" TokenTypeRefreshToken] gone g m assms(7) by auto
  then have dead: "\<not> im_held (w_mem w2) (session_key (claims_session_key m) (TokenTypeRefreshToken @ ''_'' @ str_of m ''nonce''))"
    using assms(13) by simp
  obtain client2 w4 g2 wb where
    res2: "on_mem (ResolveClient (im_ctx C L S2) E2 t (token_resolve_params rq2 body2)) w2 = (Resolved client2, w4)"
    and ref2: "handle_refresh (im_http C L S2 E2) t rnd2 client2 body2 (rq_resources rq2) (rq_host rq2) w4 = (Continue g2, wb)"
    using assms(14) r2 assms(8,9) by (rule im_TokenHandler(2))
  note co2 = cache_only_views[OF resolve_cache_only(1)[OF res2]]
  obtain m2 where m2: "ParseJWTToken C L t (TrimSpace (rb_RefreshToken body2)) = (m2, None)"
    and h: "im_held (w_mem w4) (session_key (claims_session_key m2) (TokenTypeRefreshToken @ ''_'' @ str_of m2 ''nonce''))"
    using co2(1)[OF assms(12)] ref2 by (rule im_refresh_Continue)
  have "m2 = m" using m2 assms(10,11) by simp
  then show False using h dead co2(3) by simp
qed

theorem refresh_single_use_witness:
  "\<nexists>r2 w3. TokenHandler fx_thttp (101 * Second) fx_randoms (fx_ask fx_refresh_body) (snd fx_refreshed) = (Some r2, w3) \<and>
     rs_status r2 = 200"
proof
  assume "\<exists>r2 w3. TokenHandler fx_thttp (101 * Second) fx_randoms (fx_ask fx_refresh_body) (snd fx_refreshed) =
      (Some r2, w3) \<and> rs_status r2 = 200"
  then obtain r2 w3 where x: "TokenHandler fx_thttp (101 * Second) fx_randoms (fx_ask fx_refresh_body) (snd fx_refreshed) =
      (Some r2, w3)" "rs_status r2 = 200" by blast
  have p: "fst (ParseJWTToken fx_config fx_tlibs (101 * Second) (TrimSpace (rb_RefreshToken fx_refresh_body))) = fx_refresh_parsed"
    by code_simp
  show False
    using refresh_single_use[OF fx_tworld_inv fx_refreshed_200[unfolded fx_thttp_def] fx_ask_bodies(1,3)
        fx_refresh_parse fx_refresh_nonce(1) fx_ask_bodies(1,3) refl p fx_refreshed_inv refl x(1)[unfolded fx_thttp_def]] x(2)
    by simp
qed

text \<open>
  C18. A replayed refresh token revokes its own lineage and nothing else. \<open>compromised\<close> reads off
  the family record whether the replay is a breach: not the live token, and not the predecessor
  within the grace window. If so exactly the session, access and refresh entries of the live nonce of that
  family are gone; every other session of the store, of this user or another, is as before, and
  without a breach all of them are.
\<close>

theorem refresh_reuse_contained:
  assumes "im_inv (w_mem w)"
    and "handleRefreshTokenReuse (im_http C L S E) now m w = (Continue (), w')" "now \<le> t"
  shows "im_sess t (w_mem w') a =
    (case compromised L now m (w_mem w) of
       None \<Rightarrow> im_sess t (w_mem w) a
     | Some n \<Rightarrow>
         if a \<in> (\<lambda>ty. session_key (claims_session_key m) (ty @ ''_'' @ n)) `
              {TokenTypeSessionToken, TokenTypeAccessToken, TokenTypeRefreshToken}
         then None else im_sess t (w_mem w) a)"
proof -
  let ?k = "refreshFamilyKeyPrefix @ str_of m ''family_id''" and ?u = "claims_session_key m"
  obtain g s1 where g: "im_GetUserSession now ?u ?k (w_mem w) = (g, s1)" by fastforce
  have s1: "im_inv s1" "im_sess t s1 a = im_sess t (w_mem w) a"
    "g = (case im_sess now (w_mem w) (session_key ?u ?k) of
             Some v \<Rightarrow> if v = [] then Err ''not found'' else Ok v | None \<Rightarrow> Err ''not found'')"
    using im.get_session[of "w_mem w" now ?u ?k g s1] assms(1,3) g by auto
  have del: "im_sess t s2 a = (if a \<in> (\<lambda>ty. session_key ?u (ty @ ''_'' @ n)) `
         {TokenTypeSessionToken, TokenTypeAccessToken, TokenTypeRefreshToken} then None else im_sess t (w_mem w) a)"
    if "im_DeleteUserSession ?u n s1 = (b, s2)" for n b s2
    using im.delete_session[of s1 ?u n b s2] s1 that im.not_held_sess[of s2 a t] by auto
  show ?thesis
    using assms(2) g s1 del
    by (auto simp: handleRefreshTokenReuse_def compromised_def Let_def on_mem_def
        split: if_splits option.splits out.splits prod.splits)
qed

theorem refresh_reuse_contained_witness:
  "im_sess (200 * Second) (w_mem (snd fx_replayed)) (session_key ''basic_auth:u1'' (TokenTypeAccessToken @ ''_'' @ ''n9'')) = None \<and>
   im_sess (200 * Second) (w_mem (snd fx_replayed)) (session_key ''basic_auth:u1'' (TokenTypeAccessToken @ ''_'' @ ''n5'')) = Some ''x''"
proof -
  have r: "handleRefreshTokenReuse (im_http fx_config fx_tlibs fx_tstorage fx_env) (200 * Second) fx_refresh_parsed
      (fx_tworld\<lparr>w_mem := fx_family_store\<rparr>) = (Continue (), snd fx_replayed)" by code_simp
  have c: "compromised fx_tlibs (200 * Second) fx_refresh_parsed fx_family_store = Some ''n9''"
    "claims_session_key fx_refresh_parsed = ''basic_auth:u1''"
    "im_sess (200 * Second) fx_family_store (session_key ''basic_auth:u1'' (TokenTypeAccessToken @ ''_'' @ ''n5'')) = Some ''x''"
    by code_simp+
  have i: "im_inv (w_mem (fx_tworld\<lparr>w_mem := fx_family_store\<rparr>))" using fx_family_inv by simp
  have n: "session_key u (ty @ ''_'' @ ''n5'') \<noteq> session_key u (ty' @ ''_'' @ ''n9'')"
    if "ty' \<in> {TokenTypeSessionToken, TokenTypeAccessToken, TokenTypeRefreshToken}"
      "ty \<in> {TokenTypeSessionToken, TokenTypeAccessToken, TokenTypeRefreshToken}" for u ty ty'
    using session_key_inj[of u "ty @ ''_'' @ ''n5''" "ty' @ ''_'' @ ''n9''"] that by auto
  show ?thesis
    using refresh_reuse_contained[OF i r order.refl, where a = "session_key ''basic_auth:u1'' (TokenTypeAccessToken @ ''_'' @ ''n9'')"]
      refresh_reuse_contained[OF i r order.refl, where a = "session_key ''basic_auth:u1'' (TokenTypeAccessToken @ ''_'' @ ''n5'')"] c n
    by auto
qed

text \<open>
  C31. Machine tokens. The client_credentials grant signs claims for the authenticated account itself,
  with a non-empty list of scopes that all are allowed for it, the requested ones if any were named. The
  answer has no refresh and no ID token, and the token is registered, in the clear, under the account's
  own key until it expires.
\<close>

theorem client_credentials_issue:
  assumes "im_inv (w_mem w)"
    and "TokenHandler (im_http C L S E) now rnd rq w = (Some r, w')" "rs_status r = 200"
    and "rq_body rq = Some body" "effective_grant body = GrantTypeClientCredentials"
  shows "\<exists>client s1 t scopes m.
    ResolveClient (im_ctx C L S) E now (token_resolve_params rq body) (w_mem w) = (Resolved client, s1) \<and>
    scopes \<noteq> [] \<and> set scopes \<subseteq> set (ParsedAllowedScopes client) \<and>
    (Fields (TrimSpace (rb_Scope body)) = [] \<or> scopes = Fields (TrimSpace (rb_Scope body))) \<and>
    (cl_ID client \<noteq> [] \<longrightarrow> SignJWTToken C L m = Ok t \<and> claim_of m ''sub'' = CStr (cl_ID client) \<and>
      claim_of m ''scope'' = CStrs (Some scopes)) \<and>
    claim_of (rs_body r) ''access_token'' = CStr t \<and>
    claim_of (rs_body r) ''refresh_token'' = CNull \<and> claim_of (rs_body r) ''id_token'' = CNull \<and>
    (\<forall>u. Unix u < access_expiry now \<longrightarrow>
      im_sess u (w_mem w') (session_key (AuthRecipeMethodServiceAccount @ '':'' @ cl_ID client)
        (TokenTypeAccessToken @ ''_'' @ rnd_nonce rnd)) = Some t)"
proof -
  let ?H = "im_http C L S E"
  obtain b client w1 where b0: "rq_body rq = Some b"
    and res0: "on_mem (ResolveClient (im_ctx C L S) E now (token_resolve_params rq b)) w = (Resolved client, w1)"
    and d0: "dispatch ?H now rnd rq b client w1 = (Continue r, w')"
    using assms(2,3) by (rule im_TokenHandler(3))
  have b: "b = body" using b0 assms(4) by simp
  note res = res0[unfolded b] and d = d0[unfolded b]
  have i1: "im_inv (w_mem w1)" using cache_only_views(1)[OF resolve_cache_only(1)[OF res] assms(1)] .
  let ?cfg = "\<lambda>sc res. machine_config client sc (rq_host rq) (rnd_nonce rnd) res"
  obtain sc rs t w2 where gs: "granted_scopes client (TrimSpace (rb_Scope body)) = Continue sc"
    and ct: "CreateMachineAuthToken C L now (?cfg sc rs) = Ok t"
    and st: "store_session ?H now None (AuthRecipeMethodServiceAccount @ '':'' @ cl_ID client)
        (TokenTypeAccessToken @ ''_'' @ rnd_nonce rnd) (jt_Token t) (jt_ExpiresAt t) w1 = (Continue (), w2)"
    and w': "w_mem w' = w_mem w2"
    and r: "rs_body r = [(''access_token'', CStr (jt_Token t)), (''token_type'', CStr ''Bearer''),
                       (''expires_in'', CInt (expires_in now (jt_ExpiresAt t))), (''scope'', CStr (Join sc '' ''))]"
    using machine_Continue[OF d assms(5)] by blast
  have e: "jt_ExpiresAt t = access_expiry now"
    and sg: "cl_ID client \<noteq> [] \<Longrightarrow> SignJWTToken C L (machine_access_claims C now (?cfg sc rs)) = Ok (jt_Token t)"
    using machine_token[OF ct] by auto
  have "im_sess u (w_mem w') (session_key (AuthRecipeMethodServiceAccount @ '':'' @ cl_ID client)
        (TokenTypeAccessToken @ ''_'' @ rnd_nonce rnd)) = Some (jt_Token t)" if "Unix u < access_expiry now" for u
    using im_store_session[OF i1 st] that e w' by simp
  moreover have "ResolveClient (im_ctx C L S) E now (token_resolve_params rq body) (w_mem w) = (Resolved client, w_mem w1)"
    using res by (auto simp: on_mem_eq)
  moreover have "sc \<noteq> []" "set sc \<subseteq> set (ParsedAllowedScopes client)"
    "Fields (TrimSpace (rb_Scope body)) = [] \<or> sc = Fields (TrimSpace (rb_Scope body))"
    using granted_scopes_allowed[OF gs] by auto
  moreover have "claim_of (machine_access_claims C now (?cfg sc rs)) ''sub'' = CStr (cl_ID client)"
    "claim_of (machine_access_claims C now (?cfg sc rs)) ''scope'' = CStrs (Some sc)"
    by (simp_all add: machine_access_claims_def machine_config_def claim_eval)
  ultimately show ?thesis
    using sg r
    by (intro exI[of _ client] exI[of _ "w_mem w1"] exI[of _ "jt_Token t"] exI[of _ sc]
        exI[of _ "machine_access_claims C now (?cfg sc rs)"]) (simp add: claim_eval)
qed

theorem client_credentials_issue_witness:
  "\<exists>t. claim_of (rs_body (fx_answer fx_machine_issued)) ''access_token'' = CStr t"
  using client_credentials_issue[OF fx_tworld_inv fx_machine_200[unfolded fx_thttp_def] fx_ask_bodies(1,4)] by blast

text \<open>
  C32. Token requests keep the store well-formed and cost nobody else anything: after any request, whatever
  its outcome, the store invariant holds, and every OAuth state reads as before except the one under a
  presented authorization code, which may be gone.
\<close>

theorem token_request_store_invariant:
  assumes "im_inv (w_mem w)" "TokenHandler (im_http C L S E) now rnd rq w = (x, w')"
  shows "im_inv (w_mem w') \<and>
    (\<forall>t q. im_state t (w_mem w') q = im_state t (w_mem w) q \<or>
       im_state t (w_mem w') q = None \<and>
       (\<exists>body. rq_body rq = Some body \<and> effective_grant body = ''authorization_code'' \<and> q = TrimSpace (rb_Code body)))"
proof (cases "rq_body rq")
  case None
  then show ?thesis using assms by (auto simp: TokenHandler_def)
next
  case (Some body)
  show ?thesis
    using TokenHandler_keeps_states[OF assms(1) Some, of C L S E now rnd] assms(2) Some
    by (auto simp: keeps_states_def presented_code_def split: if_splits)
qed

theorem token_request_store_invariant_witness: "im_inv (w_mem (snd fx_redeemed))"
  using token_request_store_invariant[OF fx_tworld_inv fx_redeemed_200(1)[unfolded fx_thttp_def]] by blast

text \<open>
  C34. No authentication, no effect. When the client is refused, the answer is an error and neither a
  session nor a state of the store changes; a refused client_credentials request against a registered
  account leaves one audit event, any other refusal none.
\<close>

theorem refused_client_no_effect:
  assumes "im_inv (w_mem w)" "rq_body rq = Some body"
    and "ResolveClient (im_ctx C L S) E now (token_resolve_params rq body) (w_mem w) = (Refused c err, s1)"
    and "TokenHandler (im_http C L S E) now rnd rq w = (x, w')"
  shows "\<exists>r. x = Some r \<and> rs_status r \<in> {400, 401, 503} \<and>
    (\<forall>t a. im_sess t (w_mem w') a = im_sess t (w_mem w) a) \<and>
    (\<forall>t q. im_state t (w_mem w') q = im_state t (w_mem w) q) \<and>
    length (w_audit w') \<le> length (w_audit w) + 1 \<and>
    (w_audit w' \<noteq> w_audit w \<longrightarrow> effective_grant body = GrantTypeClientCredentials \<and> err = ErrInvalidClient \<and>
      (\<exists>cl. c = Some cl \<and> cl_ID cl \<noteq> []))"
proof -
  have res: "on_mem (ResolveClient (im_ctx C L S) E now (token_resolve_params rq body)) w = (Refused c err, w\<lparr>w_mem := s1\<rparr>)"
    using assms(3) by (simp add: on_mem_def)
  note co = cache_only_views[OF resolve_cache_only(1)[OF res]]
  show ?thesis
  proof (cases "effective_grant body \<in> set supported_grants")
    case False
    then show ?thesis using assms(2,4) by (auto simp: TokenHandler_def)
  next
    case True
    obtain r w2 where e: "respondClientAuthError rq err c (effective_grant body = GrantTypeClientCredentials)
        (w\<lparr>w_mem := s1\<rparr>) = (r, w2)" by fastforce
    have x: "x = Some r" "w' = w2" using True assms(2,4) res e by (auto simp: TokenHandler_def)
    have m: "w_mem w2 = s1" using respondClientAuthError_status[OF e] by simp
    show ?thesis
      using respondClientAuthError_spec[OF e] x m co(2,4) by auto
  qed
qed

theorem refused_client_no_effect_witness:
  "\<exists>r w'. TokenHandler (im_http fx_config fx_tlibs fx_tstorage fx_env) (100 * Second) fx_randoms
      (fx_ask fx_guess_body) fx_tworld = (Some r, w') \<and> rs_status r \<in> {400, 401, 503} \<and>
    (\<forall>t q. im_state t (w_mem w') q = im_state t (w_mem fx_tworld) q)"
proof -
  have "ResolveClient (im_ctx fx_config fx_tlibs fx_tstorage) fx_env (100 * Second)
      (token_resolve_params (fx_ask fx_guess_body) fx_guess_body) (w_mem fx_tworld) =
    (Refused (Some fx_machine) ErrInvalidClient, fx_tstore)" by code_simp
  from refused_client_no_effect[OF fx_tworld_inv fx_ask_bodies(1) this prod.collapse[symmetric]]
  show ?thesis by (metis prod.collapse)
qed

text \<open>
  A stored state without a separator crashes the token endpoint. \<open>/authorize\<close> also stores bare
  nonces under the client's \<open>state\<close> value; presented as a code with the nonce as verifier, such an entry
  passes every check and the handler panics on the missing second field.
\<close>

theorem bare_state_panics:
  "fst (TokenHandler fx_thttp (100 * Second) fx_randoms
     (fx_ask (fx_code_body\<lparr>rb_Code := ''st'', rb_CodeVerifier := ''nonce''\<rparr>))
     (fx_tworld\<lparr>w_mem := snd (im_SetState 0 ''st'' ''nonce'' fx_tstore)\<rparr>)) = None"
  by code_simp

end
