(* ===== verification/Admin_Auth.thy ===== *)
theory Admin_Auth
  imports Oauth_Http
begin

text \<open>
  Authentication of the super admin: the throttled comparison of the admin secret
  (\<open>token/admin_lockout.go\<close>), the server-side admin sessions (\<open>token/admin_session.go\<close>), the
  decision how a caller authenticated (\<open>token/admin_token.go\<close>) and the service operations that
  open, extend and end a session (\<open>service/admin_auth.go\<close>).
\<close>

section \<open>The admin secret\<close>

definition adminSecretMaxFailedAttempts :: int where
  "adminSecretMaxFailedAttempts = 10"

definition adminSecretLockoutWindowSeconds :: int where
  "adminSecretLockoutWindowSeconds = 15 * 60"

definition adminSecretLockoutPrefix :: string where
  "adminSecretLockoutPrefix = ''admin_secret_failed_attempts:''"

definition adminSecretLockoutUnknownIP :: string where
  "adminSecretLockoutUnknownIP = ''unknown''"

definition lock_key :: "string \<Rightarrow> string" where
  "lock_key clientIP =
     adminSecretLockoutPrefix @ (if clientIP = [] then adminSecretLockoutUnknownIP else clientIP)"

text \<open>The comparison, with what follows it: a failure is counted, a success clears the counter.\<close>

definition compare_admin_secret ::
    "config \<Rightarrow> 's mem_ops \<Rightarrow> instant \<Rightarrow> string \<Rightarrow> string \<Rightarrow> 's \<Rightarrow> (bool \<times> bool) option \<times> 's" where
  "compare_admin_secret C M now lockKey candidate s =
     (if candidate \<noteq> c_AdminSecret C then
       (case m_IncrementCache M now lockKey adminSecretLockoutWindowSeconds s of
          (Panic, s1) \<Rightarrow> (None, s1)
        | (_, s1) \<Rightarrow> (Some (False, False), s1))
      else
       (case m_DeleteCacheByPrefix M lockKey s of
          (Panic, s1) \<Rightarrow> (None, s1)
        | (_, s1) \<Rightarrow> (Some (True, False), s1)))"

text \<open>
  The results are \<open>valid\<close> and \<open>locked\<close>; \<open>None\<close> is a panic of the store. The store is \<open>None\<close> for a
  provider built without one.
\<close>

definition VerifyAdminSecret ::
    "config \<Rightarrow> 's mem_ops option \<Rightarrow> instant \<Rightarrow> string \<Rightarrow> string \<Rightarrow> 's \<Rightarrow> (bool \<times> bool) option \<times> 's" where
  "VerifyAdminSecret C M now clientIP candidate s =
     (if c_AdminSecret C = [] \<or> candidate = [] then (Some (False, False), s)
      else
       (case M of
          None \<Rightarrow> (Some (candidate = c_AdminSecret C, False), s)
        | Some M \<Rightarrow>
            (case m_GetCache M now (lock_key clientIP) s of
               (Panic, s1) \<Rightarrow> (None, s1)
             | (Err _, s1) \<Rightarrow> compare_admin_secret C M now (lock_key clientIP) candidate s1
             | (Ok spent, s1) \<Rightarrow>
                 if fst (ParseInt spent) \<ge> adminSecretMaxFailedAttempts then (Some (False, True), s1)
                 else compare_admin_secret C M now (lock_key clientIP) candidate s1)))"

section \<open>Admin sessions\<close>

definition adminSessionCachePrefix :: string where
  "adminSessionCachePrefix = ''admin_session:''"

definition AdminSessionTTLSeconds :: int where
  "AdminSessionTTLSeconds = 8 * 3600"

text \<open>\<open>rnd\<close> are the 32 random bytes, \<open>None\<close> when the generator fails.\<close>

definition NewAdminSession :: "'s mem_ops \<Rightarrow> instant \<Rightarrow> string option \<Rightarrow> 's \<Rightarrow> string out \<times> 's" where
  "NewAdminSession M now rnd s =
     (case rnd of
        None \<Rightarrow> (Err ''rand'', s)
      | Some bytes \<Rightarrow>
          let sessionID = b64_rawurl bytes in
          (case m_SetCache M now (adminSessionCachePrefix @ sessionID) ''1'' AdminSessionTTLSeconds s of
             (Panic, s1) \<Rightarrow> (Panic, s1)
           | (Err e, s1) \<Rightarrow> (Err e, s1)
           | (Ok _, s1) \<Rightarrow> (Ok sessionID, s1)))"

definition ValidateAdminSession :: "'s mem_ops \<Rightarrow> instant \<Rightarrow> string \<Rightarrow> 's \<Rightarrow> unit out \<times> 's" where
  "ValidateAdminSession M now sessionID s =
     (if sessionID = [] then (Err ''unauthorized'', s)
      else
       (case m_GetCache M now (adminSessionCachePrefix @ sessionID) s of
          (Panic, s1) \<Rightarrow> (Panic, s1)
        | (Err _, s1) \<Rightarrow> (Err ''unauthorized'', s1)
        | (Ok val, s1) \<Rightarrow> if val = [] then (Err ''unauthorized'', s1) else (Ok (), s1)))"

definition RefreshAdminSession :: "'s mem_ops \<Rightarrow> instant \<Rightarrow> string \<Rightarrow> 's \<Rightarrow> unit out \<times> 's" where
  "RefreshAdminSession M now sessionID s =
     (case ValidateAdminSession M now sessionID s of
        (Ok _, s1) \<Rightarrow> m_SetCache M now (adminSessionCachePrefix @ sessionID) ''1'' AdminSessionTTLSeconds s1
      | (e, s1) \<Rightarrow> (e, s1))"

definition RevokeAdminSession :: "'s mem_ops \<Rightarrow> string \<Rightarrow> 's \<Rightarrow> unit out \<times> 's" where
  "RevokeAdminSession M sessionID s =
     (if sessionID = [] then (Ok (), s) else m_DeleteCacheByPrefix M (adminSessionCachePrefix @ sessionID) s)"

section \<open>How the caller authenticated\<close>

text \<open>The admin cookie as sent, the secret header, and \<open>utils.GetIP\<close>.\<close>

record admin_request =
  ar_Cookie :: "string option"
  ar_Secret :: string
  ar_IP :: string

definition GetAdminCookie :: "admin_request \<Rightarrow> string option" where
  "GetAdminCookie rq = (case ar_Cookie rq of None \<Rightarrow> None | Some v \<Rightarrow> QueryUnescape v)"

definition GetAdminAuthToken :: "'s ctx \<Rightarrow> instant \<Rightarrow> admin_request \<Rightarrow> 's \<Rightarrow> string out \<times> 's" where
  "GetAdminAuthToken X now rq s =
     (case GetAdminCookie rq of
        None \<Rightarrow> (Err ''unauthorized'', s)
      | Some sessionID \<Rightarrow>
          if sessionID = [] then (Err ''unauthorized'', s)
          else
           (case ValidateAdminSession (x_M X) now sessionID s of
              (Panic, s1) \<Rightarrow> (Panic, s1)
            | (Err _, s1) \<Rightarrow> (Err ''unauthorized'', s1)
            | (Ok _, s1) \<Rightarrow> (Ok sessionID, s1)))"

definition AdminAuthMode :: "'s ctx \<Rightarrow> instant \<Rightarrow> admin_request \<Rightarrow> 's \<Rightarrow> string option \<times> 's" where
  "AdminAuthMode X now rq s =
     (case GetAdminAuthToken X now rq s of
        (Panic, s1) \<Rightarrow> (None, s1)
      | (r, s1) \<Rightarrow>
          if (case r of Ok token \<Rightarrow> token \<noteq> [] | _ \<Rightarrow> False) then (Some ''admin_session'', s1)
          else if c_DisableAdminHeaderAuth (x_C X) then (Some [], s1)
          else if c_AdminSecret (x_C X) = [] then (Some [], s1)
          else if ar_Secret rq = [] then (Some [], s1)
          else
           (case VerifyAdminSecret (x_C X) (Some (x_M X)) now (ar_IP rq) (ar_Secret rq) s1 of
              (None, s2) \<Rightarrow> (None, s2)
            | (Some (valid, _), s2) \<Rightarrow> (Some (if valid then ''shared_secret'' else []), s2)))"

definition IsSuperAdmin :: "'s ctx \<Rightarrow> instant \<Rightarrow> admin_request \<Rightarrow> 's \<Rightarrow> bool option \<times> 's" where
  "IsSuperAdmin X now rq s =
     (case AdminAuthMode X now rq s of (m, s1) \<Rightarrow> (map_option (\<lambda>mode. mode \<noteq> []) m, s1))"

section \<open>The service operations\<close>

datatype ErrorKind =
    KindInternal | KindInvalidArgument | KindUnauthenticated | KindPermissionDenied | KindNotFound
  | KindFailedPrecondition | KindTooManyRequests | KindAlreadyExists

datatype 'a svc = SOk 'a | SErr ErrorKind string | SPanic

text \<open>
  \<open>rm_Request\<close> is \<open>None\<close> for metadata without an HTTP request; \<open>rm_superAdmin\<close> says whether the
  context already holds a super-admin principal.
\<close>

record RequestMetadata =
  rm_Request :: "admin_request option"
  rm_IPAddress :: string
  rm_UserAgent :: string
  rm_Protocol :: string
  rm_superAdmin :: bool

definition requireSuperAdmin :: "'s ctx \<Rightarrow> instant \<Rightarrow> RequestMetadata \<Rightarrow> 's \<Rightarrow> unit svc \<times> 's" where
  "requireSuperAdmin X now meta s =
     (if rm_superAdmin meta then (SOk (), s)
      else
       (case rm_Request meta of
          None \<Rightarrow> (SPanic, s)
        | Some rq \<Rightarrow>
            (case IsSuperAdmin X now rq s of
               (None, s1) \<Rightarrow> (SPanic, s1)
             | (Some b, s1) \<Rightarrow> (if b then SOk () else SErr KindUnauthenticated ''unauthorized'', s1))))"

definition adminSessionID :: "RequestMetadata \<Rightarrow> string option" where
  "adminSessionID meta = (case rm_Request meta of None \<Rightarrow> None | Some rq \<Rightarrow> GetAdminCookie rq)"

text \<open>An event of the admin operations; \<open>LogEvent\<close> folds the protocol into the metadata.\<close>

definition admin_event :: "string \<Rightarrow> RequestMetadata \<Rightarrow> audit_event" where
  "admin_event action meta =
     \<lparr>ev_Action = action, ev_ActorID = [], ev_ActorType = ''admin'', ev_ActorEmail = [],
      ev_ResourceType = ''admin_session'', ev_ResourceID = [],
      ev_Metadata = (if rm_Protocol meta = [] then MText [] else MJson [(''protocol'', rm_Protocol meta)]),
      ev_IPAddress = rm_IPAddress meta, ev_UserAgent = rm_UserAgent meta\<rparr>"

text \<open>A successful operation yields its message and the value of the admin cookie it sets.\<close>

definition AdminLogin ::
    "'s ctx \<Rightarrow> instant \<Rightarrow> string option \<Rightarrow> RequestMetadata \<Rightarrow> string \<Rightarrow> 's world \<Rightarrow> (string \<times> string) svc \<times> 's world" where
  "AdminLogin X now rnd meta adminSecret w =
     (case on_mem (VerifyAdminSecret (x_C X) (Some (x_M X)) now (rm_IPAddress meta) adminSecret) w of
        (None, w1) \<Rightarrow> (SPanic, w1)
      | (Some (valid, locked), w1) \<Rightarrow>
          if locked
          then (SErr KindTooManyRequests ''too many failed attempts, please try again later'',
                log_event (admin_event ''admin.login_failed'' meta) w1)
          else if \<not> valid
          then (SErr KindUnauthenticated ''invalid admin secret'',
                log_event (admin_event ''admin.login_failed'' meta) w1)
          else
           (case on_mem (NewAdminSession (x_M X) now rnd) w1 of
              (Panic, w2) \<Rightarrow> (SPanic, w2)
            | (Err e, w2) \<Rightarrow> (SErr KindInternal e, w2)
            | (Ok sessionID, w2) \<Rightarrow>
                (SOk (''admin logged in successfully'', sessionID),
                 log_event (admin_event ''admin.login_success'' meta) w2)))"

definition AdminLogout ::
    "'s ctx \<Rightarrow> instant \<Rightarrow> RequestMetadata \<Rightarrow> 's world \<Rightarrow> (string \<times> string) svc \<times> 's world" where
  "AdminLogout X now meta w =
     (case on_mem (requireSuperAdmin X now meta) w of
        (SPanic, w1) \<Rightarrow> (SPanic, w1)
      | (SErr k e, w1) \<Rightarrow> (SErr k e, w1)
      | (SOk _, w1) \<Rightarrow>
          (case (case adminSessionID meta of
                   Some sessionID \<Rightarrow>
                     if sessionID \<noteq> [] then on_mem (RevokeAdminSession (x_M X) sessionID) w1 else (Ok (), w1)
                 | None \<Rightarrow> (Ok (), w1)) of
             (Panic, w2) \<Rightarrow> (SPanic, w2)
           | (_, w2) \<Rightarrow>
               (SOk (''admin logged out successfully'', []), log_event (admin_event ''admin.logout'' meta) w2)))"

definition new_session_reply ::
    "'s ctx \<Rightarrow> instant \<Rightarrow> string option \<Rightarrow> 's world \<Rightarrow> (string \<times> string) svc \<times> 's world" where
  "new_session_reply X now rnd w =
     (case on_mem (NewAdminSession (x_M X) now rnd) w of
        (Panic, w1) \<Rightarrow> (SPanic, w1)
      | (Err e, w1) \<Rightarrow> (SErr KindInternal e, w1)
      | (Ok sessionID, w1) \<Rightarrow> (SOk (''admin session refreshed successfully'', sessionID), w1))"

definition AdminSession ::
    "'s ctx \<Rightarrow> instant \<Rightarrow> string option \<Rightarrow> RequestMetadata \<Rightarrow> 's world \<Rightarrow> (string \<times> string) svc \<times> 's world" where
  "AdminSession X now rnd meta w =
     (case on_mem (requireSuperAdmin X now meta) w of
        (SPanic, w1) \<Rightarrow> (SPanic, w1)
      | (SErr k e, w1) \<Rightarrow> (SErr k e, w1)
      | (SOk _, w1) \<Rightarrow>
          (case adminSessionID meta of
             None \<Rightarrow> new_session_reply X now rnd w1
           | Some sessionID \<Rightarrow>
               if sessionID = [] then new_session_reply X now rnd w1
               else
                (case on_mem (RefreshAdminSession (x_M X) now sessionID) w1 of
                   (Panic, w2) \<Rightarrow> (SPanic, w2)
                 | (Err _, w2) \<Rightarrow> new_session_reply X now rnd w2
                 | (Ok _, w2) \<Rightarrow> (SOk (''admin session refreshed successfully'', sessionID), w2))))"

section \<open>The throttle over any cache that keeps the contract\<close>

definition counter_value :: "string option \<Rightarrow> int" where
  "counter_value v = (case v of None \<Rightarrow> 0 | Some s \<Rightarrow> fst (ParseInt s))"

lemma ParseInt_Nil: "fst (ParseInt []) = 0"
  by code_simp

lemma counter_value_read: "fst (ParseInt (case v of Some s \<Rightarrow> s | None \<Rightarrow> [])) = counter_value v"
  by (simp add: counter_value_def ParseInt_Nil split: option.split)

text \<open>Guesses in the order they arrive: time, client address, candidate.\<close>

fun verify_all ::
    "config \<Rightarrow> 's mem_ops \<Rightarrow> (instant \<times> string \<times> string) list \<Rightarrow> 's \<Rightarrow> (bool \<times> bool) option list \<times> 's" where
  "verify_all C M [] s = ([], s)"
| "verify_all C M ((now, ip, candidate) # gs) s =
     (case VerifyAdminSecret C (Some M) now ip candidate s of
        (r, s1) \<Rightarrow> (case verify_all C M gs s1 of (rs, s2) \<Rightarrow> (r # rs, s2)))"

text \<open>How many wrong candidates from the address \<open>ip\<close> were compared with the secret.\<close>

fun wrong_guesses :: "string \<Rightarrow> (instant \<times> string \<times> string) list \<Rightarrow> (bool \<times> bool) option list \<Rightarrow> nat" where
  "wrong_guesses ip ((now, i, candidate) # gs) (r # rs) =
     (if lock_key i = lock_key ip \<and> candidate \<noteq> [] \<and> r = Some (False, False) then 1 else 0)
     + wrong_guesses ip gs rs"
| "wrong_guesses ip _ _ = 0"

definition within_window :: "int \<Rightarrow> (instant \<times> string \<times> string) list \<Rightarrow> bool" where
  "within_window start gs \<longleftrightarrow> sorted (map fst gs) \<and>
     list_all (\<lambda>(now, _). start \<le> Unix now \<and> Unix now \<le> start + adminSecretLockoutWindowSeconds) gs"

text \<open>No guess with the right secret comes from an address whose key is a prefix of that of \<open>ip\<close>.\<close>

definition not_reset :: "config \<Rightarrow> string \<Rightarrow> (instant \<times> string \<times> string) list \<Rightarrow> bool" where
  "not_reset C ip gs \<longleftrightarrow>
     list_all (\<lambda>(_, i, candidate). candidate = c_AdminSecret C \<longrightarrow> \<not> HasPrefix (lock_key ip) (lock_key i)) gs"

context cache_contract
begin

lemma verify_admin_secret:
  assumes "invar s" "VerifyAdminSecret C (Some M) now ip candidate s = (r, s')"
    and "c_AdminSecret C \<noteq> []" "candidate \<noteq> []"
  shows "invar s' \<and>
    (if counter_value (cv now s (lock_key ip)) \<ge> adminSecretMaxFailedAttempts
     then r = Some (False, True) \<and> (\<forall>t q. now \<le> t \<longrightarrow> cv t s' q = cv t s q)
     else if candidate = c_AdminSecret C
     then r = Some (True, False) \<and>
       (\<forall>t q. now \<le> t \<longrightarrow> cv t s' q = (if HasPrefix q (lock_key ip) then None else cv t s q))
     else r = Some (False, False) \<and>
       (\<forall>t q. now \<le> t \<longrightarrow> cv t s' q =
          (if q = lock_key ip
           then (if Unix t \<le> add64 (Unix now) adminSecretLockoutWindowSeconds
                 then Some (FormatInt (add64 (counter_value (cv now s (lock_key ip))) 1)) else None)
           else cv t s q)))"
proof -
  obtain g s1 where g: "m_GetCache M now (lock_key ip) s = (g, s1)" by fastforce
  note G = get_cache[OF assms(1) g]
  then have s1: "invar s1" and cv1: "\<And>t q. now \<le> t \<Longrightarrow> cv t s1 q = cv t s q" by auto
  obtain n s2 where n: "m_IncrementCache M now (lock_key ip) adminSecretLockoutWindowSeconds s1 = (n, s2)" by fastforce
  have N: "invar s2" "n = Ok (add64 (counter_value (cv now s (lock_key ip))) 1)"
    "\<And>t q. now \<le> t \<Longrightarrow> cv t s2 q =
       (if q = lock_key ip
        then (if Unix t \<le> add64 (Unix now) adminSecretLockoutWindowSeconds
              then Some (FormatInt (add64 (counter_value (cv now s (lock_key ip))) 1)) else None)
        else cv t s q)"
    using increment_cache[OF s1 n, folded counter_value_def] by (simp_all add: cv1)
  obtain d s3 where d: "m_DeleteCacheByPrefix M (lock_key ip) s1 = (d, s3)" by fastforce
  have D: "invar s3" "d = Ok ()"
    "\<And>t q. now \<le> t \<Longrightarrow> cv t s3 q = (if HasPrefix q (lock_key ip) then None else cv t s q)"
    using delete_by_prefix[OF s1 d] by (simp_all add: cv1)
  have r: "(r, s') = (if counter_value (cv now s (lock_key ip)) \<ge> adminSecretMaxFailedAttempts then (Some (False, True), s1)
      else if candidate = c_AdminSecret C then (Some (True, False), s3) else (Some (False, False), s2))"
    using assms(2-4) G N(2) D(2) g n d
    by (auto simp: VerifyAdminSecret_def compare_admin_secret_def counter_value_read split: if_splits)
  then show ?thesis using s1 cv1 N(1,3) D(1,3) by (simp split: if_splits)
qed

text \<open>A guess of an address leaves the counter of another one alone, unless it resets it.\<close>

lemma counter_after:
  assumes "invar s" "VerifyAdminSecret C (Some M) now i c s = (r, s')" "c_AdminSecret C \<noteq> []"
    and "c = c_AdminSecret C \<Longrightarrow> \<not> HasPrefix (lock_key ip) (lock_key i)"
    and "0 \<le> k" "k \<le> counter_value (cv now s (lock_key ip))" "k \<le> counter_value (cv t s (lock_key ip))"
    and "now \<le> t" "Unix t \<le> Unix now + adminSecretLockoutWindowSeconds" "0 \<le> Unix now" "Unix now < 2 ^ 62 + 900"
  shows "invar s' \<and>
    k + (if lock_key i = lock_key ip \<and> c \<noteq> [] \<and> r = Some (False, False) then 1 else 0)
      \<le> counter_value (cv t s' (lock_key ip))"
proof (cases "c = []")
  case True
  then show ?thesis using assms(1,2,7) by (simp add: VerifyAdminSecret_def)
next
  case False
  note V = verify_admin_secret[OF assms(1,2,3) False]
  let ?a = "counter_value (cv now s (lock_key ip))"
  have u: "Unix t \<le> add64 (Unix now) adminSecretLockoutWindowSeconds"
    using assms(9-11) by (subst add64_id) (simp_all add: adminSecretLockoutWindowSeconds_def in64_def)
  have a: "add64 ?a 1 = ?a + 1" "counter_value (Some (FormatInt (?a + 1))) = ?a + 1"
    if "?a < adminSecretMaxFailedAttempts"
    using that assms(5,6)
    by (simp_all add: adminSecretMaxFailedAttempts_def add64_id in64_def counter_value_def ParseInt_FormatInt)
  show ?thesis
    using V assms(4,6-8) u a by (auto split: if_splits)
qed

text \<open>The number of compared wrong guesses within a window is bounded.\<close>

lemma guess_budget:
  assumes "invar s" "c_AdminSecret C \<noteq> []" "within_window start gs" "not_reset C ip gs"
    and "0 \<le> start" "start < 2 ^ 62" "0 \<le> k" "list_all (\<lambda>g. since \<le> fst g) gs"
    and "\<And>t. since \<le> t \<Longrightarrow> Unix t \<le> start + adminSecretLockoutWindowSeconds \<Longrightarrow>
      k \<le> counter_value (cv t s (lock_key ip))"
    and "verify_all C M gs s = (rs, s')"
  shows "int (wrong_guesses ip gs rs) + k \<le> max k adminSecretMaxFailedAttempts"
  using assms
proof (induction gs arbitrary: s k rs since)
  case Nil
  then show ?case by simp
next
  case (Cons g gs)
  obtain now i c where g: "g = (now, i, c)" by (cases g)
  let ?key = "lock_key ip" and ?e = "start + adminSecretLockoutWindowSeconds"
  obtain r s1 where v: "VerifyAdminSecret C (Some M) now i c s = (r, s1)" by fastforce
  obtain rs' where va: "verify_all C M gs s1 = (rs', s')" and rs: "rs = r # rs'"
    using Cons.prems(10) v unfolding g by (auto split: prod.splits)
  have win: "within_window start gs" "start \<le> Unix now" "Unix now \<le> ?e" "list_all (\<lambda>g. now \<le> fst g) gs"
    using Cons.prems(3) unfolding g by (auto simp: within_window_def list_all_iff)
  have nr: "not_reset C ip gs" "c = c_AdminSecret C \<Longrightarrow> \<not> HasPrefix ?key (lock_key i)" and b: "since \<le> now"
    using Cons.prems(4,8) unfolding g by (auto simp: not_reset_def)
  let ?d = "if lock_key i = ?key \<and> c \<noteq> [] \<and> r = Some (False, False) then 1 else 0 :: int"
  have step: "invar s1 \<and> k + ?d \<le> counter_value (cv t s1 ?key)" if "now \<le> t" "Unix t \<le> ?e" for t
  proof (rule counter_after[OF Cons.prems(1) v Cons.prems(2) nr(2) Cons.prems(7) _ _ that(1)])
    show "k \<le> counter_value (cv now s ?key)" "k \<le> counter_value (cv t s ?key)"
      using Cons.prems(9) b win(3) that by auto
  qed (use Cons.prems(5,6) win(2,3) that(2) in \<open>simp_all add: adminSecretLockoutWindowSeconds_def\<close>)
  have IH: "int (wrong_guesses ip gs rs') + (k + ?d) \<le> max (k + ?d) adminSecretMaxFailedAttempts"
    using Cons.prems(2,5-7) win nr step by (intro Cons.IH[OF _ _ _ _ _ _ _ win(4) _ va]) auto
  have "k < adminSecretMaxFailedAttempts" if "?d = 1"
    using verify_admin_secret[OF Cons.prems(1) v Cons.prems(2)] Cons.prems(9)[OF b win(3)] that
    by (auto split: if_splits)
  then show ?case using IH unfolding g rs by (auto split: if_splits)
qed

text \<open>A session is live from its creation to the end of its TTL, or until it is revoked.\<close>

lemma new_session:
  assumes "invar s" "NewAdminSession M now rnd s = (Ok sid, s')" "0 \<le> Unix now" "Unix now < 2 ^ 62"
  shows "invar s' \<and> (\<exists>bytes. rnd = Some bytes \<and> sid = b64_rawurl bytes) \<and>
    (\<forall>t. cv t s' (adminSessionCachePrefix @ sid) =
       (if Unix t \<le> Unix now + AdminSessionTTLSeconds then Some ''1'' else None))"
proof -
  obtain bytes where b: "rnd = Some bytes" using assms(2) by (cases rnd) (auto simp: NewAdminSession_def)
  obtain r where r: "m_SetCache M now (adminSessionCachePrefix @ b64_rawurl bytes) ''1'' AdminSessionTTLSeconds s = (r, s')"
    and sid: "sid = b64_rawurl bytes"
    using assms(2) b by (auto simp: NewAdminSession_def Let_def split: prod.splits out.splits)
  have "add64 (Unix now) AdminSessionTTLSeconds = Unix now + AdminSessionTTLSeconds"
    using assms(3,4) by (intro add64_id) (simp add: AdminSessionTTLSeconds_def in64_def)
  then show ?thesis using set_cache[OF assms(1) r] b sid by simp
qed

lemma validate_session:
  assumes "invar s" "ValidateAdminSession M now sid s = (r, s')"
  shows "invar s' \<and> (\<forall>t q. now \<le> t \<longrightarrow> cv t s' q = cv t s q) \<and>
    r = (if sid \<noteq> [] \<and> cv now s (adminSessionCachePrefix @ sid) \<notin> {None, Some []} then Ok () else Err ''unauthorized'')"
proof (cases "sid = []")
  case True
  then show ?thesis using assms by (simp add: ValidateAdminSession_def)
next
  case False
  obtain g s1 where g: "m_GetCache M now (adminSessionCachePrefix @ sid) s = (g, s1)" by fastforce
  show ?thesis
    using get_cache[OF assms(1) g] assms(2) False g
    by (auto simp: ValidateAdminSession_def split: if_splits option.splits)
qed

text \<open>With the cookie of a session and no secret header, the mode is decided by the session.\<close>

lemma cookie_mode:
  assumes "invar s" "x_M X = M" "QueryUnescape c = Some sid" "sid \<noteq> []"
  shows "fst (AdminAuthMode X now \<lparr>ar_Cookie = Some c, ar_Secret = [], ar_IP = ip\<rparr> s) =
    Some (if cv now s (adminSessionCachePrefix @ sid) \<notin> {None, Some []} then ''admin_session'' else [])"
proof -
  obtain r s1 where v: "ValidateAdminSession M now sid s = (r, s1)" by fastforce
  show ?thesis
    using validate_session[OF assms(1) v] v assms(2-4)
    by (auto simp: AdminAuthMode_def GetAdminAuthToken_def GetAdminCookie_def)
qed

text \<open>Authenticating never touches a session entry.\<close>

lemma verify_keeps_sessions:
  assumes "invar s" "VerifyAdminSecret C (Some M) now ip candidate s = (r, s')"
  shows "invar s' \<and> (\<forall>t q. now \<le> t \<longrightarrow> cv t s' (adminSessionCachePrefix @ q) = cv t s (adminSessionCachePrefix @ q))"
proof (cases "c_AdminSecret C = [] \<or> candidate = []")
  case True
  then show ?thesis using assms by (auto simp: VerifyAdminSecret_def)
next
  case False
  have k: "adminSessionCachePrefix @ q \<noteq> lock_key ip" "\<not> HasPrefix (adminSessionCachePrefix @ q) (lock_key ip)" for q
    by (auto simp: adminSessionCachePrefix_def lock_key_def adminSecretLockoutPrefix_def HasPrefix_def)
  show ?thesis
    using verify_admin_secret[OF assms] False k by (auto split: if_splits)
qed

lemma mode_keeps_sessions:
  assumes "invar s" "x_M X = M" "AdminAuthMode X now rq s = (m, s')"
  shows "invar s' \<and> (\<forall>t q. now \<le> t \<longrightarrow> cv t s' (adminSessionCachePrefix @ q) = cv t s (adminSessionCachePrefix @ q))"
proof -
  obtain r s1 where g: "GetAdminAuthToken X now rq s = (r, s1)" by fastforce
  have 1: "invar s1 \<and> (\<forall>t q. now \<le> t \<longrightarrow> cv t s1 q = cv t s q)"
    using g validate_session[OF assms(1)] assms(1,2)
    by (auto simp: GetAdminAuthToken_def split: option.splits if_splits prod.splits out.splits)
  obtain v s2 where v: "VerifyAdminSecret (x_C X) (Some M) now (ar_IP rq) (ar_Secret rq) s1 = (v, s2)" by fastforce
  have "s' = s1 \<or> s' = s2"
    using assms(2,3) g v by (auto simp: AdminAuthMode_def split: out.splits if_splits option.splits)
  then show ?thesis using 1 verify_keeps_sessions[OF _ v] by auto
qed

lemma logout_revokes:
  assumes "invar (w_mem w)" "x_M X = M" "AdminLogout X now meta w = (SOk r, w')"
    and "adminSessionID meta = Some sid" "sid \<noteq> []"
  shows "invar (w_mem w') \<and> (\<forall>t q. now \<le> t \<longrightarrow> cv t (w_mem w') (adminSessionCachePrefix @ q) =
    (if HasPrefix (adminSessionCachePrefix @ q) (adminSessionCachePrefix @ sid) then None
     else cv t (w_mem w) (adminSessionCachePrefix @ q)))"
proof -
  obtain a s1 where q: "requireSuperAdmin X now meta (w_mem w) = (a, s1)" by fastforce
  have 1: "invar s1 \<and> (\<forall>t q. now \<le> t \<longrightarrow> cv t s1 (adminSessionCachePrefix @ q) = cv t (w_mem w) (adminSessionCachePrefix @ q))"
    using q mode_keeps_sessions[OF assms(1,2)] assms(1)
    by (auto simp: requireSuperAdmin_def IsSuperAdmin_def split: if_splits option.splits prod.splits)
  obtain d s2 where d: "m_DeleteCacheByPrefix M (adminSessionCachePrefix @ sid) s1 = (d, s2)" by fastforce
  have "w_mem w' = s2"
    using assms(2-5) q d by (auto simp: AdminLogout_def on_mem_def RevokeAdminSession_def split: svc.splits out.splits)
  then show ?thesis using delete_by_prefix[OF _ d] 1 by simp
qed

end

section \<open>Session handles\<close>

lemma QueryUnescape_plain: "\<lbrakk>CHR ''%'' \<notin> set s; CHR ''+'' \<notin> set s\<rbrakk> \<Longrightarrow> QueryUnescape s = Some s"
  by (induction s) auto

lemma b64_vals_None: "c \<in> set s \<Longrightarrow> b64_val c = None \<Longrightarrow> b64_vals s = None"
  by (induction s) (auto split: option.splits)

lemma b64_rawurl_plain: "CHR ''%'' \<notin> set (b64_rawurl s)" "CHR ''+'' \<notin> set (b64_rawurl s)"
proof -
  have "c \<notin> set (b64_rawurl s)" if "b64_val c = None" "c \<noteq> CHR 0x0A" "c \<noteq> CHR 0x0D" for c
    using b64_decode_encode[of s] b64_vals_None[OF _ that(1)] that(2,3) by (fastforce simp: b64_decode_def)
  moreover have "b64_val (CHR ''%'') = None" "b64_val (CHR ''+'') = None" by code_simp+
  ultimately show "CHR ''%'' \<notin> set (b64_rawurl s)" "CHR ''+'' \<notin> set (b64_rawurl s)" by simp_all
qed

lemma length_b64_rawurl: "length (b64_rawurl s) = (length s * 4 + 2) div 3"
  by (induction s rule: b64_rawurl.induct) (simp_all add: Let_def)

text \<open>Handles of the same number of random bytes are not prefixes of each other.\<close>

lemma session_handles_apart:
  assumes "length a = length b" "HasPrefix (p @ b64_rawurl a) (p @ b64_rawurl b)"
  shows "a = b"
proof -
  have "b64_rawurl a = b64_rawurl b"
    using assms length_b64_rawurl[of a] length_b64_rawurl[of b] by (auto simp: HasPrefix_def prefix_def)
  then show ?thesis using b64_decode_encode by (metis option.inject)
qed

section \<open>Properties\<close>


definition fx_guesses :: "(instant \<times> string \<times> string) list" where
  "fx_guesses = map (\<lambda>k. (int k * Second, ''9.9.9.9'', ''guess'')) [1..<13]"


text \<open>
  What a verification does to the counters: a locked address is refused whatever it presents; a
  correct secret clears the counter of its address and of every address its own is a prefix of; no
  other counter changes, except that a compared wrong guess adds one to its own.
\<close>

theorem admin_secret_verification:
  assumes "im_inv s" "c_AdminSecret C \<noteq> []" "candidate \<noteq> []" "now \<le> t"
    and "VerifyAdminSecret C (Some in_memory_ops) now ip candidate s = (r, s')"
  shows "im_inv s' \<and>
    (if counter_value (im_cache now s (lock_key ip)) \<ge> 10
     then r = Some (False, True) \<and> im_cache t s' (lock_key i) = im_cache t s (lock_key i)
     else if candidate = c_AdminSecret C
     then r = Some (True, False) \<and>
       im_cache t s' (lock_key i) = (if HasPrefix (lock_key i) (lock_key ip) then None else im_cache t s (lock_key i))
     else r = Some (False, False) \<and> im_cache t s' (lock_key i) =
       (if lock_key i = lock_key ip
        then (if Unix t \<le> add64 (Unix now) (15 * 60)
              then Some (FormatInt (add64 (counter_value (im_cache now s (lock_key ip))) 1)) else None)
        else im_cache t s (lock_key i)))"
  using imc.verify_admin_secret[OF assms(1,5,2,3)] assms(4)
  by (simp add: adminSecretMaxFailedAttempts_def adminSecretLockoutWindowSeconds_def)

definition fx_locked :: in_memory where
  "fx_locked = snd (verify_all fx_config in_memory_ops
     (map (\<lambda>k. (int k * Second, ''10.0.0.11'', ''guess'')) [1..<11]) NewInMemoryProvider)"

lemma verify_all_inv:
  "\<lbrakk>im_inv s; c_AdminSecret C \<noteq> []; list_all (\<lambda>(_, _, c). c \<noteq> []) gs\<rbrakk> \<Longrightarrow>
     im_inv (snd (verify_all C in_memory_ops gs s))"
proof (induction gs arbitrary: s)
  case (Cons g gs)
  obtain now ip c where g: "g = (now, ip, c)" by (cases g)
  obtain r s1 where v: "VerifyAdminSecret C (Some in_memory_ops) now ip c s = (r, s1)" by fastforce
  have "im_inv s1" using imc.verify_admin_secret[OF Cons.prems(1) v Cons.prems(2)] Cons.prems(3) g by simp
  then have "im_inv (snd (verify_all C in_memory_ops gs s1))" using Cons.IH Cons.prems(2,3) by simp
  then show ?case using v unfolding g by (simp add: case_prod_beta)
qed simp

theorem admin_secret_verification_witness:
  "fst (VerifyAdminSecret fx_config (Some in_memory_ops) (20 * Second) ''10.0.0.11'' ''admin'' fx_locked) = Some (False, True) \<and>
   im_cache (20 * Second) (snd (VerifyAdminSecret fx_config (Some in_memory_ops) (20 * Second) ''10.0.0.1'' ''admin'' fx_locked))
     (lock_key ''10.0.0.11'') = None"
proof -
  have h: "c_AdminSecret fx_config \<noteq> []" "''admin'' \<noteq> []" "list_all (\<lambda>(_, _, c). c \<noteq> [])
      (map (\<lambda>k. (int k * Second, ''10.0.0.11'', ''guess'')) [1..<11])" by code_simp+
  have i: "im_inv fx_locked" unfolding fx_locked_def by (rule verify_all_inv[OF im_inv_New h(1,3)])
  have c: "counter_value (im_cache (20 * Second) fx_locked (lock_key ''10.0.0.11'')) \<ge> 10"
    "\<not> counter_value (im_cache (20 * Second) fx_locked (lock_key ''10.0.0.1'')) \<ge> 10"
    "''admin'' = c_AdminSecret fx_config" "HasPrefix (lock_key ''10.0.0.11'') (lock_key ''10.0.0.1'')" by code_simp+
  note x = admin_secret_verification[OF i h(1,2) order_refl prod.collapse[symmetric]]
  show ?thesis
    using x[where ip = "''10.0.0.11''" and now = "20 * Second"]
      x[where ip = "''10.0.0.1''" and now = "20 * Second" and i = "''10.0.0.11''"] c by simp
qed


definition fx_meta :: "string option \<Rightarrow> RequestMetadata" where
  "fx_meta c = \<lparr>rm_Request = Some \<lparr>ar_Cookie = c, ar_Secret = [], ar_IP = ''10.0.0.1''\<rparr>, rm_IPAddress = ''10.0.0.1'',
     rm_UserAgent = ''ua'', rm_Protocol = ''rest'', rm_superAdmin = False\<rparr>"

definition fx_login :: "(string \<times> string) svc \<times> in_memory world" where
  "fx_login = AdminLogin (im_ctx fx_config fx_libs fx_storage) 0 (Some ''abcdef'') (fx_meta None) ''admin''
     \<lparr>w_mem = NewInMemoryProvider, w_audit = []\<rparr>"

definition fx_logout :: "(string \<times> string) svc \<times> in_memory world" where
  "fx_logout = AdminLogout (im_ctx fx_config fx_libs fx_storage) Second (fx_meta (Some ''YWJjZGVm'')) (snd fx_login)"


end
