(* ===== verification/Token_Status.thy ===== *)
theory Token_Status
  imports Token_Endpoint
begin

text \<open>
  The endpoints that report on a token or end it: \<open>/oauth/introspect\<close> (\<open>introspect.go\<close>),
  \<open>/oauth/revoke\<close> (\<open>revoke_refresh_token.go\<close>), the session lookup they share
  (\<open>session_lookup.go\<close>) and \<open>/userinfo\<close> (\<open>userinfo.go\<close>). Response headers other than
  \<open>WWW-Authenticate\<close> are not modelled.
\<close>

section \<open>Requests\<close>

text \<open>
  \<open>fr_object\<close> is the body bound as a JSON object of strings, \<open>None\<close> when it does not bind;
  \<open>fr_form\<close> holds the first value of every form field.
\<close>

record form_request =
  fr_json :: bool
  fr_object :: "(string \<times> string) list option"
  fr_form :: "(string \<times> string) list"
  fr_basic :: "(string \<times> string) option"
  fr_client_header :: string
  fr_host :: string
  fr_ip :: string
  fr_agent :: string

text \<open>A missing form field or map entry is the empty string.\<close>

definition field :: "(string \<times> string) list \<Rightarrow> string \<Rightarrow> string" where
  "field m k = (case map_of m k of Some v \<Rightarrow> v | None \<Rightarrow> [])"

section \<open>What the endpoints share\<close>

definition respondResourceClientAuthError :: "cauth_err \<Rightarrow> bool \<Rightarrow> int \<Rightarrow> response" where
  "respondResourceClientAuthError err hasBasicAuth nonBasicStatus =
     (if err = ErrMissingClientID
      then oauth_error 400 ''invalid_request'' ''The client_id parameter is required''
      else if err = ErrMultipleAuthMethods
      then oauth_error 400 ''invalid_request'' ''Only one client authentication method may be used per request''
      else if hasBasicAuth
      then (oauth_error 401 ''invalid_client'' ''Client authentication failed'')\<lparr>rs_www_authenticate := True\<rparr>
      else oauth_error nonBasicStatus ''invalid_client'' ''Client authentication failed'')"

definition audienceMatchesIntrospect :: "claim \<Rightarrow> string \<Rightarrow> bool" where
  "audienceMatchesIntrospect audClaim expected \<longleftrightarrow>
     expected \<noteq> [] \<and>
     (case audClaim of
        CStr v \<Rightarrow> v = expected
      | CList l \<Rightarrow> list_ex (\<lambda>item. as_string item = Some expected) l
      | CStrs (Some l) \<Rightarrow> list_ex (\<lambda>s. s = expected) l
      | _ \<Rightarrow> False)"

definition claimsSessionKey :: "claims \<Rightarrow> string" where
  "claimsSessionKey m =
     (if str_of m ''sub'' = [] then []
      else if str_of m ''login_method'' \<noteq> [] then str_of m ''login_method'' @ '':'' @ str_of m ''sub''
      else str_of m ''sub'')"

text \<open>\<open>None\<close> is a panic of the store.\<close>

definition sessionEntryMatches ::
    "'s http \<Rightarrow> instant \<Rightarrow> string \<Rightarrow> string \<Rightarrow> string \<Rightarrow> 's world \<Rightarrow> bool option \<times> 's world" where
  "sessionEntryMatches H now sessionKey entryKey presented w =
     (case on_mem (m_GetUserSession (x_M (h_X H)) now sessionKey entryKey) w of
        (Panic, w1) \<Rightarrow> (None, w1)
      | (Err _, w1) \<Rightarrow> (Some False, w1)
      | (Ok stored, w1) \<Rightarrow> (Some (VerifySessionValue (x_L (h_X H)) presented stored), w1))"

section \<open>Introspection\<close>

definition tokenSessionIsLive ::
    "'s http \<Rightarrow> instant \<Rightarrow> claims \<Rightarrow> string \<Rightarrow> 's world \<Rightarrow> bool option \<times> 's world" where
  "tokenSessionIsLive H now m presented w =
     (let tokenType = str_of m ''token_type''; nonce = str_of m ''nonce''; sessionKey = claimsSessionKey m in
      if tokenType \<noteq> TokenTypeAccessToken \<and> tokenType \<noteq> TokenTypeRefreshToken then (Some True, w)
      else if nonce = [] \<or> sessionKey = [] then (Some False, w)
      else sessionEntryMatches H now sessionKey (tokenType @ ''_'' @ nonce) presented w)"

definition inactive :: response where
  "inactive = json_response 200 [(''active'', CBool False)]"

fun exp_value :: "claim \<Rightarrow> int" where
  "exp_value (CInt v) = v"
| "exp_value (CFloat v) = v"
| "exp_value _ = 0"

definition exp_ahead :: "instant \<Rightarrow> claims \<Rightarrow> bool" where
  "exp_ahead now m \<longleftrightarrow> (case map_of m ''exp'' of Some c \<Rightarrow> \<not> exp_value c \<le> Unix now | None \<Rightarrow> False)"

definition user_revoked :: "storage \<Rightarrow> claims \<Rightarrow> bool" where
  "user_revoked S m \<longleftrightarrow>
     (if str_of m ''sub'' \<noteq> [] then
       (case s_GetUserByID S (str_of m ''sub'') of
          Found user \<Rightarrow> u_RevokedTimestamp user \<noteq> None
        | _ \<Rightarrow> False)
      else False)"

definition copyIfPresent :: "claims \<Rightarrow> string \<Rightarrow> string \<Rightarrow> claims \<Rightarrow> claims" where
  "copyIfPresent m srcKey dstKey resp =
     (case map_of m srcKey of
        Some v \<Rightarrow> if v \<noteq> CNull \<and> v \<noteq> CStr [] then set_claim dstKey v resp else resp
      | None \<Rightarrow> resp)"

definition active_body :: "Client \<Rightarrow> claims \<Rightarrow> claims" where
  "active_body client m =
     (let resp = [(''active'', CBool True)];
          resp = copyIfPresent m ''scope'' ''scope'' resp;
          resp = set_claim ''client_id'' (CStr (cl_ClientID client)) resp;
          resp = copyIfPresent m ''exp'' ''exp'' resp;
          resp = copyIfPresent m ''iat'' ''iat'' resp;
          resp = copyIfPresent m ''sub'' ''sub'' resp;
          resp = copyIfPresent m ''aud'' ''aud'' resp;
          resp = copyIfPresent m ''iss'' ''iss'' resp
      in if str_of m ''token_type'' \<noteq> []
         then set_claim ''token_type'' (CStr (str_of m ''token_type'')) resp else resp)"

definition introspect_token ::
    "'s http \<Rightarrow> instant \<Rightarrow> string \<Rightarrow> Client \<Rightarrow> string \<Rightarrow> 's world \<Rightarrow> response option \<times> 's world" where
  "introspect_token H now hostname client tokenValue w =
     (case ParseJWTToken (x_C (h_X H)) (x_L (h_X H)) now tokenValue of
        (_, Some _) \<Rightarrow> (Some inactive, w)
      | (m, None) \<Rightarrow>
          if \<not> exp_ahead now m then (Some inactive, w)
          else if str_of m ''iss'' = [] \<or> str_of m ''iss'' \<noteq> hostname then (Some inactive, w)
          else if \<not> audienceMatchesIntrospect (claim_of m ''aud'') (cl_ClientID client) then (Some inactive, w)
          else
           (case tokenSessionIsLive H now m tokenValue w of
              (None, w1) \<Rightarrow> (None, w1)
            | (Some False, w1) \<Rightarrow> (Some inactive, w1)
            | (Some True, w1) \<Rightarrow>
                if user_revoked (x_S (h_X H)) m then (Some inactive, w1)
                else (Some (json_response 200 (active_body client m)), w1)))"

definition introspect_params :: "form_request \<Rightarrow> ResolveParams" where
  "introspect_params rq =
     \<lparr>rp_BodyClientID = TrimSpace (field (fr_form rq) ''client_id''),
      rp_BodySecret = field (fr_form rq) ''client_secret'',
      rp_BasicClientID = (case fr_basic rq of Some (i, _) \<Rightarrow> i | None \<Rightarrow> []),
      rp_BasicSecret = (case fr_basic rq of Some (_, s) \<Rightarrow> s | None \<Rightarrow> []),
      rp_HasBasicAuth = (fr_basic rq \<noteq> None), rp_RequireSecret = True,
      rp_VerifyPresentedSecret = False, rp_RequireServiceAccountKind = False,
      rp_ClientAssertion = [], rp_ClientAssertionType = []\<rparr>"

definition IntrospectHandler ::
    "'s http \<Rightarrow> instant \<Rightarrow> form_request \<Rightarrow> 's world \<Rightarrow> response option \<times> 's world" where
  "IntrospectHandler H now rq w =
     (let tokenValue = TrimSpace (field (fr_form rq) ''token'') in
      case on_mem (ResolveClient (h_X H) (h_E H) now (introspect_params rq)) w of
        (CPanic, w1) \<Rightarrow> (None, w1)
      | (Refused _ err, w1) \<Rightarrow> (Some (respondResourceClientAuthError err (fr_basic rq \<noteq> None) 400), w1)
      | (Resolved client, w1) \<Rightarrow>
          if tokenValue = []
          then (Some (oauth_error 400 ''invalid_request'' ''The token parameter is required''), w1)
          else introspect_token H now (fr_host rq) client tokenValue w1)"

section \<open>Revocation\<close>

text \<open>Token, type hint and client id of the body; \<open>None\<close> when a JSON body does not bind.\<close>

definition revoke_fields :: "form_request \<Rightarrow> (string \<times> string \<times> string) option" where
  "revoke_fields rq =
     (case (if fr_json rq then fr_object rq else Some (fr_form rq)) of
        None \<Rightarrow> None
      | Some m \<Rightarrow>
          let tokenValue = TrimSpace (field m ''token'') in
          Some (if tokenValue = [] then TrimSpace (field m ''refresh_token'') else tokenValue,
                TrimSpace (field m ''token_type_hint''), TrimSpace (field m ''client_id'')))"

definition revoke_client_id :: "form_request \<Rightarrow> string \<Rightarrow> string" where
  "revoke_client_id rq clientID =
     (let clientID = (if clientID = [] then fr_client_header rq else clientID) in
      if clientID = [] then (case fr_basic rq of Some (i, _) \<Rightarrow> i | None \<Rightarrow> []) else clientID)"

definition revoke_params :: "string \<Rightarrow> ResolveParams" where
  "revoke_params clientID =
     \<lparr>rp_BodyClientID = clientID, rp_BodySecret = [], rp_BasicClientID = [], rp_BasicSecret = [],
      rp_HasBasicAuth = False, rp_RequireSecret = False, rp_VerifyPresentedSecret = False,
      rp_RequireServiceAccountKind = False, rp_ClientAssertion = [], rp_ClientAssertionType = []\<rparr>"

definition token_revoked_event :: "form_request \<Rightarrow> string \<Rightarrow> audit_event" where
  "token_revoked_event rq userID =
     \<lparr>ev_Action = ''token.revoked'', ev_ActorID = userID, ev_ActorType = ''user'', ev_ActorEmail = [],
      ev_ResourceType = ''token'', ev_ResourceID = userID, ev_Metadata = MText [],
      ev_IPAddress = fr_ip rq, ev_UserAgent = fr_agent rq\<rparr>"

definition revoked_ok :: response where
  "revoked_ok = json_response 200 []"

text \<open>The loop over the candidate token types.\<close>

fun match_any ::
    "'s http \<Rightarrow> instant \<Rightarrow> string \<Rightarrow> string \<Rightarrow> string \<Rightarrow> string list \<Rightarrow> 's world \<Rightarrow> bool option \<times> 's world" where
  "match_any H now sessionToken nonce tokenValue [] w = (Some False, w)"
| "match_any H now sessionToken nonce tokenValue (tokenType # rest) w =
     (case sessionEntryMatches H now sessionToken (tokenType @ ''_'' @ nonce) tokenValue w of
        (None, w1) \<Rightarrow> (None, w1)
      | (Some True, w1) \<Rightarrow> (Some True, w1)
      | (Some False, w1) \<Rightarrow> match_any H now sessionToken nonce tokenValue rest w1)"

definition revoke_candidates :: "string \<Rightarrow> string list" where
  "revoke_candidates hint =
     (if hint = TokenTypeAccessToken then [TokenTypeAccessToken, TokenTypeRefreshToken]
      else [TokenTypeRefreshToken, TokenTypeAccessToken])"

definition revoke_token ::
    "'s http \<Rightarrow> instant \<Rightarrow> form_request \<Rightarrow> Client \<Rightarrow> string \<Rightarrow> string \<Rightarrow> 's world \<Rightarrow> response option \<times> 's world" where
  "revoke_token H now rq client hint tokenValue w =
     (case ParseJWTToken (x_C (h_X H)) (x_L (h_X H)) now tokenValue of
        (_, Some _) \<Rightarrow> (Some revoked_ok, w)
      | (m, None) \<Rightarrow>
          if \<not> audienceMatchesIntrospect (claim_of m ''aud'') (cl_ClientID client) then (Some revoked_ok, w)
          else if str_of m ''sub'' = [] then (Some revoked_ok, w)
          else if str_of m ''nonce'' = [] then (Some revoked_ok, w)
          else
           (case match_any H now (claims_session_key m) (str_of m ''nonce'') tokenValue (revoke_candidates hint) w of
              (None, w1) \<Rightarrow> (None, w1)
            | (Some False, w1) \<Rightarrow> (Some revoked_ok, w1)
            | (Some True, w1) \<Rightarrow>
                (case on_mem (m_DeleteUserSession (x_M (h_X H)) (claims_session_key m) (str_of m ''nonce'')) w1 of
                   (Panic, w2) \<Rightarrow> (None, w2)
                 | (Err _, w2) \<Rightarrow>
                     (Some (oauth_error 503 ''server_error'' ''The server encountered an unexpected error''), w2)
                 | (Ok _, w2) \<Rightarrow> (Some revoked_ok, log_event (token_revoked_event rq (str_of m ''sub'')) w2))))"

definition RevokeRefreshTokenHandler ::
    "'s http \<Rightarrow> instant \<Rightarrow> form_request \<Rightarrow> 's world \<Rightarrow> response option \<times> 's world" where
  "RevokeRefreshTokenHandler H now rq w =
     (case revoke_fields rq of
        None \<Rightarrow> (Some (oauth_error 400 ''invalid_request'' ''Unable to parse request body''), w)
      | Some (tokenValue, hint, bodyID) \<Rightarrow>
          let clientID = revoke_client_id rq bodyID in
          if clientID = []
          then (Some (oauth_error 400 ''invalid_request'' ''The client_id parameter is required''), w)
          else
           (case on_mem (ResolveClient (h_X H) (h_E H) now (revoke_params clientID)) w of
              (CPanic, w1) \<Rightarrow> (None, w1)
            | (Refused _ err, w1) \<Rightarrow> (Some (respondResourceClientAuthError err (fr_basic rq \<noteq> None) 401), w1)
            | (Resolved client, w1) \<Rightarrow>
                if hint \<noteq> [] \<and> hint \<noteq> ''refresh_token'' \<and> hint \<noteq> ''access_token''
                then (Some (oauth_error 400 ''unsupported_token_type'' ''The given token_type_hint is not supported''), w1)
                else if tokenValue = [] then (Some revoked_ok, w1)
                else revoke_token H now rq client hint tokenValue w1))"

section \<open>Userinfo\<close>

definition userInfoProfileClaims :: "string list" where
  "userInfoProfileClaims =
     [''name'', ''family_name'', ''given_name'', ''middle_name'', ''nickname'', ''preferred_username'',
      ''profile'', ''picture'', ''website'', ''gender'', ''birthdate'', ''zoneinfo'', ''locale'', ''updated_at'']"

definition userInfoEmailClaims :: "string list" where
  "userInfoEmailClaims = [''email'', ''email_verified'']"

definition userInfoPhoneClaims :: "string list" where
  "userInfoPhoneClaims = [''phone_number'', ''phone_number_verified'']"

definition userInfoAddressClaims :: "string list" where
  "userInfoAddressClaims = [''address'']"

text \<open>The scope set, as the list of its elements.\<close>

definition extractScopesFromAccessToken :: "claims \<Rightarrow> string list" where
  "extractScopesFromAccessToken m =
     (case claim_of m ''scope'' of
        CStr v \<Rightarrow> map ToLower (Fields v)
      | CList l \<Rightarrow> map ToLower (List.map_filter as_string l)
      | _ \<Rightarrow> [])"

definition has_content :: "claim \<Rightarrow> bool" where
  "has_content v \<longleftrightarrow> v \<noteq> CNull \<and> (case as_string v of Some s \<Rightarrow> TrimSpace s \<noteq> [] | None \<Rightarrow> True)"

definition allow_group :: "claims \<Rightarrow> string list \<Rightarrow> claims \<Rightarrow> claims" where
  "allow_group full names filtered =
     fold (\<lambda>k f. if has_content (claim_of full k) then set_claim k (claim_of full k) f else f) names filtered"

definition filterUserInfoByScopes :: "claims \<Rightarrow> string list \<Rightarrow> claims" where
  "filterUserInfoByScopes full scopes =
     (let f = [(''sub'', claim_of full ''sub'')];
          f = (if ''profile'' \<in> set scopes then allow_group full userInfoProfileClaims f else f);
          f = (if ''email'' \<in> set scopes then allow_group full userInfoEmailClaims f else f);
          f = (if ''phone'' \<in> set scopes then allow_group full userInfoPhoneClaims f else f)
      in if ''address'' \<in> set scopes then allow_group full userInfoAddressClaims f else f)"

definition bearer_error :: "string \<Rightarrow> string \<Rightarrow> response" where
  "bearer_error err desc = (oauth_error 401 err desc)\<lparr>rs_www_authenticate := True\<rparr>"

text \<open>A storage that returns neither a user nor an error makes \<open>AsAPIUser\<close> dereference nil.\<close>

definition UserInfoHandler ::
    "'s http \<Rightarrow> instant \<Rightarrow> string \<Rightarrow> string \<Rightarrow> 's world \<Rightarrow> response option \<times> 's world" where
  "UserInfoHandler H now host authorization w =
     (case GetAccessToken authorization of
        Panic \<Rightarrow> (None, w)
      | Err _ \<Rightarrow> (Some (bearer_error ''invalid_request'' ''No access token provided''), w)
      | Ok accessToken \<Rightarrow>
          (case on_mem (ValidateAccessToken (h_X H) now host accessToken) w of
             (VPanic, w1) \<Rightarrow> (None, w1)
           | (VErr _ _, w1) \<Rightarrow>
               (Some (bearer_error ''invalid_token'' ''The access token is invalid or has expired''), w1)
           | (VOk m, w1) \<Rightarrow>
               (case s_GetUserByID (x_S (h_X H)) (str_of m ''sub'') of
                  Found user \<Rightarrow>
                    let full = set_claim ''sub'' (CStr (str_of m ''sub'')) (AsAPIUser (x_L (h_X H)) user) in
                    (Some (json_response 200 (filterUserInfoByScopes full (extractScopesFromAccessToken m))), w1)
                | NilRow \<Rightarrow> (None, w1)
                | _ \<Rightarrow>
                    (Some (bearer_error ''invalid_token'' ''The user associated with this token was not found''), w1))))"

section \<open>Reading the session entry of a token\<close>

text \<open>An entry of the type \<open>ty\<close> at the coordinates of the claims \<open>m\<close> holds the token \<open>t\<close>.\<close>

definition backed :: "libs \<Rightarrow> instant \<Rightarrow> in_memory \<Rightarrow> string \<Rightarrow> string \<Rightarrow> string \<Rightarrow> string \<Rightarrow> bool" where
  "backed L now s u n t ty \<longleftrightarrow>
     (case im_sess now s (session_key u (ty @ ''_'' @ n)) of
        Some v \<Rightarrow> v \<noteq> [] \<and> VerifySessionValue L t v
      | None \<Rightarrow> False)"

text \<open>The world after reads only: nothing changes for a reader from \<open>now\<close> on.\<close>

definition reads_only :: "instant \<Rightarrow> in_memory world \<Rightarrow> in_memory world \<Rightarrow> bool" where
  "reads_only now w w' \<longleftrightarrow> im_inv (w_mem w') \<and> w_audit w' = w_audit w \<and>
     (\<forall>t a. now \<le> t \<longrightarrow> im_sess t (w_mem w') a = im_sess t (w_mem w) a) \<and>
     (\<forall>a. im_held (w_mem w') a \<longrightarrow> im_held (w_mem w) a)"

lemma reads_only_refl: "im_inv (w_mem w) \<Longrightarrow> reads_only now w w"
  by (simp add: reads_only_def)

lemma reads_only_trans: "reads_only now w w1 \<Longrightarrow> reads_only now w1 w2 \<Longrightarrow> reads_only now w w2"
  by (simp add: reads_only_def)

lemma reads_only_inv: "reads_only now w w' \<Longrightarrow> im_inv (w_mem w')"
  by (simp add: reads_only_def)

lemma reads_only_backed: "reads_only now w w' \<Longrightarrow> backed L now (w_mem w') u n t ty = backed L now (w_mem w) u n t ty"
  by (simp add: reads_only_def backed_def)

lemma resolve_reads_only:
  assumes "im_inv (w_mem w)" "on_mem (ResolveClient (im_ctx C L S) E now params) w = (x, w1)"
  shows "reads_only now w w1"
  using assms resolve_cache_only[OF assms(2)] cache_only_views[OF resolve_cache_only(1)[OF assms(2)]]
  by (simp add: reads_only_def)

lemma sessionEntryMatches_spec:
  assumes "im_inv (w_mem w)"
    and "sessionEntryMatches (im_http C L S E) now u (ty @ ''_'' @ n) t w = (b, w1)"
  shows "b = Some (backed L now (w_mem w) u n t ty) \<and> reads_only now w w1"
proof -
  obtain g s1 where g: "im_GetUserSession now u (ty @ ''_'' @ n) (w_mem w) = (g, s1)" by fastforce
  note r = im.get_session[OF assms(1), unfolded in_memory_ops_sel, OF g]
  have "reads_only now w (w\<lparr>w_mem := s1\<rparr>)" using r by (simp add: reads_only_def)
  then show ?thesis
    using assms(2) g r
    by (auto simp: sessionEntryMatches_def on_mem_def backed_def split: option.splits if_splits)
qed

lemma match_any_spec:
  assumes "im_inv (w_mem w)" and "match_any (im_http C L S E) now u n t tys w = (b, w1)"
  shows "b = Some (list_ex (backed L now (w_mem w) u n t) tys) \<and> reads_only now w w1"
  using assms
proof (induction tys arbitrary: w)
  case Nil
  then show ?case by (simp add: reads_only_refl)
next
  case (Cons ty tys)
  obtain c w2 where c: "sessionEntryMatches (im_http C L S E) now u (ty @ ''_'' @ n) t w = (c, w2)" by fastforce
  note r = sessionEntryMatches_spec[OF Cons.prems(1) c]
  have IH: "b = Some (list_ex (backed L now (w_mem w) u n t) tys) \<and> reads_only now w w1"
    if "match_any (im_http C L S E) now u n t tys w2 = (b, w1)"
    using Cons.IH[OF reads_only_inv that] r reads_only_trans reads_only_backed[of now w w2] by auto
  show ?case
    using Cons.prems(2) r c IH by (auto split: bool.splits)
qed

lemma tokenSessionIsLive_spec:
  assumes "im_inv (w_mem w)" and "tokenSessionIsLive (im_http C L S E) now m t w = (b, w1)"
  shows "b = Some (str_of m ''token_type'' \<notin> {TokenTypeAccessToken, TokenTypeRefreshToken} \<or>
      str_of m ''nonce'' \<noteq> [] \<and> str_of m ''sub'' \<noteq> [] \<and>
      backed L now (w_mem w) (claims_session_key m) (str_of m ''nonce'') t (str_of m ''token_type''))"
    and "reads_only now w w1"
proof -
  have k: "claimsSessionKey m = (if str_of m ''sub'' = [] then [] else claims_session_key m)"
    "str_of m ''sub'' \<noteq> [] \<Longrightarrow> claims_session_key m \<noteq> []"
    by (auto simp: claimsSessionKey_def claims_session_key_def)
  show "b = Some (str_of m ''token_type'' \<notin> {TokenTypeAccessToken, TokenTypeRefreshToken} \<or>
      str_of m ''nonce'' \<noteq> [] \<and> str_of m ''sub'' \<noteq> [] \<and>
      backed L now (w_mem w) (claims_session_key m) (str_of m ''nonce'') t (str_of m ''token_type''))"
    "reads_only now w w1"
    using assms k sessionEntryMatches_spec[OF assms(1)] reads_only_refl[OF assms(1)]
    by (auto simp: tokenSessionIsLive_def Let_def split: if_splits)
qed

section \<open>What introspection reports\<close>

text \<open>The conditions under which a token with the claims \<open>m\<close> is active for a client.\<close>

definition token_active ::
    "libs \<Rightarrow> storage \<Rightarrow> instant \<Rightarrow> in_memory \<Rightarrow> string \<Rightarrow> string \<Rightarrow> claims \<Rightarrow> string \<Rightarrow> bool" where
  "token_active L S now s host cid m t \<longleftrightarrow>
     exp_ahead now m \<and> host \<noteq> [] \<and> str_of m ''iss'' = host \<and>
     audienceMatchesIntrospect (claim_of m ''aud'') cid \<and>
     (str_of m ''token_type'' \<notin> set [TokenTypeAccessToken, TokenTypeRefreshToken] \<or>
      str_of m ''nonce'' \<noteq> [] \<and> str_of m ''sub'' \<noteq> [] \<and>
      backed L now s (claims_session_key m) (str_of m ''nonce'') t (str_of m ''token_type'')) \<and>
     \<not> user_revoked S m"

lemma introspect_token_spec:
  assumes "im_inv (w_mem w)" and "introspect_token (im_http C L S E) now host client t w = (a, w1)"
  shows "a = Some (json_response 200
      (case ParseJWTToken C L now t of
         (m, None) \<Rightarrow> if token_active L S now (w_mem w) host (cl_ClientID client) m t then active_body client m
                      else [(''active'', CBool False)]
       | (_, Some _) \<Rightarrow> [(''active'', CBool False)]))" and "reads_only now w w1"
proof -
  obtain m e where p: "ParseJWTToken C L now t = (m, e)" by fastforce
  obtain b w2 where l: "tokenSessionIsLive (im_http C L S E) now m t w = (b, w2)" by fastforce
  note r = tokenSessionIsLive_spec[OF assms(1) l]
  show "a = Some (json_response 200
      (case ParseJWTToken C L now t of
         (m, None) \<Rightarrow> if token_active L S now (w_mem w) host (cl_ClientID client) m t then active_body client m
                      else [(''active'', CBool False)]
       | (_, Some _) \<Rightarrow> [(''active'', CBool False)]))"
    using assms(2) p l r(1)
    by (auto simp: introspect_token_def token_active_def inactive_def split: option.splits if_splits bool.splits)
  show "reads_only now w w1"
    using assms(2) p l r reads_only_refl[OF assms(1)]
    by (auto simp: introspect_token_def split: option.splits if_splits bool.splits)
qed

lemma claim_of_single: "claim_of [(k, v)] q = (if q = k then v else CNull)"
  by (simp add: claim_of_def)

lemma claim_of_copyIfPresent:
  "claim_of (copyIfPresent m k d resp) q =
     (if q = d \<and> claim_of m k \<noteq> CNull \<and> claim_of m k \<noteq> CStr [] then claim_of m k else claim_of resp q)"
  by (auto simp: copyIfPresent_def claim_of_def set_claim_def update_conv' split: option.splits)

definition introspect_keys :: "string list" where
  "introspect_keys = [''scope'', ''exp'', ''iat'', ''sub'', ''aud'', ''iss'']"

lemma claim_of_active_body:
  "claim_of (active_body client m) q =
     (if q = ''active'' then CBool True
      else if q = ''client_id'' then CStr (cl_ClientID client)
      else if q = ''token_type'' then (if str_of m q = [] then CNull else CStr (str_of m q))
      else if q \<in> set introspect_keys \<and> claim_of m q \<noteq> CStr [] then claim_of m q else CNull)"
proof (cases "q \<in> set introspect_keys")
  case True
  then have "q = ''scope'' \<or> q = ''exp'' \<or> q = ''iat'' \<or> q = ''sub'' \<or> q = ''aud'' \<or> q = ''iss''"
    by (simp add: introspect_keys_def)
  with True show ?thesis
    by (elim disjE) (simp_all add: active_body_def Let_def claim_of_copyIfPresent claim_of_single)
next
  case False
  then show ?thesis
    by (simp add: active_body_def Let_def claim_of_copyIfPresent introspect_keys_def claim_of_single)
qed

lemma IntrospectHandler_resolved:
  assumes "im_inv (w_mem w)"
    and "ResolveClient (im_ctx C L S) E now (introspect_params rq) (w_mem w) = (Resolved client, s1)"
    and "TrimSpace (field (fr_form rq) ''token'') = t" "t \<noteq> []"
  shows "\<exists>w1. reads_only now w w1 \<and> IntrospectHandler (im_http C L S E) now rq w =
    introspect_token (im_http C L S E) now (fr_host rq) client t w1"
proof -
  have o: "on_mem (ResolveClient (im_ctx C L S) E now (introspect_params rq)) w = (Resolved client, w\<lparr>w_mem := s1\<rparr>)"
    using assms(2) by (simp add: on_mem_def)
  show ?thesis
    using resolve_reads_only[OF assms(1) o] o assms(3,4) by (auto simp: IntrospectHandler_def)
qed

lemma token_active_reads_only:
  "reads_only now w w1 \<Longrightarrow> token_active L S now (w_mem w1) host cid m t = token_active L S now (w_mem w) host cid m t"
  by (simp add: token_active_def reads_only_backed)

section \<open>What revocation changes\<close>

text \<open>The tokens a client may revoke: its own, live as a refresh or an access token.\<close>

definition revocable :: "libs \<Rightarrow> instant \<Rightarrow> in_memory \<Rightarrow> string \<Rightarrow> claims \<Rightarrow> string \<Rightarrow> bool" where
  "revocable L now s cid m t \<longleftrightarrow>
     audienceMatchesIntrospect (claim_of m ''aud'') cid \<and> str_of m ''sub'' \<noteq> [] \<and> str_of m ''nonce'' \<noteq> [] \<and>
     list_ex (backed L now s (claims_session_key m) (str_of m ''nonce'') t)
       [TokenTypeRefreshToken, TokenTypeAccessToken]"

definition session_entries :: "string \<Rightarrow> string \<Rightarrow> string set" where
  "session_entries u n = (\<lambda>ty. session_key u (ty @ ''_'' @ n)) `
     {TokenTypeSessionToken, TokenTypeAccessToken, TokenTypeRefreshToken}"

text \<open>The world after the session of the nonce \<open>n\<close> was deleted and an event recorded.\<close>

definition ends_session ::
    "instant \<Rightarrow> string \<Rightarrow> string \<Rightarrow> audit_event \<Rightarrow> in_memory world \<Rightarrow> in_memory world \<Rightarrow> bool" where
  "ends_session now u n e w w' \<longleftrightarrow> im_inv (w_mem w') \<and> w_audit w' = w_audit w @ [e] \<and>
     (\<forall>a\<in>session_entries u n. \<not> im_held (w_mem w') a) \<and>
     (\<forall>a t. a \<notin> session_entries u n \<and> now \<le> t \<longrightarrow> im_sess t (w_mem w') a = im_sess t (w_mem w) a)"

lemma delete_ends_session:
  assumes "reads_only now w w1" and "im_DeleteUserSession u n (w_mem w1) = (r, s2)"
  shows "r = Ok () \<and> ends_session now u n e w (log_event e (w1\<lparr>w_mem := s2\<rparr>))"
  using im.delete_session[OF reads_only_inv[OF assms(1)], unfolded in_memory_ops_sel, OF assms(2)] assms(1)
  unfolding ends_session_def session_entries_def log_event_def by (simp add: reads_only_def)

lemma revoke_token_spec:
  assumes "im_inv (w_mem w)" and "ParseJWTToken C L now t = (m, e)"
    and "revoke_token (im_http C L S E) now rq client hint t w = (a, w')"
  shows "a = Some (json_response 200 []) \<and>
    (if e = None \<and> revocable L now (w_mem w) (cl_ClientID client) m t
     then ends_session now (claims_session_key m) (str_of m ''nonce'') (token_revoked_event rq (str_of m ''sub'')) w w'
     else reads_only now w w')"
proof -
  let ?u = "claims_session_key m" and ?n = "str_of m ''nonce''"
  obtain b w1 where b: "match_any (im_http C L S E) now ?u ?n t (revoke_candidates hint) w = (b, w1)" by fastforce
  note r = match_any_spec[OF assms(1) b]
  obtain d s2 where d: "im_DeleteUserSession ?u ?n (w_mem w1) = (d, s2)" by fastforce
  note ds = delete_ends_session[OF conjunct2[OF r] d, of "token_revoked_event rq (str_of m ''sub'')"]
  have c: "list_ex P (revoke_candidates hint) = list_ex P [TokenTypeRefreshToken, TokenTypeAccessToken]" for P
    by (auto simp: revoke_candidates_def)
  show ?thesis
    using assms(2,3) b r d ds reads_only_refl[OF assms(1)]
    by (auto simp: revoke_token_def revocable_def revoked_ok_def c on_mem_def split: option.splits if_splits bool.splits)
qed

definition supported_hint :: "string \<Rightarrow> bool" where
  "supported_hint h \<longleftrightarrow> h \<in> set [[], ''refresh_token'', ''access_token'']"

lemma Revoke_resolved:
  assumes "im_inv (w_mem w)" "revoke_fields rq = Some (t, hint, cid)" "supported_hint hint"
    and "ResolveClient (im_ctx C L S) E now (revoke_params (revoke_client_id rq cid)) (w_mem w) = (Resolved client, s1)"
  shows "\<exists>w1. reads_only now w w1 \<and> RevokeRefreshTokenHandler (im_http C L S E) now rq w =
    (if t = [] then (Some (json_response 200 []), w1)
     else revoke_token (im_http C L S E) now rq client hint t w1)"
proof -
  let ?P = "revoke_params (revoke_client_id rq cid)"
  have o: "on_mem (ResolveClient (im_ctx C L S) E now ?P) w = (Resolved client, w\<lparr>w_mem := s1\<rparr>)"
    using assms(4) by (simp add: on_mem_def)
  have "revoke_client_id rq cid \<noteq> []"
    using assms(4) by (auto simp: ResolveClient_def revoke_params_def auth_methods_presented_def)
  then show ?thesis
    using resolve_reads_only[OF assms(1) o] o assms(2,3)
    by (auto simp: RevokeRefreshTokenHandler_def supported_hint_def revoked_ok_def)
qed

lemma ended_not_backed:
  assumes "ends_session now u n e w w'"
  shows "\<not> backed L t (w_mem w') u n tok TokenTypeAccessToken" "\<not> backed L t (w_mem w') u n tok TokenTypeRefreshToken"
  using assms im.not_held_sess[of "w_mem w'"]
  by (auto simp: ends_session_def session_entries_def backed_def split: option.splits)

lemma ended_refuses:
  assumes "ends_session now u n e w w'" "ParseJWTToken C L now' t = (m, None)"
    and "claims_session_key m = u" "str_of m ''nonce'' = n"
  shows "fst (ValidateAccessToken (im_ctx C L S) now' host t (w_mem w')) \<noteq> VOk x"
    "fst (ValidateRefreshToken (im_ctx C L S) now' host t cid (w_mem w')) \<noteq> VOk x"
proof -
  have i: "im_inv (w_mem w')" using assms(1) by (simp add: ends_session_def)
  note g = im.get_session_Ok[OF i, unfolded in_memory_ops_sel] and nb = ended_not_backed[OF assms(1)]
  show "fst (ValidateAccessToken (im_ctx C L S) now' host t (w_mem w')) \<noteq> VOk x"
  proof
    assume "fst (ValidateAccessToken (im_ctx C L S) now' host t (w_mem w')) = VOk x"
    then obtain s2 where "validateStatefulAccessToken (im_ctx C L S) now' host t (firstPartyAudienceOK C L) (w_mem w') = (VOk x, s2)"
      unfolding ValidateAccessToken_def im_ctx_sel by (metis prod.collapse)
    then show False using assms(2-4) g nb(1)[of L now' t] by (fastforce simp: backed_def elim: validateStateful_VOk)
  qed
  show "fst (ValidateRefreshToken (im_ctx C L S) now' host t cid (w_mem w')) \<noteq> VOk x"
  proof
    assume "fst (ValidateRefreshToken (im_ctx C L S) now' host t cid (w_mem w')) = VOk x"
    then obtain s2 where "ValidateRefreshToken (im_ctx C L S) now' host t cid (w_mem w') = (VOk x, s2)"
      by (metis prod.collapse)
    then show False using assms(2-4) g nb(2)[of L now' t] by (fastforce simp: backed_def elim: ValidateRefresh_VOk)
  qed
qed

section \<open>What userinfo reveals\<close>

lemma claim_of_allow_group:
  "claim_of (allow_group full names f) k =
     (if k \<in> set names \<and> has_content (claim_of full k) then claim_of full k else claim_of f k)"
  unfolding allow_group_def by (induction names arbitrary: f) auto

definition scope_groups :: "(string \<times> string list) list" where
  "scope_groups = [(''profile'', userInfoProfileClaims), (''email'', userInfoEmailClaims),
     (''phone'', userInfoPhoneClaims), (''address'', userInfoAddressClaims)]"

definition released :: "string list \<Rightarrow> string \<Rightarrow> bool" where
  "released scopes k \<longleftrightarrow> list_ex (\<lambda>(sc, names). sc \<in> set scopes \<and> k \<in> set names) scope_groups"

lemma sub_not_released: "\<not> released scopes ''sub''"
  by (simp add: released_def scope_groups_def userInfoProfileClaims_def userInfoEmailClaims_def
      userInfoPhoneClaims_def userInfoAddressClaims_def)

lemma claim_of_filterUserInfo:
  "claim_of (filterUserInfoByScopes full scopes) k =
     (if k = ''sub'' then claim_of full ''sub''
      else if released scopes k \<and> has_content (claim_of full k) then claim_of full k else CNull)"
proof -
  have "claim_of (filterUserInfoByScopes full scopes) k =
     (if released scopes k \<and> has_content (claim_of full k) then claim_of full k
      else if k = ''sub'' then claim_of full ''sub'' else CNull)"
    by (auto simp: filterUserInfoByScopes_def Let_def claim_of_allow_group released_def scope_groups_def
        claim_of_single)
  then show ?thesis using sub_not_released by auto
qed

lemma UserInfoHandler_200:
  assumes "UserInfoHandler H now host auth w = (Some r, w')" "rs_status r = 200"
  obtains t m user where "GetAccessToken auth = Ok t"
    "on_mem (ValidateAccessToken (h_X H) now host t) w = (VOk m, w')"
    "s_GetUserByID (x_S (h_X H)) (str_of m ''sub'') = Found user"
    "r = json_response 200 (filterUserInfoByScopes
       (set_claim ''sub'' (CStr (str_of m ''sub'')) (AsAPIUser (x_L (h_X H)) user)) (extractScopesFromAccessToken m))"
  using assms
  by (auto simp: UserInfoHandler_def bearer_error_def Let_def split: out.splits vres.splits lookup.splits prod.splits)

section \<open>Properties\<close>

definition fx_form :: form_request where
  "fx_form = \<lparr>fr_json = False, fr_object = None,
     fr_form = [(''token'', ''refresh''), (''client_id'', ''app''), (''client_secret'', ''hash'')],
     fr_basic = None, fr_client_header = [], fr_host = ''https://auth'', fr_ip = ''1.2.3.4'', fr_agent = ''ua''\<rparr>"

lemma fx_introspect_resolved:
  "ResolveClient (im_ctx fx_config fx_tlibs fx_tstorage) fx_env (100 * Second) (introspect_params fx_form)
     (w_mem fx_tworld) = (Resolved fx_client, w_mem fx_tworld)"
  by code_simp

lemma fx_revoke_resolved:
  "ResolveClient (im_ctx fx_config fx_tlibs fx_tstorage) fx_env (100 * Second)
     (revoke_params (revoke_client_id fx_form ''app'')) (w_mem fx_tworld) = (Resolved fx_client, w_mem fx_tworld)"
  by code_simp

definition fx_refresh_claims :: claims where
  "fx_refresh_claims = fst (ParseJWTToken fx_config fx_tlibs (100 * Second) ''refresh'')"

lemma fx_status_parse:
  "ParseJWTToken fx_config fx_tlibs (100 * Second) ''refresh'' = (fx_refresh_claims, None)"
  by code_simp

text \<open>
  C14. Introspection by an authenticated client: the token is active exactly if it verifies, has not
  expired, names this issuer and the caller as audience, has its session entry when it is an access
  or refresh token, and its user is not revoked. The answer of an inactive token says nothing else;
  that of an active one holds the listed claims of the token and the caller's client id only. No
  session changes.
\<close>

theorem introspection_exact:
  assumes "im_inv (w_mem w)"
    and "ResolveClient (im_ctx C L S) E now (introspect_params rq) (w_mem w) = (Resolved client, s1)"
    and "TrimSpace (field (fr_form rq) ''token'') = t" "t \<noteq> []"
  shows "fst (IntrospectHandler (im_http C L S E) now rq w) = Some (json_response 200
      (case ParseJWTToken C L now t of
         (m, None) \<Rightarrow> if token_active L S now (w_mem w) (fr_host rq) (cl_ClientID client) m t then active_body client m
                      else [(''active'', CBool False)]
       | (_, Some _) \<Rightarrow> [(''active'', CBool False)])) \<and>
    (\<forall>m k. claim_of (active_body client m) k =
       (if k = ''active'' then CBool True
        else if k = ''client_id'' then CStr (cl_ClientID client)
        else if k = ''token_type'' then (if str_of m k = [] then CNull else CStr (str_of m k))
        else if k \<in> set introspect_keys \<and> claim_of m k \<noteq> CStr [] then claim_of m k else CNull)) \<and>
    reads_only now w (snd (IntrospectHandler (im_http C L S E) now rq w))"
proof -
  obtain w1 where w1: "reads_only now w w1"
    and I: "IntrospectHandler (im_http C L S E) now rq w =
      introspect_token (im_http C L S E) now (fr_host rq) client t w1"
    using IntrospectHandler_resolved[OF assms] by blast
  note r = introspect_token_spec[OF reads_only_inv[OF w1] prod.collapse[symmetric]]
  show ?thesis
    using r[where C = C and L = L and S = S and E = E and now = now and host = "fr_host rq" and client = client and t = t]
      reads_only_trans[OF w1]
    unfolding I by (simp add: token_active_reads_only[OF w1] claim_of_active_body)
qed

theorem introspection_exact_witness:
  "claim_of (rs_body (the (fst (IntrospectHandler fx_thttp (100 * Second) fx_form fx_tworld)))) ''active'' = CBool True"
proof -
  have "TrimSpace (field (fr_form fx_form) ''token'') = ''refresh''" "''refresh'' \<noteq> []" by code_simp+
  note x = introspection_exact[OF fx_tworld_inv fx_introspect_resolved this]
  have "token_active fx_tlibs fx_tstorage (100 * Second) (w_mem fx_tworld) (fr_host fx_form) (cl_ClientID fx_client)
     fx_refresh_claims ''refresh''" by code_simp
  then show ?thesis using x unfolding fx_thttp_def fx_status_parse
    by (simp add: json_response_def claim_of_active_body)
qed

text \<open>
  C15. Revocation by an authenticated client with a supported hint: the answer is 200 with an empty
  body whatever the token is. If the token is the client's own and live as a refresh or access
  token, exactly the entries of its session nonce are removed and one event is recorded; otherwise
  no session changes and nothing is recorded.
\<close>

theorem revocation_exact:
  assumes "im_inv (w_mem w)" "revoke_fields rq = Some (t, hint, cid)" "supported_hint hint"
    and "ResolveClient (im_ctx C L S) E now (revoke_params (revoke_client_id rq cid)) (w_mem w) = (Resolved client, s1)"
    and "ParseJWTToken C L now t = (m, e)" "RevokeRefreshTokenHandler (im_http C L S E) now rq w = (a, w')"
  shows "a = Some (json_response 200 []) \<and>
    (if t \<noteq> [] \<and> e = None \<and> revocable L now (w_mem w) (cl_ClientID client) m t
     then ends_session now (claims_session_key m) (str_of m ''nonce'') (token_revoked_event rq (str_of m ''sub'')) w w'
     else reads_only now w w')"
proof -
  obtain w1 where w1: "reads_only now w w1"
    and R: "RevokeRefreshTokenHandler (im_http C L S E) now rq w =
      (if t = [] then (Some (json_response 200 []), w1) else revoke_token (im_http C L S E) now rq client hint t w1)"
    using Revoke_resolved[OF assms(1-4)] by blast
  have eq: "revocable L now (w_mem w1) (cl_ClientID client) m t = revocable L now (w_mem w) (cl_ClientID client) m t"
    by (simp add: revocable_def reads_only_backed[OF w1])
  have ends: "ends_session now u n ev w w'" if "ends_session now u n ev w1 w'" for u n ev
    using that w1 by (simp add: ends_session_def reads_only_def)
  show ?thesis
  proof (cases "t = []")
    case True
    then show ?thesis using R assms(6) w1 by simp
  next
    case False
    then have "revoke_token (im_http C L S E) now rq client hint t w1 = (a, w')" using R assms(6) by simp
    from revoke_token_spec[OF reads_only_inv[OF w1] assms(5) this] show ?thesis
      using False ends reads_only_trans[OF w1] unfolding eq by auto
  qed
qed

theorem revocation_exact_witness:
  "fst (RevokeRefreshTokenHandler fx_thttp (100 * Second) fx_form fx_tworld) = Some (json_response 200 []) \<and>
   \<not> im_held (w_mem (snd (RevokeRefreshTokenHandler fx_thttp (100 * Second) fx_form fx_tworld)))
       (session_key ''basic_auth:u1'' ''refresh_token_n1'')"
proof -
  have f: "revoke_fields fx_form = Some (''refresh'', [], ''app'')" "supported_hint []" by code_simp+
  have r: "revocable fx_tlibs (100 * Second) (w_mem fx_tworld) (cl_ClientID fx_client) fx_refresh_claims ''refresh''"
    by code_simp
  have k: "claims_session_key fx_refresh_claims = ''basic_auth:u1''" "str_of fx_refresh_claims ''nonce'' = ''n1''"
    by code_simp+
  show ?thesis
    using revocation_exact[OF fx_tworld_inv f fx_revoke_resolved fx_status_parse prod.collapse[symmetric]] r
    unfolding fx_thttp_def k by (simp add: ends_session_def session_entries_def const_defs)
qed

text \<open>
  C16. A revoked token is dead on every surface: from then on it validates neither as an access token
  nor as a refresh token, no delegated token of its session validates, and introspection reports it
  inactive to every client.
\<close>

theorem revocation_ends_token:
  assumes "im_inv (w_mem w)" "revoke_fields rq = Some (t, hint, cid)" "supported_hint hint" "t \<noteq> []"
    and "ResolveClient (im_ctx C L S) E now (revoke_params (revoke_client_id rq cid)) (w_mem w) = (Resolved client, s1)"
    and "ParseJWTToken C L now t = (m, None)" "revocable L now (w_mem w) (cl_ClientID client) m t"
    and "RevokeRefreshTokenHandler (im_http C L S E) now rq w = (a, w')"
    and "ParseJWTToken C L now' t = (m, None)"
  shows "fst (ValidateAccessToken (im_ctx C L S) now' host t (w_mem w')) \<noteq> VOk x \<and>
    fst (ValidateRefreshToken (im_ctx C L S) now' host t aud (w_mem w')) \<noteq> VOk x \<and>
    (ParseJWTToken C L now' d = (md, None) \<longrightarrow>
       ParseDelegationSessionID (str_of md ''sid'') = Some (claims_session_key m, str_of m ''nonce'') \<longrightarrow>
       fst (validateDelegatedForAudience (im_ctx C L S) now' host d aud (w_mem w')) \<noteq> VOk x) \<and>
    (str_of m ''token_type'' \<in> {TokenTypeAccessToken, TokenTypeRefreshToken} \<longrightarrow>
       fst (introspect_token (im_http C L S E) now' host caller t w') = Some inactive)"
proof -
  obtain w1 where w1: "reads_only now w w1"
    and R: "revoke_token (im_http C L S E) now rq client hint t w1 = (a, w')"
    using Revoke_resolved[OF assms(1-3,5)] assms(4,8) by auto
  have "revocable L now (w_mem w1) (cl_ClientID client) m t"
    using assms(7) by (simp add: revocable_def reads_only_backed[OF w1])
  then have ends: "ends_session now (claims_session_key m) (str_of m ''nonce'')
      (token_revoked_event rq (str_of m ''sub'')) w1 w'"
    using revoke_token_spec[OF reads_only_inv[OF w1] assms(6) R] by simp
  then have i: "im_inv (w_mem w')" by (simp add: ends_session_def)
  note nb = ended_not_backed[OF ends]
  have "fst (introspect_token (im_http C L S E) now' host caller t w') = Some inactive"
    if "str_of m ''token_type'' \<in> {TokenTypeAccessToken, TokenTypeRefreshToken}"
    using introspect_token_spec(1)[OF i prod.collapse[symmetric], where C = C and L = L and S = S and E = E and
        now = now' and host = host and client = caller and t = t] assms(9) nb that
    by (auto simp: token_active_def inactive_def)
  moreover have "fst (validateDelegatedForAudience (im_ctx C L S) now' host d aud (w_mem w')) \<noteq> VOk x"
    if p: "ParseJWTToken C L now' d = (md, None)"
      and s: "ParseDelegationSessionID (str_of md ''sid'') = Some (claims_session_key m, str_of m ''nonce'')"
  proof
    assume "fst (validateDelegatedForAudience (im_ctx C L S) now' host d aud (w_mem w')) = VOk x"
    then obtain s2 where v: "validateDelegatedForAudience (im_ctx C L S) now' host d aud (w_mem w') = (VOk x, s2)"
      by (metis prod.collapse)
    have "im_held (w_mem w') (session_key (claims_session_key m) (TokenTypeAccessToken @ ''_'' @ str_of m ''nonce''))"
      by (rule validateDelegated_VOk[OF v])
         (use p s im.get_session_Ok[OF i, unfolded in_memory_ops_sel] im.sess_held[OF i] in fastforce)
    then show False using ends by (simp add: ends_session_def session_entries_def)
  qed
  ultimately show ?thesis using ended_refuses[OF ends assms(9) refl refl] by blast
qed

theorem revocation_ends_token_witness:
  "fst (introspect_token fx_thttp (200 * Second) ''https://auth'' fx_client ''refresh''
     (snd (RevokeRefreshTokenHandler fx_thttp (100 * Second) fx_form fx_tworld))) = Some inactive"
proof -
  have f: "revoke_fields fx_form = Some (''refresh'', [], ''app'')" "supported_hint []" "''refresh'' \<noteq> []" by code_simp+
  have r: "revocable fx_tlibs (100 * Second) (w_mem fx_tworld) (cl_ClientID fx_client) fx_refresh_claims ''refresh''"
    by code_simp
  have p: "ParseJWTToken fx_config fx_tlibs (200 * Second) ''refresh'' = (fx_refresh_claims, None)"
    "str_of fx_refresh_claims ''token_type'' = TokenTypeRefreshToken" by code_simp+
  show ?thesis
    using revocation_ends_token[OF fx_tworld_inv f fx_revoke_resolved fx_status_parse r prod.collapse[symmetric] p(1),
        where host = "''https://auth''" and caller = fx_client] p(2)
    unfolding fx_thttp_def by simp
qed

text \<open>
  C38. What \<open>/userinfo\<close> reveals: a 200 answer was given for a valid access token of an existing user;
  it holds the token's subject, and apart from that exactly the claims of the scope groups the token
  grants that have a value in the user's record.
\<close>

theorem userinfo_scope_filter:
  assumes "UserInfoHandler (im_http C L S E) now host auth w = (Some r, w')" "rs_status r = 200"
  shows "\<exists>t m user. GetAccessToken auth = Ok t \<and>
    ValidateAccessToken (im_ctx C L S) now host t (w_mem w) = (VOk m, w_mem w') \<and>
    s_GetUserByID S (str_of m ''sub'') = Found user \<and>
    (\<forall>k. claim_of (rs_body r) k =
       (if k = ''sub'' then CStr (str_of m ''sub'')
        else if released (extractScopesFromAccessToken m) k \<and> has_content (claim_of (AsAPIUser L user) k)
        then claim_of (AsAPIUser L user) k else CNull))"
proof -
  obtain t m user where u: "GetAccessToken auth = Ok t"
    "on_mem (ValidateAccessToken (im_ctx C L S) now host t) w = (VOk m, w')"
    "s_GetUserByID S (str_of m ''sub'') = Found user"
    "r = json_response 200 (filterUserInfoByScopes
       (set_claim ''sub'' (CStr (str_of m ''sub'')) (AsAPIUser L user)) (extractScopesFromAccessToken m))"
    by (rule UserInfoHandler_200[OF assms, unfolded im_http_sel im_ctx_sel])
  then have "ValidateAccessToken (im_ctx C L S) now host t (w_mem w) = (VOk m, w_mem w')"
    by (auto simp: on_mem_eq)
  then show ?thesis using u by (auto simp: json_response_def claim_of_filterUserInfo)
qed

definition fx_uworld :: "in_memory world" where
  "fx_uworld = \<lparr>w_mem = fx_store, w_audit = []\<rparr>"

definition fx_userinfo :: "response option \<times> in_memory world" where
  "fx_userinfo = UserInfoHandler (im_http fx_config fx_vlibs fx_storage fx_env) (100 * Second) ''https://auth''
     ''Bearer access_token.n1'' fx_uworld"

theorem userinfo_scope_filter_witness:
  "claim_of (rs_body (fx_answer fx_userinfo)) ''sub'' = CStr ''u1'' \<and>
   claim_of (rs_body (fx_answer fx_userinfo)) ''email'' = CNull"
proof -
  have ok: "fx_ok fx_userinfo" by code_simp
  note u = fx_ok_answer[OF ok]
  have t: "GetAccessToken ''Bearer access_token.n1'' = Ok ''access_token.n1''" by code_simp
  have v: "ValidateAccessToken (im_ctx fx_config fx_vlibs fx_storage) (100 * Second) ''https://auth''
      ''access_token.n1'' (w_mem fx_uworld) = (VOk fx_claims, fx_store)"
    using fx_valid by (simp add: fx_uworld_def)
  have c: "str_of fx_claims ''sub'' = ''u1''" "\<not> released (extractScopesFromAccessToken fx_claims) ''email''"
    by code_simp+
  show ?thesis
    using userinfo_scope_filter[OF conjunct1[OF u, unfolded fx_userinfo_def] conjunct2[OF u, unfolded fx_userinfo_def]] c
    by (auto simp: t v fx_userinfo_def)
qed

end
