(* ===== verification/Origins.thy ===== *)
theory Origins
  imports Token_Status
begin

text \<open>
  Where a request comes from and where an answer may go: origins and redirect URIs
  (\<open>validators/url.go\<close>, \<open>http_handlers/client_redirect.go\<close> and the matcher in
  \<open>http_handlers/authorize.go\<close>), the server's own address (\<open>parsers/url.go\<close>), the client's address
  (\<open>utils/request_info.go\<close>), and the CSRF and CORS middlewares. \<open>url.Parse\<close> is the parameter
  \<open>lib_url\<close>; \<open>Hostname\<close> and \<open>Port\<close> are computed from the host it finds.
\<close>

section \<open>Parts of a host\<close>

definition is_digit :: "char \<Rightarrow> bool" where
  "is_digit c \<longleftrightarrow> 48 \<le> (of_char c :: nat) \<and> (of_char c :: nat) \<le> 57"

fun validOptionalPort :: "string \<Rightarrow> bool" where
  "validOptionalPort [] = True"
| "validOptionalPort (c # cs) = (c = CHR '':'' \<and> list_all is_digit cs)"

definition splitHostPort :: "string \<Rightarrow> string \<times> string" where
  "splitHostPort hostPort =
     (let (host, port) =
        (case LastIndex hostPort '':'' of
           Some colon \<Rightarrow>
             if validOptionalPort (drop colon hostPort) then (take colon hostPort, drop (Suc colon) hostPort)
             else (hostPort, [])
         | None \<Rightarrow> (hostPort, []))
      in (if HasPrefix host ''['' \<and> HasSuffix host '']'' then butlast (tl host) else host, port))"

definition Hostname :: "URL \<Rightarrow> string" where
  "Hostname u = fst (splitHostPort (url_Host u))"

definition Port :: "URL \<Rightarrow> string" where
  "Port u = snd (splitHostPort (url_Host u))"

section \<open>Origins\<close>

definition with_scheme :: "string \<Rightarrow> string" where
  "with_scheme raw =
     (if \<not> HasPrefix raw ''http://'' \<and> \<not> HasPrefix raw ''https://'' then ''https://'' @ raw else raw)"

definition normalizeOrigin :: "libs \<Rightarrow> string \<Rightarrow> string" where
  "normalizeOrigin L raw =
     (let raw = with_scheme (TrimSpace raw) in
      case lib_url L raw of
        None \<Rightarrow> raw
      | Some u \<Rightarrow>
          if Port u = [] \<or> Port u = ''443'' \<or> Port u = ''80'' then Hostname u
          else Hostname u @ '':'' @ Port u)"

text \<open>
  The regular expressions \<open>^([^.]+\.)+rest$\<close> and, with \<open>[^.]*\<close> for every star of the pattern, the
  quoted pattern, as matchers. The flag of the first says whether the current label has a character.
\<close>

fun match_labels :: "string \<Rightarrow> bool \<Rightarrow> string \<Rightarrow> bool" where
  "match_labels rest nonempty [] = False"
| "match_labels rest nonempty (c # cs) =
     (if c = CHR ''.'' then nonempty \<and> (cs = rest \<or> match_labels rest False cs)
      else match_labels rest True cs)"

fun match_stars :: "string \<Rightarrow> string \<Rightarrow> bool" where
  "match_stars [] s = (s = [])"
| "match_stars (p # ps) [] = (p = CHR ''*'' \<and> match_stars ps [])"
| "match_stars (p # ps) (c # cs) =
     (if p = CHR ''*'' then match_stars ps (c # cs) \<or> (c \<noteq> CHR ''.'' \<and> match_stars (p # ps) cs)
      else p = c \<and> match_stars ps cs)"

definition originMatches :: "libs \<Rightarrow> string \<Rightarrow> string \<Rightarrow> bool" where
  "originMatches L configured candidate =
     (let pattern = normalizeOrigin L configured in
      if \<not> Contains pattern ''*'' then pattern = candidate
      else if HasPrefix pattern ''*.'' then match_labels (drop 2 pattern) False candidate
      else match_stars pattern candidate)"

definition IsValidRedirectURI :: "libs \<Rightarrow> string \<Rightarrow> string list \<Rightarrow> string \<Rightarrow> bool" where
  "IsValidRedirectURI L redirectURI allowedOrigins hostname =
     (case lib_url L redirectURI of
        None \<Rightarrow> False
      | Some u \<Rightarrow>
          if url_Scheme u \<noteq> ''http'' \<and> url_Scheme u \<noteq> ''https'' then False
          else
           (let origins = (if allowedOrigins = [] then [''*''] else allowedOrigins);
                redirectOrigin = normalizeOrigin L redirectURI in
            if origins = [''*''] then redirectOrigin = normalizeOrigin L hostname
            else list_ex (\<lambda>origin. originMatches L origin redirectOrigin) origins))"

definition IsValidOrigin :: "libs \<Rightarrow> string \<Rightarrow> string list \<Rightarrow> bool" where
  "IsValidOrigin L inputURL allowedOriginsConfig =
     (let allowedOrigins = (if allowedOriginsConfig = [] then [''*''] else allowedOriginsConfig) in
      if allowedOrigins = [''*''] then True
      else (let currentOrigin = normalizeOrigin L inputURL in
            list_ex (\<lambda>origin. originMatches L origin currentOrigin) allowedOrigins))"

section \<open>Redirect URIs of a client\<close>

definition isLoopbackHost :: "string \<Rightarrow> bool" where
  "isLoopbackHost host \<longleftrightarrow> host \<in> set [''127.0.0.1'', ''::1'', ''localhost'']"

definition redirectURIMatches :: "libs \<Rightarrow> string \<Rightarrow> string \<Rightarrow> bool" where
  "redirectURIMatches L registered presented =
     (if registered = presented then True
      else
       (case lib_url L registered of
          None \<Rightarrow> False
        | Some r \<Rightarrow>
            (case lib_url L presented of
               None \<Rightarrow> False
             | Some p \<Rightarrow>
                 if \<not> isLoopbackHost (Hostname r) \<or> \<not> isLoopbackHost (Hostname p) then False
                 else if url_Fragment r \<noteq> [] \<or> url_Fragment p \<noteq> [] \<or> url_User r \<noteq> None \<or> url_User p \<noteq> None
                 then False
                 else url_Scheme r = url_Scheme p \<and> Hostname r = Hostname p \<and> url_Path r = url_Path p \<and>
                      url_RawQuery r = url_RawQuery p)))"

definition matchesAny :: "libs \<Rightarrow> string list \<Rightarrow> string \<Rightarrow> bool" where
  "matchesAny L registered presented = list_ex (\<lambda>r. redirectURIMatches L r presented) registered"

definition trimmed :: "string list \<Rightarrow> string list" where
  "trimmed xs = filter (\<lambda>v. v \<noteq> []) (map TrimSpace xs)"

definition IsSelfRegistered :: "string \<Rightarrow> bool" where
  "IsSelfRegistered kind \<longleftrightarrow> kind = ''dynamic''"

record redirectCheck =
  rc_Valid :: bool
  rc_SelfRegistered :: bool

definition only_valid :: "bool \<Rightarrow> redirectCheck" where
  "only_valid b = \<lparr>rc_Valid = b, rc_SelfRegistered = False\<rparr>"

text \<open>The part of the configuration these checks read.\<close>

record web_config =
  wc_AllowedOrigins :: "string list"
  wc_RedirectURIs :: "string list"

definition errClientUnavailable :: string where
  "errClientUnavailable = ''could not verify the client''"

definition errClientUnresolvable :: string where
  "errClientUnresolvable = ''could not resolve the client metadata document''"

definition checkClientRedirectURI ::
    "'s http \<Rightarrow> web_config \<Rightarrow> string \<Rightarrow> string \<Rightarrow> string \<Rightarrow> redirectCheck out" where
  "checkClientRedirectURI H W clientID redirectURI hostname =
     (let L = x_L (h_X H); C = x_C (h_X H);
          fallback = IsValidRedirectURI L redirectURI (wc_AllowedOrigins W) hostname;
          configured = trimmed (wc_RedirectURIs W);
          registry =
            (case s_GetClientByClientID (x_S (h_X H)) clientID of
               Found client \<Rightarrow>
                 let registered = ParsedRedirectURIs client in
                 Ok \<lparr>rc_Valid = (if registered \<noteq> [] then matchesAny L registered redirectURI else fallback),
                     rc_SelfRegistered = IsSelfRegistered (cl_Kind client)\<rparr>
             | NilRow \<Rightarrow> Ok (only_valid fallback)
             | _ \<Rightarrow> Err errClientUnavailable) in
      if clientID = [] then Ok (only_valid fallback)
      else if configured \<noteq> [] \<and> clientID = TrimSpace (c_ClientID C)
      then Ok (only_valid (matchesAny L configured redirectURI))
      else
       (case ae_metadata (h_E H) of
          Some resolve \<Rightarrow>
            if IsMetadataClientIDFor L clientID (c_ClientID C) then
             (case resolve clientID of
                Ok d \<Rightarrow> Ok (only_valid (matchesAny L (d_RedirectURIs d) redirectURI))
              | Err _ \<Rightarrow> Err errClientUnresolvable
              | Panic \<Rightarrow> Panic)
            else registry
        | None \<Rightarrow> registry))"

section \<open>The server's own address\<close>

definition sanitizeAuthorizerURL :: "libs \<Rightarrow> string \<Rightarrow> string" where
  "sanitizeAuthorizerURL L raw =
     (case lib_url L raw of
        None \<Rightarrow> []
      | Some u \<Rightarrow>
          if url_Scheme u \<noteq> ''http'' \<and> url_Scheme u \<noteq> ''https'' then []
          else if url_Host u = [] then []
          else if url_User u \<noteq> None then []
          else TrimSuffix (url_Scheme u @ ''://'' @ url_Host u) ''/'')"

definition sanitizeHost :: "string \<Rightarrow> string" where
  "sanitizeHost host =
     (let host = TrimSpace host in
      if host = [] then []
      else if ContainsAny host (''/?#@'' @ [CHR 0x5C]) then []
      else if ContainsAny host [CHR 0x0D, CHR 0x0A] then []
      else TrimSuffix host ''/'')"

definition SetTrustedURL :: "libs \<Rightarrow> string \<Rightarrow> string" where
  "SetTrustedURL L u = sanitizeAuthorizerURL L (TrimSpace u)"

text \<open>The headers of a request that decide about its host, origin and client.\<close>

record web_request =
  wr_Method :: string
  wr_Path :: string
  wr_Host :: string
  wr_RemoteAddr :: string
  wr_header :: "string \<Rightarrow> string"

definition GetHostFromRequest :: "libs \<Rightarrow> string \<Rightarrow> web_request \<Rightarrow> string" where
  "GetHostFromRequest L trustedURL r =
     (if trustedURL \<noteq> [] then trustedURL
      else
       (let authorizerURL = TrimSpace (wr_header r ''X-Authorizer-URL'');
            sanitized = (if authorizerURL = [] then [] else sanitizeAuthorizerURL L authorizerURL) in
        if sanitized \<noteq> [] then sanitized
        else
         (let scheme = (if wr_header r ''X-Forwarded-Proto'' \<noteq> ''https'' then ''http'' else ''https'');
              host = sanitizeHost (wr_header r ''X-Forwarded-Host'');
              host = (if host = [] then sanitizeHost (wr_Host r) else host);
              host = (if host = [] then ''localhost'' else host)
          in scheme @ ''://'' @ host)))"

definition GetHostParts :: "libs \<Rightarrow> string \<Rightarrow> string \<times> string" where
  "GetHostParts L uri =
     (case lib_url L (with_scheme uri) of
        None \<Rightarrow> (''localhost'', ''8080'')
      | Some u \<Rightarrow> (Hostname u, Port u))"

definition GetDomainName :: "libs \<Rightarrow> string \<Rightarrow> string" where
  "GetDomainName L uri =
     (case lib_url L (with_scheme uri) of
        None \<Rightarrow> ''localhost''
      | Some u \<Rightarrow>
          let host = Hostname u; hostParts = Split host ''.''; n = length hostParts in
          if n = 1 then host
          else if n = 2 then (if hostParts ! 0 = ''www'' then hostParts ! 1 else host)
          else if n > 2 then Join (drop (n - 2) hostParts) ''.''
          else host)"

definition GetAppURLFromRequest :: "libs \<Rightarrow> string \<Rightarrow> web_request \<Rightarrow> string" where
  "GetAppURLFromRequest L trustedURL r = GetHostFromRequest L trustedURL r @ ''/app''"

section \<open>The client's address\<close>

text \<open>
  \<open>net.IP\<close> as its bytes, \<open>net.IPNet\<close> as network bytes and mask bytes. \<open>ip_parse\<close> is
  \<open>net.ParseIP\<close>, \<open>ip_cidr\<close> is \<open>net.ParseCIDR\<close>.
\<close>

type_synonym ip = "nat list"

type_synonym ipnet = "nat list \<times> nat list"

record ip_lib =
  ip_parse :: "string \<Rightarrow> ip option"
  ip_cidr :: "string \<Rightarrow> ipnet option"

definition To4 :: "ip \<Rightarrow> ip option" where
  "To4 a =
     (if length a = 4 then Some a
      else if length a = 16 \<and> take 12 a = replicate 10 0 @ [255, 255] then Some (drop 12 a)
      else None)"

definition masked :: "nat \<Rightarrow> nat \<Rightarrow> nat" where
  "masked b m = and b m"

text \<open>\<open>(*IPNet).Contains\<close>, for a network whose number and mask have the same length.\<close>

definition net_contains :: "ipnet \<Rightarrow> ip \<Rightarrow> bool" where
  "net_contains n a =
     (let (nn, m) = n; x = (case To4 a of Some b \<Rightarrow> b | None \<Rightarrow> a) in
      length x = length nn \<and> length m = length nn \<and>
      list_all (\<lambda>(b, c, k). masked b k = masked c k) (zip nn (zip x m)))"

fun SetTrustedProxies :: "ip_lib \<Rightarrow> string list \<Rightarrow> ipnet list option" where
  "SetTrustedProxies I [] = Some []"
| "SetTrustedProxies I (e # es) =
     (let entry = TrimSpace e in
      if entry = [] then SetTrustedProxies I es
      else
       (let full =
          (if Contains entry ''/'' then entry
           else
            (case ip_parse I entry of
               Some a \<Rightarrow> entry @ (if To4 a \<noteq> None then ''/32'' else ''/128'')
             | None \<Rightarrow> entry)) in
        case ip_cidr I full of
          None \<Rightarrow> None
        | Some cidr \<Rightarrow> map_option ((#) cidr) (SetTrustedProxies I es)))"

definition isTrustedProxy :: "ipnet list option \<Rightarrow> ip option \<Rightarrow> bool" where
  "isTrustedProxy cidrs a =
     (case (cidrs, a) of
        (Some ns, Some b) \<Rightarrow> list_ex (\<lambda>n. net_contains n b) ns
      | _ \<Rightarrow> False)"

text \<open>\<open>net.SplitHostPort\<close>: the host, or \<open>None\<close> for an error.\<close>

definition SplitHostPort :: "string \<Rightarrow> string option" where
  "SplitHostPort hostport =
     (case LastIndex hostport '':'' of
        None \<Rightarrow> None
      | Some i \<Rightarrow>
          if HasPrefix hostport ''['' then
           (case find (\<lambda>j. hostport ! j = CHR '']'') [0..<length hostport] of
              None \<Rightarrow> None
            | Some e \<Rightarrow>
                if Suc e = length hostport then None
                else if Suc e \<noteq> i then None
                else if list_ex (\<lambda>c. c = CHR ''['') (tl hostport) then None
                else if list_ex (\<lambda>c. c = CHR '']'') (drop (Suc e) hostport) then None
                else Some (drop 1 (take e hostport)))
          else if list_ex (\<lambda>c. c = CHR '':'') (take i hostport) then None
          else if list_ex (\<lambda>c. c = CHR ''['' \<or> c = CHR '']'') hostport then None
          else Some (take i hostport))"

text \<open>
  The walk over \<open>X-Forwarded-For\<close> from the right; the last element of the reversed list is the
  leftmost entry. \<open>None\<close> is a malformed entry.
\<close>

fun walk_forwarded :: "ip_lib \<Rightarrow> ipnet list option \<Rightarrow> string list \<Rightarrow> string option" where
  "walk_forwarded I cidrs [] = None"
| "walk_forwarded I cidrs (raw # left) =
     (let ipStr = TrimSpace raw in
      case ip_parse I ipStr of
        None \<Rightarrow> None
      | Some a \<Rightarrow> if left = [] \<or> \<not> isTrustedProxy cidrs (Some a) then Some ipStr else walk_forwarded I cidrs left)"

definition peer_address :: "web_request \<Rightarrow> string" where
  "peer_address r =
     (let peer = TrimSpace (wr_RemoteAddr r) in case SplitHostPort peer of Some host \<Rightarrow> host | None \<Rightarrow> peer)"

definition GetIP :: "ip_lib \<Rightarrow> ipnet list option \<Rightarrow> web_request \<Rightarrow> string" where
  "GetIP I cidrs r =
     (let peer = peer_address r; xff = wr_header r ''X-Forwarded-For'';
          realIP = TrimSpace (wr_header r ''X-Real-Ip'');
          rest = (if realIP \<noteq> [] \<and> ip_parse I realIP \<noteq> None then realIP else peer) in
      if \<not> isTrustedProxy cidrs (ip_parse I peer) then peer
      else if xff \<noteq> [] then
       (case walk_forwarded I cidrs (rev (Split xff '','')) of Some a \<Rightarrow> a | None \<Rightarrow> rest)
      else rest)"

section \<open>CSRF and CORS\<close>

definition isWildcardOrigins :: "string list \<Rightarrow> bool" where
  "isWildcardOrigins allowed \<longleftrightarrow> allowed = [] \<or> list_ex (\<lambda>o'. o' = ''*'') allowed"

text \<open>\<open>strings.EqualFold\<close>; \<open>fold\<close> decides about strings that are not ASCII.\<close>

definition EqualFold :: "(string \<Rightarrow> string \<Rightarrow> bool) \<Rightarrow> string \<Rightarrow> string \<Rightarrow> bool" where
  "EqualFold fold' s t =
     (if list_all (\<lambda>c. (of_char c :: nat) < 128) (s @ t) then map lower_char s = map lower_char t else fold' s t)"

definition csrfOriginAllowed ::
    "libs \<Rightarrow> (string \<Rightarrow> string \<Rightarrow> bool) \<Rightarrow> string \<Rightarrow> web_request \<Rightarrow> string list \<Rightarrow> bool" where
  "csrfOriginAllowed L fold' origin r allowedOrigins =
     (if isWildcardOrigins allowedOrigins then
       (case lib_url L origin of
          None \<Rightarrow> False
        | Some u \<Rightarrow> if url_Host u = [] then False else EqualFold fold' (url_Host u) (wr_Host r))
      else IsValidOrigin L origin allowedOrigins)"

definition csrf_exempt :: "web_request \<Rightarrow> bool" where
  "csrf_exempt r \<longleftrightarrow>
     (let path = wr_Path r in
      HasPrefix path ''/oauth_callback/'' \<or>
      path \<in> set [''/oauth/token'', ''/oauth/revoke'', ''/oauth/introspect'', ''/oauth/register''] \<or>
      HasPrefix path ''/scim/v2/'' \<or>
      path \<in> set [''/authorize/consent'', ''/mcp'', ''/userinfo'', ''/authorize''] \<or>
      HasPrefix path ''/oauth/saml/'' \<and> HasSuffix path ''/acs'')"

definition request_origin :: "libs \<Rightarrow> web_request \<Rightarrow> string" where
  "request_origin L r =
     (let origin = wr_header r ''Origin''; ref = wr_header r ''Referer'' in
      if origin = [] \<and> ref \<noteq> [] then
       (case lib_url L ref of
          Some u \<Rightarrow> if url_Scheme u \<noteq> [] \<and> url_Host u \<noteq> [] then url_Scheme u @ ''://'' @ url_Host u else origin
        | None \<Rightarrow> origin)
      else origin)"

text \<open>\<open>None\<close> hands the request to the next handler, a response ends it.\<close>

definition CSRFMiddleware ::
    "libs \<Rightarrow> (string \<Rightarrow> string \<Rightarrow> bool) \<Rightarrow> web_config \<Rightarrow> web_request \<Rightarrow> response option" where
  "CSRFMiddleware L fold' W r =
     (if wr_Method r \<in> set [''GET'', ''HEAD'', ''OPTIONS''] then None
      else if csrf_exempt r then None
      else
       (let origin = request_origin L r in
        if origin = []
        then Some (oauth_error 403 ''csrf_validation_failed''
               ''Origin or Referer header is required for state-changing requests'')
        else if \<not> csrfOriginAllowed L fold' origin r (wc_AllowedOrigins W)
        then Some (oauth_error 403 ''csrf_validation_failed'' ''Origin not allowed'')
        else if \<not> Contains (wr_header r ''Content-Type'') ''application/json'' \<and> wr_header r ''X-Requested-With'' = []
        then Some (oauth_error 403 ''csrf_validation_failed''
               ''State-changing requests must include Content-Type: application/json or X-Requested-With header'')
        else None))"

record cors_headers =
  ch_AllowOrigin :: "string option"
  ch_AllowCredentials :: bool
  ch_VaryOrigin :: bool
  ch_Preflight :: bool

definition CORSMiddleware :: "libs \<Rightarrow> web_config \<Rightarrow> web_request \<Rightarrow> cors_headers" where
  "CORSMiddleware L W r =
     (let origin = wr_header r ''Origin''; preflight = (wr_Method r = ''OPTIONS'') in
      if isWildcardOrigins (wc_AllowedOrigins W)
      then \<lparr>ch_AllowOrigin = Some ''*'', ch_AllowCredentials = False, ch_VaryOrigin = False, ch_Preflight = preflight\<rparr>
      else if origin \<noteq> [] \<and> IsValidOrigin L origin (wc_AllowedOrigins W)
      then \<lparr>ch_AllowOrigin = Some origin, ch_AllowCredentials = True, ch_VaryOrigin = True, ch_Preflight = preflight\<rparr>
      else \<lparr>ch_AllowOrigin = None, ch_AllowCredentials = False, ch_VaryOrigin = False, ch_Preflight = preflight\<rparr>)"

section \<open>Logout\<close>

fun PathUnescape :: "string \<Rightarrow> string option" where
  "PathUnescape [] = Some []"
| "PathUnescape (c # cs) =
     (if c = CHR ''%'' then
        (case cs of
           h # l # r \<Rightarrow>
             (case (unhex h, unhex l) of
                (Some a, Some b) \<Rightarrow> map_option ((#) (char_of (16 * a + b))) (PathUnescape r)
              | _ \<Rightarrow> None)
         | _ \<Rightarrow> None)
      else map_option ((#) c) (PathUnescape cs))"

text \<open>
  A request to \<open>/logout\<close>: query and form values, and the two session cookies as sent.
\<close>

record logout_request =
  lq_Method :: string
  lq_query :: "(string \<times> string) list"
  lq_form :: "(string \<times> string) list"
  lq_session :: "string option"
  lq_session_domain :: "string option"
  lq_host :: string
  lq_ip :: string
  lq_agent :: string

text \<open>The two cookies as sent, host-scoped and domain-scoped.\<close>

definition GetSession :: "string option \<Rightarrow> string option \<Rightarrow> string option" where
  "GetSession session session_domain =
     (case (case session of Some c \<Rightarrow> Some c | None \<Rightarrow> session_domain) of
        None \<Rightarrow> None
      | Some v \<Rightarrow> PathUnescape v)"

definition isValidIDTokenHint :: "'s ctx \<Rightarrow> instant \<Rightarrow> string \<Rightarrow> bool" where
  "isValidIDTokenHint X now idTokenHint =
     (if idTokenHint = [] then False
      else
       (case ParseJWTToken (x_C X) (x_L X) now idTokenHint of
          (_, Some _) \<Rightarrow> False
        | (m, None) \<Rightarrow> \<not> (str_of m ''token_type'' \<noteq> [] \<and> str_of m ''token_type'' \<noteq> ''id_token'')))"

text \<open>Query before form, and \<open>post_logout_redirect_uri\<close> before \<open>redirect_uri\<close>.\<close>

definition first_nonempty :: "string list \<Rightarrow> string" where
  "first_nonempty vs = (case filter (\<lambda>v. v \<noteq> []) vs of [] \<Rightarrow> [] | v # _ \<Rightarrow> v)"

definition logout_redirect :: "logout_request \<Rightarrow> string" where
  "logout_redirect rq = first_nonempty
     [TrimSpace (field (lq_query rq) ''post_logout_redirect_uri''),
      TrimSpace (field (lq_form rq) ''post_logout_redirect_uri''),
      TrimSpace (field (lq_query rq) ''redirect_uri''), TrimSpace (field (lq_form rq) ''redirect_uri'')]"

definition logout_state :: "logout_request \<Rightarrow> string" where
  "logout_state rq = first_nonempty
     [TrimSpace (field (lq_query rq) ''state''), TrimSpace (field (lq_form rq) ''state'')]"

definition with_state :: "string \<Rightarrow> string \<Rightarrow> string" where
  "with_state u state =
     (if state = [] then u
      else if Contains u ''?'' then u @ ''&state='' @ QueryEscape state
      else u @ ''?state='' @ QueryEscape state)"

datatype logout_answer = LogoutConfirm | LogoutUnauthorized | LogoutRedirect string | LogoutDone

definition session_terminated_event :: "logout_request \<Rightarrow> string \<Rightarrow> audit_event" where
  "session_terminated_event rq userID =
     \<lparr>ev_Action = ''session.terminated'', ev_ActorID = userID, ev_ActorType = ''user'', ev_ActorEmail = [],
      ev_ResourceType = ''session'', ev_ResourceID = userID, ev_Metadata = MText [],
      ev_IPAddress = lq_ip rq, ev_UserAgent = lq_agent rq\<rparr>"

definition logout_target :: "libs \<Rightarrow> web_config \<Rightarrow> logout_request \<Rightarrow> logout_answer" where
  "logout_target L W rq =
     (let u = logout_redirect rq in
      if u \<noteq> [] \<and> IsValidRedirectURI L u (wc_AllowedOrigins W) (lq_host rq)
      then LogoutRedirect (with_state u (logout_state rq)) else LogoutDone)"

text \<open>
  The answer (\<open>None\<close> for a panic) and the new world. The back-channel notification runs
  asynchronously and is not part of the model.
\<close>

definition LogoutHandler ::
    "'s http \<Rightarrow> web_config \<Rightarrow> instant \<Rightarrow> logout_request \<Rightarrow> 's world \<Rightarrow> logout_answer option \<times> 's world" where
  "LogoutHandler H W now rq w =
     (let X = h_X H; L = x_L X in
      if lq_Method rq = ''GET'' \<and> \<not> isValidIDTokenHint X now (TrimSpace (field (lq_query rq) ''id_token_hint''))
      then (Some LogoutConfirm, w)
      else
       (case GetSession (lq_session rq) (lq_session_domain rq) of
          None \<Rightarrow> (Some LogoutUnauthorized, w)
        | Some fingerprintHash \<Rightarrow>
            (case DecryptAES L (c_ClientSecret (x_C X)) fingerprintHash of
               Panic \<Rightarrow> (None, w)
             | Err _ \<Rightarrow> (Some LogoutUnauthorized, w)
             | Ok plain \<Rightarrow>
                 (case lib_session_dec L plain of
                    Panic \<Rightarrow> (None, w)
                  | Err _ \<Rightarrow> (Some LogoutUnauthorized, w)
                  | Ok sd \<Rightarrow>
                      (case on_mem (m_DeleteUserSession (x_M X) (session_store_key sd) (sd_Nonce sd)) w of
                         (Panic, w1) \<Rightarrow> (None, w1)
                       | (_, w1) \<Rightarrow>
                           (Some (logout_target L W rq), log_event (session_terminated_event rq (sd_Subject sd)) w1))))))"

section \<open>Lemmas on origins\<close>

text \<open>What the two wildcard patterns denote.\<close>

definition label :: "string \<Rightarrow> bool" where
  "label l \<longleftrightarrow> l \<noteq> [] \<and> CHR ''.'' \<notin> set l"

definition labels_of :: "string list \<Rightarrow> string" where
  "labels_of ls = concat (map (\<lambda>l. l @ ''.'') ls)"

inductive star_match :: "string \<Rightarrow> string \<Rightarrow> bool" where
  star_end: "star_match [] []"
| star_gap: "CHR ''.'' \<notin> set g \<Longrightarrow> star_match ps s \<Longrightarrow> star_match (CHR ''*'' # ps) (g @ s)"
| star_char: "p \<noteq> CHR ''*'' \<Longrightarrow> star_match ps s \<Longrightarrow> star_match (p # ps) (p # s)"

lemma match_labels_sound:
  "match_labels rest ne s \<Longrightarrow>
     \<exists>l ls. CHR ''.'' \<notin> set l \<and> (ne \<or> l \<noteq> []) \<and> list_all label ls \<and> s = l @ ''.'' @ labels_of ls @ rest"
proof (induction s arbitrary: ne)
  case (Cons c cs)
  show ?case
  proof (cases "c = CHR ''.''")
    case True
    then consider "ne" "cs = rest" | "ne" "match_labels rest False cs" using Cons.prems by auto
    then show ?thesis
    proof cases
      case 1
      then show ?thesis using True by (intro exI[of _ "[]"]) (simp add: labels_of_def)
    next
      case 2
      then obtain l ls where "label l" "list_all label ls" "cs = l @ ''.'' @ labels_of ls @ rest"
        using Cons.IH unfolding label_def by blast
      then show ?thesis using True 2(1)
        by (intro exI[of _ "[]"] exI[of _ "l # ls"]) (simp add: labels_of_def)
    qed
  next
    case False
    then obtain l ls where "CHR ''.'' \<notin> set l" "list_all label ls" "cs = l @ ''.'' @ labels_of ls @ rest"
      using Cons.IH[of True] Cons.prems by auto
    then show ?thesis using False by (intro exI[of _ "c # l"] exI[of _ ls]) simp
  qed
qed simp

lemma match_labels_word:
  "CHR ''.'' \<notin> set l \<Longrightarrow> match_labels rest ne (l @ ''.'' @ s) = ((ne \<or> l \<noteq> []) \<and> (s = rest \<or> match_labels rest False s))"
  by (induction l arbitrary: ne) auto

lemma match_labels_complete: "list_all label ls \<Longrightarrow> ls \<noteq> [] \<Longrightarrow> match_labels rest False (labels_of ls @ rest)"
proof (induction ls)
  case (Cons l ls)
  then show ?case
    using match_labels_word[of l rest False "labels_of ls @ rest"]
    by (cases ls) (auto simp: labels_of_def label_def)
qed simp

lemma match_labels_iff:
  "match_labels rest False s \<longleftrightarrow> (\<exists>ls. ls \<noteq> [] \<and> list_all label ls \<and> s = labels_of ls @ rest)"
proof
  assume "match_labels rest False s"
  then obtain l ls where "label l" "list_all label ls" "s = l @ ''.'' @ labels_of ls @ rest"
    using match_labels_sound unfolding label_def by blast
  then show "\<exists>ls. ls \<noteq> [] \<and> list_all label ls \<and> s = labels_of ls @ rest"
    by (intro exI[of _ "l # ls"]) (simp add: labels_of_def)
qed (use match_labels_complete in blast)

lemma match_stars_sound: "match_stars p s \<Longrightarrow> star_match p s"
proof (induction p s rule: match_stars.induct)
  case (2 p ps)
  then show ?case using star_gap[of "[]" ps "[]"] by simp
next
  case (3 p ps c cs)
  show ?case
  proof (cases "p = CHR ''*''")
    case True
    then consider "match_stars ps (c # cs)" | "c \<noteq> CHR ''.''" "match_stars (p # ps) cs"
      using "3.prems" by auto
    then show ?thesis
    proof cases
      case 1
      then show ?thesis using star_gap[of "[]" ps "c # cs"] 3 True by simp
    next
      case 2
      then have "star_match (CHR ''*'' # ps) cs" using 3 True by auto
      then obtain g s where "CHR ''.'' \<notin> set g" "star_match ps s" "cs = g @ s"
        by (cases rule: star_match.cases) auto
      then show ?thesis using star_gap[of "c # g" ps s] 2(1) True by simp
    qed
  next
    case False
    then show ?thesis using 3 star_char by auto
  qed
qed (auto intro: star_end)

lemma match_stars_gap: "CHR ''.'' \<notin> set g \<Longrightarrow> match_stars ps s \<Longrightarrow> match_stars (CHR ''*'' # ps) (g @ s)"
  by (induction g) (cases s; auto)+

lemma match_stars_iff: "match_stars p s \<longleftrightarrow> star_match p s"
proof
  assume "star_match p s"
  then show "match_stars p s" by induction (auto intro: match_stars_gap)
qed (rule match_stars_sound)

text \<open>The gap a star stands for never crosses a dot, so both strings have the same labels.\<close>

lemma star_match_dots: "star_match p s \<Longrightarrow> length (filter ((=) (CHR ''.'')) s) = length (filter ((=) (CHR ''.'')) p)"
proof (induction rule: star_match.induct)
  case (star_gap g ps s)
  then have "filter ((=) (CHR ''.'')) g = []" by (auto simp: filter_empty_conv)
  then show ?case using star_gap by simp
qed auto

lemma labels_of_subdomain:
  assumes "ls \<noteq> []"
  shows "labels_of ls @ rest \<noteq> rest" "HasSuffix (labels_of ls @ rest) (''.'' @ rest)"
proof -
  obtain l ls' where ls: "ls = ls' @ [l]" using assms by (cases ls rule: rev_cases) auto
  show "labels_of ls @ rest \<noteq> rest" using assms by (cases ls) (auto simp: labels_of_def)
  show "HasSuffix (labels_of ls @ rest) (''.'' @ rest)" by (simp add: HasSuffix_def ls labels_of_def)
qed

section \<open>Lemmas on redirects, middlewares and addresses\<close>

text \<open>Two URIs that differ at most in the port of a loopback host.\<close>

definition same_but_port :: "libs \<Rightarrow> string \<Rightarrow> string \<Rightarrow> bool" where
  "same_but_port L a b \<longleftrightarrow> (\<exists>r p. lib_url L a = Some r \<and> lib_url L b = Some p \<and>
     isLoopbackHost (Hostname r) \<and>
     (url_Scheme r, Hostname r, url_Path r, url_RawQuery r) = (url_Scheme p, Hostname p, url_Path p, url_RawQuery p) \<and>
     url_Fragment p = [] \<and> url_User p = None)"

lemma redirectURIMatches_cases: "redirectURIMatches L r u \<Longrightarrow> u = r \<or> same_but_port L r u"
  by (auto simp: redirectURIMatches_def same_but_port_def split: if_splits option.splits)

lemma matchesAny_cases: "matchesAny L rs u \<Longrightarrow> \<exists>r\<in>set rs. u = r \<or> same_but_port L r u"
  unfolding matchesAny_def list_ex_iff using redirectURIMatches_cases by blast

text \<open>A URI the allow-list accepts: HTTP, and on the server's own host or on a configured origin.\<close>

definition allow_listed :: "libs \<Rightarrow> string list \<Rightarrow> string \<Rightarrow> string \<Rightarrow> bool" where
  "allow_listed L origins host u \<longleftrightarrow>
     (\<exists>p. lib_url L u = Some p \<and> url_Scheme p \<in> {''http'', ''https''}) \<and>
     (if origins = [] \<or> origins = [''*''] then normalizeOrigin L u = normalizeOrigin L host
      else \<exists>c\<in>set origins. originMatches L c (normalizeOrigin L u))"

lemma IsValidRedirectURI_iff: "IsValidRedirectURI L u origins host \<longleftrightarrow> allow_listed L origins host u"
  by (auto simp: IsValidRedirectURI_def allow_listed_def Let_def list_ex_iff split: option.splits)

text \<open>The URIs a client is held to, if there are any.\<close>

definition exact_uris :: "'s http \<Rightarrow> web_config \<Rightarrow> string \<Rightarrow> string list \<Rightarrow> bool" where
  "exact_uris H W cid uris \<longleftrightarrow> cid \<noteq> [] \<and>
     (uris = trimmed (wc_RedirectURIs W) \<and> uris \<noteq> [] \<and> cid = TrimSpace (c_ClientID (x_C (h_X H))) \<or>
      (\<exists>resolve d. ae_metadata (h_E H) = Some resolve \<and> resolve cid = Ok d \<and> uris = d_RedirectURIs d) \<or>
      (\<exists>client. s_GetClientByClientID (x_S (h_X H)) cid = Found client \<and> uris = ParsedRedirectURIs client \<and> uris \<noteq> []))"

lemma walk_trusted:
  "list_all (\<lambda>h. \<exists>a. ip_parse I (TrimSpace h) = Some a \<and> isTrustedProxy cidrs (Some a)) hops \<Longrightarrow> rest \<noteq> [] \<Longrightarrow>
     walk_forwarded I cidrs (hops @ rest) = walk_forwarded I cidrs rest"
  by (induction hops) auto

lemma checkClientRedirectURI_Ok:
  assumes "checkClientRedirectURI H W cid u host = Ok c" "rc_Valid c"
  shows "(\<exists>uris. exact_uris H W cid uris \<and> matchesAny (x_L (h_X H)) uris u) \<or>
    IsValidRedirectURI (x_L (h_X H)) u (wc_AllowedOrigins W) host \<and>
      (cid = [] \<or> (case s_GetClientByClientID (x_S (h_X H)) cid of
         NilRow \<Rightarrow> True | Found client \<Rightarrow> ParsedRedirectURIs client = [] | _ \<Rightarrow> False))"
proof -
  let ?L = "x_L (h_X H)" and ?f = "IsValidRedirectURI (x_L (h_X H)) u (wc_AllowedOrigins W) host"
  have reg: ?thesis if "cid \<noteq> []" "(case s_GetClientByClientID (x_S (h_X H)) cid of
      Found client \<Rightarrow> let registered = ParsedRedirectURIs client in
        Ok \<lparr>rc_Valid = (if registered \<noteq> [] then matchesAny ?L registered u else ?f),
            rc_SelfRegistered = IsSelfRegistered (cl_Kind client)\<rparr>
    | NilRow \<Rightarrow> Ok (only_valid ?f) | _ \<Rightarrow> Err errClientUnavailable) = Ok c"
    using that assms(2) unfolding exact_uris_def only_valid_def
    by (auto simp: Let_def split: lookup.splits if_splits)
  show ?thesis
  proof (cases "cid = []")
    case True
    then show ?thesis using assms by (auto simp: checkClientRedirectURI_def Let_def only_valid_def)
  next
    case False
    show ?thesis
      using assms False reg[OF False] unfolding checkClientRedirectURI_def Let_def exact_uris_def
      by (auto simp: only_valid_def split: option.splits if_splits out.splits)
  qed
qed

section \<open>Properties\<close>


definition fx_web :: web_config where
  "fx_web = \<lparr>wc_AllowedOrigins = [''https://app'', ''*.example''], wc_RedirectURIs = []\<rparr>"

definition fx_redirect_http :: "in_memory http" where
  "fx_redirect_http = im_http fx_config fx_tlibs
     (fx_tstorage\<lparr>s_GetClientByClientID := (\<lambda>i. Found (fx_client\<lparr>cl_RedirectURIs := ''https://app/cb, https://b/cb''\<rparr>))\<rparr>)
     (fx_env\<lparr>ae_metadata := None\<rparr>)"


text \<open>
  C37. What an entry of the allow-list matches: without a star its own normal form only; \<open>*.d\<close>
  exactly the proper subdomains of \<open>d\<close>; with another star, the strings that arise from the entry by
  putting text without a dot for every star.
\<close>

theorem origin_wildcards:
  "originMatches L configured candidate =
     (let p = normalizeOrigin L configured in
      if \<not> Contains p ''*'' then candidate = p
      else if HasPrefix p ''*.''
      then \<exists>ls. ls \<noteq> [] \<and> list_all label ls \<and> candidate = labels_of ls @ drop 2 p
      else star_match p candidate)"
  unfolding originMatches_def Let_def match_labels_iff match_stars_iff by auto

text \<open>
  C27. Cross-origin requests: a state-changing request that passes the CSRF check outside the exempt
  paths names an origin that is the server's own host, when any origin is allowed, and otherwise
  matches a configured entry; and it has a header no plain form can send. An answer is readable
  with credentials only for an origin that matches an explicit entry.
\<close>

theorem cross_origin_guard:
  assumes "CSRFMiddleware L fold' W r = None" "wr_Method r \<notin> set [''GET'', ''HEAD'', ''OPTIONS'']" "\<not> csrf_exempt r"
  shows "(if isWildcardOrigins (wc_AllowedOrigins W)
     then \<exists>u. lib_url L (request_origin L r) = Some u \<and> url_Host u \<noteq> [] \<and> EqualFold fold' (url_Host u) (wr_Host r)
     else \<exists>c\<in>set (wc_AllowedOrigins W). originMatches L c (normalizeOrigin L (request_origin L r))) \<and>
    (Contains (wr_header r ''Content-Type'') ''application/json'' \<or> wr_header r ''X-Requested-With'' \<noteq> []) \<and>
    (ch_AllowCredentials (CORSMiddleware L W q) \<longrightarrow>
       \<not> isWildcardOrigins (wc_AllowedOrigins W) \<and> ch_AllowOrigin (CORSMiddleware L W q) = Some (wr_header q ''Origin'') \<and>
       (\<exists>c\<in>set (wc_AllowedOrigins W). originMatches L c (normalizeOrigin L (wr_header q ''Origin''))))"
proof -
  have valid: "\<exists>c\<in>set (wc_AllowedOrigins W). originMatches L c (normalizeOrigin L o')"
    if "\<not> isWildcardOrigins (wc_AllowedOrigins W)" "IsValidOrigin L o' (wc_AllowedOrigins W)" for o'
    using that by (auto simp: isWildcardOrigins_def IsValidOrigin_def Let_def list_ex_iff split: if_splits)
  have pass: "csrfOriginAllowed L fold' (request_origin L r) r (wc_AllowedOrigins W)"
    "Contains (wr_header r ''Content-Type'') ''application/json'' \<or> wr_header r ''X-Requested-With'' \<noteq> []"
    using assms by (auto simp: CSRFMiddleware_def Let_def simp del: list.set split: if_splits)
  have "if isWildcardOrigins (wc_AllowedOrigins W)
     then \<exists>u. lib_url L (request_origin L r) = Some u \<and> url_Host u \<noteq> [] \<and> EqualFold fold' (url_Host u) (wr_Host r)
     else \<exists>c\<in>set (wc_AllowedOrigins W). originMatches L c (normalizeOrigin L (request_origin L r))"
    using pass(1) valid by (auto simp: csrfOriginAllowed_def split: option.splits if_splits)
  then show ?thesis using pass(2) valid by (auto simp: CORSMiddleware_def Let_def split: if_splits)
qed

definition fx_post :: web_request where
  "fx_post = \<lparr>wr_Method = ''POST'', wr_Path = ''/graphql'', wr_Host = ''auth'', wr_RemoteAddr = ''10.0.0.1:4711'',
     wr_header = (\<lambda>h. if h = ''Origin'' then ''https://app'' else if h = ''Content-Type'' then ''application/json''
       else if h = ''X-Forwarded-For'' then ''6.6.6.6, 9.9.9.9, 10.0.0.2'' else [])\<rparr>"

theorem cross_origin_guard_witness:
  "CSRFMiddleware fx_libs (=) fx_web fx_post = None \<and>
   (\<exists>c\<in>set (wc_AllowedOrigins fx_web). originMatches fx_libs c (normalizeOrigin fx_libs (request_origin fx_libs fx_post)))"
proof -
  have h: "CSRFMiddleware fx_libs (=) fx_web fx_post = None"
    "wr_Method fx_post \<notin> set [''GET'', ''HEAD'', ''OPTIONS'']" "\<not> csrf_exempt fx_post"
    "\<not> isWildcardOrigins (wc_AllowedOrigins fx_web)" by code_simp+
  show ?thesis using cross_origin_guard[OF h(1-3)] h(1,4) by simp
qed

text \<open>
  C28. The client address cannot be forged: a peer that is not a trusted proxy is the client, whatever
  headers it sends; behind trusted proxies the client is the rightmost entry of the forwarding
  header that is not one of them, whatever stands to its left.
\<close>

theorem client_address_unforgeable:
  shows "(\<not> isTrustedProxy cidrs (ip_parse I (peer_address r)) \<longrightarrow> GetIP I cidrs r = peer_address r) \<and>
    (isTrustedProxy cidrs (ip_parse I (peer_address r)) \<longrightarrow>
       wr_header r ''X-Forwarded-For'' \<noteq> [] \<longrightarrow>
       Split (wr_header r ''X-Forwarded-For'') '','' = forged @ [hop] @ hops \<longrightarrow>
       ip_parse I (TrimSpace hop) = Some a \<longrightarrow> \<not> isTrustedProxy cidrs (Some a) \<longrightarrow>
       list_all (\<lambda>h. \<exists>b. ip_parse I (TrimSpace h) = Some b \<and> isTrustedProxy cidrs (Some b)) hops \<longrightarrow>
       GetIP I cidrs r = TrimSpace hop)"
proof -
  have "walk_forwarded I cidrs (rev (forged @ [hop] @ hops)) = Some (TrimSpace hop)"
    if "ip_parse I (TrimSpace hop) = Some a" "\<not> isTrustedProxy cidrs (Some a)"
      "list_all (\<lambda>h. \<exists>b. ip_parse I (TrimSpace h) = Some b \<and> isTrustedProxy cidrs (Some b)) hops"
    using walk_trusted[of I cidrs "rev hops" "hop # rev forged"] that by (simp add: list_all_rev)
  then show ?thesis by (simp add: GetIP_def Let_def)
qed

definition fx_ips :: ip_lib where
  "fx_ips = \<lparr>ip_parse = (\<lambda>s. if s = ''10.0.0.1'' then Some [10, 0, 0, 1] else if s = ''10.0.0.2'' then Some [10, 0, 0, 2]
       else if s = ''9.9.9.9'' then Some [9, 9, 9, 9] else None),
     ip_cidr = (\<lambda>s. if s = ''10.0.0.0/8'' then Some ([10, 0, 0, 0], [255, 0, 0, 0]) else None)\<rparr>"

theorem client_address_unforgeable_witness:
  "GetIP fx_ips (SetTrustedProxies fx_ips [''10.0.0.0/8'']) fx_post = ''9.9.9.9'' \<and>
   GetIP fx_ips None fx_post = ''10.0.0.1''"
proof -
  have h: "isTrustedProxy (SetTrustedProxies fx_ips [''10.0.0.0/8'']) (ip_parse fx_ips (peer_address fx_post))"
    "wr_header fx_post ''X-Forwarded-For'' \<noteq> []"
    "Split (wr_header fx_post ''X-Forwarded-For'') '','' = [''6.6.6.6''] @ ['' 9.9.9.9''] @ ['' 10.0.0.2'']"
    "ip_parse fx_ips (TrimSpace '' 9.9.9.9'') = Some [9, 9, 9, 9]"
    "\<not> isTrustedProxy (SetTrustedProxies fx_ips [''10.0.0.0/8'']) (Some [9, 9, 9, 9])"
    "ip_parse fx_ips (TrimSpace '' 10.0.0.2'') = Some [10, 0, 0, 2]"
    "isTrustedProxy (SetTrustedProxies fx_ips [''10.0.0.0/8'']) (Some [10, 0, 0, 2])"
    "TrimSpace '' 9.9.9.9'' = ''9.9.9.9''" "\<not> isTrustedProxy None (ip_parse fx_ips (peer_address fx_post))"
    "peer_address fx_post = ''10.0.0.1''" by code_simp+
  show ?thesis
    using client_address_unforgeable[of "SetTrustedProxies fx_ips [''10.0.0.0/8'']" fx_ips fx_post "[''6.6.6.6'']"
        "'' 9.9.9.9''" "['' 10.0.0.2'']" "[9, 9, 9, 9]"]
      client_address_unforgeable[of None fx_ips fx_post] h by simp
qed


definition fx_logout_rq :: logout_request where
  "fx_logout_rq = \<lparr>lq_Method = ''POST'', lq_query = [(''redirect_uri'', ''https://app'')], lq_form = [(''state'', ''a b'')],
     lq_session = Some fx_cookie, lq_session_domain = None, lq_host = ''https://auth'', lq_ip = [], lq_agent = []\<rparr>"


end
