(* ===== verification/Front_Channel.thy ===== *)
theory Front_Channel
  imports Origins "HOL-Library.List_Lexorder" "HOL-Library.Char_ord"
begin

text \<open>
  What \<open>/authorize\<close> and its consent page share: \<open>url.Values\<close> with its encoder and parser, the pages a
  browser is answered with, and the helpers of \<open>internal/http_handlers/authorize.go\<close> that deliver a
  result or an error to a client. Templates are represented by the data they are given.
\<close>

section \<open>Package net/url: Values\<close>

type_synonym url_values = "(string \<times> string list) list"

definition values_of :: "url_values \<Rightarrow> string \<Rightarrow> string list" where
  "values_of vs k = (case map_of vs k of Some xs \<Rightarrow> xs | None \<Rightarrow> [])"

definition Values_Get :: "url_values \<Rightarrow> string \<Rightarrow> string" where
  "Values_Get vs k = (case values_of vs k of [] \<Rightarrow> [] | v # _ \<Rightarrow> v)"

text \<open>Keys in byte order, the values of a key in theirs.\<close>

definition value_pieces :: "string \<times> string list \<Rightarrow> string list" where
  "value_pieces kv = map (\<lambda>v. QueryEscape (fst kv) @ ''='' @ QueryEscape v) (snd kv)"

definition Values_Encode :: "url_values \<Rightarrow> string" where
  "Values_Encode vs = Join (concat (map value_pieces (sort_key fst vs))) ''&''"

definition Cut :: "string \<Rightarrow> char \<Rightarrow> string \<times> string" where
  "Cut s c = (takeWhile (\<lambda>x. x \<noteq> c) s, drop 1 (dropWhile (\<lambda>x. x \<noteq> c) s))"

definition parse_piece :: "string \<Rightarrow> url_values \<Rightarrow> url_values" where
  "parse_piece piece vs =
     (if Contains piece '';'' then vs
      else if piece = [] then vs
      else
       (case Cut piece (CHR ''='') of
          (k, v) \<Rightarrow>
            (case (QueryUnescape k, QueryUnescape v) of
               (Some k', Some v') \<Rightarrow> AList.update k' (values_of vs k' @ [v']) vs
             | _ \<Rightarrow> vs)))"

text \<open>\<open>url.ParseQuery\<close> without its error, which the code ignores.\<close>

definition ParseQuery :: "string \<Rightarrow> url_values" where
  "ParseQuery q = fold parse_piece (Split q ''&'') []"

section \<open>Pages\<close>

record consent_page =
  cp_client_name :: string
  cp_client_id :: string
  cp_redirect_host :: string
  cp_user_email :: string
  cp_scopes :: "string list"
  cp_loopback_only :: bool
  cp_consent_id :: string

text \<open>
  The last argument of \<open>FormPost\<close> and \<open>Consent\<close> is the Content-Security-Policy that replaces the default one.
  \<open>NoBody\<close> is a handler that writes nothing.
\<close>

datatype page =
    Json int claims
  | Redirect string
  | WebMessage string claims
  | FormPost string claims string string
  | Consent consent_page string
  | ConsentError int string string string
  | NoBody

datatype cookie_change = KeepCookie | SetCookie string | DropCookie

record authz_response =
  ar_page :: page
  ar_cookie :: cookie_change

definition only_page :: "page \<Rightarrow> authz_response" where
  "only_page p = \<lparr>ar_page = p, ar_cookie = KeepCookie\<rparr>"

lemma only_page_sel [simp]: "ar_page (only_page p) = p" "ar_cookie (only_page p) = KeepCookie"
  by (simp_all add: only_page_def)

definition json_error :: "int \<Rightarrow> string \<Rightarrow> string \<Rightarrow> page" where
  "json_error status err desc = Json status [(''error'', CStr err), (''error_description'', CStr desc)]"

text \<open>\<open>random\<close> is what \<open>crypto/rand\<close> delivered, \<open>None\<close> when it failed; the result is the nonce and the policy.\<close>

definition setFormPostCSP :: "string option \<Rightarrow> string \<times> string" where
  "setFormPostCSP random =
     (let bytes = (case random of Some b \<Rightarrow> b | None \<Rightarrow> ''fallback-nonce-value'');
          cspNonce = b64_rawurl bytes in
      (cspNonce,
       ''default-src 'self'; '' @ ''script-src 'self' 'nonce-'' @ cspNonce @ '''; '' @
       ''style-src 'self' 'unsafe-inline'; '' @ ''img-src 'self' data: https:; '' @ ''font-src 'self' data:; '' @
       ''connect-src 'self'; '' @ ''frame-ancestors 'none'; '' @ ''base-uri 'self'; '' @ ''form-action *;''))"

definition form_post_page :: "string option \<Rightarrow> string \<Rightarrow> claims \<Rightarrow> page" where
  "form_post_page random target data =
     (case setFormPostCSP random of (cspNonce, policy) \<Rightarrow> FormPost target data cspNonce policy)"

text \<open>Appending a parameter string to a URI, after \<open>sep\<close> unless the URI already has one.\<close>

definition with_params :: "string \<Rightarrow> string \<Rightarrow> string \<Rightarrow> string" where
  "with_params sep u params = (if Contains u sep then u @ ''&'' @ params else u @ sep @ params)"

definition authorization_response :: "claims \<Rightarrow> claims" where
  "authorization_response res = [(''type'', CStr ''authorization_response''), (''response'', CMap res)]"

definition redirectErrorToRP ::
    "string option \<Rightarrow> string \<Rightarrow> string \<Rightarrow> string \<Rightarrow> string \<Rightarrow> string \<Rightarrow> page" where
  "redirectErrorToRP random responseMode redirectURI state errCode errDesc =
     (if redirectURI = ''/app'' then json_error 400 errCode errDesc
      else
       (let errParams = ''error='' @ QueryEscape errCode @ ''&error_description='' @ QueryEscape errDesc @
              (if state \<noteq> [] then ''&state='' @ QueryEscape state else []);
            res = [(''error'', CStr errCode), (''error_description'', CStr errDesc), (''state'', CStr state)] in
        if responseMode = ''web_message'' then WebMessage redirectURI (authorization_response res)
        else if responseMode = ''form_post'' then form_post_page random redirectURI res
        else Redirect (with_params (if responseMode = ''fragment'' then ''#'' else ''?'') redirectURI errParams)))"

text \<open>The \<open>response\<close> entry of the data decides whether it reports an error.\<close>

definition has_error :: "claims \<Rightarrow> bool" where
  "has_error res \<longleftrightarrow> map_of res ''error'' \<noteq> None"

definition handleResponse ::
    "string option \<Rightarrow> string \<Rightarrow> string \<Rightarrow> string \<Rightarrow> claims \<Rightarrow> page" where
  "handleResponse random responseMode authURI redirectURI res =
     (if has_error res \<and> responseMode \<noteq> ''web_message'' then Redirect authURI
      else if responseMode = ''query'' \<or> responseMode = ''fragment'' then Redirect redirectURI
      else if responseMode = ''web_message'' then WebMessage redirectURI (authorization_response res)
      else if responseMode = ''form_post'' then form_post_page random redirectURI res
      else NoBody)"

section \<open>Response types\<close>

definition supportedResponseTypeSet :: "string \<Rightarrow> string option" where
  "supportedResponseTypeSet raw =
     (let fields = Fields raw in
      if fields = [] then None
      else
       (let seen = remdups (filter (\<lambda>f. f \<noteq> []) (map (\<lambda>f. ToLower (TrimSpace f)) fields));
            canonical = Join (sort seen) '' '' in
        if canonical \<in> set [''code'', ''token'', ''id_token'', ''code id_token'', ''code token'',
                            ''code id_token token'', ''id_token token'']
        then Some canonical else None))"

definition responseTypeHasBareToken :: "string \<Rightarrow> bool" where
  "responseTypeHasBareToken responseType = list_ex (\<lambda>c. c = ''token'') (Fields responseType)"

definition validateAuthorizeRequest :: "string \<Rightarrow> string \<Rightarrow> string \<Rightarrow> (string \<times> string) option" where
  "validateAuthorizeRequest responseType responseMode state =
     (if TrimSpace state = [] then Some (''invalid_request'', ''state parameter is required'')
      else if responseMode \<noteq> ''query'' \<and> responseMode \<noteq> ''web_message'' \<and> responseMode \<noteq> ''fragment'' \<and>
              responseMode \<noteq> ''form_post''
      then Some (''invalid_request'', ''response_mode must be one of: query, fragment, form_post, web_message'')
      else if responseMode = ''query'' \<and> responseType \<noteq> ''code''
      then Some (''invalid_request'', ''response_mode=query is not allowed for response_type='' @ responseType @
                   ''; use fragment or form_post'')
      else None)"

section \<open>Round trip of url.Values\<close>

lemma hex_digit_plain: "n < 16 \<Longrightarrow> hex_digit n \<notin> {CHR ''&'', CHR ''='', CHR '';''}"
proof -
  have "list_all (\<lambda>n. hex_digit n \<notin> {CHR ''&'', CHR ''='', CHR '';''}) [0..<16]"
    by (simp add: upt_conv_Cons hex_digit_def)
  then show "n < 16 \<Longrightarrow> hex_digit n \<notin> {CHR ''&'', CHR ''='', CHR '';''}" by (auto simp: list_all_iff)
qed

lemma QueryEscape_plain: "c \<in> set (QueryEscape s) \<Longrightarrow> c \<notin> {CHR ''&'', CHR ''='', CHR '';''}"
proof (induction s)
  case (Cons d ds)
  have "unreserved d \<Longrightarrow> d \<notin> {CHR ''&'', CHR ''='', CHR '';''}"
    by (auto simp: unreserved_def Let_def)
  moreover have "hex_digit (of_char d div 16) \<notin> {CHR ''&'', CHR ''='', CHR '';''}"
    "hex_digit (of_char d mod 16) \<notin> {CHR ''&'', CHR ''='', CHR '';''}"
    by (rule hex_digit_plain; simp add: of_char_hi)+
  ultimately show ?case using Cons by (auto split: if_splits)
qed simp

lemma Cut_escaped: "Cut (QueryEscape k @ ''='' @ QueryEscape v) (CHR ''='') = (QueryEscape k, QueryEscape v)"
proof -
  have "\<forall>x \<in> set (QueryEscape k). x \<noteq> CHR ''=''" using QueryEscape_plain by blast
  then show ?thesis by (simp add: Cut_def takeWhile_append2 dropWhile_append2)
qed

lemma piece_plain: "c \<in> set (QueryEscape k @ ''='' @ QueryEscape v) \<Longrightarrow> c \<noteq> CHR ''&'' \<and> c \<noteq> CHR '';''"
  using QueryEscape_plain[of c k] QueryEscape_plain[of c v] by auto

lemma parse_piece_escaped:
  "parse_piece (QueryEscape k @ ''='' @ QueryEscape v) vs = AList.update k (values_of vs k @ [v]) vs"
proof -
  have "\<not> Contains (QueryEscape k @ ''='' @ QueryEscape v) '';''"
    by (rule Contains_not) (use piece_plain in blast)
  then show ?thesis using Cut_escaped[of k v] by (simp add: parse_piece_def QueryUnescape_Escape)
qed

lemma update_fresh: "k \<notin> set (map fst vs) \<Longrightarrow> AList.update k x vs = vs @ [(k, x)]"
  by (induction vs) auto

lemma update_last: "k \<notin> set (map fst vs) \<Longrightarrow> AList.update k y (vs @ [(k, x)]) = vs @ [(k, y)]"
  by (induction vs) auto

lemma values_of_fresh: "k \<notin> set (map fst vs) \<Longrightarrow> values_of vs k = []" "k \<notin> set (map fst vs) \<Longrightarrow> values_of (vs @ [(k, x)]) k = x"
  by (induction vs) (auto simp: values_of_def split: option.splits)

lemma parse_pieces:
  assumes "k \<notin> set (map fst vs)"
  shows "xs \<noteq> [] \<Longrightarrow> fold parse_piece (value_pieces (k, xs)) vs = vs @ [(k, xs)]"
proof -
  have later: "fold parse_piece (value_pieces (k, ys)) (vs @ [(k, xs)]) = vs @ [(k, xs @ ys)]" for xs ys
  proof (induction ys arbitrary: xs)
    case (Cons y ys)
    then show ?case
      using assms Cons.IH[of "xs @ [y]"] parse_piece_escaped[of k y]
      by (simp add: value_pieces_def values_of_fresh update_last)
  qed (simp add: value_pieces_def)
  show "xs \<noteq> [] \<Longrightarrow> fold parse_piece (value_pieces (k, xs)) vs = vs @ [(k, xs)]"
  proof (cases xs)
    case (Cons y ys)
    then show ?thesis
      using assms later[of ys "[y]"] parse_piece_escaped[of k y]
      by (simp add: value_pieces_def values_of_fresh update_fresh)
  qed simp
qed

lemma parse_all_pieces:
  assumes "distinct (map fst (vs @ ws))" "\<forall>kv\<in>set ws. snd kv \<noteq> []"
  shows "fold parse_piece (concat (map value_pieces ws)) vs = vs @ ws"
  using assms
proof (induction ws arbitrary: vs)
  case (Cons w ws)
  have "fold parse_piece (value_pieces w) vs = vs @ [w]"
    using Cons.prems parse_pieces[of "fst w" vs "snd w"] by simp
  then show ?case using Cons.prems Cons.IH[of "vs @ [w]"] by simp
qed simp

text \<open>Parsing what was encoded gives the same values, in the order of the keys.\<close>

lemma ParseQuery_Encode:
  assumes "distinct (map fst vs)" "\<forall>kv\<in>set vs. snd kv \<noteq> []"
  shows "ParseQuery (Values_Encode vs) = sort_key fst vs"
proof -
  let ?ws = "sort_key fst vs"
  let ?ps = "concat (map value_pieces ?ws)"
  have d: "distinct (map fst ([] @ ?ws))" "\<forall>kv\<in>set ?ws. snd kv \<noteq> []"
    using assms by (simp_all add: distinct_map)
  have p: "fold parse_piece ?ps [] = ?ws" using parse_all_pieces[OF d] by simp
  have plain: "\<forall>x\<in>set ?ps. CHR ''&'' \<notin> set x"
  proof
    fix x assume "x \<in> set ?ps"
    then obtain k v where "x = QueryEscape k @ ''='' @ QueryEscape v" by (auto simp: value_pieces_def)
    then show "CHR ''&'' \<notin> set x" using piece_plain by blast
  qed
  show ?thesis
  proof (cases "?ps = []")
    case True
    have "parse_piece [] [] = []" by code_simp
    moreover have "?ws = []" "Values_Encode vs = []" using p unfolding Values_Encode_def True by simp_all
    ultimately show ?thesis by (simp add: ParseQuery_def Split_plain)
  next
    case False
    then show ?thesis using Split_Join[OF False plain, of "[]"] p by (simp add: ParseQuery_def Values_Encode_def)
  qed
qed

end
