(* ===== verification/Consent.thy ===== *)
theory Consent
  imports Front_Channel
begin

text \<open>
  \<open>internal/http_handlers/consent.go\<close>: the page on which a user approves a client that nobody vouched for,
  and the handler of the decision. The JSON codec of the stored record is a parameter.
\<close>

section \<open>Keys and records\<close>

record pendingConsent =
  pc_ClientID :: string
  pc_ClientName :: string
  pc_RedirectURI :: string
  pc_Scopes :: "string list"
  pc_Query :: string
  pc_UserID :: string

record consent_codec =
  cc_Marshal :: "pendingConsent \<Rightarrow> string out"
  cc_Unmarshal :: "string \<Rightarrow> pendingConsent out"

record consentClient =
  kc_ClientID :: string
  kc_ClientName :: string
  kc_RedirectURIs :: "string list"

definition isLoopbackOnly :: "libs \<Rightarrow> consentClient \<Rightarrow> bool" where
  "isLoopbackOnly L c =
     (if kc_RedirectURIs c = [] then False
      else list_all (\<lambda>raw. case lib_url L raw of None \<Rightarrow> False | Some u \<Rightarrow> isLoopbackHost (Hostname u))
             (kc_RedirectURIs c))"

definition consentKey :: "string \<Rightarrow> string" where
  "consentKey i = ''cimd_consent:'' @ i"

definition consentGrantKey :: "libs \<Rightarrow> string \<Rightarrow> string \<Rightarrow> string \<Rightarrow> string" where
  "consentGrantKey L userID clientID query =
     ''cimd_consent_granted:'' @ userID @ '':'' @ clientID @ '':'' @ HexEncode (lib_sha256 L query)"

definition originalParams :: "url_values \<Rightarrow> url_values" where
  "originalParams form = map (\<lambda>(k, vs). (k, [hd vs])) (filter (\<lambda>(k, vs). vs \<noteq> []) form)"

section \<open>The policy of the page\<close>

definition csp_safe_char :: "char \<Rightarrow> bool" where
  "csp_safe_char c \<longleftrightarrow>
     (let n = (of_char c :: nat) in
      97 \<le> n \<and> n \<le> 122 \<or> 65 \<le> n \<and> n \<le> 90 \<or> 48 \<le> n \<and> n \<le> 57) \<or> c \<in> set ''.-:[]''"

definition isCSPSafeHost :: "string \<Rightarrow> bool" where
  "isCSPSafeHost host = (if host = [] then False else list_all csp_safe_char host)"

definition setConsentCSP :: "libs \<Rightarrow> string \<Rightarrow> string" where
  "setConsentCSP L redirectURI =
     (let formAction = [CHR 0x27] @ ''self'' @ [CHR 0x27] @
            (case lib_url L redirectURI of
               None \<Rightarrow> []
             | Some u \<Rightarrow> if url_Scheme u \<noteq> [] \<and> isCSPSafeHost (url_Host u)
                         then '' '' @ url_Scheme u @ ''://'' @ url_Host u else []) in
      ''default-src 'self'; '' @ ''script-src 'self'; '' @ ''style-src 'self' 'unsafe-inline'; '' @
      ''img-src 'self' data: https:; '' @ ''font-src 'self' data:; '' @ ''connect-src 'self'; '' @
      ''frame-ancestors 'none'; '' @ ''base-uri 'self'; '' @ ''form-action '' @ formAction @ '';'')"

section \<open>Showing the page\<close>

definition consent_not_started :: page where
  "consent_not_started = ConsentError 500 ''Something went wrong''
     ''We could not start the approval for this application.''
     ''Please return to the application and try connecting again.''"

definition renderConsent ::
    "'s http \<Rightarrow> consent_codec \<Rightarrow> instant \<Rightarrow> string \<Rightarrow> consentClient \<Rightarrow> string \<Rightarrow> string \<Rightarrow> string \<Rightarrow> string list \<Rightarrow>
     url_values \<Rightarrow> 's world \<Rightarrow> page option \<times> 's world" where
  "renderConsent H K now consentID client redirectURI userID userEmail scopes form w =
     (let L = x_L (h_X H) in
      case cc_Marshal K \<lparr>pc_ClientID = kc_ClientID client, pc_ClientName = kc_ClientName client,
             pc_RedirectURI = redirectURI, pc_Scopes = scopes,
             pc_Query = Values_Encode (originalParams form), pc_UserID = userID\<rparr> of
        Panic \<Rightarrow> (None, w)
      | Err _ \<Rightarrow> (Some consent_not_started, w)
      | Ok payload \<Rightarrow>
          (case on_mem (m_SetState (x_M (h_X H)) now (consentKey consentID) payload) w of
             (Panic, w1) \<Rightarrow> (None, w1)
           | (Err _, w1) \<Rightarrow> (Some consent_not_started, w1)
           | (Ok _, w1) \<Rightarrow>
               (let redirectHost =
                      (case lib_url L redirectURI of
                         Some u \<Rightarrow> if url_Host u \<noteq> [] then url_Host u else redirectURI
                       | None \<Rightarrow> redirectURI) in
                (Some (Consent
                   \<lparr>cp_client_name = kc_ClientName client, cp_client_id = kc_ClientID client,
                    cp_redirect_host = redirectHost, cp_user_email = userEmail, cp_scopes = scopes,
                    cp_loopback_only = isLoopbackOnly L client, cp_consent_id = consentID\<rparr>
                   (setConsentCSP L redirectURI)), w1))))"

section \<open>The decision\<close>

text \<open>A request to \<open>/authorize/consent\<close>: the posted form, the session cookies, the Authorization header.\<close>

record consent_request =
  kq_form :: url_values
  kq_session :: "string option"
  kq_session_domain :: "string option"
  kq_authorization :: string
  kq_host :: string

definition session_or_empty :: "string option \<Rightarrow> string" where
  "session_or_empty s = (case s of Some v \<Rightarrow> v | None \<Rightarrow> [])"

definition approve_consent :: "'s http \<Rightarrow> instant \<Rightarrow> pendingConsent \<Rightarrow> 's world \<Rightarrow> page option \<times> 's world" where
  "approve_consent H now pending w =
     (case on_mem (m_SetState (x_M (h_X H)) now
             (consentGrantKey (x_L (h_X H)) (pc_UserID pending) (pc_ClientID pending) (pc_Query pending)) ''1'') w of
        (Panic, w1) \<Rightarrow> (None, w1)
      | (Err _, w1) \<Rightarrow> (Some (ConsentError 500 ''Something went wrong'' ''Your approval could not be recorded.''
                         ''Please return to the application and try connecting again.''), w1)
      | (Ok _, w1) \<Rightarrow> (Some (Redirect (''/authorize?'' @ pc_Query pending)), w1))"

definition decide_consent ::
    "'s http \<Rightarrow> instant \<Rightarrow> string option \<Rightarrow> consent_request \<Rightarrow> pendingConsent \<Rightarrow> 's world \<Rightarrow> page option \<times> 's world" where
  "decide_consent H now random rq pending w =
     (let mismatch = ConsentError 401 ''Please sign in again''
            ''This approval was created for a different sign-in session, so it was not applied.''
            ''Return to the application and connect again to approve as the account you are signed in with.'' in
      case on_mem (GetUserIDFromSessionOrAccessToken (h_X H) now (kq_host rq)
             (session_or_empty (GetSession (kq_session rq) (kq_session_domain rq))) (kq_authorization rq)) w of
        (Panic, w1) \<Rightarrow> (None, w1)
      | (Err _, w1) \<Rightarrow> (Some mismatch, w1)
      | (Ok tokenData, w1) \<Rightarrow>
          if sa_UserID tokenData \<noteq> pc_UserID pending then (Some mismatch, w1)
          else if TrimSpace (sa_ActorID tokenData) \<noteq> []
          then (Some (ConsentError 403 ''Please approve this from your own session''
                  ''This approval was submitted by an application acting on your behalf, which cannot grant another application access to your account.''
                  ''Open this link in your own browser and approve it there.''), w1)
          else if Values_Get (kq_form rq) ''action'' \<noteq> ''approve''
          then (let orig = ParseQuery (pc_Query pending) in
                (Some (redirectErrorToRP random (Values_Get orig ''response_mode'') (pc_RedirectURI pending)
                   (Values_Get orig ''state'') ''access_denied''
                   ''the user declined to authorize this application''), w1))
          else approve_consent H now pending w1)"

definition ConsentHandler ::
    "'s http \<Rightarrow> consent_codec \<Rightarrow> instant \<Rightarrow> string option \<Rightarrow> consent_request \<Rightarrow> 's world \<Rightarrow> page option \<times> 's world" where
  "ConsentHandler H K now random rq w =
     (let consentID = TrimSpace (Values_Get (kq_form rq) ''consent_id'');
          used = ConsentError 400 ''This approval has already been used''
            ''Approvals can only be used once, and they expire after a few minutes.''
            ''Nothing has been shared. Return to the application and connect again to get a fresh approval.'' in
      if consentID = []
      then (Some (ConsentError 400 ''This approval link is not valid''
              ''The request is missing the identifier that ties it to an approval.''
              ''Please return to the application and try connecting again.''), w)
      else
       (case on_mem (m_GetAndRemoveState (x_M (h_X H)) now (consentKey consentID)) w of
          (Panic, w1) \<Rightarrow> (None, w1)
        | (Err _, w1) \<Rightarrow> (Some used, w1)
        | (Ok raw, w1) \<Rightarrow>
            if raw = [] then (Some used, w1)
            else
             (case cc_Unmarshal K raw of
                Panic \<Rightarrow> (None, w1)
              | Err _ \<Rightarrow> (Some (ConsentError 400 ''This approval is no longer valid''
                            ''The saved approval could not be read.''
                            ''Please return to the application and try connecting again.''), w1)
              | Ok pending \<Rightarrow> decide_consent H now random rq pending w1)))"

end
