(* ===== verification/Authorize.thy ===== *)
theory Authorize
  imports Consent
begin

text \<open>
  \<open>internal/http_handlers/authorize.go\<close>: the authorization endpoint. The handler is cut where the code
  returns early: reading and checking the request, which touches no state; remembering the request
  under its \<open>state\<close>; forced re-authentication; the browser session; consent; and one definition per kind of
  response type that issues a code or tokens. \<open>id_token_hint\<close> is only logged by the code and left out.
\<close>

section \<open>The request\<close>

text \<open>\<open>aq_form\<close> is \<open>Request.Form\<close>: the values of the body before those of the query string.\<close>

record authorize_request =
  aq_form :: url_values
  aq_session :: "string option"
  aq_session_domain :: "string option"
  aq_host :: string

record authz_config =
  zc_web :: web_config
  zc_DefaultAuthorizeResponseMode :: string

record authz_randoms =
  zr_code :: string
  zr_nonce :: string
  zr_gcm :: string
  zr_uuid :: string
  zr_csp :: "string option"
  zr_consent_id :: string

text \<open>The variables of the handler; \<open>ap_maxAge\<close> is \<open>-1\<close> when absent, \<open>ap_code\<close> empty when no code is generated.\<close>

record authz_params =
  ap_redirectURI :: string
  ap_responseType :: string
  ap_state :: string
  ap_codeChallenge :: string
  ap_codeChallengeMethod :: string
  ap_scopeString :: string
  ap_scope :: "string list"
  ap_clientID :: string
  ap_responseMode :: string
  ap_rawResponseMode :: string
  ap_nonce :: string
  ap_screenHint :: string
  ap_resource :: string
  ap_loginHint :: string
  ap_uiLocales :: string
  ap_prompt :: string
  ap_maxAge :: int
  ap_selfRegistered :: bool
  ap_code :: string

definition param :: "authorize_request \<Rightarrow> string \<Rightarrow> string" where
  "param rq k = TrimSpace (Values_Get (aq_form rq) k)"

definition parse_max_age :: "string \<Rightarrow> int" where
  "parse_max_age s =
     (if s = [] then -1
      else (case ParseInt s of (parsed, ok) \<Rightarrow> if ok \<and> 0 \<le> parsed then parsed else -1))"

definition read_params :: "authz_config \<Rightarrow> authorize_request \<Rightarrow> authz_params" where
  "read_params Z rq = \<lparr>
     ap_redirectURI = param rq ''redirect_uri'', ap_responseType = param rq ''response_type'',
     ap_state = param rq ''state'', ap_codeChallenge = param rq ''code_challenge'',
     ap_codeChallengeMethod =
       (if param rq ''code_challenge_method'' = [] \<and> param rq ''code_challenge'' \<noteq> [] then ''plain''
        else param rq ''code_challenge_method''),
     ap_scopeString = param rq ''scope'',
     ap_scope = (if param rq ''scope'' = [] then [''openid'', ''profile'', ''email''] else Split (param rq ''scope'') '' ''),
     ap_clientID = param rq ''client_id'',
     ap_responseMode =
       (if param rq ''response_mode'' = [] then zc_DefaultAuthorizeResponseMode Z else param rq ''response_mode''),
     ap_rawResponseMode = param rq ''response_mode'', ap_nonce = param rq ''nonce'',
     ap_screenHint = param rq ''screen_hint'', ap_resource = param rq ''resource'',
     ap_loginHint = param rq ''login_hint'', ap_uiLocales = param rq ''ui_locales'',
     ap_prompt = param rq ''prompt'', ap_maxAge = parse_max_age (param rq ''max_age''),
     ap_selfRegistered = False, ap_code = []\<rparr>"

section \<open>Checks\<close>

text \<open>A step hands the parameters on, answers, or panics.\<close>

datatype 'a az_step = Proceed 'a | Answer page | Fault

definition bind_az :: "'a az_step \<Rightarrow> ('a \<Rightarrow> 'b az_step) \<Rightarrow> 'b az_step" where
  "bind_az m f = (case m of Proceed a \<Rightarrow> f a | Answer p \<Rightarrow> Answer p | Fault \<Rightarrow> Fault)"

definition refuse :: "page option \<Rightarrow> 'a \<Rightarrow> 'a az_step" where
  "refuse e a = (case e of None \<Rightarrow> Proceed a | Some p \<Rightarrow> Answer p)"

definition resolve_redirect ::
    "'s http \<Rightarrow> authz_config \<Rightarrow> authorize_request \<Rightarrow> authz_params \<Rightarrow> authz_params az_step" where
  "resolve_redirect H Z rq p =
     (if ap_redirectURI p = [] then Proceed (p\<lparr>ap_redirectURI := ''/app''\<rparr>)
      else
       (case checkClientRedirectURI H (zc_web Z) (ap_clientID p) (ap_redirectURI p) (aq_host rq) of
          Panic \<Rightarrow> Fault
        | Err e \<Rightarrow>
            if e = errClientUnresolvable
            then Answer (json_error 400 ''invalid_client''
                   ''could not resolve the client metadata document for this client_id'')
            else Answer (json_error 503 ''temporarily_unavailable'' ''could not verify the client; please retry'')
        | Ok check \<Rightarrow>
            if \<not> rc_Valid check then Answer (json_error 400 ''invalid_request'' ''invalid redirect_uri'')
            else Proceed (p\<lparr>ap_selfRegistered := rc_SelfRegistered check\<rparr>)))"

definition error_to_rp :: "authz_randoms \<Rightarrow> authz_params \<Rightarrow> string \<Rightarrow> string \<Rightarrow> page" where
  "error_to_rp rnd p = redirectErrorToRP (zr_csp rnd) (ap_responseMode p) (ap_redirectURI p) (ap_state p)"

definition request_error :: "libs \<Rightarrow> authz_randoms \<Rightarrow> authorize_request \<Rightarrow> authz_params \<Rightarrow> page option" where
  "request_error L rnd rq p =
     (if 1 < length (values_of (aq_form rq) ''resource'')
      then Some (error_to_rp rnd p ''invalid_request'' ''only one resource parameter is supported'')
      else if ap_resource p \<noteq> [] \<and> \<not> isValidResourceIndicator L (ap_resource p)
      then Some (error_to_rp rnd p ''invalid_target'' ''resource must be an absolute URI without a fragment'')
      else if param rq ''request'' \<noteq> [] \<or> param rq ''request_uri'' \<noteq> []
      then Some
       (if param rq ''request_uri'' \<noteq> []
        then error_to_rp rnd p ''request_uri_not_supported'' ''the request_uri parameter is not supported''
        else error_to_rp rnd p ''request_not_supported'' ''the request parameter is not supported'')
      else if ap_responseType p = []
      then Some (error_to_rp rnd p ''invalid_request'' ''response_type is required'')
      else None)"

definition pkce_method_error :: "config \<Rightarrow> authz_params \<Rightarrow> page option" where
  "pkce_method_error C p =
     (let m = ap_codeChallengeMethod p in
      if m \<noteq> [] \<and> m \<noteq> ''S256'' \<and> m \<noteq> ''plain''
      then Some (json_error 400 ''invalid_request'' ''Supported code_challenge_method values are S256 and plain'')
      else if c_OAuth21Strict C \<and> m = ''plain'' \<and> ap_codeChallenge p \<noteq> []
      then Some (json_error 400 ''invalid_request'' ''code_challenge_method=plain is not allowed; use S256'')
      else None)"

definition isHybrid :: "string \<Rightarrow> bool" where
  "isHybrid responseType \<longleftrightarrow> responseType \<in> set [''code id_token'', ''code token'', ''code id_token token'']"

definition isImplicit :: "string \<Rightarrow> bool" where
  "isImplicit responseType \<longleftrightarrow> responseType \<in> set [''token'', ''id_token'', ''id_token token'']"

definition canonical_type :: "authz_params \<Rightarrow> authz_params az_step" where
  "canonical_type p =
     (case supportedResponseTypeSet (ap_responseType p) of
        None \<Rightarrow> Answer (json_error 400 ''unsupported_response_type'' ''response_type is not supported'')
      | Some canonical \<Rightarrow> Proceed (p\<lparr>ap_responseType := canonical\<rparr>))"

definition front_channel_mode :: "authz_randoms \<Rightarrow> authz_params \<Rightarrow> authz_params az_step" where
  "front_channel_mode rnd p =
     (if isHybrid (ap_responseType p) \<or> isImplicit (ap_responseType p) then
        if ap_rawResponseMode p = ''query''
        then Answer (redirectErrorToRP (zr_csp rnd) ''fragment'' (ap_redirectURI p) (ap_state p) ''invalid_request''
               (''response_mode=query is not allowed for response_type='' @ ap_responseType p))
        else if ap_rawResponseMode p = [] then Proceed (p\<lparr>ap_responseMode := ''fragment''\<rparr>)
        else Proceed p
      else Proceed p)"

text \<open>Registered by itself, or presenting a metadata document.\<close>

definition isCIMDClient :: "'s http \<Rightarrow> authz_params \<Rightarrow> bool" where
  "isCIMDClient H p \<longleftrightarrow> ae_metadata (h_E H) \<noteq> None \<and>
     IsMetadataClientIDFor (x_L (h_X H)) (ap_clientID p) (c_ClientID (x_C (h_X H)))"

definition self_asserted :: "'s http \<Rightarrow> authz_params \<Rightarrow> bool" where
  "self_asserted H p \<longleftrightarrow> ap_selfRegistered p \<or> isCIMDClient H p"

definition self_asserted_error :: "'s http \<Rightarrow> authz_params \<Rightarrow> page option" where
  "self_asserted_error H p =
     (if self_asserted H p then
        if isImplicit (ap_responseType p)
        then Some (json_error 400 ''unsupported_response_type'' ''this client may only use response_type=code'')
        else if ap_codeChallenge p = []
        then Some (json_error 400 ''invalid_request''
               ''code_challenge is required for this client; use PKCE with code_challenge_method=S256'')
        else if ap_codeChallengeMethod p \<noteq> ''S256''
        then Some (json_error 400 ''invalid_request'' ''code_challenge_method must be S256 for this client'')
        else None
      else None)"

definition late_error :: "config \<Rightarrow> authz_randoms \<Rightarrow> authz_params \<Rightarrow> page option" where
  "late_error C rnd p =
     (let responseType = ap_responseType p in
      if c_OAuth21Strict C \<and> responseTypeHasBareToken responseType
      then Some (error_to_rp rnd p ''unsupported_response_type'' (''response_type='' @ responseType @ '' is not supported''))
      else
       (case validateAuthorizeRequest responseType (ap_responseMode p) (ap_state p) of
          Some (errCode, errDesc) \<Rightarrow> Some (json_error 400 errCode errDesc)
        | None \<Rightarrow>
            if Contains responseType ''id_token'' \<and> ap_nonce p = []
            then Some (error_to_rp rnd p ''invalid_request'' (''nonce is required for response_type='' @ responseType))
            else None))"

definition hasCodeFlow :: "authz_params \<Rightarrow> bool" where
  "hasCodeFlow p = Contains (ap_responseType p) ''code''"

definition with_generated :: "authz_randoms \<Rightarrow> authz_params \<Rightarrow> authz_params" where
  "with_generated rnd p = p\<lparr>ap_code := (if hasCodeFlow p then zr_code rnd else []),
     ap_nonce := (if ap_nonce p = [] then zr_nonce rnd else ap_nonce p)\<rparr>"

text \<open>Everything before the first write, in the order of the code.\<close>

definition checked_params ::
    "'s http \<Rightarrow> authz_config \<Rightarrow> authz_randoms \<Rightarrow> authorize_request \<Rightarrow> authz_params az_step" where
  "checked_params H Z rnd rq =
     (let C = x_C (h_X H); L = x_L (h_X H) in
      bind_az (resolve_redirect H Z rq (read_params Z rq)) (\<lambda>p.
      bind_az (refuse (request_error L rnd rq p) p) (\<lambda>p.
      bind_az (refuse (pkce_method_error C p) p) (\<lambda>p.
      bind_az (canonical_type p) (\<lambda>p.
      bind_az (front_channel_mode rnd p) (\<lambda>p.
      bind_az (refuse (self_asserted_error H p) p) (\<lambda>p.
      bind_az (refuse (late_error C rnd p) p) (\<lambda>p. Proceed (with_generated rnd p)))))))))"

section \<open>The login page and the remembered request\<close>

definition authState :: "authz_params \<Rightarrow> string" where
  "authState p =
     ''state='' @ QueryEscape (ap_state p) @ ''&scope='' @ QueryEscape (ap_scopeString p) @
     ''&redirect_uri='' @ QueryEscape (ap_redirectURI p) @ ''&response_mode='' @ QueryEscape (ap_responseMode p) @
     ''&response_type='' @ QueryEscape (ap_responseType p) @ ''&client_id='' @ QueryEscape (ap_clientID p) @
     (if ap_loginHint p \<noteq> [] then ''&login_hint='' @ QueryEscape (ap_loginHint p) else []) @
     (if ap_uiLocales p \<noteq> [] then ''&ui_locales='' @ QueryEscape (ap_uiLocales p) else []) @
     ''&nonce='' @ QueryEscape (ap_nonce p) @
     (if ap_codeChallenge p \<noteq> []
      then ''&code_challenge='' @ QueryEscape (ap_codeChallenge p) @
           ''&code_challenge_method='' @ QueryEscape (ap_codeChallengeMethod p) else []) @
     (if ap_resource p \<noteq> [] then ''&resource='' @ QueryEscape (ap_resource p) else []) @
     (if hasCodeFlow p then ''&code='' @ ap_code p else [])"

definition authURL :: "authz_params \<Rightarrow> string" where
  "authURL p =
     (if ap_screenHint p = ''signup'' then ''/app/signup'' else ''/app'') @
     (if ap_responseMode p = ''fragment'' then ''#'' else ''?'') @ authState p"

definition challenge_data :: "authz_params \<Rightarrow> string" where
  "challenge_data p =
     (if ap_codeChallenge p \<noteq> [] then ap_codeChallenge p @ ''::'' @ ap_codeChallengeMethod p else ap_codeChallenge p)"

definition remembered :: "authz_params \<Rightarrow> string" where
  "remembered p =
     (if hasCodeFlow p
      then EncodeAuthorize \<lparr>az_Code = ap_code p, az_Challenge = challenge_data p, az_Nonce = ap_nonce p,
             az_RedirectURI = ap_redirectURI p, az_Resource = ap_resource p, az_ClientID = ap_clientID p\<rparr>
      else ap_nonce p)"

definition respond :: "authz_randoms \<Rightarrow> authz_params \<Rightarrow> string \<Rightarrow> claims \<Rightarrow> page" where
  "respond rnd p redirectURI res = handleResponse (zr_csp rnd) (ap_responseMode p) (authURL p) redirectURI res"

definition login_page :: "authz_randoms \<Rightarrow> authz_params \<Rightarrow> page" where
  "login_page rnd p = respond rnd p (ap_redirectURI p)
     [(''error'', CStr ''login_required''), (''error_description'', CStr ''Login is required'')]"

definition signup_page :: "authz_randoms \<Rightarrow> authz_params \<Rightarrow> page" where
  "signup_page rnd p = respond rnd p (ap_redirectURI p)
     [(''error'', CStr ''signup_required''), (''error_description'', CStr ''Sign up required'')]"

definition promptNoneLoginRequired :: "authz_randoms \<Rightarrow> authz_params \<Rightarrow> page" where
  "promptNoneLoginRequired rnd p =
     (let desc = ''prompt=none was requested but the user is not authenticated'';
          errParams = ''error=login_required'' @ ''&error_description='' @ QueryEscape desc @
            ''&state='' @ QueryEscape (ap_state p);
          res = [(''error'', CStr ''login_required''), (''error_description'', CStr desc), (''state'', CStr (ap_state p))];
          errRedirectURI =
            (if ap_responseMode p = ''fragment'' then with_params ''#'' (ap_redirectURI p) errParams
             else if ap_responseMode p = ''query'' then with_params ''?'' (ap_redirectURI p) errParams
             else ap_redirectURI p) in
      if ap_responseMode p = ''web_message'' then WebMessage (ap_redirectURI p) (authorization_response res)
      else if ap_responseMode p = ''form_post'' then form_post_page (zr_csp rnd) (ap_redirectURI p) res
      else Redirect errRedirectURI)"

text \<open>No usable session: \<open>prompt=none\<close> is answered to the client, everything else with the login page.\<close>

definition no_session :: "authz_randoms \<Rightarrow> authz_params \<Rightarrow> page" where
  "no_session rnd p = (if ap_prompt p = ''none'' then promptNoneLoginRequired rnd p else login_page rnd p)"

section \<open>Issuing\<close>

text \<open>A write whose failure sends the user to the login page.\<close>

definition or_login ::
    "authz_randoms \<Rightarrow> authz_params \<Rightarrow> unit out \<times> 's world \<Rightarrow> ('s world \<Rightarrow> authz_response option \<times> 's world) \<Rightarrow>
     authz_response option \<times> 's world" where
  "or_login rnd p r k =
     (case r of (Ok _, w) \<Rightarrow> k w | (Err _, w) \<Rightarrow> (Some (only_page (login_page rnd p)), w) | (Panic, w) \<Rightarrow> (None, w))"

definition authz_token_config :: "authorize_request \<Rightarrow> authz_params \<Rightarrow> SessionData \<Rightarrow> User \<Rightarrow> AuthTokenConfig" where
  "authz_token_config rq p claims user = no_config\<lparr>
     atc_User := Some user, atc_Nonce := ap_nonce p, atc_Roles := sd_Roles claims, atc_Scope := Some (ap_scope p),
     atc_LoginMethod := sd_LoginMethod claims, atc_HostName := aq_host rq,
     atc_AuthTime := EffectiveAuthTime claims, atc_ClientID := ap_clientID p\<rparr>"

definition create_tokens ::
    "'s http \<Rightarrow> instant \<Rightarrow> authz_randoms \<Rightarrow> authz_params \<Rightarrow> AuthTokenConfig \<Rightarrow> 's world \<Rightarrow>
     (AuthToken \<Rightarrow> authz_response option \<times> 's world) \<Rightarrow> authz_response option \<times> 's world" where
  "create_tokens H now rnd p cfg w k =
     (case CreateAuthToken (x_C (h_X H)) (x_L (h_X H)) now (zr_gcm rnd) (zr_uuid rnd) cfg of
        Panic \<Rightarrow> (None, w)
      | Err _ \<Rightarrow> (Some (only_page (login_page rnd p)), w)
      | Ok authToken \<Rightarrow> k authToken)"

text \<open>The redirect URI with the result in its fragment, when that is the response mode.\<close>

definition in_fragment :: "authz_params \<Rightarrow> string \<Rightarrow> string" where
  "in_fragment p params =
     (if ap_responseMode p = ''fragment'' then with_params ''#'' (ap_redirectURI p) params else ap_redirectURI p)"

definition store_both ::
    "'s http \<Rightarrow> instant \<Rightarrow> authz_randoms \<Rightarrow> authz_params \<Rightarrow> string \<Rightarrow> AuthToken \<Rightarrow> 's world \<Rightarrow>
     ('s world \<Rightarrow> authz_response option \<times> 's world) \<Rightarrow> authz_response option \<times> 's world" where
  "store_both H now rnd p sessionKey authToken w k =
     (let M = x_M (h_X H); L = x_L (h_X H) in
      or_login rnd p (on_mem (m_SetUserSession M now sessionKey (TokenTypeSessionToken @ ''_'' @ at_FingerPrint authToken)
          (HashSessionValue L (at_FingerPrintHash authToken)) (at_SessionTokenExpiresAt authToken)) w) (\<lambda>w.
      or_login rnd p (on_mem (m_SetUserSession M now sessionKey (TokenTypeAccessToken @ ''_'' @ at_FingerPrint authToken)
          (HashSessionValue L (jt_Token (at_AccessToken authToken))) (jt_ExpiresAt (at_AccessToken authToken))) w) k))"

definition issue_hybrid ::
    "'s http \<Rightarrow> instant \<Rightarrow> authz_randoms \<Rightarrow> authorize_request \<Rightarrow> authz_params \<Rightarrow> SessionData \<Rightarrow> User \<Rightarrow> string \<Rightarrow>
     's world \<Rightarrow> authz_response option \<times> 's world" where
  "issue_hybrid H now rnd rq p claims user sessionKey w =
     create_tokens H now rnd p ((authz_token_config rq p claims user)\<lparr>atc_Code := ap_code p\<rparr>) w (\<lambda>authToken.
     or_login rnd p (on_mem (m_SetState (x_M (h_X H)) now (ap_code p)
         (EncodeCode \<lparr>cs_Challenge = challenge_data p, cs_Session = at_FingerPrintHash authToken, cs_Nonce = ap_nonce p,
            cs_RedirectURI = ap_redirectURI p, cs_Resource = [], cs_ClientID = ap_clientID p\<rparr>)) w) (\<lambda>w.
     store_both H now rnd p sessionKey authToken w (\<lambda>w.
      let expiresIn = expires_in now (jt_ExpiresAt (at_AccessToken authToken));
          accessToken = jt_Token (at_AccessToken authToken); idToken = jt_Token (at_IDToken authToken);
          hasAccessToken = ap_responseType p \<in> set [''code token'', ''code id_token token''];
          hasIDToken = ap_responseType p \<in> set [''code id_token'', ''code id_token token''];
          res = [(''code'', CStr (ap_code p)), (''state'', CStr (ap_state p)), (''token_type'', CStr ''Bearer''),
                 (''expires_in'', CInt expiresIn)] @
                (if hasAccessToken then [(''access_token'', CStr accessToken)] else []) @
                (if hasIDToken then [(''id_token'', CStr idToken)] else []);
          params = ''code='' @ ap_code p @ ''&state='' @ ap_state p @ ''&token_type=Bearer&expires_in='' @ FormatInt expiresIn @
                (if hasAccessToken then ''&access_token='' @ accessToken else []) @
                (if hasIDToken then ''&id_token='' @ idToken else []) in
      (Some \<lparr>ar_page = respond rnd p (in_fragment p params) res, ar_cookie = SetCookie (at_FingerPrintHash authToken)\<rparr>, w))))"

definition issue_id_token_token ::
    "'s http \<Rightarrow> instant \<Rightarrow> authz_randoms \<Rightarrow> authorize_request \<Rightarrow> authz_params \<Rightarrow> SessionData \<Rightarrow> User \<Rightarrow> string \<Rightarrow>
     's world \<Rightarrow> authz_response option \<times> 's world" where
  "issue_id_token_token H now rnd rq p claims user sessionKey w =
     create_tokens H now rnd p (authz_token_config rq p claims user) w (\<lambda>authToken.
     store_both H now rnd p sessionKey authToken w (\<lambda>w.
      let expiresIn = expires_in now (jt_ExpiresAt (at_AccessToken authToken));
          accessToken = jt_Token (at_AccessToken authToken); idToken = jt_Token (at_IDToken authToken);
          res = [(''access_token'', CStr accessToken), (''id_token'', CStr idToken), (''state'', CStr (ap_state p)),
                 (''token_type'', CStr ''Bearer''), (''expires_in'', CInt expiresIn)];
          params = ''access_token='' @ accessToken @ ''&id_token='' @ idToken @
                 ''&token_type=Bearer&expires_in='' @ FormatInt expiresIn @ ''&state='' @ ap_state p in
      (Some \<lparr>ar_page = respond rnd p (in_fragment p params) res, ar_cookie = SetCookie (at_FingerPrintHash authToken)\<rparr>, w)))"

definition code_redirect :: "authz_params \<Rightarrow> string" where
  "code_redirect p =
     (let params = ''code='' @ ap_code p @ ''&state='' @ ap_state p in
      if ap_responseMode p = ''query'' then with_params ''?'' (ap_redirectURI p) params else in_fragment p params)"

definition code_state :: "authz_params \<Rightarrow> string \<Rightarrow> Code" where
  "code_state p newSessionToken =
     \<lparr>cs_Challenge = challenge_data p, cs_Session = newSessionToken, cs_Nonce = ap_nonce p,
      cs_RedirectURI = ap_redirectURI p, cs_Resource = ap_resource p, cs_ClientID = ap_clientID p\<rparr>"

definition issue_code ::
    "'s http \<Rightarrow> instant \<Rightarrow> authz_randoms \<Rightarrow> authz_params \<Rightarrow> SessionData \<Rightarrow> User \<Rightarrow> string \<Rightarrow>
     's world \<Rightarrow> authz_response option \<times> 's world" where
  "issue_code H now rnd p claims user sessionKey w =
     (case CreateSessionToken (x_C (h_X H)) (x_L (h_X H)) now (zr_gcm rnd)
             (no_config\<lparr>atc_User := Some user, atc_Nonce := ap_nonce p, atc_Roles := sd_Roles claims,
                atc_Scope := Some (ap_scope p), atc_LoginMethod := sd_LoginMethod claims,
                atc_AuthTime := EffectiveAuthTime claims\<rparr>) of
        Panic \<Rightarrow> (None, w)
      | Err _ \<Rightarrow> (Some (only_page (login_page rnd p)), w)
      | Ok (newSessionTokenData, newSessionToken, newSessionExpiresAt) \<Rightarrow>
          or_login rnd p (on_mem (m_SetState (x_M (h_X H)) now (ap_code p) (EncodeCode (code_state p newSessionToken))) w) (\<lambda>w.
          or_login rnd p (on_mem (m_SetUserSession (x_M (h_X H)) now sessionKey
              (TokenTypeSessionToken @ ''_'' @ sd_Nonce newSessionTokenData) newSessionToken newSessionExpiresAt) w) (\<lambda>w.
          (Some \<lparr>ar_page = respond rnd p (code_redirect p) [(''code'', CStr (ap_code p)), (''state'', CStr (ap_state p))],
             ar_cookie = SetCookie newSessionToken\<rparr>, w))))"

definition issue_id_token ::
    "'s http \<Rightarrow> instant \<Rightarrow> authz_randoms \<Rightarrow> authorize_request \<Rightarrow> authz_params \<Rightarrow> SessionData \<Rightarrow> User \<Rightarrow> string \<Rightarrow>
     's world \<Rightarrow> authz_response option \<times> 's world" where
  "issue_id_token H now rnd rq p claims user sessionKey w =
     create_tokens H now rnd p (authz_token_config rq p claims user) w (\<lambda>authToken.
     or_login rnd p (on_mem (m_SetUserSession (x_M (h_X H)) now sessionKey (TokenTypeSessionToken @ ''_'' @ ap_nonce p)
         (at_FingerPrintHash authToken) (at_SessionTokenExpiresAt authToken)) w) (\<lambda>w.
      let idToken = jt_Token (at_IDToken authToken);
          params = ''id_token='' @ idToken @ ''&state='' @ ap_state p in
      (Some \<lparr>ar_page = respond rnd p (in_fragment p params) [(''id_token'', CStr idToken), (''state'', CStr (ap_state p))],
         ar_cookie = SetCookie (at_FingerPrintHash authToken)\<rparr>, w)))"

definition issue_token ::
    "'s http \<Rightarrow> instant \<Rightarrow> authz_randoms \<Rightarrow> authorize_request \<Rightarrow> authz_params \<Rightarrow> SessionData \<Rightarrow> User \<Rightarrow> string \<Rightarrow>
     's world \<Rightarrow> authz_response option \<times> 's world" where
  "issue_token H now rnd rq p claims user sessionKey w =
     create_tokens H now rnd p (authz_token_config rq p claims user) w (\<lambda>authToken.
     or_login rnd p (on_mem (m_SetUserSession (x_M (h_X H)) now sessionKey (TokenTypeSessionToken @ ''_'' @ ap_nonce p)
         (at_FingerPrintHash authToken) (at_SessionTokenExpiresAt authToken)) w) (\<lambda>w.
     or_login rnd p (on_mem (m_SetUserSession (x_M (h_X H)) now sessionKey (TokenTypeAccessToken @ ''_'' @ ap_nonce p)
         (jt_Token (at_AccessToken authToken)) (jt_ExpiresAt (at_AccessToken authToken))) w) (\<lambda>w.
      let expiresIn = expires_in now (jt_ExpiresAt (at_AccessToken authToken));
          accessToken = jt_Token (at_AccessToken authToken);
          params = ''access_token='' @ accessToken @ ''&token_type=Bearer&expires_in='' @ FormatInt expiresIn @
                 ''&state='' @ ap_state p;
          res = [(''access_token'', CStr accessToken), (''state'', CStr (ap_state p)), (''token_type'', CStr ''Bearer''),
                 (''expires_in'', CInt expiresIn)] in
      (Some \<lparr>ar_page = respond rnd p (in_fragment p params) res, ar_cookie = SetCookie (at_FingerPrintHash authToken)\<rparr>, w))))"

text \<open>Rolling the session over and dispatching on the response type.\<close>

definition authz_session_key :: "SessionData \<Rightarrow> User \<Rightarrow> string" where
  "authz_session_key claims user =
     (if sd_LoginMethod claims \<noteq> [] then sd_LoginMethod claims @ '':'' @ u_ID user else u_ID user)"

definition issue_response ::
    "'s http \<Rightarrow> instant \<Rightarrow> authz_randoms \<Rightarrow> authorize_request \<Rightarrow> authz_params \<Rightarrow> SessionData \<Rightarrow> User \<Rightarrow>
     's world \<Rightarrow> authz_response option \<times> 's world" where
  "issue_response H now rnd rq p claims user w =
     (let sessionKey = authz_session_key claims user; responseType = ap_responseType p in
      case on_mem (m_DeleteUserSession (x_M (h_X H)) sessionKey (sd_Nonce claims)) w of
        (Panic, w) \<Rightarrow> (None, w)
      | (_, w) \<Rightarrow>
          if isHybrid responseType then issue_hybrid H now rnd rq p claims user sessionKey w
          else if responseType = ''id_token token'' then issue_id_token_token H now rnd rq p claims user sessionKey w
          else if responseType = ''code'' then issue_code H now rnd p claims user sessionKey w
          else if responseType = ''id_token'' then issue_id_token H now rnd rq p claims user sessionKey w
          else if responseType = ''token'' then issue_token H now rnd rq p claims user sessionKey w
          else (Some (only_page (login_page rnd p)), w))"

section \<open>Consent\<close>

text \<open>Name and redirect URIs of the client that asks, or the error page.\<close>

definition describe_client :: "'s http \<Rightarrow> authz_params \<Rightarrow> (string \<times> string list) az_step" where
  "describe_client H p =
     (if isCIMDClient H p then
       (case ae_metadata (h_E H) of
          None \<Rightarrow> Fault
        | Some resolve \<Rightarrow>
            (case resolve (ap_clientID p) of
               Panic \<Rightarrow> Fault
             | Err _ \<Rightarrow> Answer (json_error 400 ''invalid_client''
                          ''could not resolve the client metadata document for this client_id'')
             | Ok doc \<Rightarrow> Proceed (d_ClientName doc, d_RedirectURIs doc)))
      else
       (case s_GetClientByClientID (x_S (h_X H)) (ap_clientID p) of
          Found client \<Rightarrow> Proceed (cl_Name client, ParsedRedirectURIs client)
        | NilRow \<Rightarrow> Answer (json_error 400 ''invalid_client'' ''could not load the client for this client_id'')
        | _ \<Rightarrow> Answer (json_error 503 ''temporarily_unavailable'' ''could not load the client; please retry'')))"

definition ask_consent ::
    "'s http \<Rightarrow> consent_codec \<Rightarrow> instant \<Rightarrow> authz_randoms \<Rightarrow> authorize_request \<Rightarrow> authz_params \<Rightarrow> User \<Rightarrow>
     's world \<Rightarrow> page option \<times> 's world" where
  "ask_consent H K now rnd rq p user w =
     (case describe_client H p of
        Fault \<Rightarrow> (None, w)
      | Answer pg \<Rightarrow> (Some pg, w)
      | Proceed (clientName, redirectURIs) \<Rightarrow>
          if ap_prompt p = ''none''
          then (Some (error_to_rp rnd p ''consent_required'' ''prompt=none was requested but this client requires consent''), w)
          else renderConsent H K now (zr_consent_id rnd)
                 \<lparr>kc_ClientID = ap_clientID p, kc_ClientName = clientName, kc_RedirectURIs = redirectURIs\<rparr>
                 (ap_redirectURI p) (u_ID user) (StringValue (u_Email user)) (ap_scope p) (aq_form rq) w)"

definition consent_grant_key :: "libs \<Rightarrow> authorize_request \<Rightarrow> authz_params \<Rightarrow> User \<Rightarrow> string" where
  "consent_grant_key L rq p user =
     consentGrantKey L (u_ID user) (ap_clientID p) (Values_Encode (originalParams (aq_form rq)))"

definition consent_gate ::
    "'s http \<Rightarrow> consent_codec \<Rightarrow> instant \<Rightarrow> authz_randoms \<Rightarrow> authorize_request \<Rightarrow> authz_params \<Rightarrow> SessionData \<Rightarrow> User \<Rightarrow>
     's world \<Rightarrow> authz_response option \<times> 's world" where
  "consent_gate H K now rnd rq p claims user w =
     (if self_asserted H p then
       (case on_mem (m_GetAndRemoveState (x_M (h_X H)) now (consent_grant_key (x_L (h_X H)) rq p user)) w of
          (Panic, w) \<Rightarrow> (None, w)
        | (Ok granted, w) \<Rightarrow>
            if granted \<noteq> [] then issue_response H now rnd rq p claims user w
            else apfst (map_option only_page) (ask_consent H K now rnd rq p user w)
        | (Err _, w) \<Rightarrow> apfst (map_option only_page) (ask_consent H K now rnd rq p user w))
      else issue_response H now rnd rq p claims user w)"

section \<open>The session of the browser\<close>

text \<open>The session in the cookie, for the checks that ignore a cookie they cannot read.\<close>

definition cookie_session :: "'s ctx \<Rightarrow> string \<Rightarrow> SessionData option out" where
  "cookie_session X sessionToken =
     (case DecryptAES (x_L X) (c_ClientSecret (x_C X)) sessionToken of
        Panic \<Rightarrow> Panic
      | Err _ \<Rightarrow> Ok None
      | Ok plain \<Rightarrow>
          (case lib_session_dec (x_L X) plain of Panic \<Rightarrow> Panic | Err _ \<Rightarrow> Ok None | Ok sd \<Rightarrow> Ok (Some sd)))"

definition too_old :: "instant \<Rightarrow> int \<Rightarrow> SessionData \<Rightarrow> bool" where
  "too_old now maxAge sd \<longleftrightarrow> wrap64 (Unix now - EffectiveAuthTime sd) > maxAge"

definition forceReauth :: "'s ctx \<Rightarrow> instant \<Rightarrow> authz_params \<Rightarrow> string option \<Rightarrow> bool out" where
  "forceReauth X now p cookie =
     (if ap_prompt p = ''login'' \<or> ap_maxAge p = 0 then Ok True
      else
       (case cookie of
          Some sessionToken \<Rightarrow>
            if 0 < ap_maxAge p \<and> ap_prompt p \<noteq> ''none'' then
             (case cookie_session X sessionToken of
                Panic \<Rightarrow> Panic
              | Ok (Some sd) \<Rightarrow> Ok (too_old now (ap_maxAge p) sd)
              | _ \<Rightarrow> Ok False)
            else Ok False
        | None \<Rightarrow> Ok False))"

definition end_browser_session :: "'s ctx \<Rightarrow> string \<Rightarrow> 's world \<Rightarrow> unit out \<times> 's world" where
  "end_browser_session X sessionToken w =
     (case cookie_session X sessionToken of
        Panic \<Rightarrow> (Panic, w)
      | Ok (Some sd) \<Rightarrow> on_mem (m_DeleteUserSession (x_M X) (session_store_key sd) (sd_Nonce sd)) w
      | _ \<Rightarrow> (Ok (), w))"

definition reauthenticate ::
    "'s http \<Rightarrow> authz_randoms \<Rightarrow> authz_params \<Rightarrow> string option \<Rightarrow> 's world \<Rightarrow> authz_response option \<times> 's world" where
  "reauthenticate H rnd p cookie w =
     (case cookie of
        Some sessionToken \<Rightarrow>
          if sessionToken \<noteq> [] then
           (case end_browser_session (h_X H) sessionToken w of
              (Panic, w) \<Rightarrow> (None, w)
            | (_, w) \<Rightarrow> (Some \<lparr>ar_page = no_session rnd p, ar_cookie = DropCookie\<rparr>, w))
          else (Some (only_page (no_session rnd p)), w)
      | None \<Rightarrow> (Some (only_page (no_session rnd p)), w))"

definition with_session ::
    "'s http \<Rightarrow> consent_codec \<Rightarrow> instant \<Rightarrow> authz_randoms \<Rightarrow> authorize_request \<Rightarrow> authz_params \<Rightarrow> string option \<Rightarrow>
     's world \<Rightarrow> authz_response option \<times> 's world" where
  "with_session H K now rnd rq p cookie w =
     (case cookie of
        None \<Rightarrow> (Some (only_page (no_session rnd p)), w)
      | Some sessionToken \<Rightarrow>
          (case on_mem (ValidateBrowserSession (h_X H) now sessionToken) w of
             (Panic, w) \<Rightarrow> (None, w)
           | (Err _, w) \<Rightarrow> (Some (only_page (no_session rnd p)), w)
           | (Ok claims, w) \<Rightarrow>
               (case s_GetUserByID (x_S (h_X H)) (sd_Subject claims) of
                  Found user \<Rightarrow> consent_gate H K now rnd rq p claims user w
                | NilRow \<Rightarrow> (None, w)
                | _ \<Rightarrow> (Some (only_page (signup_page rnd p)), w))))"

section \<open>The handler\<close>

definition authorize_session ::
    "'s http \<Rightarrow> consent_codec \<Rightarrow> instant \<Rightarrow> authz_randoms \<Rightarrow> authorize_request \<Rightarrow> authz_params \<Rightarrow>
     's world \<Rightarrow> authz_response option \<times> 's world" where
  "authorize_session H K now rnd rq p w =
     (let cookie = GetSession (aq_session rq) (aq_session_domain rq) in
      case forceReauth (h_X H) now p cookie of
        Ok True \<Rightarrow> reauthenticate H rnd p cookie w
      | Ok False \<Rightarrow> with_session H K now rnd rq p cookie w
      | _ \<Rightarrow> (None, w))"

text \<open>The answer, \<open>None\<close> for a panic, and the new world.\<close>

definition AuthorizeHandler ::
    "'s http \<Rightarrow> authz_config \<Rightarrow> consent_codec \<Rightarrow> instant \<Rightarrow> authz_randoms \<Rightarrow> authorize_request \<Rightarrow>
     's world \<Rightarrow> authz_response option \<times> 's world" where
  "AuthorizeHandler H Z K now rnd rq w =
     (case checked_params H Z rnd rq of
        Fault \<Rightarrow> (None, w)
      | Answer pg \<Rightarrow> (Some (only_page pg), w)
      | Proceed p \<Rightarrow>
          (case on_mem (m_SetState (x_M (h_X H)) now (ap_state p) (remembered p)) w of
             (Panic, w) \<Rightarrow> (None, w)
           | (Err _, w) \<Rightarrow> (Some (only_page (Json 500 [(''error'', CStr ''internal server error'')])), w)
           | (Ok _, w) \<Rightarrow>
               if ap_responseType p = ''code'' \<and> ap_codeChallenge p = [] \<and> ap_codeChallengeMethod p \<noteq> []
               then (Some (only_page (error_to_rp rnd p ''invalid_request''
                       ''code_challenge is required when code_challenge_method is specified'')), w)
               else authorize_session H K now rnd rq p w))"

end
