(* ===== verification/Authorize_Lemmas.thy ===== *)
theory Authorize_Lemmas
  imports Authorize Token_Properties
begin

text \<open>
  The library behind the properties of \<open>/authorize\<close>: what its checks establish, which states and sessions a
  request may write (proved from the store's contract), what stands behind an answer that issues
  something, and how the blob of a code is taken apart again at the token endpoint.
\<close>

section \<open>What the checks establish\<close>

lemma bind_az_Proceed: "bind_az m f = Proceed b \<longleftrightarrow> (\<exists>a. m = Proceed a \<and> f a = Proceed b)"
  by (cases m) (simp_all add: bind_az_def)

lemma bind_az_Answer: "bind_az m f = Answer q \<longleftrightarrow> m = Answer q \<or> (\<exists>a. m = Proceed a \<and> f a = Answer q)"
  by (cases m) (simp_all add: bind_az_def)

lemma refuse_simps: "refuse e a = Proceed b \<longleftrightarrow> e = None \<and> b = a" "refuse e a = Answer q \<longleftrightarrow> e = Some q"
  by (cases e; auto simp: refuse_def)+

lemma if_Some_None: "(if b then Some x else y) = None \<longleftrightarrow> \<not> b \<and> y = None"
  by simp

text \<open>The redirect URI of a request that passed the first check.\<close>

definition redirect_ok :: "'s http \<Rightarrow> authz_config \<Rightarrow> authorize_request \<Rightarrow> authz_params \<Rightarrow> bool" where
  "redirect_ok H Z rq p \<longleftrightarrow>
     (if param rq ''redirect_uri'' = [] then ap_redirectURI p = ''/app'' \<and> \<not> ap_selfRegistered p
      else ap_redirectURI p = param rq ''redirect_uri'' \<and>
        checkClientRedirectURI H (zc_web Z) (param rq ''client_id'') (ap_redirectURI p) (aq_host rq) =
          Ok \<lparr>rc_Valid = True, rc_SelfRegistered = ap_selfRegistered p\<rparr>)"

lemma resolve_redirect_ok:
  assumes "resolve_redirect H Z rq (read_params Z rq) = Proceed p"
  shows "redirect_ok H Z rq p \<and>
    p = (read_params Z rq)\<lparr>ap_redirectURI := ap_redirectURI p, ap_selfRegistered := ap_selfRegistered p\<rparr>"
proof (cases "param rq ''redirect_uri'' = []")
  case True
  then show ?thesis using assms by (auto simp: resolve_redirect_def read_params_def redirect_ok_def)
next
  case False
  then obtain check where c: "checkClientRedirectURI H (zc_web Z) (param rq ''client_id'') (param rq ''redirect_uri'') (aq_host rq) = Ok check"
    and v: "rc_Valid check" and p: "p = (read_params Z rq)\<lparr>ap_selfRegistered := rc_SelfRegistered check\<rparr>"
    using assms by (auto simp: resolve_redirect_def read_params_def split: out.splits if_splits)
  have "check = \<lparr>rc_Valid = True, rc_SelfRegistered = rc_SelfRegistered check\<rparr>" using v by simp
  then show ?thesis using False c by (simp add: p redirect_ok_def read_params_def)
qed

lemma supportedResponseTypeSet_range:
  "supportedResponseTypeSet raw = Some t \<Longrightarrow> t = ''code'' \<or> isHybrid t \<or> isImplicit t"
  by (auto simp: supportedResponseTypeSet_def isHybrid_def isImplicit_def Let_def split: if_splits)

text \<open>All facts the rest of the handler relies on.\<close>

definition authz_checked :: "'s http \<Rightarrow> authz_config \<Rightarrow> authorize_request \<Rightarrow> authz_params \<Rightarrow> bool" where
  "authz_checked H Z rq p \<longleftrightarrow> redirect_ok H Z rq p \<and>
     (ap_responseType p = ''code'' \<or> isHybrid (ap_responseType p) \<or> isImplicit (ap_responseType p)) \<and>
     ap_responseMode p \<in> {''query'', ''fragment'', ''form_post'', ''web_message''} \<and>
     (ap_responseMode p = ''query'' \<longrightarrow> ap_responseType p = ''code'') \<and>
     (self_asserted H p \<longrightarrow> \<not> isImplicit (ap_responseType p) \<and> ap_codeChallenge p \<noteq> [] \<and> ap_codeChallengeMethod p = ''S256'') \<and>
     (c_OAuth21Strict (x_C (h_X H)) \<longrightarrow> \<not> responseTypeHasBareToken (ap_responseType p) \<and>
        (ap_codeChallenge p \<noteq> [] \<longrightarrow> ap_codeChallengeMethod p \<noteq> ''plain'')) \<and>
     (ap_codeChallenge p \<noteq> [] \<longrightarrow> ap_codeChallengeMethod p = ''S256'' \<or> ap_codeChallengeMethod p = ''plain'')"

text \<open>The parameters the checks leave alone.\<close>

definition same_params :: "authorize_request \<Rightarrow> authz_params \<Rightarrow> bool" where
  "same_params rq p \<longleftrightarrow> ap_clientID p = param rq ''client_id'' \<and> ap_state p = param rq ''state'' \<and>
     ap_codeChallenge p = param rq ''code_challenge'' \<and> ap_resource p = param rq ''resource'' \<and>
     ap_prompt p = param rq ''prompt'' \<and> ap_maxAge p = parse_max_age (param rq ''max_age'')"

lemma front_channel_modeD:
  assumes "front_channel_mode rnd p = Proceed q"
  shows "q = p\<lparr>ap_responseMode := ap_responseMode q\<rparr>"
  using assms by (auto simp: front_channel_mode_def split: if_splits)

lemma canonical_typeD:
  assumes "canonical_type p = Proceed q"
  shows "q = p\<lparr>ap_responseType := ap_responseType q\<rparr>"
    "ap_responseType q = ''code'' \<or> isHybrid (ap_responseType q) \<or> isImplicit (ap_responseType q)"
proof -
  obtain t where "supportedResponseTypeSet (ap_responseType p) = Some t" "q = p\<lparr>ap_responseType := t\<rparr>"
    using assms by (auto simp: canonical_type_def split: option.splits)
  then show "q = p\<lparr>ap_responseType := ap_responseType q\<rparr>"
    "ap_responseType q = ''code'' \<or> isHybrid (ap_responseType q) \<or> isImplicit (ap_responseType q)"
    using supportedResponseTypeSet_range by simp_all
qed

lemma late_errorD:
  assumes "late_error C rnd p = None"
  shows "ap_responseMode p \<in> {''query'', ''fragment'', ''form_post'', ''web_message''}"
    "ap_responseMode p = ''query'' \<Longrightarrow> ap_responseType p = ''code''"
    "c_OAuth21Strict C \<Longrightarrow> \<not> responseTypeHasBareToken (ap_responseType p)"
proof -
  have v: "validateAuthorizeRequest (ap_responseType p) (ap_responseMode p) (ap_state p) = None"
    and s: "c_OAuth21Strict C \<Longrightarrow> \<not> responseTypeHasBareToken (ap_responseType p)"
    using assms by (auto simp: late_error_def Let_def split: if_splits option.splits)
  show "c_OAuth21Strict C \<Longrightarrow> \<not> responseTypeHasBareToken (ap_responseType p)" by (rule s)
  show "ap_responseMode p \<in> {''query'', ''fragment'', ''form_post'', ''web_message''}"
    using v unfolding validateAuthorizeRequest_def if_Some_None insert_iff by blast
  show "ap_responseMode p = ''query'' \<Longrightarrow> ap_responseType p = ''code''"
    using v unfolding validateAuthorizeRequest_def if_Some_None by blast
qed

lemma checked_params_ok:
  assumes "checked_params H Z rnd rq = Proceed p"
  shows "authz_checked H Z rq p" "same_params rq p"
    "ap_code p = (if hasCodeFlow p then zr_code rnd else [])"
    "ap_nonce p = (if param rq ''nonce'' = [] then zr_nonce rnd else param rq ''nonce'')"
proof -
  let ?C = "x_C (h_X H)"
  obtain p1 p2 p3 where r: "resolve_redirect H Z rq (read_params Z rq) = Proceed p1"
    and m: "pkce_method_error ?C p1 = None" and t: "canonical_type p1 = Proceed p2"
    and f: "front_channel_mode rnd p2 = Proceed p3" and sa: "self_asserted_error H p3 = None"
    and l: "late_error ?C rnd p3 = None" and p: "p = with_generated rnd p3"
    using assms by (auto simp: checked_params_def Let_def bind_az_Proceed refuse_simps)
  note r' = resolve_redirect_ok[OF r] and t' = canonical_typeD[OF t] and f' = front_channel_modeD[OF f] and l' = late_errorD[OF l]
  have eq: "ap_redirectURI p3 = ap_redirectURI p1" "ap_selfRegistered p3 = ap_selfRegistered p1"
    "ap_responseType p3 = ap_responseType p2" "ap_codeChallenge p3 = ap_codeChallenge p1"
    "ap_codeChallengeMethod p3 = ap_codeChallengeMethod p1" "ap_nonce p3 = ap_nonce p1"
    "ap_clientID p3 = ap_clientID p1" "ap_state p3 = ap_state p1" "ap_resource p3 = ap_resource p1"
    "ap_prompt p3 = ap_prompt p1" "ap_maxAge p3 = ap_maxAge p1"
    by (subst f', subst t'(1), simp)+
  have p1: "ap_clientID p1 = param rq ''client_id''" "ap_state p1 = param rq ''state''"
    "ap_codeChallenge p1 = param rq ''code_challenge''" "ap_resource p1 = param rq ''resource''"
    "ap_prompt p1 = param rq ''prompt''" "ap_maxAge p1 = parse_max_age (param rq ''max_age'')"
    "ap_nonce p1 = param rq ''nonce''"
    by (subst conjunct2[OF r'], simp add: read_params_def)+
  have strict: "c_OAuth21Strict ?C \<Longrightarrow> ap_codeChallenge p1 \<noteq> [] \<Longrightarrow> ap_codeChallengeMethod p1 \<noteq> ''plain''"
    using m unfolding pkce_method_error_def Let_def if_Some_None by blast
  have "ap_codeChallenge p1 \<noteq> [] \<Longrightarrow> ap_codeChallengeMethod p1 \<noteq> []"
    by (subst (asm) conjunct2[OF r'], subst conjunct2[OF r']) (simp add: read_params_def)
  then have pk: "ap_codeChallenge p1 \<noteq> [] \<Longrightarrow> ap_codeChallengeMethod p1 = ''S256'' \<or> ap_codeChallengeMethod p1 = ''plain''"
    using m unfolding pkce_method_error_def Let_def if_Some_None by blast
  have self: "self_asserted H p3 \<Longrightarrow> \<not> isImplicit (ap_responseType p3) \<and> ap_codeChallenge p3 \<noteq> [] \<and> ap_codeChallengeMethod p3 = ''S256''"
    using sa unfolding self_asserted_error_def by (simp only: if_True if_Some_None) blast
  have g: "self_asserted H p = self_asserted H p3" "redirect_ok H Z rq p = redirect_ok H Z rq p1"
    by (simp_all add: p with_generated_def self_asserted_def isCIMDClient_def redirect_ok_def eq)
  show "authz_checked H Z rq p"
    unfolding authz_checked_def g
    using r' t'(2) l' strict self pk by (simp add: p with_generated_def eq)
  show "same_params rq p" by (simp add: same_params_def p with_generated_def eq p1)
  show "ap_code p = (if hasCodeFlow p then zr_code rnd else [])"
    "ap_nonce p = (if param rq ''nonce'' = [] then zr_nonce rnd else param rq ''nonce'')"
    by (simp_all add: p with_generated_def hasCodeFlow_def eq p1)
qed

section \<open>What a request may change\<close>

text \<open>
  A store that differs from \<open>s\<close> in the states \<open>Q\<close> and, where entries may have been added, in the sessions \<open>A\<close>.
\<close>

definition confined ::
    "('s \<Rightarrow> bool) \<Rightarrow> (instant \<Rightarrow> 's \<Rightarrow> string \<Rightarrow> string option) \<Rightarrow> ('s \<Rightarrow> 'k \<Rightarrow> bool) \<Rightarrow> string set \<Rightarrow> 'k set \<Rightarrow> 's \<Rightarrow> 's \<Rightarrow> bool" where
  "confined invar stv held Q A s s' \<longleftrightarrow> invar s' \<and> (\<forall>t q. q \<notin> Q \<longrightarrow> stv t s' q = stv t s q) \<and>
     (\<forall>a. a \<notin> A \<longrightarrow> held s' a \<longrightarrow> held s a)"

lemma confined_refl: "invar s \<Longrightarrow> confined invar stv held Q A s s"
  by (simp add: confined_def)

lemma confined_invar: "confined invar stv held Q A s s' \<Longrightarrow> invar s'"
  by (simp add: confined_def)

lemma confined_quiet: "confined invar stv held Q A s s1 \<Longrightarrow> quiet invar stv held A s1 s2 \<Longrightarrow> confined invar stv held Q A s s2"
  by (simp add: confined_def quiet_def)

lemma on_mem_snd [simp]: "w_mem (snd (on_mem f w)) = snd (f (w_mem w))" "fst (on_mem f w) = fst (f (w_mem w))"
  by (simp_all add: on_mem_def case_prod_beta)

lemma or_login_keeps:
  assumes "P (w_mem (snd r))" "\<And>w. P (w_mem w) \<Longrightarrow> P (w_mem (snd (k w)))"
  shows "P (w_mem (snd (or_login rnd p r k)))"
  using assms by (cases r; cases "fst r") (auto simp: or_login_def)

lemma create_tokens_keeps:
  assumes "P (w_mem w)" "\<And>a. at_FingerPrint a = atc_Nonce cfg \<Longrightarrow> P (w_mem (snd (k a)))"
  shows "P (w_mem (snd (create_tokens H now rnd p cfg w k)))"
proof (cases "CreateAuthToken (x_C (h_X H)) (x_L (h_X H)) now (zr_gcm rnd) (zr_uuid rnd) cfg")
  case (Ok a)
  have "at_FingerPrint a = atc_Nonce cfg" using Ok by (auto elim: CreateAuthToken_ok)
  then show ?thesis using Ok assms by (simp add: create_tokens_def)
qed (use assms in \<open>simp_all add: create_tokens_def\<close>)

text \<open>The states and sessions a request names.\<close>

definition named_states :: "libs \<Rightarrow> authz_randoms \<Rightarrow> authorize_request \<Rightarrow> authz_params \<Rightarrow> User \<Rightarrow> string set" where
  "named_states L rnd rq p user =
     {ap_state p, ap_code p, consent_grant_key L rq p user, consentKey (zr_consent_id rnd)}"

definition named_sessions :: "authz_params \<Rightarrow> string set" where
  "named_sessions p = (\<lambda>ty. ty @ ''_'' @ ap_nonce p) ` {TokenTypeSessionToken, TokenTypeAccessToken}"

context memory_store_contract
begin

lemma confined_set_state:
  assumes "confined invar stv held Q A s0 s" "k \<in> Q"
  shows "confined invar stv held Q A s0 (snd (m_SetState M now k v s))"
proof -
  obtain r s' where r: "m_SetState M now k v s = (r, s')" by fastforce
  show ?thesis
    using assms set_state[OF confined_invar[OF assms(1)] r] sess_set_state[OF r] by (auto simp: confined_def r)
qed

lemma confined_get_and_remove:
  assumes "confined invar stv held Q A s0 s" "k \<in> Q"
  shows "confined invar stv held Q A s0 (snd (m_GetAndRemoveState M now k s))"
proof -
  obtain r s' where r: "m_GetAndRemoveState M now k s = (r, s')" by fastforce
  show ?thesis
    using assms get_and_remove[OF confined_invar[OF assms(1)] r] sess_get_and_remove[OF r] by (auto simp: confined_def r)
qed

lemma confined_set_session:
  assumes "confined invar stv held Q A s0 s" "addr u k \<in> A"
  shows "confined invar stv held Q A s0 (snd (m_SetUserSession M now u k v e s))"
  using confined_quiet[OF assms(1) quiet_set_session[OF confined_invar[OF assms(1)] prod.collapse[symmetric] assms(2)]] .

lemma confined_delete_session:
  assumes "confined invar stv held Q A s0 s"
  shows "confined invar stv held Q A s0 (snd (m_DeleteUserSession M u n s))"
  using confined_quiet[OF assms(1) quiet_delete_session[OF confined_invar[OF assms(1)] prod.collapse[symmetric]]] .

lemma confined_ValidateBrowserSession:
  assumes "confined invar stv held Q A s0 s" "x_M X = M"
  shows "confined invar stv held Q A s0 (snd (ValidateBrowserSession X now c s))"
  using confined_quiet[OF assms(1) quiet_ValidateBrowserSession[OF confined_invar[OF assms(1)] assms(2) prod.collapse[symmetric]]] .

lemma confined_store_both:
  assumes "confined invar stv held Q A s0 (w_mem w)" "x_M (h_X H) = M"
    and "addr key ` named_sessions p \<subseteq> A" "at_FingerPrint a = ap_nonce p"
    and "\<And>w. confined invar stv held Q A s0 (w_mem w) \<Longrightarrow> confined invar stv held Q A s0 (w_mem (snd (k w)))"
  shows "confined invar stv held Q A s0 (w_mem (snd (store_both H now rnd p key a w k)))"
  unfolding store_both_def Let_def assms(2) using assms(1,3-5)
  by (intro or_login_keeps[where P = "confined invar stv held Q A s0"])
    (auto simp: named_sessions_def intro!: confined_set_session)

lemma confined_issue:
  assumes "confined invar stv held Q A s0 (w_mem w)" "x_M (h_X H) = M"
    and "addr key ` named_sessions p \<subseteq> A" "ap_code p \<in> Q"
  shows "confined invar stv held Q A s0 (w_mem (snd (issue_hybrid H now rnd rq p claims user key w)))"
    "confined invar stv held Q A s0 (w_mem (snd (issue_id_token_token H now rnd rq p claims user key w)))"
    "confined invar stv held Q A s0 (w_mem (snd (issue_id_token H now rnd rq p claims user key w)))"
    "confined invar stv held Q A s0 (w_mem (snd (issue_token H now rnd rq p claims user key w)))"
proof -
  let ?I = "confined invar stv held Q A s0"
  have n: "addr key (TokenTypeSessionToken @ ''_'' @ ap_nonce p) \<in> A" "addr key (TokenTypeAccessToken @ ''_'' @ ap_nonce p) \<in> A"
    using assms(3) by (auto simp: named_sessions_def)
  show "?I (w_mem (snd (issue_hybrid H now rnd rq p claims user key w)))"
    unfolding issue_hybrid_def assms(2)
    by (intro create_tokens_keeps[where P = ?I] or_login_keeps[where P = ?I] confined_store_both[OF _ assms(2)])
      (use assms(1,3,4) in \<open>auto simp: authz_token_config_def Let_def intro!: confined_set_state\<close>)
  show "?I (w_mem (snd (issue_id_token_token H now rnd rq p claims user key w)))"
    unfolding issue_id_token_token_def
    by (intro create_tokens_keeps[where P = ?I] confined_store_both[OF _ assms(2)])
      (use assms(1,3,4) in \<open>auto simp: authz_token_config_def Let_def\<close>)
  show "?I (w_mem (snd (issue_id_token H now rnd rq p claims user key w)))"
    unfolding issue_id_token_def assms(2)
    by (intro create_tokens_keeps[where P = ?I] or_login_keeps[where P = ?I])
      (use assms(1,3,4) n in \<open>auto simp: Let_def intro!: confined_set_session\<close>)
  show "?I (w_mem (snd (issue_token H now rnd rq p claims user key w)))"
    unfolding issue_token_def assms(2)
    by (intro create_tokens_keeps[where P = ?I] or_login_keeps[where P = ?I])
      (use assms(1,3,4) n in \<open>auto simp: Let_def intro!: confined_set_session\<close>)
qed

lemma confined_issue_code:
  assumes "confined invar stv held Q A s0 (w_mem w)" "x_M (h_X H) = M"
    and "addr key ` named_sessions p \<subseteq> A" "ap_code p \<in> Q"
  shows "confined invar stv held Q A s0 (w_mem (snd (issue_code H now rnd p claims user key w)))"
proof -
  let ?I = "confined invar stv held Q A s0"
  have "addr key (TokenTypeSessionToken @ ''_'' @ ap_nonce p) \<in> A" using assms(3) by (auto simp: named_sessions_def)
  moreover have "sd_Nonce sd = atc_Nonce cfg" if "CreateSessionToken C L now g cfg = Ok (sd, x)" for C L g cfg sd x
    using that by (auto simp: CreateSessionToken_def session_of_def Let_def split: option.splits out.splits)
  ultimately show ?thesis
    unfolding issue_code_def assms(2) using assms(1,3,4)
    by (auto split: out.split prod.split intro!: or_login_keeps[where P = ?I] confined_set_state confined_set_session)
qed

lemma confined_issue_response:
  assumes "confined invar stv held Q A s0 (w_mem w)" "x_M (h_X H) = M"
    and "addr (authz_session_key claims user) ` named_sessions p \<subseteq> A" "ap_code p \<in> Q"
  shows "confined invar stv held Q A s0 (w_mem (snd (issue_response H now rnd rq p claims user w)))"
proof -
  let ?I = "confined invar stv held Q A s0"
  obtain r w1 where r: "on_mem (m_DeleteUserSession M (authz_session_key claims user) (sd_Nonce claims)) w = (r, w1)" by fastforce
  have "?I (w_mem w1)"
    using confined_delete_session[OF assms(1)] on_mem_snd(1)[of _ w] r by (metis snd_conv)
  then show ?thesis
    using confined_issue[OF _ assms(2-4)] confined_issue_code[OF _ assms(2-4)]
    by (cases r) (simp_all add: issue_response_def assms(2) r Let_def)
qed

lemma confined_ask_consent:
  assumes "confined invar stv held Q A s0 (w_mem w)" "x_M (h_X H) = M" "consentKey (zr_consent_id rnd) \<in> Q"
  shows "confined invar stv held Q A s0 (w_mem (snd (ask_consent H K now rnd rq p user w)))"
proof -
  have r: "confined invar stv held Q A s0 (w_mem (snd (on_mem (m_SetState M now (consentKey (zr_consent_id rnd)) v) w)))" for v
    using confined_set_state[OF assms(1,3)] by simp
  have "confined invar stv held Q A s0 (w_mem (snd (renderConsent H K now (zr_consent_id rnd) c u i e sc f w)))" for c u i e sc f
    using assms(1) r
    by (simp add: renderConsent_def assms(2) Let_def case_prod_beta split: out.split)
  then show ?thesis using assms(1) by (simp add: ask_consent_def split: az_step.split prod.split)
qed

lemma confined_consent_gate:
  assumes "confined invar stv held Q A s0 (w_mem w)" "x_M (h_X H) = M"
    and "addr (authz_session_key claims user) ` named_sessions p \<subseteq> A" "ap_code p \<in> Q"
    and "consent_grant_key (x_L (h_X H)) rq p user \<in> Q" "consentKey (zr_consent_id rnd) \<in> Q"
  shows "confined invar stv held Q A s0 (w_mem (snd (consent_gate H K now rnd rq p claims user w)))"
proof -
  let ?I = "confined invar stv held Q A s0"
  obtain r w1 where r: "on_mem (m_GetAndRemoveState M now (consent_grant_key (x_L (h_X H)) rq p user)) w = (r, w1)" by fastforce
  have i: "?I (w_mem w1)"
    using confined_get_and_remove[OF assms(1,5)] on_mem_snd(1)[of _ w] r by (metis snd_conv)
  show ?thesis
    using confined_issue_response[OF _ assms(2-4)] confined_ask_consent[OF i assms(2,6)] i assms(1)
    by (cases r) (simp_all add: consent_gate_def assms(2) r)
qed

lemma confined_with_session:
  assumes "confined invar stv held Q A s0 (w_mem w)" "x_M (h_X H) = M"
    and "\<And>u. addr u ` named_sessions p \<subseteq> A" "ap_code p \<in> Q"
    and "\<And>user. consent_grant_key (x_L (h_X H)) rq p user \<in> Q" "consentKey (zr_consent_id rnd) \<in> Q"
  shows "confined invar stv held Q A s0 (w_mem (snd (with_session H K now rnd rq p cookie w)))"
proof (cases cookie)
  case (Some c)
  obtain r w1 where r: "on_mem (ValidateBrowserSession (h_X H) now c) w = (r, w1)" by fastforce
  have i: "confined invar stv held Q A s0 (w_mem w1)"
    using confined_ValidateBrowserSession[OF assms(1,2)] on_mem_snd(1)[of _ w] r by (metis snd_conv)
  then show ?thesis
    using confined_consent_gate[OF i assms(2,3,4,5,6)] by (cases r) (auto simp: with_session_def Some r split: lookup.split)
qed (simp add: with_session_def assms(1))

lemma confined_reauthenticate:
  assumes "confined invar stv held Q A s0 (w_mem w)" "x_M (h_X H) = M"
  shows "confined invar stv held Q A s0 (w_mem (snd (reauthenticate H rnd p cookie w)))"
proof -
  have d: "confined invar stv held Q A s0 (w_mem (snd (on_mem (m_DeleteUserSession M u n) w)))" for u n
    using confined_delete_session[OF assms(1)] by simp
  then have "confined invar stv held Q A s0 (w_mem (snd (end_browser_session (h_X H) c w)))" for c
    using assms(1) by (auto simp: end_browser_session_def assms(2) split: out.split option.split)
  then show ?thesis
    using assms(1) by (auto simp: reauthenticate_def case_prod_beta split: option.split out.split)
qed

text \<open>A request writes the states it names, consent entries, and sessions under its own nonce.\<close>

lemma confined_AuthorizeHandler:
  assumes "invar (w_mem w)" "x_M (h_X H) = M" "checked_params H Z rnd rq = Proceed p"
    and "{ap_state p, ap_code p, consentKey (zr_consent_id rnd)} \<subseteq> Q" "\<And>user. consent_grant_key (x_L (h_X H)) rq p user \<in> Q"
    and "\<And>u. addr u ` named_sessions p \<subseteq> A"
  shows "confined invar stv held Q A (w_mem w) (w_mem (snd (AuthorizeHandler H Z K now rnd rq w)))"
proof -
  let ?I = "confined invar stv held Q A (w_mem w)"
  obtain r w1 where r: "on_mem (m_SetState M now (ap_state p) (remembered p)) w = (r, w1)" by fastforce
  have "?I (snd (m_SetState M now (ap_state p) (remembered p) (w_mem w)))"
    using assms(4) by (intro confined_set_state confined_refl[of invar, OF assms(1)]) simp
  then have i: "?I (w_mem w1)" using on_mem_snd(1)[of _ w] r by (metis snd_conv)
  have "?I (w_mem (snd (authorize_session H K now rnd rq p w1)))"
    using confined_reauthenticate[OF i assms(2)] confined_with_session[OF i assms(2,6) _ assms(5)] assms(4) i
    by (simp add: authorize_session_def Let_def split: out.split bool.split)
  then show ?thesis using i by (cases r) (simp_all add: AuthorizeHandler_def assms(2,3) r)
qed

end

section \<open>Issuing answers\<close>

lemma apfst_only_page: "apfst (map_option only_page) x = (Some resp, w') \<Longrightarrow> ar_cookie resp = KeepCookie"
  by (cases x; cases "fst x") auto

lemma AuthorizeHandler_issued:
  assumes "AuthorizeHandler H Z K now rnd rq w = (Some resp, w')" "ar_cookie resp = SetCookie tok"
  obtains p w1 st claims w2 user w3 where
    "checked_params H Z rnd rq = Proceed p"
    "on_mem (m_SetState (x_M (h_X H)) now (ap_state p) (remembered p)) w = (Ok (), w1)"
    "GetSession (aq_session rq) (aq_session_domain rq) = Some st"
    "on_mem (ValidateBrowserSession (h_X H) now st) w1 = (Ok claims, w2)"
    "s_GetUserByID (x_S (h_X H)) (sd_Subject claims) = Found user"
    "if self_asserted H p
     then \<exists>g. g \<noteq> [] \<and> on_mem (m_GetAndRemoveState (x_M (h_X H)) now (consent_grant_key (x_L (h_X H)) rq p user)) w2 = (Ok g, w3)
     else w3 = w2"
    "issue_response H now rnd rq p claims user w3 = (Some resp, w')"
proof -
  obtain p where p: "checked_params H Z rnd rq = Proceed p"
    using assms by (cases "checked_params H Z rnd rq") (auto simp: AuthorizeHandler_def)
  obtain r w1 where r: "on_mem (m_SetState (x_M (h_X H)) now (ap_state p) (remembered p)) w = (r, w1)" by fastforce
  have r1: "r = Ok ()" using assms p r by (cases r) (auto simp: AuthorizeHandler_def)
  have s: "authorize_session H K now rnd rq p w1 = (Some resp, w')"
    using assms by (auto simp: AuthorizeHandler_def p r r1 split: if_splits)
  let ?c = "GetSession (aq_session rq) (aq_session_domain rq)"
  have "ar_cookie r' \<noteq> SetCookie tok" if "reauthenticate H rnd p ?c w1 = (Some r', w'')" for r' w''
    using that by (auto simp: reauthenticate_def split: option.splits prod.splits out.splits if_splits)
  then have s: "with_session H K now rnd rq p ?c w1 = (Some resp, w')"
    using s assms(2) by (auto simp: authorize_session_def Let_def split: out.splits bool.splits)
  obtain st where st: "?c = Some st" using s assms(2) by (cases ?c) (auto simp: with_session_def)
  obtain v w2 where v: "on_mem (ValidateBrowserSession (h_X H) now st) w1 = (v, w2)" by fastforce
  obtain claims where c: "v = Ok claims" using s assms(2) by (cases v) (auto simp: with_session_def st v)
  obtain user where u: "s_GetUserByID (x_S (h_X H)) (sd_Subject claims) = Found user"
    using s assms(2) by (cases "s_GetUserByID (x_S (h_X H)) (sd_Subject claims)") (auto simp: with_session_def st v c)
  have g: "consent_gate H K now rnd rq p claims user w2 = (Some resp, w')"
    using s by (simp add: with_session_def st v c u)
  let ?g = "on_mem (m_GetAndRemoveState (x_M (h_X H)) now (consent_grant_key (x_L (h_X H)) rq p user)) w2"
  have ask: "apfst (map_option only_page) (ask_consent H K now rnd rq p user w3) \<noteq> (Some resp, w')" for w3
  proof
    assume "apfst (map_option only_page) (ask_consent H K now rnd rq p user w3) = (Some resp, w')"
    then have "ar_cookie resp = KeepCookie" by (rule apfst_only_page)
    then show False using assms(2) by simp
  qed
  have "\<exists>w3. (if self_asserted H p then \<exists>g. g \<noteq> [] \<and> ?g = (Ok g, w3) else w3 = w2) \<and>
      issue_response H now rnd rq p claims user w3 = (Some resp, w')"
    using g ask by (auto simp: consent_gate_def split: if_splits prod.splits out.splits)
  then show thesis using that[OF p r[unfolded r1] st v[unfolded c] u] by blast
qed

section \<open>The code on its way to the token endpoint\<close>

lemma b64_vals_chars: "b64_vals xs = Some vs \<Longrightarrow> c \<in> set xs \<Longrightarrow> b64_val c \<noteq> None"
  by (induction xs arbitrary: vs) (auto split: option.splits)

lemma at_free_b64: "at_free (b64_rawurl s)"
proof -
  have "b64_val (CHR ''@'') = None" by code_simp
  moreover obtain vs where "b64_vals (filter (\<lambda>c. c \<noteq> CHR 0x0A \<and> c \<noteq> CHR 0x0D) (b64_rawurl s)) = Some vs"
    using b64_decode_encode[of s] by (auto simp: b64_decode_def bind_eq_Some_conv)
  from b64_vals_chars[OF this, of "CHR ''@''"]
  have "CHR ''@'' \<in> set (b64_rawurl s) \<Longrightarrow> b64_val (CHR ''@'') \<noteq> None" by simp
  ultimately show ?thesis unfolding at_free_def by blast
qed

lemma CreateSessionToken_ok:
  assumes "CreateSessionToken C L now g cfg = Ok (sd, tok, e)" "atc_User cfg = Some user"
  shows "sd = session_of now cfg user" "e = sd_ExpiresAt sd" "at_free tok"
    "EncryptAES L g (c_ClientSecret C) (lib_session_enc L sd) = Ok tok"
  using assms by (auto simp: CreateSessionToken_def Let_def EncryptAES_def at_free_b64 split: out.splits)

lemma LastIndex_twice:
  assumes "d \<notin> set b"
  shows "LastIndex (a @ [d, d] @ b) [d, d] = Some (length a)"
proof (induction a)
  case Nil
  have "LastIndex b [d, d] = None" using LastIndex_None[OF assms] .
  moreover have "\<not> prefix [d, d] (d # b)" using assms by (cases b) auto
  ultimately show ?case by (simp add: prefix_def)
next
  case (Cons c a)
  then show ?case by simp
qed

lemma split_challenge_data:
  assumes "ap_codeChallenge p \<noteq> [] \<longrightarrow> ap_codeChallengeMethod p = ''S256'' \<or> ap_codeChallengeMethod p = ''plain''"
  shows "split_challenge (challenge_data p) =
    (ap_codeChallenge p, if ap_codeChallenge p = [] then ''plain'' else ap_codeChallengeMethod p)"
proof (cases "ap_codeChallenge p = []")
  case True
  then show ?thesis by (simp add: challenge_data_def split_challenge_def)
next
  case False
  then have "CHR '':'' \<notin> set (ap_codeChallengeMethod p)" using assms by auto
  then show ?thesis
    using False LastIndex_twice[of "CHR '':''" "ap_codeChallengeMethod p" "ap_codeChallenge p"]
    by (simp add: challenge_data_def split_challenge_def)
qed

text \<open>The blob a code stands for, taken apart again.\<close>

lemma Split_code_state:
  assumes "at_free (ap_codeChallenge p)" "at_free (ap_nonce p)" "at_free tok"
    and "ap_codeChallenge p \<noteq> [] \<longrightarrow> ap_codeChallengeMethod p = ''S256'' \<or> ap_codeChallengeMethod p = ''plain''"
  shows "Split (EncodeCode (code_state p tok)) ''@@'' =
    [challenge_data p, tok, ap_nonce p, QueryEscape (ap_redirectURI p), QueryEscape (ap_resource p), QueryEscape (ap_clientID p)]"
proof -
  have "at_free (challenge_data p)" using assms(1,4) by (auto simp: challenge_data_def at_free_def)
  then show ?thesis
    using Split_six[of "challenge_data p" tok "ap_nonce p" "QueryEscape (ap_redirectURI p)" "QueryEscape (ap_resource p)"
        "QueryEscape (ap_clientID p)"] assms(2,3)
    by (simp add: EncodeCode_def code_state_def delimiter_def)
qed

lemma DecodeCode_code_state:
  assumes "Split (EncodeCode (code_state p tok)) ''@@'' =
    [challenge_data p, tok, ap_nonce p, QueryEscape (ap_redirectURI p), QueryEscape (ap_resource p), QueryEscape (ap_clientID p)]"
  shows "DecodeCode (EncodeCode (code_state p tok)) = code_state p tok"
  using DecodeCode_six[OF assms[folded delimiter_def]] by (simp add: code_state_def)

context memory_store_contract
begin

lemma issue_code_stored:
  assumes "invar (w_mem w)" "x_M (h_X H) = M"
    and "issue_code H now rnd p claims user key w = (Some resp, w')" "ar_cookie resp = SetCookie tok"
  obtains sd e cfg where "CreateSessionToken (x_C (h_X H)) (x_L (h_X H)) now (zr_gcm rnd) cfg = Ok (sd, tok, e)"
    "atc_User cfg = Some user" "atc_Scope cfg = Some (ap_scope p)" "atc_Roles cfg = sd_Roles claims"
    "atc_Nonce cfg = ap_nonce p" "atc_LoginMethod cfg = sd_LoginMethod claims" "invar (w_mem w')"
    "\<And>t. stv t (w_mem w') (ap_code p) = (if t \<le> now + stateTTL then Some (EncodeCode (code_state p tok)) else None)"
    "\<And>t. sess t (w_mem w') (addr key (TokenTypeSessionToken @ ''_'' @ ap_nonce p)) = (if Unix t < e then Some tok else None)"
    "ar_page resp = respond rnd p (code_redirect p) [(''code'', CStr (ap_code p)), (''state'', CStr (ap_state p))]"
proof -
  define cfg where "cfg = no_config\<lparr>atc_User := Some user, atc_Nonce := ap_nonce p, atc_Roles := sd_Roles claims,
                atc_Scope := Some (ap_scope p), atc_LoginMethod := sd_LoginMethod claims,
                atc_AuthTime := EffectiveAuthTime claims\<rparr>"
  note cd = cfg_def[symmetric]
  obtain sd t0 e where c: "CreateSessionToken (x_C (h_X H)) (x_L (h_X H)) now (zr_gcm rnd) cfg = Ok (sd, t0, e)"
    using assms(3,4) unfolding issue_code_def cd
    by (cases "CreateSessionToken (x_C (h_X H)) (x_L (h_X H)) now (zr_gcm rnd) cfg") auto
  obtain r s1 where r: "m_SetState M now (ap_code p) (EncodeCode (code_state p t0)) (w_mem w) = (r, s1)" by fastforce
  note st = set_state[OF assms(1) r]
  obtain r2 s2 where r2: "m_SetUserSession M now key (TokenTypeSessionToken @ ''_'' @ sd_Nonce sd) t0 e s1 = (r2, s2)" by fastforce
  note se = set_session[OF conjunct1[OF st] r2]
  have rok: "r = Ok ()" using st by blast
  have res: "or_login rnd p (r2, w\<lparr>w_mem := s2\<rparr>) (\<lambda>w. (Some \<lparr>ar_page = respond rnd p (code_redirect p)
      [(''code'', CStr (ap_code p)), (''state'', CStr (ap_state p))], ar_cookie = SetCookie t0\<rparr>, w)) = (Some resp, w')"
    using assms(3) unfolding issue_code_def cd c by (simp add: assms(2) or_login_def[where r = "(Ok (), x)" for x] on_mem_def r r2[simplified] rok)
  have r2ok: "r2 = Ok ()" using res assms(4) by (cases r2) (auto simp: or_login_def)
  have resp: "ar_cookie resp = SetCookie t0" "w_mem w' = s2"
    "ar_page resp = respond rnd p (code_redirect p) [(''code'', CStr (ap_code p)), (''state'', CStr (ap_state p))]"
    using res by (auto simp: or_login_def r2ok)
  have n: "sd_Nonce sd = ap_nonce p"
    using c by (auto simp: CreateSessionToken_def session_of_def cfg_def Let_def split: out.splits)
  show thesis
  proof (rule that[of cfg sd e])
    show "stv t (w_mem w') (ap_code p) = (if t \<le> now + stateTTL then Some (EncodeCode (code_state p tok)) else None)" for t
      using st stv_set_session[OF r2] resp(1) assms(4) by (simp add: resp(2))
    show "sess t (w_mem w') (addr key (TokenTypeSessionToken @ ''_'' @ ap_nonce p)) = (if Unix t < e then Some tok else None)" for t
      using se r2ok resp(1) assms(4) by (simp add: resp(2) n)
  qed (use c resp(1,3) assms(4) conjunct1[OF se] in \<open>simp_all add: cfg_def resp(2)\<close>)
qed

end

end
