(* ===== verification/Authorize_Fixtures.thy ===== *)
theory Authorize_Fixtures
  imports Authorize_Lemmas
begin

text \<open>
  Concrete values for the authorization endpoint: a codec of sessions that reads back what it wrote, two
  registered clients (one created by an operator, one registered by itself), a signed-in browser, and
  requests. The witnesses of the properties are evaluated on them.
\<close>

section \<open>A codec of sessions\<close>

function fx_bits :: "int \<Rightarrow> string" where
  "fx_bits i = (if i \<le> 0 then [] else (if i mod 2 = 1 then CHR ''1'' else CHR ''0'') # fx_bits (i div 2))"
  by auto
termination by (relation "measure nat") auto

declare fx_bits.simps [simp del]

fun fx_unbits :: "string \<Rightarrow> int" where
  "fx_unbits [] = 0"
| "fx_unbits (c # cs) = (if c = CHR ''1'' then 1 else 0) + 2 * fx_unbits cs"

definition fx_int :: "int \<Rightarrow> string" where
  "fx_int i = (if i < 0 then CHR ''-'' # fx_bits (- i) else CHR ''+'' # fx_bits i)"

definition fx_unint :: "string \<Rightarrow> int" where
  "fx_unint s = (if hd s = CHR ''-'' then - fx_unbits (tl s) else fx_unbits (tl s))"

definition fx_strs :: "string list option \<Rightarrow> string" where
  "fx_strs xs = (case xs of None \<Rightarrow> ''n'' | Some l \<Rightarrow> Join (''s'' # map QueryEscape l) ''='')"

definition fx_unstrs :: "string \<Rightarrow> string list option" where
  "fx_unstrs s = (case Split s ''='' of x # xs \<Rightarrow> if x = ''s'' then Some (map unescape_or_empty xs) else None | [] \<Rightarrow> None)"

definition fx_ser :: "SessionData \<Rightarrow> string" where
  "fx_ser sd = Join [QueryEscape (sd_Subject sd), fx_strs (sd_Roles sd), fx_strs (sd_Scope sd), QueryEscape (sd_Nonce sd),
     fx_int (sd_IssuedAt sd), fx_int (sd_AuthTime sd), fx_int (sd_ExpiresAt sd), QueryEscape (sd_LoginMethod sd)] ''&''"

definition fx_deser :: "string \<Rightarrow> SessionData out" where
  "fx_deser s =
     (case Split s ''&'' of
        [a, b, c, d, e, f, g, h] \<Rightarrow>
          Ok \<lparr>sd_Subject = unescape_or_empty a, sd_Roles = fx_unstrs b, sd_Scope = fx_unstrs c, sd_Nonce = unescape_or_empty d,
              sd_IssuedAt = fx_unint e, sd_AuthTime = fx_unint f, sd_ExpiresAt = fx_unint g, sd_LoginMethod = unescape_or_empty h\<rparr>
      | _ \<Rightarrow> Err ''invalid character'')"

lemma fx_unbits_bits: "0 \<le> i \<Longrightarrow> fx_unbits (fx_bits i) = i"
proof (induction i rule: fx_bits.induct)
  case (1 i)
  then show ?case by (subst fx_bits.simps) (auto simp: minus_mod_eq_mult_div[symmetric])
qed

lemma fx_unint_int [simp]: "fx_unint (fx_int i) = i"
  by (simp add: fx_unint_def fx_int_def fx_unbits_bits)

lemma fx_unstrs_strs [simp]: "fx_unstrs (fx_strs xs) = xs"
proof (cases xs)
  case None
  have "Split ''n'' ''='' = [''n'']" by code_simp
  then show ?thesis by (simp add: None fx_strs_def fx_unstrs_def)
next
  case (Some l)
  have "\<forall>x\<in>set (''s'' # map QueryEscape l). CHR ''='' \<notin> set x" using QueryEscape_plain by auto
  then have "Split (Join (''s'' # map QueryEscape l) ''='') ''='' = ''s'' # map QueryEscape l"
    by (intro Split_Join) simp_all
  then show ?thesis by (simp add: Some fx_strs_def fx_unstrs_def comp_def)
qed

lemma fx_bits_plain: "CHR ''&'' \<notin> set (fx_bits i)"
proof (induction i rule: fx_bits.induct)
  case (1 i)
  then show ?case by (subst fx_bits.simps) auto
qed

lemma fx_int_plain: "CHR ''&'' \<notin> set (fx_int i)"
  by (simp add: fx_int_def fx_bits_plain)

lemma Join_chars: "c \<in> set (Join xs d) \<Longrightarrow> c \<in> set d \<or> (\<exists>x\<in>set xs. c \<in> set x)"
  by (induction xs d rule: Join.induct) auto

lemma fx_strs_plain: "CHR ''&'' \<notin> set (fx_strs xs)"
proof
  assume "CHR ''&'' \<in> set (fx_strs xs)"
  then obtain l where "CHR ''&'' \<in> set (Join (''s'' # map QueryEscape l) ''='')"
    by (auto simp: fx_strs_def split: option.splits)
  then show False using QueryEscape_plain[of "CHR ''&''"] by (auto dest!: Join_chars)
qed

lemma fx_deser_ser: "fx_deser (fx_ser sd) = Ok sd"
proof -
  have e: "CHR ''&'' \<notin> set (QueryEscape s)" for s using QueryEscape_plain by blast
  have "Split (fx_ser sd) ''&'' = [QueryEscape (sd_Subject sd), fx_strs (sd_Roles sd), fx_strs (sd_Scope sd), QueryEscape (sd_Nonce sd),
     fx_int (sd_IssuedAt sd), fx_int (sd_AuthTime sd), fx_int (sd_ExpiresAt sd), QueryEscape (sd_LoginMethod sd)]"
    unfolding fx_ser_def by (intro Split_Join) (simp_all add: e fx_int_plain fx_strs_plain)
  then show ?thesis by (simp add: fx_deser_def)
qed

section \<open>The server\<close>

definition fx_alibs :: libs where
  "fx_alibs = fx_tlibs\<lparr>lib_session_enc := fx_ser, lib_session_dec := fx_deser\<rparr>"

definition fx_web_client :: Client where
  "fx_web_client = fx_client\<lparr>cl_RedirectURIs := ''https://app/cb''\<rparr>"

definition fx_self_client :: Client where
  "fx_self_client = fx_client\<lparr>cl_ClientID := ''self'', cl_Kind := ''dynamic'', cl_RedirectURIs := ''https://self/cb''\<rparr>"

definition fx_clients :: storage where
  "fx_clients = fx_tstorage\<lparr>s_GetClientByClientID :=
     (\<lambda>i. if i = ''app'' then Found fx_web_client else if i = ''self'' then Found fx_self_client else NilRow)\<rparr>"

definition fx_ahttp :: "in_memory http" where
  "fx_ahttp = im_http fx_config fx_alibs fx_clients fx_env"

definition fx_authz :: authz_config where
  "fx_authz = \<lparr>zc_web = fx_web, zc_DefaultAuthorizeResponseMode = ''query''\<rparr>"

definition fx_consents :: consent_codec where
  "fx_consents = \<lparr>cc_Marshal = (\<lambda>p. Ok (pc_Query p)),
     cc_Unmarshal = (\<lambda>s. Ok \<lparr>pc_ClientID = ''self'', pc_ClientName = ''App'', pc_RedirectURI = ''https://self/cb'',
        pc_Scopes = [''openid''], pc_Query = s, pc_UserID = ''u1''\<rparr>)\<rparr>"

definition fx_arandoms :: authz_randoms where
  "fx_arandoms = \<lparr>zr_code = ''code9'', zr_nonce = ''n9'', zr_gcm = ''123456789012'', zr_uuid = ''uuid'', zr_csp = Some ''abc'',
     zr_consent_id = ''consent1''\<rparr>"

section \<open>The browser\<close>

definition fx_signed_in :: SessionData where
  "fx_signed_in = \<lparr>sd_Subject = ''u1'', sd_Roles = None, sd_Scope = None, sd_Nonce = ''n1'', sd_IssuedAt = 0,
     sd_AuthTime = 1, sd_ExpiresAt = 1023, sd_LoginMethod = []\<rparr>"

definition fx_browser_cookie :: string where
  "fx_browser_cookie = (case EncryptAES fx_alibs ''123456789012'' (c_ClientSecret fx_config) (fx_ser fx_signed_in) of Ok h \<Rightarrow> h | _ \<Rightarrow> [])"

definition fx_astore :: in_memory where
  "fx_astore = snd (im_SetUserSession 0 ''u1'' (TokenTypeSessionToken @ ''_'' @ ''n1'')
     (HashSessionValue fx_alibs fx_browser_cookie) 1023 NewInMemoryProvider)"

definition fx_aworld :: "in_memory world" where
  "fx_aworld = \<lparr>w_mem = fx_astore, w_audit = []\<rparr>"

lemma fx_aworld_inv: "im_inv (w_mem fx_aworld)"
  unfolding fx_aworld_def fx_astore_def
  by (simp add: conjunct1[OF im_set_session[OF im_inv_New prod.collapse[symmetric]]])

definition fx_browse :: "url_values \<Rightarrow> authorize_request" where
  "fx_browse form = \<lparr>aq_form = form, aq_session = Some fx_browser_cookie, aq_session_domain = None, aq_host = ''https://auth''\<rparr>"

definition fx_app_form :: url_values where
  "fx_app_form = [(''client_id'', [''app'']), (''redirect_uri'', [''https://app/cb'']), (''response_type'', [''code'']),
     (''state'', [''st'']), (''nonce'', [''n2'']), (''scope'', [''s''])]"

definition fx_authorized :: "authz_response option \<times> in_memory world" where
  "fx_authorized = AuthorizeHandler fx_ahttp fx_authz fx_consents (100 * Second) fx_arandoms (fx_browse fx_app_form) fx_aworld"

definition fx_issues :: "authz_response option \<times> in_memory world \<Rightarrow> bool" where
  "fx_issues x = (case fst x of None \<Rightarrow> False | Some r \<Rightarrow> (case ar_cookie r of SetCookie _ \<Rightarrow> True | _ \<Rightarrow> False))"

lemma fx_issuesD: "fx_issues x \<Longrightarrow> \<exists>resp tok. x = (Some resp, snd x) \<and> ar_cookie resp = SetCookie tok"
  by (cases x) (auto simp: fx_issues_def split: option.splits cookie_change.splits)

definition fx_params :: "authorize_request \<Rightarrow> authz_params" where
  "fx_params rq = (case checked_params fx_ahttp fx_authz fx_arandoms rq of Proceed p \<Rightarrow> p | _ \<Rightarrow> read_params fx_authz rq)"

definition fx_proceeds :: "authorize_request \<Rightarrow> bool" where
  "fx_proceeds rq = (case checked_params fx_ahttp fx_authz fx_arandoms rq of Proceed p \<Rightarrow> True | _ \<Rightarrow> False)"

lemma fx_proceedsD: "fx_proceeds rq \<Longrightarrow> checked_params fx_ahttp fx_authz fx_arandoms rq = Proceed (fx_params rq)"
  by (auto simp: fx_proceeds_def fx_params_def split: az_step.splits)

text \<open>The code of the browser redeemed at the token endpoint.\<close>

definition fx_flow_body :: RequestBody where
  "fx_flow_body = fx_app_body\<lparr>rb_Code := ''code9'', rb_RedirectURI := ''https://app/cb''\<rparr>"

definition fx_flow :: "response option \<times> in_memory world" where
  "fx_flow = TokenHandler fx_ahttp (101 * Second) fx_randoms (fx_ask fx_flow_body) (snd fx_authorized)"

lemma fx_app_proceeds: "fx_proceeds (fx_browse fx_app_form)"
  by code_simp

lemma fx_app_params:
  "ap_responseType (fx_params (fx_browse fx_app_form)) = ''code''" "ap_codeChallenge (fx_params (fx_browse fx_app_form)) = []"
  "ap_nonce (fx_params (fx_browse fx_app_form)) = ''n2''" "ap_code (fx_params (fx_browse fx_app_form)) = ''code9''"
  by code_simp+

lemma fx_authorized_issues: "fx_issues fx_authorized"
  by code_simp

lemma fx_flow_ok: "fx_ok fx_flow"
  by code_simp

lemma fx_lib_laws:
  "length (zr_gcm fx_arandoms) = gcmNonceSize"
  "lib_open fx_alibs k (zr_gcm fx_arandoms) (lib_seal fx_alibs k (zr_gcm fx_arandoms) x) = Ok x"
  "lib_session_dec fx_alibs (lib_session_enc fx_alibs sd) = Ok sd"
  by (simp_all add: fx_arandoms_def gcmNonceSize_def fx_alibs_def fx_tlibs_def fx_libs_def fx_deser_ser)

lemma fx_authorize_inv:
  assumes "im_inv (w_mem w)" "fx_proceeds rq"
  shows "im_inv (w_mem (snd (AuthorizeHandler fx_ahttp fx_authz fx_consents now fx_arandoms rq w)))"
  using confined_invar[OF im.confined_AuthorizeHandler[OF assms(1) _ fx_proceedsD[OF assms(2)], of UNIV UNIV]]
  by (simp add: fx_ahttp_def)

lemma fx_authorized_inv: "im_inv (w_mem (snd fx_authorized))"
  unfolding fx_authorized_def by (rule fx_authorize_inv[OF fx_aworld_inv fx_app_proceeds])

end
