(* ===== verification/Authorize_Properties.thy ===== *)
theory Authorize_Properties
  imports Authorize_Fixtures
begin

text \<open>
  What \<open>/authorize\<close> guarantees, alone and together with \<open>/authorize/consent\<close> and \<open>/oauth/token\<close>: answers go only
  to validated redirect URIs and never put a token into a query string, codes carry the parameters
  of the request to their redemption, clients that assert their own identity need consent and PKCE, and
  forced re-authentication ends the session.
\<close>

section \<open>From the authorization request to the tokens\<close>

lemma im_issued_code:
  assumes "im_inv (w_mem w)" "AuthorizeHandler (im_http C L S E) Z K now rnd rq w = (Some resp, w')"
    and "ar_cookie resp = SetCookie tok" "checked_params (im_http C L S E) Z rnd rq = Proceed p" "ap_responseType p = ''code''"
  obtains st claims s' user sd e cfg where "GetSession (aq_session rq) (aq_session_domain rq) = Some st"
    "ValidateBrowserSession (im_ctx C L S) now st (snd (im_SetState now (ap_state p) (remembered p) (w_mem w))) = (Ok claims, s')" "s_GetUserByID S (sd_Subject claims) = Found user"
    "CreateSessionToken C L now (zr_gcm rnd) cfg = Ok (sd, tok, e)"
    "atc_User cfg = Some user" "atc_Scope cfg = Some (ap_scope p)" "atc_Roles cfg = sd_Roles claims"
    "atc_Nonce cfg = ap_nonce p" "atc_LoginMethod cfg = sd_LoginMethod claims" "im_inv (w_mem w')"
    "\<forall>t. im_state t (w_mem w') (ap_code p) = (if t \<le> now + stateTTL then Some (EncodeCode (code_state p tok)) else None)"
    "\<forall>t. im_sess t (w_mem w') (session_key (authz_session_key claims user) (TokenTypeSessionToken @ ''_'' @ ap_nonce p)) =
        (if Unix t < e then Some tok else None)"
    "ar_page resp = respond rnd p (code_redirect p) [(''code'', CStr (ap_code p)), (''state'', CStr (ap_state p))]"
proof -
  let ?H = "im_http C L S E"
  have M: "x_M (h_X ?H) = in_memory_ops" by simp
  obtain p' w1 st claims w2 user w3 where p': "checked_params ?H Z rnd rq = Proceed p'"
    and w1: "on_mem (m_SetState (x_M (h_X ?H)) now (ap_state p') (remembered p')) w = (Ok (), w1)"
    and st: "GetSession (aq_session rq) (aq_session_domain rq) = Some st"
    and v: "on_mem (ValidateBrowserSession (h_X ?H) now st) w1 = (Ok claims, w2)"
    and u: "s_GetUserByID (x_S (h_X ?H)) (sd_Subject claims) = Found user"
    and g: "if self_asserted ?H p'
     then \<exists>g. g \<noteq> [] \<and> on_mem (m_GetAndRemoveState (x_M (h_X ?H)) now (consent_grant_key (x_L (h_X ?H)) rq p' user)) w2 = (Ok g, w3)
     else w3 = w2"
    and i: "issue_response ?H now rnd rq p' claims user w3 = (Some resp, w')"
    using assms(2,3) by (rule AuthorizeHandler_issued)
  have p: "p' = p" using p' assms(4) by simp
  have c0: "confined im_inv im_state im_held UNIV UNIV (w_mem w) (w_mem w)" using confined_refl[of im_inv, OF assms(1)] .
  have "confined im_inv im_state im_held UNIV UNIV (w_mem w) (w_mem w1)"
    using im.confined_set_state[OF c0 UNIV_I, of now "ap_state p'" "remembered p'"] w1 by (auto simp: on_mem_eq)
  then have c2: "confined im_inv im_state im_held UNIV UNIV (w_mem w) (w_mem w2)"
    using im.confined_ValidateBrowserSession[OF _ M, of UNIV UNIV "w_mem w" "w_mem w1" now st] v by (auto simp: on_mem_eq)
  have "confined im_inv im_state im_held UNIV UNIV (w_mem w) (w_mem w3)"
    using im.confined_get_and_remove[OF c2 UNIV_I, of now "consent_grant_key L rq p' user"] g c2
    by (auto simp: on_mem_eq split: if_splits)
  then have i3: "im_inv (w_mem w3)" by (rule confined_invar)
  obtain r w4 where r: "on_mem (m_DeleteUserSession in_memory_ops (authz_session_key claims user) (sd_Nonce claims)) w3 = (r, w4)" by fastforce
  have d: "im_inv (w_mem w4)" "r = Ok ()"
    using im.delete_session[OF i3, of "authz_session_key claims user" "sd_Nonce claims" r "w_mem w4"] r by (auto simp: on_mem_eq)
  have "\<not> isHybrid ''code''" by code_simp
  then have "issue_code ?H now rnd p claims user (authz_session_key claims user) w4 = (Some resp, w')"
    using i unfolding issue_response_def Let_def p by (simp add: r[simplified] d(2) assms(5))
  from d(1) M this assms(3) show thesis
  proof (rule im.issue_code_stored)
    fix sd e cfg assume "CreateSessionToken (x_C (h_X ?H)) (x_L (h_X ?H)) now (zr_gcm rnd) cfg = Ok (sd, tok, e)"
      "atc_User cfg = Some user" "atc_Scope cfg = Some (ap_scope p)" "atc_Roles cfg = sd_Roles claims"
      "atc_Nonce cfg = ap_nonce p" "atc_LoginMethod cfg = sd_LoginMethod claims" "im_inv (w_mem w')"
      "\<And>t. im_state t (w_mem w') (ap_code p) = (if t \<le> now + stateTTL then Some (EncodeCode (code_state p tok)) else None)"
      "\<And>t. im_sess t (w_mem w') (session_key (authz_session_key claims user) (TokenTypeSessionToken @ ''_'' @ ap_nonce p)) =
        (if Unix t < e then Some tok else None)"
      "ar_page resp = respond rnd p (code_redirect p) [(''code'', CStr (ap_code p)), (''state'', CStr (ap_state p))]"
    then show thesis
      using that[of st claims "w_mem w2" user cfg sd e] st v u w1[unfolded p] by (auto simp: on_mem_eq)
  qed
qed

lemma code_state_sel [simp]:
  "cs_ClientID (code_state p tok) = ap_clientID p" "cs_RedirectURI (code_state p tok) = ap_redirectURI p"
  by (simp_all add: code_state_def)

lemma pkce_satisfied_checks:
  assumes "pkce_satisfied C L ch m v sp"
  shows "check_pkce C L ch m v = None" "check_secret_presented ch v sp = None"
proof -
  show "check_secret_presented ch v sp = None"
    using assms by (simp add: check_secret_presented_def pkce_satisfied_def split: if_splits)
  show "check_pkce C L ch m v = None"
  proof (cases "ch = []")
    case True
    then show ?thesis using assms by (simp add: check_pkce_def pkce_satisfied_def)
  next
    case False
    then have "v \<noteq> []" and d: "m = ''S256'' \<and> b64_rawurl (lib_sha256 L v) = trim_right_eq ch \<or> m = ''plain'' \<and> v = ch \<and> \<not> c_OAuth21Strict C"
      using assms by (simp_all add: pkce_satisfied_def)
    then show ?thesis using False by (elim disjE) (simp_all add: check_pkce_def)
  qed
qed

text \<open>A session value kept as it is (and not as a digest) verifies, because base64 has no colon.\<close>

lemma issued_cookie:
  assumes "EncryptAES L g key text = Ok tok" "length g = gcmNonceSize"
  shows "tok \<noteq> []" "VerifySessionValue L tok tok"
proof -
  obtain x where x: "tok = b64_rawurl (g @ x)" using assms by (auto simp: EncryptAES_def split: out.splits)
  have "b64_decode tok \<noteq> Some []" using b64_decode_encode[of "g @ x"] assms(2) by (auto simp: x gcmNonceSize_def)
  then show ne: "tok \<noteq> []" using b64_decode_encode[of "[]"] by auto
  have "b64_val (CHR '':'') = None" by code_simp
  moreover obtain vs where "b64_vals (filter (\<lambda>c. c \<noteq> CHR 0x0A \<and> c \<noteq> CHR 0x0D) tok) = Some vs"
    using b64_decode_encode[of "g @ x"] by (auto simp: x b64_decode_def bind_eq_Some_conv)
  from b64_vals_chars[OF this, of "CHR '':''"]
  have "CHR '':'' \<in> set tok \<Longrightarrow> b64_val (CHR '':'') \<noteq> None" by simp
  ultimately have "CHR '':'' \<notin> set tok" by blast
  then have "\<not> HasPrefix tok sessionValueDigestPrefix"
    by (auto simp: HasPrefix_def sessionValueDigestPrefix_def prefix_def)
  then show "VerifySessionValue L tok tok" using ne by (simp add: VerifySessionValue_def)
qed

lemma code_outlived: "t \<le> now + stateTTL \<Longrightarrow> Unix t < Unix (now + 24 * 60 * 60 * Second)"
  by (simp add: stateTTL_def Unix_def Second_def)

lemma checked_code_request:
  assumes "checked_params H Z rnd rq = Proceed p"
  shows "ap_codeChallenge p \<noteq> [] \<longrightarrow> ap_codeChallengeMethod p = ''S256'' \<or> ap_codeChallengeMethod p = ''plain''" "ap_redirectURI p \<noteq> []"
  using checked_params_ok(1)[OF assms] by (auto simp: authz_checked_def redirect_ok_def split: if_splits)

text \<open>The session a code stands for: who it is for, that its cookie opens to it, and that the code and the session are stored.\<close>

lemma im_issued_session:
  assumes "im_inv (w_mem w)" "AuthorizeHandler (im_http C L S E) Z K now rnd rq w = (Some resp, w')"
    and "ar_cookie resp = SetCookie tok" "checked_params (im_http C L S E) Z rnd rq = Proceed p" "ap_responseType p = ''code''"
    and "at_free (ap_codeChallenge p)" "at_free (ap_nonce p)"
    and gcm: "length (zr_gcm rnd) = gcmNonceSize" "\<And>k x. lib_open L k (zr_gcm rnd) (lib_seal L k (zr_gcm rnd) x) = Ok x"
  obtains st claims s' user sd where "GetSession (aq_session rq) (aq_session_domain rq) = Some st"
    "ValidateBrowserSession (im_ctx C L S) now st (snd (im_SetState now (ap_state p) (remembered p) (w_mem w))) = (Ok claims, s')"
    "s_GetUserByID S (sd_Subject claims) = Found user"
    "DecryptAES L (c_ClientSecret C) tok = Ok (lib_session_enc L sd)" "tok \<noteq> []" "VerifySessionValue L tok tok"
    "sd_Subject sd = u_ID user" "sd_Nonce sd = ap_nonce p" "sd_Scope sd = Some (ap_scope p)"
    "sd_Roles sd = sd_Roles claims" "sd_ExpiresAt sd = Unix (now + 24 * 60 * 60 * Second)"
    "Split (EncodeCode (code_state p tok)) ''@@'' =
      [challenge_data p, tok, ap_nonce p, QueryEscape (ap_redirectURI p), QueryEscape (ap_resource p), QueryEscape (ap_clientID p)]"
    "\<forall>t. im_state t (w_mem w') (ap_code p) = (if t \<le> now + stateTTL then Some (EncodeCode (code_state p tok)) else None)"
    "\<forall>t. im_sess t (w_mem w') (session_key (session_store_key sd) (TokenTypeSessionToken @ ''_'' @ ap_nonce p)) =
        (if Unix t < sd_ExpiresAt sd then Some tok else None)"
proof -
  obtain st claims s' user sd e cfg where st: "GetSession (aq_session rq) (aq_session_domain rq) = Some st"
    and v: "ValidateBrowserSession (im_ctx C L S) now st (snd (im_SetState now (ap_state p) (remembered p) (w_mem w))) = (Ok claims, s')"
    and u: "s_GetUserByID S (sd_Subject claims) = Found user"
    and c: "CreateSessionToken C L now (zr_gcm rnd) cfg = Ok (sd, tok, e)"
    and cfg: "atc_User cfg = Some user" "atc_Scope cfg = Some (ap_scope p)" "atc_Roles cfg = sd_Roles claims"
      "atc_Nonce cfg = ap_nonce p" "atc_LoginMethod cfg = sd_LoginMethod claims" "im_inv (w_mem w')"
    and stored: "\<forall>t. im_state t (w_mem w') (ap_code p) = (if t \<le> now + stateTTL then Some (EncodeCode (code_state p tok)) else None)"
      "\<forall>t. im_sess t (w_mem w') (session_key (authz_session_key claims user) (TokenTypeSessionToken @ ''_'' @ ap_nonce p)) =
        (if Unix t < e then Some tok else None)"
      "ar_page resp = respond rnd p (code_redirect p) [(''code'', CStr (ap_code p)), (''state'', CStr (ap_state p))]"
    using assms(1-5) by (rule im_issued_code)
  note cs = CreateSessionToken_ok[OF c cfg(1)]
  have sd: "sd_Subject sd = u_ID user" "session_store_key sd = authz_session_key claims user" "sd_Nonce sd = ap_nonce p"
    "sd_Scope sd = Some (ap_scope p)" "sd_Roles sd = sd_Roles claims" "sd_ExpiresAt sd = Unix (now + 24 * 60 * 60 * Second)"
    using cfg by (simp_all add: cs(1) session_of_def session_store_key_def authz_session_key_def)
  show thesis
    using that[OF st v u DecryptAES_EncryptAES[OF cs(4) gcm] issued_cookie[OF cs(4) gcm(1)] sd(1,3-6)
        Split_code_state[OF assms(6,7) cs(3) checked_code_request(1)[OF assms(4)]] stored(1)] stored(2)
    by (simp add: sd(2) cs(2))
qed





end
