(* ===== verification/Authorize_Answers.thy ===== *)
theory Authorize_Answers
  imports Authorize_Fixtures
begin

text \<open>
  Where the answers of \<open>/authorize\<close> go and what they expose: every page leads to the login application or to
  a validated redirect URI, and tokens travel in a fragment or a posted form only.
\<close>

section \<open>Where answers go\<close>

text \<open>A redirect URI the server may answer to: its own application, or one that the client check accepted.\<close>

definition redirect_validated :: "'s http \<Rightarrow> authz_config \<Rightarrow> authorize_request \<Rightarrow> string \<Rightarrow> bool" where
  "redirect_validated H Z rq uri \<longleftrightarrow>
     (if param rq ''redirect_uri'' = [] then uri = ''/app''
      else uri = param rq ''redirect_uri'' \<and>
        (\<exists>c. checkClientRedirectURI H (zc_web Z) (param rq ''client_id'') uri (aq_host rq) = Ok c \<and> rc_Valid c))"

text \<open>The page leads to the login application or delivers to the URI, whose own text stays in front.\<close>

definition page_to :: "string \<Rightarrow> page \<Rightarrow> bool" where
  "page_to uri pg \<longleftrightarrow>
     (case pg of
        Redirect u \<Rightarrow> HasPrefix u ''/app'' \<or> u = uri \<or> (\<exists>sep params. (sep = ''?'' \<or> sep = ''#'') \<and> u = with_params sep uri params)
      | WebMessage target _ \<Rightarrow> target = uri
      | FormPost target _ _ _ \<Rightarrow> target = uri
      | _ \<Rightarrow> True)"

lemma page_to_simps [simp]:
  "page_to uri (Json st b)" "page_to uri (Redirect uri)" "page_to uri (WebMessage uri d)" "page_to uri (form_post_page r uri d)"
  "page_to uri (Consent c csp)" "page_to uri (ConsentError st a b' c')" "page_to uri NoBody" "page_to uri (json_error st e d')"
  "page_to uri (Redirect (with_params ''#'' uri params))" "page_to uri (Redirect (with_params ''?'' uri params))"
  by (auto simp: page_to_def form_post_page_def json_error_def split: prod.split)

lemma page_to_error [simp]: "page_to uri (redirectErrorToRP r mode uri st e d)"
  by (simp add: redirectErrorToRP_def Let_def)

lemma page_to_error_to_rp [simp]: "page_to (ap_redirectURI p) (error_to_rp rnd p e d)"
  by (simp add: error_to_rp_def)

lemma page_to_login_url [simp]: "page_to uri (Redirect (authURL p))"
  by (simp add: page_to_def authURL_def HasPrefix_def)

lemma page_to_respond:
  assumes "page_to (ap_redirectURI p) (Redirect u)" "u = ap_redirectURI p \<or> ap_responseMode p \<in> {''query'', ''fragment''}"
  shows "page_to (ap_redirectURI p) (respond rnd p u res)"
  using assms by (auto simp: respond_def handleResponse_def)

lemma page_to_login [simp]:
  "page_to (ap_redirectURI p) (login_page rnd p)" "page_to (ap_redirectURI p) (signup_page rnd p)"
  by (auto simp: login_page_def signup_page_def intro!: page_to_respond)

lemma page_to_no_session [simp]: "page_to (ap_redirectURI p) (no_session rnd p)"
  by (simp add: no_session_def promptNoneLoginRequired_def Let_def)

lemma page_to_in_fragment: "page_to (ap_redirectURI p) (respond rnd p (in_fragment p params) res)"
  by (auto simp: in_fragment_def intro!: page_to_respond)

lemma page_to_code: "page_to (ap_redirectURI p) (respond rnd p (code_redirect p) res)"
  by (auto simp: code_redirect_def in_fragment_def Let_def intro!: page_to_respond)

definition answers_to :: "string \<Rightarrow> authz_response option \<times> 'w \<Rightarrow> bool" where
  "answers_to uri x \<longleftrightarrow> (case fst x of None \<Rightarrow> True | Some resp \<Rightarrow> page_to uri (ar_page resp))"

lemma answers_to_simps [simp]:
  "answers_to uri (None, w)" "answers_to uri (Some resp, w) = page_to uri (ar_page resp)"
  by (simp_all add: answers_to_def)

lemma answers_or_login:
  "(\<And>w. answers_to (ap_redirectURI p) (k w)) \<Longrightarrow> answers_to (ap_redirectURI p) (or_login rnd p r k)"
  by (auto simp: or_login_def split: prod.split out.split)

lemma answers_create_tokens:
  "(\<And>a. answers_to (ap_redirectURI p) (k a)) \<Longrightarrow> answers_to (ap_redirectURI p) (create_tokens H now rnd p cfg w k)"
  by (auto simp: create_tokens_def split: out.split)

lemma answers_issue:
  "answers_to (ap_redirectURI p) (issue_response H now rnd rq p claims user w)"
proof -
  note rules = answers_create_tokens answers_or_login
  have "answers_to (ap_redirectURI p) (issue_hybrid H now rnd rq p claims user k w)"
    "answers_to (ap_redirectURI p) (issue_id_token_token H now rnd rq p claims user k w)" for k w
    unfolding issue_hybrid_def issue_id_token_token_def store_both_def Let_def
    by (intro rules; simp add: page_to_in_fragment)+
  moreover have "answers_to (ap_redirectURI p) (issue_id_token H now rnd rq p claims user k w)"
    "answers_to (ap_redirectURI p) (issue_token H now rnd rq p claims user k w)" for k w
    unfolding issue_id_token_def issue_token_def Let_def
    by (intro rules; simp add: page_to_in_fragment)+
  moreover have "answers_to (ap_redirectURI p) (issue_code H now rnd p claims user k w)" for k w
    unfolding issue_code_def
    by (auto split: out.split prod.split intro!: rules simp: page_to_code)
  ultimately show ?thesis
    by (simp add: issue_response_def Let_def split: prod.split out.split)
qed

lemma answers_ask_consent:
  "answers_to (ap_redirectURI p) (apfst (map_option only_page) (ask_consent H K now rnd rq p user w))"
proof -
  have d: "describe_client H p = Answer pg \<Longrightarrow> page_to (ap_redirectURI p) pg" for pg
    by (auto simp: describe_client_def split: if_splits option.splits out.splits lookup.splits)
  have r: "fst (renderConsent H K now i c u user' e sc f w) = Some pg \<Longrightarrow> page_to (ap_redirectURI p) pg" for i c u user' e sc f pg
    by (auto simp: renderConsent_def consent_not_started_def Let_def split: out.splits prod.splits)
  show ?thesis using d r by (auto simp: ask_consent_def answers_to_def split: az_step.split option.split)
qed

lemma answers_session:
  "answers_to (ap_redirectURI p) (authorize_session H K now rnd rq p w)"
proof -
  have "answers_to (ap_redirectURI p) (consent_gate H K now rnd rq p claims user w)" for claims user w
    by (simp add: consent_gate_def answers_issue answers_ask_consent split: prod.split out.split)
  then have "answers_to (ap_redirectURI p) (with_session H K now rnd rq p c w)" for c
    by (simp add: with_session_def split: option.split prod.split out.split lookup.split)
  moreover have "answers_to (ap_redirectURI p) (reauthenticate H rnd p c w)" for c
    by (simp add: reauthenticate_def split: option.split prod.split out.split)
  ultimately show ?thesis
    by (simp add: authorize_session_def Let_def split: out.split bool.split)
qed

lemma redirect_ok_validated: "redirect_ok H Z rq p \<Longrightarrow> redirect_validated H Z rq (ap_redirectURI p)"
  by (auto simp: redirect_ok_def redirect_validated_def split: if_splits)

text \<open>The pages of the checks: JSON before the redirect URI is accepted, the accepted URI afterwards.\<close>

lemma checked_params_Answer:
  assumes "checked_params H Z rnd rq = Answer pg"
  shows "(\<exists>st b. pg = Json st b) \<or> (\<exists>uri. redirect_validated H Z rq uri \<and> page_to uri pg)"
proof (cases "resolve_redirect H Z rq (read_params Z rq)")
  case (Proceed p)
  let ?L = "x_L (h_X H)" and ?C = "x_C (h_X H)"
  have v: "redirect_validated H Z rq (ap_redirectURI p)"
    using resolve_redirect_ok[OF Proceed] redirect_ok_validated by blast
  have r: "request_error ?L rnd rq p = Some q \<Longrightarrow> page_to (ap_redirectURI p) q" for q
    by (auto simp: request_error_def split: if_splits)
  have m: "pkce_method_error ?C p = Some q \<Longrightarrow> page_to uri q" for q uri
    by (auto simp: pkce_method_error_def Let_def split: if_splits)
  have t: "canonical_type p = Answer q \<Longrightarrow> page_to uri q" for q uri
    by (auto simp: canonical_type_def split: option.splits)
  have f: "front_channel_mode rnd p' = Answer q \<Longrightarrow> page_to (ap_redirectURI p') q" for p' q
    by (auto simp: front_channel_mode_def split: if_splits)
  have a: "self_asserted_error H p' = Some q \<Longrightarrow> page_to uri q" for p' q uri
    by (auto simp: self_asserted_error_def split: if_splits)
  have l: "late_error ?C rnd p' = Some q \<Longrightarrow> page_to (ap_redirectURI p') q" for p' q
    by (auto simp: late_error_def Let_def split: if_splits option.splits)
  have t': "ap_redirectURI p' = ap_redirectURI p" if "canonical_type p = Proceed p'" for p'
    by (subst canonical_typeD(1)[OF that]) simp
  have f': "ap_redirectURI p'' = ap_redirectURI p'" if "front_channel_mode rnd p' = Proceed p''" for p' p''
    by (subst front_channel_modeD[OF that]) simp
  have "request_error ?L rnd rq p = Some pg \<or> pkce_method_error ?C p = Some pg \<or> canonical_type p = Answer pg \<or>
      (\<exists>p'. canonical_type p = Proceed p' \<and> (front_channel_mode rnd p' = Answer pg \<or>
        (\<exists>p''. front_channel_mode rnd p' = Proceed p'' \<and> (self_asserted_error H p'' = Some pg \<or> late_error ?C rnd p'' = Some pg))))"
    using assms by (simp add: checked_params_def Let_def Proceed bind_az_Answer refuse_simps) blast
  then have "page_to (ap_redirectURI p) pg"
  proof (elim disjE exE conjE)
    fix p' p'' assume 1: "canonical_type p = Proceed p'" and 2: "front_channel_mode rnd p' = Proceed p''"
      and 3: "late_error ?C rnd p'' = Some pg"
    show ?thesis using l[OF 3] unfolding f'[OF 2] t'[OF 1] .
  next
    fix p' assume 1: "canonical_type p = Proceed p'" and 2: "front_channel_mode rnd p' = Answer pg"
    show ?thesis using f[OF 2] unfolding t'[OF 1] .
  qed (erule r, erule m, erule t, erule a)
  then show ?thesis using v by blast
next
  case (Answer q)
  then have "q = pg" using assms by (simp add: checked_params_def Let_def bind_az_def)
  moreover have "\<exists>st b. q = Json st b"
    using Answer by (auto simp: resolve_redirect_def json_error_def split: if_splits out.splits)
  ultimately show ?thesis by blast
qed (use assms in \<open>simp add: checked_params_def Let_def bind_az_def\<close>)

text \<open>
  C5. No open redirect. Whatever a request to \<open>/authorize\<close> is answered with, a result or an error, the answer is a JSON
  body, leads to the login application of the server itself, or is delivered to a redirect URI that passed the
  check for the client of the request (or to the server's own application when the request names none).
\<close>

theorem authorize_answers_confined:
  assumes "AuthorizeHandler H Z K now rnd rq w = (Some resp, w')"
  shows "(\<exists>st b. ar_page resp = Json st b) \<or> (\<exists>uri. redirect_validated H Z rq uri \<and> page_to uri (ar_page resp))"
proof (cases "checked_params H Z rnd rq")
  case (Proceed p)
  obtain r w1 where r: "on_mem (m_SetState (x_M (h_X H)) now (ap_state p) (remembered p)) w = (r, w1)" by fastforce
  have "answers_to (ap_redirectURI p) (AuthorizeHandler H Z K now rnd rq w)"
    by (cases r) (simp_all add: AuthorizeHandler_def Proceed r answers_session)
  then have "page_to (ap_redirectURI p) (ar_page resp)" by (simp add: assms)
  moreover have "redirect_validated H Z rq (ap_redirectURI p)"
    using checked_params_ok(1)[OF Proceed] redirect_ok_validated unfolding authz_checked_def by blast
  ultimately show ?thesis by blast
next
  case (Answer pg)
  then have "ar_page resp = pg" using assms by (auto simp: AuthorizeHandler_def)
  then show ?thesis using checked_params_Answer[OF Answer] by simp
qed (use assms in \<open>simp add: AuthorizeHandler_def\<close>)

theorem authorize_answers_confined_witness:
  "\<exists>resp. fst fx_authorized = Some resp \<and>
     ((\<exists>st b. ar_page resp = Json st b) \<or> (\<exists>uri. redirect_validated fx_ahttp fx_authz (fx_browse fx_app_form) uri \<and> page_to uri (ar_page resp)))"
proof -
  obtain resp where "fx_authorized = (Some resp, snd fx_authorized)" using fx_issuesD[OF fx_authorized_issues] by blast
  note r = this
  show ?thesis
    using authorize_answers_confined[OF r[unfolded fx_authorized_def]] arg_cong[OF r, of fst] by (intro exI[of _ resp]) simp
qed

section \<open>What an answer exposes\<close>

text \<open>Everything in front of the fragment of a URI is sent to servers and kept in logs.\<close>

definition before_fragment :: "string \<Rightarrow> string" where
  "before_fragment u = takeWhile (\<lambda>c. c \<noteq> CHR ''#'') u"

lemma Contains_char: "Contains u [c] \<longleftrightarrow> c \<in> set u"
  by (induction u) auto

lemma before_fragment_with_params: "before_fragment (with_params ''#'' u params) = before_fragment u"
proof (cases "CHR ''#'' \<in> set u")
  case True
  then show ?thesis by (simp add: before_fragment_def with_params_def Contains_char takeWhile_append1)
next
  case False
  then show ?thesis
    using takeWhile_tail[of "\<lambda>c. c \<noteq> CHR ''#''" "CHR ''#''" u params] by (simp add: before_fragment_def with_params_def Contains_char)
qed

text \<open>An answer that issued something, for a response type other than \<open>code\<close>.\<close>

definition fragment_only :: "string \<Rightarrow> page \<Rightarrow> bool" where
  "fragment_only uri pg \<longleftrightarrow>
     (case pg of Redirect u \<Rightarrow> before_fragment u = before_fragment uri | WebMessage t _ \<Rightarrow> t = uri | FormPost t _ _ _ \<Rightarrow> t = uri | _ \<Rightarrow> False)"

lemma fragment_only_respond:
  assumes "ap_responseMode p \<in> {''fragment'', ''form_post'', ''web_message''}" "\<not> has_error res"
  shows "fragment_only (ap_redirectURI p) (respond rnd p (in_fragment p params) res)"
proof -
  consider "ap_responseMode p = ''fragment''" | "ap_responseMode p = ''form_post''" | "ap_responseMode p = ''web_message''"
    using assms(1) by blast
  then show ?thesis
    by cases (simp_all add: respond_def handleResponse_def assms(2) in_fragment_def fragment_only_def before_fragment_with_params
        form_post_page_def case_prod_beta)
qed

definition issues_to_fragment :: "string \<Rightarrow> authz_response option \<times> 'w \<Rightarrow> bool" where
  "issues_to_fragment uri x \<longleftrightarrow>
     (case fst x of None \<Rightarrow> True | Some resp \<Rightarrow> (\<exists>t. ar_cookie resp = SetCookie t) \<longrightarrow> fragment_only uri (ar_page resp))"

lemma fragment_or_login:
  "(\<And>w. issues_to_fragment uri (k w)) \<Longrightarrow> issues_to_fragment uri (or_login rnd p r k)"
  by (auto simp: or_login_def issues_to_fragment_def split: prod.split out.split)

lemma fragment_create_tokens:
  "(\<And>a. issues_to_fragment uri (k a)) \<Longrightarrow> issues_to_fragment uri (create_tokens H now rnd p cfg w k)"
  by (auto simp: create_tokens_def issues_to_fragment_def split: out.split)

lemma fragment_issue:
  assumes "ap_responseMode p \<in> {''fragment'', ''form_post'', ''web_message''}" "ap_responseType p \<noteq> ''code''"
  shows "issues_to_fragment (ap_redirectURI p) (issue_response H now rnd rq p claims user w)"
proof -
  note rules = fragment_create_tokens fragment_or_login
  have ready: "issues_to_fragment (ap_redirectURI p) (Some \<lparr>ar_page = respond rnd p (in_fragment p params) res, ar_cookie = c\<rparr>, w)"
    if "\<not> has_error res" for params res c w
    using fragment_only_respond[OF assms(1) that] by (simp add: issues_to_fragment_def)
  have "issues_to_fragment (ap_redirectURI p) (issue_hybrid H now rnd rq p claims user k w)"
    "issues_to_fragment (ap_redirectURI p) (issue_id_token_token H now rnd rq p claims user k w)" for k w
    unfolding issue_hybrid_def issue_id_token_token_def store_both_def Let_def
    by (intro rules ready; simp add: has_error_def)+
  moreover have "issues_to_fragment (ap_redirectURI p) (issue_id_token H now rnd rq p claims user k w)"
    "issues_to_fragment (ap_redirectURI p) (issue_token H now rnd rq p claims user k w)" for k w
    unfolding issue_id_token_def issue_token_def Let_def
    by (intro rules ready; simp add: has_error_def)+
  ultimately show ?thesis
    using assms(2) by (simp add: issue_response_def Let_def issues_to_fragment_def split: prod.split out.split)
qed

lemma code_redirect_cases:
  "code_redirect p = ap_redirectURI p \<or>
   (\<exists>sep. code_redirect p = with_params sep (ap_redirectURI p) (''code='' @ ap_code p @ ''&state='' @ ap_state p))"
proof -
  have "(if a then g x else if b then g y else u) = u \<or> (\<exists>s. (if a then g x else if b then g y else u) = g s)"
    for a b and g :: "string \<Rightarrow> string" and x y u by auto
  then show ?thesis unfolding code_redirect_def in_fragment_def Let_def .
qed



end
