(* ===== verification/Consent_Fixtures.thy ===== *)
theory Consent_Fixtures
  imports Authorize_Fixtures
begin

text \<open>
  Concrete values for the consent step: a codec of pending approvals that reads back what it wrote, requests of a
  client that registered itself, with and without a recorded approval, and requests that force a new login.
\<close>

section \<open>Concrete requests\<close>

definition fx_pending_enc :: "pendingConsent \<Rightarrow> string" where
  "fx_pending_enc q = Join [QueryEscape (pc_ClientID q), QueryEscape (pc_ClientName q), QueryEscape (pc_RedirectURI q),
     fx_strs (Some (pc_Scopes q)), QueryEscape (pc_Query q), QueryEscape (pc_UserID q)] ''&''"

definition fx_pending_dec :: "string \<Rightarrow> pendingConsent out" where
  "fx_pending_dec s =
     (case Split s ''&'' of
        [a, b, c, d, e, f] \<Rightarrow>
          Ok \<lparr>pc_ClientID = unescape_or_empty a, pc_ClientName = unescape_or_empty b, pc_RedirectURI = unescape_or_empty c,
              pc_Scopes = (case fx_unstrs d of None \<Rightarrow> [] | Some l \<Rightarrow> l), pc_Query = unescape_or_empty e, pc_UserID = unescape_or_empty f\<rparr>
      | _ \<Rightarrow> Err ''invalid character'')"

definition fx_codec :: consent_codec where
  "fx_codec = \<lparr>cc_Marshal = (\<lambda>q. Ok (fx_pending_enc q)), cc_Unmarshal = fx_pending_dec\<rparr>"

lemma fx_codec_law: "cc_Marshal fx_codec q = Ok s \<Longrightarrow> s \<noteq> [] \<and> cc_Unmarshal fx_codec s = Ok q"
proof -
  assume "cc_Marshal fx_codec q = Ok s"
  then have s: "s = fx_pending_enc q" by (simp add: fx_codec_def)
  have e: "CHR ''&'' \<notin> set (QueryEscape s)" for s using QueryEscape_plain by blast
  have "Split s ''&'' = [QueryEscape (pc_ClientID q), QueryEscape (pc_ClientName q), QueryEscape (pc_RedirectURI q),
     fx_strs (Some (pc_Scopes q)), QueryEscape (pc_Query q), QueryEscape (pc_UserID q)]"
    unfolding s fx_pending_enc_def by (intro Split_Join) (simp_all add: e fx_strs_plain)
  then show ?thesis by (simp add: fx_codec_def fx_pending_dec_def s) (simp add: fx_pending_enc_def)
qed

definition fx_self_form :: url_values where
  "fx_self_form = [(''client_id'', [''self'']), (''redirect_uri'', [''https://self/cb'']), (''response_type'', [''code'']),
     (''state'', [''st'']), (''nonce'', [''n2'']), (''scope'', [''s'']), (''code_challenge'', [''cc'']), (''code_challenge_method'', [''S256''])]"

definition fx_self_key :: string where
  "fx_self_key = consentGrantKey fx_alibs ''u1'' ''self'' (Values_Encode (originalParams fx_self_form))"

definition fx_granted :: "in_memory world" where
  "fx_granted = fx_aworld\<lparr>w_mem := snd (im_SetState 0 fx_self_key ''1'' fx_astore)\<rparr>"

definition fx_self_run :: "authz_response option \<times> in_memory world" where
  "fx_self_run = AuthorizeHandler fx_ahttp fx_authz fx_codec (100 * Second) fx_arandoms (fx_browse fx_self_form) fx_granted"

definition fx_asked :: "page option \<times> in_memory world" where
  "fx_asked = ask_consent fx_ahttp fx_codec (100 * Second) fx_arandoms (fx_browse fx_self_form) (fx_params (fx_browse fx_self_form)) fx_user fx_aworld"

definition fx_approval :: consent_request where
  "fx_approval = \<lparr>kq_form = [(''consent_id'', [''consent1'']), (''action'', [''approve''])], kq_session = Some fx_browser_cookie,
     kq_session_domain = None, kq_authorization = [], kq_host = ''https://auth''\<rparr>"

definition fx_approved :: "page option \<times> in_memory world" where
  "fx_approved = ConsentHandler fx_ahttp fx_codec (101 * Second) None fx_approval (snd fx_asked)"

definition fx_relogin :: "authz_response option \<times> in_memory world" where
  "fx_relogin = AuthorizeHandler fx_ahttp fx_authz fx_codec (100 * Second) fx_arandoms (fx_browse (fx_app_form @ [(''prompt'', [''login''])])) fx_aworld"

definition fx_planting :: authorize_request where
  "fx_planting = \<lparr>aq_form = [(''client_id'', [''app'']), (''redirect_uri'', [''https://app/cb'']), (''response_type'', [''code'']),
     (''state'', [fx_self_key]), (''nonce'', [''n2'']), (''scope'', [''s''])], aq_session = None, aq_session_domain = None, aq_host = ''https://auth''\<rparr>"

definition fx_planted :: "authz_response option \<times> in_memory world" where
  "fx_planted = AuthorizeHandler fx_ahttp fx_authz fx_codec (100 * Second) fx_arandoms fx_planting fx_aworld"

definition fx_consent_shown :: "page option \<times> in_memory world \<Rightarrow> bool" where
  "fx_consent_shown x = (case fst x of Some (Consent c csp) \<Rightarrow> cp_consent_id c = ''consent1'' | _ \<Rightarrow> False)"

definition fx_redirected :: "page option \<times> in_memory world \<Rightarrow> bool" where
  "fx_redirected x = (case fst x of Some (Redirect u) \<Rightarrow> True | _ \<Rightarrow> False)"

lemma fx_consent_shownD: "fx_consent_shown x \<Longrightarrow> \<exists>cp csp. x = (Some (Consent cp csp), snd x) \<and> cp_consent_id cp = ''consent1''"
  by (cases x) (auto simp: fx_consent_shown_def split: option.splits page.splits)

lemma fx_redirectedD: "fx_redirected x \<Longrightarrow> \<exists>u. x = (Some (Redirect u), snd x)"
  by (cases x) (auto simp: fx_redirected_def split: option.splits page.splits)

lemma fx_answersD: "fst x \<noteq> None \<Longrightarrow> \<exists>r. x = (Some r, snd x)"
  by (cases x) auto

lemma fx_granted_inv: "im_inv (w_mem fx_granted)"
proof -
  have "im_inv fx_astore" using fx_aworld_inv by (simp add: fx_aworld_def)
  then show ?thesis using im_set_state[of fx_astore 0 fx_self_key "''1''"] by (simp add: fx_granted_def) (metis prod.collapse)
qed

lemma fx_self_runs: "fx_issues fx_self_run" "fx_proceeds (fx_browse fx_self_form)"
  "self_asserted fx_ahttp (fx_params (fx_browse fx_self_form))"
  by code_simp+

lemma fx_pages: "fx_consent_shown fx_asked" "fx_redirected fx_approved"
  by code_simp+

lemma fx_plants: "fx_proceeds fx_planting" "ap_state (fx_params fx_planting) = fx_self_key" "hasCodeFlow (fx_params fx_planting)"
  "fst fx_planted \<noteq> None" "fst fx_relogin \<noteq> None"
  by code_simp+

end
