(* ===== verification/Consent_Properties.thy ===== *)
theory Consent_Properties
  imports Consent_Fixtures
begin

text \<open>
  Consent and re-authentication at \<open>/authorize\<close>: a client that asserts its own identity gets nothing without an
  approval, which is used up; approving leads back to exactly the request that was shown; forced
  re-authentication ends the session; and a request touches no other state than the ones it names.
\<close>

section \<open>The consent gate\<close>

context memory_store_contract
begin

lemma set_state_then_session:
  assumes "invar (w_mem w)" "x_M X = M"
    and "on_mem (m_SetState M now k v) w = (r, w1)" "on_mem (ValidateBrowserSession X t st) w1 = (c, w2)"
  shows "invar (w_mem w2)"
    "stv t' (w_mem w2) q = (if q = k then (if t' \<le> now + stateTTL then Some v else None) else stv t' (w_mem w) q)"
proof -
  have 1: "m_SetState M now k v (w_mem w) = (r, w_mem w1)" and 2: "ValidateBrowserSession X t st (w_mem w1) = (c, w_mem w2)"
    using assms(3,4) by (auto simp: on_mem_eq)
  note s = set_state[OF assms(1) 1]
  have "quiet invar stv held {} (w_mem w1) (w_mem w2)"
    using quiet_ValidateBrowserSession[OF conjunct1[OF s] assms(2) 2] .
  then show "invar (w_mem w2)"
    "stv t' (w_mem w2) q = (if q = k then (if t' \<le> now + stateTTL then Some v else None) else stv t' (w_mem w) q)"
    using s by (simp_all add: quiet_def)
qed

lemma granted_and_used:
  assumes "invar (w_mem w)" "x_M (h_X H) = M"
    and "on_mem (m_GetAndRemoveState M now gk) w = (Ok g, w1)"
    and "issue_response H now rnd rq p claims user w1 = (x, w')"
  shows "stv now (w_mem w) gk = Some g" "ap_code p \<noteq> gk \<Longrightarrow> stv t (w_mem w') gk = None"
proof -
  have 1: "m_GetAndRemoveState M now gk (w_mem w) = (Ok g, w_mem w1)" using assms(3) by (auto simp: on_mem_eq)
  note gr = get_and_remove[OF assms(1) 1]
  show "stv now (w_mem w) gk = Some g" using gr by (auto split: option.splits if_splits)
  have "confined invar stv held {ap_code p} UNIV (w_mem w1) (w_mem w')"
    using confined_issue_response[OF confined_refl[of invar, OF conjunct1[OF gr]] assms(2), where claims = claims and user = user
        and p = p and now = now and rnd = rnd and rq = rq and Q = "{ap_code p}" and A = UNIV]
    by (simp add: assms(4))
  then show "ap_code p \<noteq> gk \<Longrightarrow> stv t (w_mem w') gk = None" using gr by (auto simp: confined_def)
qed

end



section \<open>Approving\<close>

lemma originalParams_keys: "map fst (originalParams form) = map fst (filter (\<lambda>(k, vs). vs \<noteq> []) form)"
  by (induction form) (auto simp: originalParams_def)

lemma originalParams_ok:
  assumes "distinct (map fst form)"
  shows "distinct (map fst (originalParams form))" "\<forall>kv\<in>set (originalParams form). \<exists>v. snd kv = [v]"
    "Values_Get (originalParams form) k = Values_Get form k"
proof -
  show "distinct (map fst (originalParams form))"
    using assms unfolding originalParams_keys by (rule distinct_map_filter)
  show "\<forall>kv\<in>set (originalParams form). \<exists>v. snd kv = [v]" by (auto simp: originalParams_def)
  show "Values_Get (originalParams form) k = Values_Get form k"
    using assms
  proof (induction form)
    case (Cons kv form)
    obtain k' vs where kv: "kv = (k', vs)" by fastforce
    have o: "originalParams (kv # form) = (if vs = [] then originalParams form else (k', [hd vs]) # originalParams form)"
      by (simp add: originalParams_def kv)
    have n: "map_of form k' = None" using Cons.prems by (simp add: kv map_of_eq_None_iff)
    show ?case
    proof (cases "k = k'")
      case True
      have "map_of (originalParams form) k' = None"
        unfolding map_of_eq_None_iff using Cons.prems by (auto simp: kv originalParams_def image_iff)
      then show ?thesis unfolding o by (cases vs) (auto simp: True kv Values_Get_def values_of_def)
    next
      case False
      then show ?thesis using Cons unfolding o by (auto simp: kv Values_Get_def values_of_def)
    qed
  qed (simp add: originalParams_def)
qed

lemma originalParams_single: "\<forall>kv\<in>set vs. \<exists>v. snd kv = [v] \<Longrightarrow> originalParams vs = vs"
proof -
  assume a: "\<forall>kv\<in>set vs. \<exists>v. snd kv = [v]"
  then have f: "filter (\<lambda>(k, vs). vs \<noteq> []) vs = vs" by (auto simp: filter_id_conv)
  have "map (\<lambda>(k, vs). (k, [hd vs])) vs = map (\<lambda>x. x) vs" by (rule map_cong) (use a in fastforce)+
  then show ?thesis by (simp add: originalParams_def f)
qed

text \<open>Replaying the stored query gives the parameters of the request again, in canonical order.\<close>

lemma replayed_query:
  assumes "distinct (map fst form)"
  defines "q \<equiv> Values_Encode (originalParams form)"
  shows "Values_Get (ParseQuery q) k = Values_Get form k" "Values_Encode (originalParams (ParseQuery q)) = q"
proof -
  let ?o = "originalParams form"
  note o = originalParams_ok[OF assms(1)]
  have "\<forall>kv\<in>set ?o. snd kv \<noteq> []" using o(2) by force
  from ParseQuery_Encode[OF o(1) this] have q: "ParseQuery q = sort_key fst ?o" by (simp add: q_def)
  have d: "distinct (map fst (sort_key fst ?o))" using o(1) by (simp add: distinct_map)
  have m: "map_of (sort_key fst ?o) = map_of ?o"
    by (rule map_of_inject_set[THEN iffD2, OF d o(1)]) simp
  show "Values_Get (ParseQuery q) k = Values_Get form k"
    using o(3)[of k] by (simp add: q Values_Get_def values_of_def m)
  have "originalParams (sort_key fst ?o) = sort_key fst ?o" by (rule originalParams_single) (use o(2) in simp)
  moreover have "sort_key fst (sort_key fst ?o) = sort_key fst ?o" by (rule sort_key_id_if_sorted) (rule sorted_sort_key)
  ultimately show "Values_Encode (originalParams (ParseQuery q)) = q"
    unfolding q Values_Encode_def by (simp add: q_def Values_Encode_def)
qed

lemma ask_consent_stored:
  assumes "im_inv (w_mem w)" "ask_consent (im_http C L S E) K now rnd rq p user w = (Some (Consent cp csp), w1)"
  obtains pending payload where "cc_Marshal K pending = Ok payload" "pc_UserID pending = u_ID user" "pc_ClientID pending = ap_clientID p"
    "pc_Query pending = Values_Encode (originalParams (aq_form rq))"
    "\<forall>t. im_state t (w_mem w1) (consentKey (cp_consent_id cp)) = (if t \<le> now + stateTTL then Some payload else None)"
    "im_inv (w_mem w1)"
proof -
  have nc: "error_to_rp rnd p e d \<noteq> Consent cp csp" for e d
    by (auto simp: error_to_rp_def redirectErrorToRP_def form_post_page_def json_error_def Let_def case_prod_beta)
  have "describe_client (im_http C L S E) p \<noteq> Answer (Consent cp csp)"
    by (auto simp: describe_client_def json_error_def split: option.splits out.splits lookup.splits)
  then obtain name uris where "renderConsent (im_http C L S E) K now (zr_consent_id rnd)
      \<lparr>kc_ClientID = ap_clientID p, kc_ClientName = name, kc_RedirectURIs = uris\<rparr>
      (ap_redirectURI p) (u_ID user) (StringValue (u_Email user)) (ap_scope p) (aq_form rq) w = (Some (Consent cp csp), w1)"
    using assms(2) nc by (auto simp: ask_consent_def split: az_step.splits prod.splits if_splits)
  note r = this[unfolded renderConsent_def Let_def]
  let ?pd = "\<lparr>pc_ClientID = ap_clientID p, pc_ClientName = name, pc_RedirectURI = ap_redirectURI p, pc_Scopes = ap_scope p,
             pc_Query = Values_Encode (originalParams (aq_form rq)), pc_UserID = u_ID user\<rparr>"
  obtain payload where m: "cc_Marshal K ?pd = Ok payload"
    using r by (cases "cc_Marshal K ?pd") (auto simp: consent_not_started_def)
  obtain x s where x: "im_SetState now (consentKey (zr_consent_id rnd)) payload (w_mem w) = (x, s)" by fastforce
  note ss = im_set_state[OF assms(1) x]
  have "w_mem w1 = s" "cp_consent_id cp = zr_consent_id rnd"
    using r ss by (auto simp: m on_mem_def x)
  then show thesis using that[OF m] ss by simp
qed

lemma consentKey_not_grant: "consentKey i \<noteq> consentGrantKey L u c q"
  by (simp add: consentKey_def consentGrantKey_def)

lemma gate_passes:
  assumes "im_inv (w_mem w)" "im_state t (w_mem w) (consent_grant_key L rq p user) = Some g" "g \<noteq> []"
  shows "\<exists>w'. consent_gate (im_http C L S E) K t rnd rq p claims user w = issue_response (im_http C L S E) t rnd rq p claims user w'"
proof -
  let ?k = "consent_grant_key L rq p user"
  obtain x s where x: "im_GetAndRemoveState t ?k (w_mem w) = (x, s)" by fastforce
  have "x = Ok g" using im_get_and_remove[OF assms(1) x] assms(2,3) by simp
  then show ?thesis using assms(3) by (auto simp: consent_gate_def on_mem_def x)
qed

lemma approve_consent_stored:
  assumes "im_inv (w_mem w)" "approve_consent (im_http C L S E) now pending w = (pg, w')"
  shows "pg = Some (Redirect (''/authorize?'' @ pc_Query pending))" "im_inv (w_mem w')"
    "im_state t (w_mem w') q =
      (if q = consentGrantKey L (pc_UserID pending) (pc_ClientID pending) (pc_Query pending)
       then (if t \<le> now + stateTTL then Some ''1'' else None) else im_state t (w_mem w) q)"
proof -
  let ?k = "consentGrantKey L (pc_UserID pending) (pc_ClientID pending) (pc_Query pending)"
  obtain x s where x: "im_SetState now ?k ''1'' (w_mem w) = (x, s)" by fastforce
  note ss = im_set_state[OF assms(1) x]
  have "w' = w\<lparr>w_mem := s\<rparr>" and p: "pg = Some (Redirect (''/authorize?'' @ pc_Query pending))"
    using assms(2) ss by (auto simp: approve_consent_def on_mem_def x)
  then show "im_inv (w_mem w')"
    "im_state t (w_mem w') q = (if q = ?k then (if t \<le> now + stateTTL then Some ''1'' else None) else im_state t (w_mem w) q)"
    using ss by simp_all
  show "pg = Some (Redirect (''/authorize?'' @ pc_Query pending))" by (rule p)
qed

context memory_store_contract
begin

lemma quiet_validateStateful:
  assumes "invar s" "x_M X = M" "validateStatefulAccessToken X now host t f s = (r, s')"
  shows "quiet invar stv held A s s'"
  using assms(2,3) quiet_refl[of invar, OF assms(1), of stv held] quiet_get_session[OF assms(1)]
  by (auto simp: validateStatefulAccessToken_def Let_def split: if_splits out.splits prod.splits option.splits)

lemma quiet_ValidateDelegated:
  assumes "invar s" "x_M X = M" "ValidateDelegatedAccessToken X now host t s = (r, s')"
  shows "quiet invar stv held A s s'"
proof -
  have "quiet invar stv held A s s1" if "delegationSessionIsLive X now m s = (b, s1)" for m b s1
    using that assms(2) quiet_refl[of invar, OF assms(1), of stv held] quiet_get_session[OF assms(1)]
    by (auto simp: delegationSessionIsLive_def split: option.splits prod.splits out.splits)
  then show ?thesis
    using assms(3) quiet_refl[of invar, OF assms(1), of stv held]
    by (auto simp: ValidateDelegatedAccessToken_def validateDelegatedForAudience_def
        split: if_splits prod.splits option.splits bool.splits)
qed

lemma quiet_GetUserID:
  assumes "invar s" "x_M X = M" "GetUserIDFromSessionOrAccessToken X now host c auth s = (r, s')"
  shows "quiet invar stv held A s s'"
proof -
  obtain r1 s1 where 1: "ValidateBrowserSession X now c s = (r1, s1)" by fastforce
  obtain tok where tok: "tok = (case GetAccessToken auth of Ok x \<Rightarrow> x | _ \<Rightarrow> [])" by blast
  obtain r2 s2 where 2: "ValidateAccessToken X now host tok s = (r2, s2)" by fastforce
  obtain r3 s3 where 3: "ValidateDelegatedAccessToken X now host tok s2 = (r3, s3)" by fastforce
  have q: "quiet invar stv held A s s1" "quiet invar stv held A s s2"
    using quiet_ValidateBrowserSession[OF assms(1,2) 1] quiet_validateStateful[OF assms(1,2) 2[unfolded ValidateAccessToken_def]] by auto
  then have "quiet invar stv held A s s3"
    by (intro quiet_trans[OF q(2) quiet_ValidateDelegated[OF quiet_invar[OF q(2)] assms(2) 3]])
  moreover have "s' \<in> {s, s1, s2, s3}"
    using assms(3) 1 2 3 by (auto simp: tok GetUserIDFromSessionOrAccessToken_def split: if_splits out.splits vres.splits)
  ultimately show ?thesis using q quiet_refl[of invar, OF assms(1)] by auto
qed

end

lemma decide_consent_approved:
  assumes "decide_consent (im_http C L S E) now random kq pending w = (Some (Redirect u), w')"
    and "Values_Get (kq_form kq) ''action'' = ''approve''"
  obtains td w1 where "on_mem (GetUserIDFromSessionOrAccessToken (im_ctx C L S) now (kq_host kq)
      (session_or_empty (GetSession (kq_session kq) (kq_session_domain kq))) (kq_authorization kq)) w = (Ok td, w1)"
    "sa_UserID td = pc_UserID pending" "TrimSpace (sa_ActorID td) = []"
    "approve_consent (im_http C L S E) now pending w1 = (Some (Redirect u), w')"
  using assms by (auto simp: decide_consent_def Let_def split: prod.splits out.splits if_splits)

text \<open>
  C24. Approving leads back to the request that was shown. When the consent page of a request is approved in time by the
  user it was shown to, the browser is sent to \<open>/authorize\<close> with a query that reads back as the very parameters of
  the request; that replayed request passes the consent gate, and the approval itself cannot be used a second time.
  The approval came from a session or token of that user, not from an application acting for them.
\<close>

theorem consent_round_trip:
  assumes "im_inv (w_mem w)" "distinct (map fst (aq_form rq))"
    and codec: "\<And>q s. cc_Marshal K q = Ok s \<Longrightarrow> s \<noteq> [] \<and> cc_Unmarshal K s = Ok q"
    and "ask_consent (im_http C L S E) K now rnd rq p user w = (Some (Consent cp csp), w1)"
    and "TrimSpace (Values_Get (kq_form kq) ''consent_id'') = cp_consent_id cp" "Values_Get (kq_form kq) ''action'' = ''approve''"
    and "ConsentHandler (im_http C L S E) K now' random kq w1 = (Some (Redirect u), w2)"
  shows "\<exists>q. u = ''/authorize?'' @ q \<and> (\<forall>k. Values_Get (ParseQuery q) k = Values_Get (aq_form rq) k) \<and>
    (\<forall>rq' p' t rnd' claims. aq_form rq' = ParseQuery q \<and> ap_clientID p' = ap_clientID p \<and> t \<le> now' + stateTTL \<longrightarrow>
      (\<exists>w3. consent_gate (im_http C L S E) K t rnd' rq' p' claims user w2 =
        issue_response (im_http C L S E) t rnd' rq' p' claims user w3)) \<and>
    (\<forall>t. im_state t (w_mem w2) (consentKey (cp_consent_id cp)) = None) \<and>
    (\<exists>td s. GetUserIDFromSessionOrAccessToken (im_ctx C L S) now' (kq_host kq)
        (session_or_empty (GetSession (kq_session kq) (kq_session_domain kq))) (kq_authorization kq)
        (snd (im_GetAndRemoveState now' (consentKey (cp_consent_id cp)) (w_mem w1))) = (Ok td, s) \<and>
      sa_UserID td = u_ID user \<and> TrimSpace (sa_ActorID td) = [])"
proof -
  let ?q = "Values_Encode (originalParams (aq_form rq))" and ?k = "consentKey (cp_consent_id cp)"
  obtain pending payload where m: "cc_Marshal K pending = Ok payload" and pd: "pc_UserID pending = u_ID user" "pc_ClientID pending = ap_clientID p"
    "pc_Query pending = ?q" and st: "\<forall>t. im_state t (w_mem w1) ?k = (if t \<le> now + stateTTL then Some payload else None)" and i1: "im_inv (w_mem w1)"
    using assms(1,4) by (rule ask_consent_stored)
  note um = codec[OF m]
  obtain x s where x: "im_GetAndRemoveState now' ?k (w_mem w1) = (x, s)" by fastforce
  note gr = im_get_and_remove[OF i1 x]
  have "x = Ok payload" using gr assms(7) st um by (auto simp: ConsentHandler_def Let_def assms(5) on_mem_def x split: if_splits)
  then have d: "decide_consent (im_http C L S E) now' random kq pending (w1\<lparr>w_mem := s\<rparr>) = (Some (Redirect u), w2)"
    using assms(7) um by (auto simp: ConsentHandler_def Let_def assms(5) on_mem_def x split: if_splits)
  obtain td w3 where g: "on_mem (GetUserIDFromSessionOrAccessToken (im_ctx C L S) now' (kq_host kq)
      (session_or_empty (GetSession (kq_session kq) (kq_session_domain kq))) (kq_authorization kq)) (w1\<lparr>w_mem := s\<rparr>) = (Ok td, w3)"
    and td: "sa_UserID td = pc_UserID pending" "TrimSpace (sa_ActorID td) = []"
    and a: "approve_consent (im_http C L S E) now' pending w3 = (Some (Redirect u), w2)"
    using d assms(6) by (rule decide_consent_approved)
  have q: "quiet im_inv im_state im_held UNIV s (w_mem w3)"
    using g im.quiet_GetUserID[of s "im_ctx C L S"] gr by (auto simp: on_mem_eq)
  note ap = approve_consent_stored[OF quiet_invar[OF q] a, unfolded pd]
  note rep = replayed_query[OF assms(2)]
  have "\<exists>w3. consent_gate (im_http C L S E) K t rnd' rq' p' claims user w2 = issue_response (im_http C L S E) t rnd' rq' p' claims user w3"
    if "aq_form rq' = ParseQuery ?q \<and> ap_clientID p' = ap_clientID p \<and> t \<le> now' + stateTTL" for rq' p' t rnd' claims
    by (rule gate_passes[OF ap(2), of _ _ _ _ _ "''1''"]) (use that in \<open>simp_all add: ap(3) consent_grant_key_def rep\<close>)
  moreover have "im_state t (w_mem w2) ?k = None" for t
    using q gr by (simp add: ap(3) consentKey_not_grant quiet_def)
  moreover have "GetUserIDFromSessionOrAccessToken (im_ctx C L S) now' (kq_host kq)
        (session_or_empty (GetSession (kq_session kq) (kq_session_domain kq))) (kq_authorization kq)
        (snd (im_GetAndRemoveState now' ?k (w_mem w1))) = (Ok td, w_mem w3)"
    using g by (auto simp: on_mem_eq x)
  ultimately show ?thesis using ap(1) rep(1) td(2) td(1)[unfolded pd] by (intro exI[of _ ?q]) auto
qed

theorem consent_round_trip_witness:
  "\<exists>q. fst fx_approved = Some (Redirect (''/authorize?'' @ q)) \<and> Values_Get (ParseQuery q) ''state'' = ''st'' \<and>
    im_state (102 * Second) (w_mem (snd fx_approved)) (consentKey ''consent1'') = None"
proof -
  obtain cp csp where a: "fx_asked = (Some (Consent cp csp), snd fx_asked)" "cp_consent_id cp = ''consent1''"
    using fx_consent_shownD[OF fx_pages(1)] by blast
  obtain u where u: "fx_approved = (Some (Redirect u), snd fx_approved)"
    using fx_redirectedD[OF fx_pages(2)] by blast
  have d: "distinct (map fst (aq_form (fx_browse fx_self_form)))" by (simp add: fx_browse_def fx_self_form_def)
  have k: "TrimSpace (Values_Get (kq_form fx_approval) ''consent_id'') = cp_consent_id cp" "Values_Get (kq_form fx_approval) ''action'' = ''approve''"
    unfolding a(2) by code_simp+
  have g: "Values_Get (aq_form (fx_browse fx_self_form)) ''state'' = ''st''" by code_simp
  from consent_round_trip[OF fx_aworld_inv d fx_codec_law a(1)[unfolded fx_asked_def fx_ahttp_def] k
      u[unfolded fx_approved_def fx_asked_def fx_ahttp_def]]
  obtain q where "u = ''/authorize?'' @ q" "\<forall>k. Values_Get (ParseQuery q) k = Values_Get (aq_form (fx_browse fx_self_form)) k"
    "\<forall>t. im_state t (w_mem (snd fx_approved)) (consentKey ''consent1'') = None"
    unfolding fx_approved_def fx_asked_def fx_ahttp_def a(2) by blast
  then show ?thesis using arg_cong[OF u, of fst] g by auto
qed

lemma EncodeAuthorize_nonempty: "EncodeAuthorize a \<noteq> []"
  by (simp add: EncodeAuthorize_def delimiter_def)

text \<open>
  C40. The \<open>state\<close> parameter is a key of the same store as the recorded approvals: a request without any session, whose
  \<open>state\<close> is the key of an approval, leaves a value there with which another request passes the consent gate.
\<close>

theorem state_parameter_grants_consent:
  assumes "im_inv (w_mem w)" "AuthorizeHandler (im_http C L S E) Z K now rnd rq w = (Some resp, w')"
    and "checked_params (im_http C L S E) Z rnd rq = Proceed p" "hasCodeFlow p" "GetSession (aq_session rq) (aq_session_domain rq) = None"
    and "ap_state p = consent_grant_key L rq' p' user" "t \<le> now + stateTTL"
  shows "\<exists>w3. consent_gate (im_http C L S E) K t rnd' rq' p' claims user w' = issue_response (im_http C L S E) t rnd' rq' p' claims user w3"
proof -
  obtain x s where x: "im_SetState now (ap_state p) (remembered p) (w_mem w) = (x, s)" by fastforce
  note ss = im_set_state[OF assms(1) x]
  have "w' = w\<lparr>w_mem := s\<rparr>"
    using assms(2) ss unfolding AuthorizeHandler_def assms(3) authorize_session_def assms(5) Let_def
    by (auto simp: on_mem_def x forceReauth_def reauthenticate_def with_session_def split: if_splits out.splits bool.splits)
  then show ?thesis
    using ss assms(4,6,7) by (intro gate_passes[where g = "remembered p"]) (simp_all add: remembered_def EncodeAuthorize_nonempty)
qed

theorem state_parameter_grants_consent_witness:
  "\<exists>w3. consent_gate fx_ahttp fx_codec (101 * Second) fx_arandoms (fx_browse fx_self_form) (fx_params (fx_browse fx_self_form))
      fx_signed_in fx_user (snd fx_planted) =
    issue_response fx_ahttp (101 * Second) fx_arandoms (fx_browse fx_self_form) (fx_params (fx_browse fx_self_form)) fx_signed_in fx_user w3"
proof -
  obtain resp where a: "fx_planted = (Some resp, snd fx_planted)" using fx_answersD[OF fx_plants(4)] by blast
  have "GetSession (aq_session fx_planting) (aq_session_domain fx_planting) = None" by code_simp
  moreover have "ap_state (fx_params fx_planting) = consent_grant_key fx_alibs (fx_browse fx_self_form) (fx_params (fx_browse fx_self_form)) fx_user"
  proof -
    have "ap_clientID (fx_params (fx_browse fx_self_form)) = ''self''" "u_ID fx_user = ''u1''" by code_simp+
    then show ?thesis unfolding fx_plants(2) consent_grant_key_def fx_self_key_def by (simp add: fx_browse_def)
  qed
  moreover have "101 * Second \<le> 100 * Second + stateTTL" by code_simp
  ultimately show ?thesis
    using state_parameter_grants_consent[OF fx_aworld_inv a[unfolded fx_planted_def fx_ahttp_def]
        fx_proceedsD[OF fx_plants(1), unfolded fx_ahttp_def] fx_plants(3)]
    unfolding fx_ahttp_def fx_planted_def by blast
qed

section \<open>Signing in again\<close>

lemma deleted_session_invalid:
  assumes "im_inv s" "DecryptAES L (c_ClientSecret C) st = Ok plain" "lib_session_dec L plain = Ok sd"
    and "im_DeleteUserSession (session_store_key sd) (sd_Nonce sd) s = (r, s')" "ValidateBrowserSession (im_ctx C L S) t st s' = (v, s'')"
  shows "v = Err ''unauthorized''"
proof -
  note d = im_delete_session[OF assms(1,4)]
  let ?a = "TokenTypeSessionToken @ ''_'' @ sd_Nonce sd"
  have "\<not> im_held s' (session_key (session_store_key sd) ?a)" using d by blast
  then have "im_sess t s' (session_key (session_store_key sd) ?a) = None" using im.not_held_sess d by blast
  moreover obtain g s1 where g: "im_GetUserSession t (session_store_key sd) ?a s' = (g, s1)" by fastforce
  ultimately have "g = Err ''not found''" using im_get_session[OF _ g] d by simp
  then show ?thesis using assms(5) g by (auto simp: ValidateBrowserSession_def assms(2,3) split: if_splits)
qed



section \<open>What a request touches\<close>

text \<open>
  C33. A request to \<open>/authorize\<close> keeps the invariant of the store, changes no state but the ones under its own \<open>state\<close>,
  its code, the identifier of its consent page and the approval of this very request, and adds no session entry but the
  session and access token under its nonce.
\<close>

theorem authorize_frame:
  assumes "im_inv (w_mem w)" "checked_params (im_http C L S E) Z rnd rq = Proceed p"
    and "AuthorizeHandler (im_http C L S E) Z K now rnd rq w = (r, w')"
  shows "im_inv (w_mem w') \<and>
    (\<forall>t q. q \<notin> {ap_state p, ap_code p, consentKey (zr_consent_id rnd)} \<and> (\<forall>user. q \<noteq> consent_grant_key L rq p user) \<longrightarrow>
      im_state t (w_mem w') q = im_state t (w_mem w) q) \<and>
    (\<forall>a. (\<forall>u. a \<notin> session_key u ` {TokenTypeSessionToken @ ''_'' @ ap_nonce p, TokenTypeAccessToken @ ''_'' @ ap_nonce p}) \<longrightarrow>
      im_held (w_mem w') a \<longrightarrow> im_held (w_mem w) a)"
proof -
  let ?Q = "{ap_state p, ap_code p, consentKey (zr_consent_id rnd)} \<union> range (consent_grant_key L rq p)"
  let ?A = "\<Union>u. session_key u ` named_sessions p"
  have "confined im_inv im_state im_held ?Q ?A (w_mem w) (w_mem w')"
    using im.confined_AuthorizeHandler[OF assms(1) _ assms(2), of ?Q ?A K now] assms(3) by auto
  then show ?thesis unfolding confined_def named_sessions_def by blast
qed

theorem authorize_frame_witness:
  "im_inv (w_mem (snd fx_authorized)) \<and>
    im_state (101 * Second) (w_mem (snd fx_authorized)) ''other'' = im_state (101 * Second) (w_mem fx_aworld) ''other''"
proof -
  have a: "AuthorizeHandler (im_http fx_config fx_alibs fx_clients fx_env) fx_authz fx_consents (100 * Second) fx_arandoms
      (fx_browse fx_app_form) fx_aworld = (fst fx_authorized, snd fx_authorized)"
    by (simp add: fx_authorized_def fx_ahttp_def)
  have "ap_state (fx_params (fx_browse fx_app_form)) = ''st''" by code_simp
  then have "''other'' \<notin> {ap_state (fx_params (fx_browse fx_app_form)), ap_code (fx_params (fx_browse fx_app_form)), consentKey (zr_consent_id fx_arandoms)}"
    by (simp add: fx_app_params consentKey_def)
  moreover have "''other'' \<noteq> consent_grant_key fx_alibs (fx_browse fx_app_form) (fx_params (fx_browse fx_app_form)) user" for user
    by (simp add: consent_grant_key_def consentGrantKey_def)
  ultimately show ?thesis
    using authorize_frame[OF fx_aworld_inv fx_proceedsD[OF fx_app_proceeds, unfolded fx_ahttp_def] a] by blast
qed

end
