(* ===== verification/Spec2Isabelle.thy ===== *)
theory Spec2Isabelle
  imports Cache_Race Token_Properties Admin_Auth Authorize_Properties Authorize_Answers Consent_Properties
begin

text \<open>
  Verification of the authorizer server (an OAuth 2.0 and OpenID Connect provider written in Go).

  \<^bold>\<open>Parts and theories.\<close> The token endpoints are modelled with everything they rest on, from the
  bottom up; admin authentication and the checks on where a request comes from and goes to stand beside them.

  \<^item> \<open>Prelude\<close>, \<open>Go_Strings\<close>, \<open>Platform\<close>: results with errors and panics, 64-bit arithmetic written out on
    integers, byte strings and the functions of Go's \<open>strings\<close>, \<open>strconv\<close>, \<open>url\<close> and \<open>base64\<close> packages that the code
    calls, JSON claims, and the record \<open>libs\<close> of third-party code (signatures, digests, ciphers, the
    script interpreter, the URL parser, JSON codecs), which every definition takes as an argument.
  \<^item> \<open>Constants\<close>, \<open>Crypto\<close>, \<open>Schemas\<close>, \<open>Jwt\<close>: \<open>internal/constants\<close>, \<open>internal/crypto\<close> (session values and the AES
    envelope), \<open>internal/storage/schemas\<close> and \<open>internal/token/jwt.go\<close>. Database lookups are the record \<open>storage\<close>.
  \<^item> \<open>Session_Store\<close>, \<open>State_Store\<close>, \<open>Cache\<close>, \<open>Cache_Race\<close>, \<open>Memory_Store\<close>: \<open>internal/memory_store/in_memory\<close>. \<open>Memory_Store\<close>
    states the provider interface as the locales \<open>session_contract\<close>, \<open>state_contract\<close>, \<open>memory_store_contract\<close> and
    \<open>cache_contract\<close> and interprets them on the in-memory store. \<open>Cache_Race\<close> is the interleaving semantics of the
    compare-and-swap loops.
  \<^item> \<open>Codestate\<close>: \<open>internal/codestate\<close>. \<open>Auth_Token\<close>, \<open>Token_Validate\<close>: creation and validation of every kind of
    token, \<open>internal/token\<close>. \<open>Client_Auth\<close>: \<open>internal/service/clientauth\<close>.
  \<^item> \<open>Oauth_Http\<close>, \<open>Token_Grants\<close>, \<open>Token_Exchange\<close>, \<open>Token_Endpoint\<close>: \<open>internal/http_handlers/token.go\<close> and
    \<open>token_exchange.go\<close>, each handler cut at its early returns into stages that hand a value on, answer, or panic.
  \<^item> \<open>Token_Status\<close>: \<open>introspect.go\<close>, \<open>revoke_refresh_token.go\<close>, \<open>session_lookup.go\<close> and \<open>userinfo.go\<close> of the handlers,
    on the same store, client authentication and token validation.
  \<^item> \<open>Origins\<close>: \<open>internal/validators/url.go\<close>, \<open>internal/parsers/url.go\<close>, \<open>internal/utils/request_info.go\<close>, the redirect checks of
    \<open>client_redirect.go\<close> and \<open>authorize.go\<close>, the middlewares \<open>csrf.go\<close> and \<open>cors.go\<close>, and \<open>logout.go\<close>.
  \<^item> \<open>Front_Channel\<close>, \<open>Consent\<close>, \<open>Authorize\<close>: the pages, redirects and query strings a browser gets, \<open>consent.go\<close>, and
    \<open>authorize.go\<close>, the whole \<open>/authorize\<close> handler cut into the checks before the first write (\<open>checked_params\<close>), the session
    of the browser (\<open>authorize_session\<close>), the consent gate and the seven response types (\<open>issue_response\<close>).
    \<open>Authorize_Lemmas\<close> holds what the checks establish and which parts of the store a request touches.
  \<^item> \<open>Admin_Auth\<close>: \<open>internal/token/admin_lockout.go\<close>, \<open>admin_session.go\<close>, \<open>admin_token.go\<close> and
    \<open>internal/service/admin_auth.go\<close>; its lemmas are clients of \<open>cache_contract\<close>.
  \<^item> \<open>Fixtures\<close>, \<open>Authorize_Fixtures\<close>, \<open>Consent_Fixtures\<close>: concrete values on which the witnesses of the theorems are
    evaluated; \<open>Byte_Code\<close> holds code equations on integers for that evaluation.

  \<^bold>\<open>State.\<close> A handler maps a world (memory store, audit log) to an answer and a world. Go maps are association
  lists with distinct keys; the clock, random values and request data are inputs; a handler reads the clock once.
  The record \<open>mem_ops\<close> of store operations is a parameter of the token provider and the handlers, so that
  lemmas are proved once from the contracts; the properties are about the in-memory store.

  \<^bold>\<open>What is shown.\<close> \<open>Token_Properties\<close>: codes and refresh tokens are single-use and bound, replay ends one
  lineage only, machine tokens stay within the allowed scopes, requests that fail authentication have no effect,
  every request keeps the store well-formed. \<open>Token_Exchange\<close>: delegated authority only narrows and ends with
  the subject's session. \<open>Token_Validate\<close>: what acceptance of a token implies, revocation, round trip. \<open>Client_Auth\<close>:
  soundness of client authentication, single use of assertions. \<open>Auth_Token\<close>: reserved claims. \<open>Cache_Race\<close>:
  atomicity of the lock-free cache operations. \<open>Codestate\<close>: round trip of the code blobs and its limits.
  \<open>Token_Status\<close>: what introspection, revocation and userinfo answer and change, on every branch behind client
  authentication. \<open>Origins\<close>: redirects, cross-origin requests and the client address are confined; the wildcard
  matchers agree with what the patterns denote. \<open>Admin_Auth\<close>: the budget of wrong guesses, the life of a session.
  \<open>Authorize_Properties\<close>: the code flow from \<open>/authorize\<close> to \<open>/oauth/token\<close>, that it is bound to its request and that it
  completes. \<open>Authorize_Answers\<close>: no open redirect, what the front channel exposes. \<open>Consent_Properties\<close>: consent is
  required, approving leads back to the request shown, re-authentication ends the session, what a request touches.

  \<^bold>\<open>Termination and bounds.\<close> All definitions are total functions without fuel. The walks along an actor chain
  terminate because each step goes into a proper component of a finite claim value. The retry loops of the cache
  are step relations, of which every finite run is considered.

  \<^bold>\<open>Not modelled.\<close> Database drivers, Redis, HTTP fetching, e-mail and SMS, generated GraphQL and gRPC code, the
  front ends, metrics and logs. The remaining handlers and services are not modelled yet.
\<close>

end
